(* ===== verification/Prelude.thy ===== *)
theory Prelude
  imports Main "HOL-Library.State_Monad" "HOL-Library.Word"
begin

section \<open>Shared vocabulary of the development\<close>

text \<open>
  Go's effects as the other theories use them. A method that talks to the outside world is a
  state transformer of \<^theory_text>\<open>HOL-Library.State_Monad\<close>; its state is the state of the component it
  works on, paired with the clock that \<^verbatim>\<open>time.Now()\<close> reads. Go's \<^verbatim>\<open>(value, error)\<close> results are
  sums: \<^term>\<open>Inl e\<close> is a non-nil error, \<^term>\<open>Inr v\<close> a value with a nil error; a pointer that may be nil
  is an option. \<open>wp\<close> is the weakest precondition of a state transformer, the calculus in which the
  interface contracts and the clients' lemmas are stated.
\<close>

named_theorems wp_simps \<open>weakest preconditions of the monad's combinators\<close>
named_theorems go_defs \<open>definitions a component's proofs unfold\<close>
named_theorems status_simps \<open>the status constants are distinct\<close>

subsection \<open>Time\<close>

text \<open>
  An instant is its distance in nanoseconds from Go's zero time (1 January of year 1, UTC), so
  \<open>IsZero\<close> is a comparison with 0; a duration is a number of nanoseconds (Go's \<open>time.Duration\<close>).
\<close>

type_synonym time = int
type_synonym duration = int

definition IsZero :: "time \<Rightarrow> bool" where
  "IsZero t \<longleftrightarrow> t = 0"

abbreviation Millisecond :: duration where
  "Millisecond \<equiv> 1000000"

abbreviation Second :: duration where
  "Second \<equiv> 1000000000"

text \<open>The clock: the readings of the calls of \<open>time.Now()\<close> still to come, in their order.\<close>

type_synonym clock = "nat \<Rightarrow> time"

type_synonym ('s, 'a) io = "('s \<times> clock, 'a) state"

abbreviation ret :: "'a \<Rightarrow> ('s, 'a) state" where
  "ret \<equiv> State_Monad.return"

definition time_Now :: "('s, time) io" where
  "time_Now = State (\<lambda>(s, c). (c 0, (s, \<lambda>n. c (Suc n))))"

text \<open>An operation that reads and writes the component state only.\<close>

definition act :: "('s \<Rightarrow> 'a \<times> 's) \<Rightarrow> ('s, 'a) io" where
  "act f = State (\<lambda>(s, c). case f s of (x, s') \<Rightarrow> (x, (s', c)))"

text \<open>Runs a component's operation inside the state that holds the component.\<close>

definition zoom :: "('w \<Rightarrow> 's) \<Rightarrow> (('s \<Rightarrow> 's) \<Rightarrow> 'w \<Rightarrow> 'w) \<Rightarrow> ('s, 'a) io \<Rightarrow> ('w, 'a) io" where
  "zoom sel upd m = State (\<lambda>(w, c).
     case run_state m (sel w, c) of (x, (s, c')) \<Rightarrow> (x, (upd (\<lambda>_. s) w, c')))"

lemma run_time_Now [simp]: "run_state time_Now (s, c) = (c 0, (s, \<lambda>n. c (Suc n)))"
  by (simp add: time_Now_def)

lemma run_act [simp]: "run_state (act f) (s, c) = (case f s of (x, s') \<Rightarrow> (x, (s', c)))"
  by (simp add: act_def)

lemma run_zoom [simp]:
  "run_state (zoom sel upd m) (w, c) =
     (case run_state m (sel w, c) of (x, (s, c')) \<Rightarrow> (x, (upd (\<lambda>_. s) w, c')))"
  by (simp add: zoom_def)

subsection \<open>Weakest preconditions\<close>

definition wp :: "('s, 'a) state \<Rightarrow> ('a \<Rightarrow> 's \<Rightarrow> bool) \<Rightarrow> 's \<Rightarrow> bool" where
  "wp m Q s \<longleftrightarrow> (case run_state m s of (x, s') \<Rightarrow> Q x s')"

lemma wp_return [simp, wp_simps]: "wp (ret x) Q = Q x"
  by (rule ext) (simp add: wp_def)

lemma wp_bind [simp, wp_simps]: "wp (State_Monad.bind m f) Q = wp m (\<lambda>x. wp (f x) Q)"
  by (rule ext) (simp add: wp_def split: prod.split)

lemma wp_time_Now [simp, wp_simps]:
  "wp time_Now Q (s, c) \<longleftrightarrow> Q (c 0) (s, \<lambda>n. c (Suc n))"
  by (simp add: wp_def)

lemma wp_act [simp, wp_simps]:
  "wp (act f) Q (s, c) \<longleftrightarrow> (case f s of (x, s') \<Rightarrow> Q x (s', c))"
  by (simp add: wp_def split: prod.split)

lemma wp_zoom [wp_simps]:
  "wp (zoom sel upd m) Q (w, c) \<longleftrightarrow>
     wp m (\<lambda>x (s, c'). Q x (upd (\<lambda>_. s) w, c')) (sel w, c)"
  by (simp add: wp_def split: prod.split)

lemma wp_if [wp_simps]: "wp (if b then m else n) Q s \<longleftrightarrow> (if b then wp m Q s else wp n Q s)"
  by simp

lemma wp_sum_case [wp_simps]:
  "wp (case r of Inl e \<Rightarrow> f e | Inr x \<Rightarrow> g x) Q s \<longleftrightarrow>
     (case r of Inl e \<Rightarrow> wp (f e) Q s | Inr x \<Rightarrow> wp (g x) Q s)"
  by (simp split: sum.split)

lemma wp_option_case [wp_simps]:
  "wp (case r of None \<Rightarrow> f | Some x \<Rightarrow> g x) Q s \<longleftrightarrow>
     (case r of None \<Rightarrow> wp f Q s | Some x \<Rightarrow> wp (g x) Q s)"
  by (simp split: option.split)

lemma wp_mono:
  assumes "wp m Q s" and "\<And>x s'. Q x s' \<Longrightarrow> Q' x s'"
  shows "wp m Q' s"
  using assms by (auto simp: wp_def split: prod.splits)

lemma wp_conj: "wp m (\<lambda>x s'. Q x s' \<and> Q' x s') s \<longleftrightarrow> wp m Q s \<and> wp m Q' s"
  by (simp add: wp_def split: prod.split)

lemma wpI: "(\<And>x s'. run_state m s = (x, s') \<Longrightarrow> Q x s') \<Longrightarrow> wp m Q s"
  by (simp add: wp_def split: prod.split)

lemma wp_any: "(\<And>x s'. Q x s') \<Longrightarrow> wp m Q s"
  by (rule wpI)

lemma wpD: "wp m Q s \<Longrightarrow> run_state m s = (x, s') \<Longrightarrow> Q x s'"
  by (simp add: wp_def)

text \<open>The value a run returns and the component state it leaves.\<close>

definition outcome :: "('s, 'a) io \<Rightarrow> 's \<times> clock \<Rightarrow> 'a" where
  "outcome m s = fst (run_state m s)"

definition final :: "('s, 'a) io \<Rightarrow> 's \<times> clock \<Rightarrow> 's" where
  "final m s = fst (snd (run_state m s))"

lemma wp_final: "wp m (\<lambda>x (s', c'). Q x s') s \<Longrightarrow> Q (outcome m s) (final m s)"
  by (simp add: wp_def outcome_def final_def split: prod.splits)

subsection \<open>Optional and failing values\<close>

text \<open>Go's test \<^verbatim>\<open>p != nil && C(p)\<close>.\<close>

definition is_some_and :: "('a \<Rightarrow> bool) \<Rightarrow> 'a option \<Rightarrow> bool" where
  "is_some_and P p = (case p of None \<Rightarrow> False | Some x \<Rightarrow> P x)"

lemma is_some_and_simps [simp]:
  "is_some_and P None = False"
  "is_some_and P (Some x) = P x"
  by (simp_all add: is_some_and_def)

lemma is_some_and_iff: "is_some_and P p \<longleftrightarrow> (\<exists>x. p = Some x \<and> P x)"
  by (cases p) auto

lemma isl_iff: "isl r \<longleftrightarrow> (\<exists>e. r = Inl e)"
  by (cases r) auto

end
