(* ===== verification/GoErrors.thy ===== *)
theory GoErrors
  imports Prelude
begin

section \<open>Errors (pkg/apperrors) and how Go wraps them\<close>

text \<open>
  The sentinel errors of \<^verbatim>\<open>pkg/apperrors/errors.go\<close>, the error values the code builds from them
  with \<^verbatim>\<open>fmt.Errorf\<close>, and \<^verbatim>\<open>errors.Is\<close>, which the handlers use to map an error to a response.
\<close>

datatype sentinel =
    ErrNotFound
  | ErrInvalidURL
  | ErrFetchFailed
  | ErrAlreadyPending
  | ErrDatabaseError
  | ErrKafkaError
  | ErrValidation

fun sentinel_text :: "sentinel \<Rightarrow> string" where
  "sentinel_text ErrNotFound = ''not found''"
| "sentinel_text ErrInvalidURL = ''invalid url''"
| "sentinel_text ErrFetchFailed = ''fetch failed''"
| "sentinel_text ErrAlreadyPending = ''already pending''"
| "sentinel_text ErrDatabaseError = ''database error''"
| "sentinel_text ErrKafkaError = ''kafka error''"
| "sentinel_text ErrValidation = ''validation error''"

text \<open>
  An error value: a sentinel; an error of a library or of \<open>errors.New\<close>, known by its text only;
  \<^verbatim>\<open>fmt.Errorf("p: %w", e)\<close>, which wraps \<open>e\<close>; and \<^verbatim>\<open>fmt.Errorf("%w: %v", w, e)\<close>, which wraps \<open>w\<close> and
  keeps of \<open>e\<close> nothing but its text.
\<close>

datatype goerr =
    Sentinel sentinel
  | Opaque string
  | ErrorfW string goerr
  | ErrorfWV goerr goerr

fun Error :: "goerr \<Rightarrow> string" where
  "Error (Sentinel s) = sentinel_text s"
| "Error (Opaque t) = t"
| "Error (ErrorfW p e) = p @ '': '' @ Error e"
| "Error (ErrorfWV w e) = Error w @ '': '' @ Error e"

text \<open>
  \<^verbatim>\<open>errors.Is(err, target)\<close> for a sentinel target: follow the wrapping from the outside in. A
  sentinel is a pointer made by \<^verbatim>\<open>errors.New\<close>, so only the sentinel itself is equal to it.
\<close>

fun errors_Is :: "goerr \<Rightarrow> sentinel \<Rightarrow> bool" where
  "errors_Is (Sentinel s) t \<longleftrightarrow> s = t"
| "errors_Is (Opaque _) t \<longleftrightarrow> False"
| "errors_Is (ErrorfW _ e) t \<longleftrightarrow> errors_Is e t"
| "errors_Is (ErrorfWV w _) t \<longleftrightarrow> errors_Is w t"

text \<open>The sentinel an error wraps, if it wraps one.\<close>

fun root_sentinel :: "goerr \<Rightarrow> sentinel option" where
  "root_sentinel (Sentinel s) = Some s"
| "root_sentinel (Opaque _) = None"
| "root_sentinel (ErrorfW _ e) = root_sentinel e"
| "root_sentinel (ErrorfWV w _) = root_sentinel w"

lemma errors_Is_iff: "errors_Is e t \<longleftrightarrow> root_sentinel e = Some t"
  by (induction e t rule: errors_Is.induct) auto

text \<open>\<open>errors.Is\<close> holds for at most one sentinel, so the order of a switch over it does not matter.\<close>

lemma errors_Is_unique: "errors_Is e s \<Longrightarrow> errors_Is e t \<Longrightarrow> s = t"
  by (simp add: errors_Is_iff)

text \<open>The standard error body of the API (\<^verbatim>\<open>apperrors.ErrorResponse\<close>); an omitted field is empty.\<close>

record ErrorResponse =
  ErrorCode :: string
  Message :: string
  RequestID :: string
  Details :: string

end
