(* ===== verification/Models.thy ===== *)
theory Models
  imports Prelude
begin

section \<open>The document model (pkg/db/models.go)\<close>

text \<open>
  A status is a Go string type with four named constants; a value read back from the database may
  be any string, so the model keeps it a string. Field names shared by several structs carry a
  suffix (\<open>_c\<close> for \<open>CookieRecord\<close>, \<open>_r\<close> for \<open>db.FetchResult\<close>).
\<close>

type_synonym Status = string

definition StatusPending :: Status where
  "StatusPending = ''pending''"

definition StatusFetching :: Status where
  "StatusFetching = ''fetching''"

definition StatusReady :: Status where
  "StatusReady = ''ready''"

definition StatusFailed :: Status where
  "StatusFailed = ''failed''"

lemmas status_defs = StatusPending_def StatusFetching_def StatusReady_def StatusFailed_def

lemma status_distinct [simp, status_simps]:
  "StatusPending \<noteq> StatusFetching" "StatusFetching \<noteq> StatusPending"
  "StatusPending \<noteq> StatusReady" "StatusReady \<noteq> StatusPending"
  "StatusPending \<noteq> StatusFailed" "StatusFailed \<noteq> StatusPending"
  "StatusFetching \<noteq> StatusReady" "StatusReady \<noteq> StatusFetching"
  "StatusFetching \<noteq> StatusFailed" "StatusFailed \<noteq> StatusFetching"
  "StatusReady \<noteq> StatusFailed" "StatusFailed \<noteq> StatusReady"
  by (simp_all add: status_defs)

text \<open>\<^verbatim>\<open>map[string][]string\<close>; the nil map and the empty map behave alike in every use of the code.\<close>

type_synonym headers = "string \<rightharpoonup> string list"

record CookieRecord =
  Name_c :: string
  Value_c :: string
  Domain_c :: string
  Path_c :: string
  HTTPOnly_c :: bool
  Secure_c :: bool

record MetadataRecord =
  ID :: string
  URL :: string
  URLHash :: string
  Status :: Status
  SchemaVersion :: int
  Headers :: headers
  Cookies :: "CookieRecord list"
  PageSource :: string
  PageSourceSizeBytes :: int
  ErrorText :: string
  RetryCount :: int
  FetchDurationMs :: int
  FetchedAt :: "time option"
  CreatedAt :: time
  UpdatedAt :: time

text \<open>Go's zero value of the struct.\<close>

definition zero_record :: MetadataRecord where
  "zero_record = \<lparr>ID = '''', URL = '''', URLHash = '''', Status = '''', SchemaVersion = 0,
     Headers = Map.empty, Cookies = [], PageSource = '''', PageSourceSizeBytes = 0,
     ErrorText = '''', RetryCount = 0, FetchDurationMs = 0, FetchedAt = None,
     CreatedAt = 0, UpdatedAt = 0\<rparr>"

record FetchResult =
  Headers_r :: headers
  Cookies_r :: "CookieRecord list"
  PageSource_r :: string
  PageSourceSizeBytes_r :: int
  FetchDurationMs_r :: int
  FetchedAt_r :: time

definition CurrentSchemaVersion :: int where
  "CurrentSchemaVersion = 1"

end
