(* ===== verification/Repository.thy ===== *)
theory Repository
  imports GoErrors Models
begin

section \<open>The repository interface (pkg/db/repository.go) and its contract\<close>

text \<open>
  The interface value the service, the worker and the readiness probe call, as a record of its
  methods over the state \<open>'r\<close> of the store behind it, and the contract every implementation keeps:
  seen through an abstraction \<open>view\<close> into a map from URLs to entries, a find reads the map, an upsert
  and a status update write it. A method that returns an error may or may not have written (a
  time-out can strike after the server applied the write), so the contract leaves both open.
\<close>

text \<open>
  \<open>Upsert\<close> takes a pointer and completes the record it points to, so its result is that record
  beside the error. The context argument is left out: it can only make a call fail.
\<close>

record 'r MetadataRepository =
  FindByURL :: "string \<Rightarrow> ('r, goerr + MetadataRecord option) io"
  Upsert :: "MetadataRecord \<Rightarrow> ('r, MetadataRecord \<times> goerr option) io"
  UpdateStatus :: "string \<Rightarrow> Status \<Rightarrow> FetchResult option \<Rightarrow> ('r, goerr option) io"
  Ping :: "('r, goerr option) io"

subsection \<open>What a caller can see of a record\<close>

text \<open>
  An entry holds the fields that every implementation stores alike. Left out are the bookkeeping
  fields, which the implementations treat differently: the hash, the schema version, the retry
  count and the time stamps (of \<open>FetchedAt\<close> only its presence is kept).
\<close>

record entry =
  e_url :: string
  e_status :: Status
  e_headers :: headers
  e_cookies :: "CookieRecord list"
  e_page_source :: string
  e_page_source_size :: int
  e_error :: string
  e_duration :: int
  e_fetched :: bool

type_synonym store = "string \<rightharpoonup> entry"

definition entry_of :: "MetadataRecord \<Rightarrow> entry" where
  "entry_of r = \<lparr>e_url = URL r, e_status = Status r, e_headers = Headers r,
     e_cookies = Cookies r, e_page_source = PageSource r,
     e_page_source_size = PageSourceSizeBytes r, e_error = ErrorText r,
     e_duration = FetchDurationMs r, e_fetched = (FetchedAt r \<noteq> None)\<rparr>"

definition entry_update :: "Status \<Rightarrow> FetchResult option \<Rightarrow> entry \<Rightarrow> entry" where
  "entry_update st res e =
     (case res of
        None \<Rightarrow> e\<lparr>e_status := st\<rparr>
      | Some f \<Rightarrow> e\<lparr>e_status := st, e_headers := Headers_r f, e_cookies := Cookies_r f,
          e_page_source := PageSource_r f, e_page_source_size := PageSourceSizeBytes_r f,
          e_duration := FetchDurationMs_r f, e_fetched := True\<rparr>)"

text \<open>The abstract operations: the whole effect of \<open>Upsert\<close> and of \<open>UpdateStatus\<close> on the map.\<close>

definition put_entry :: "MetadataRecord \<Rightarrow> store \<Rightarrow> store" where
  "put_entry r m = m(URL r \<mapsto> entry_of r)"

definition set_status :: "string \<Rightarrow> Status \<Rightarrow> FetchResult option \<Rightarrow> store \<Rightarrow> store" where
  "set_status url st res m =
     (case m url of None \<Rightarrow> m | Some e \<Rightarrow> m(url \<mapsto> entry_update st res e))"

lemma entry_of_simps [simp]:
  "e_url (entry_of r) = URL r"
  "e_status (entry_of r) = Status r"
  by (simp_all add: entry_of_def)

lemma entry_update_simps [simp]:
  "e_url (entry_update st res e) = e_url e"
  "e_status (entry_update st res e) = st"
  by (simp_all add: entry_update_def split: option.split)

lemma put_entry_apply: "put_entry r m u = (if u = URL r then Some (entry_of r) else m u)"
  by (simp add: put_entry_def)

lemma set_status_apply:
  "set_status url st res m u =
     (if u = url then map_option (entry_update st res) (m u) else m u)"
  by (simp add: set_status_def split: option.split)

lemma put_entry_same [simp]: "put_entry r m (URL r) = Some (entry_of r)"
  by (simp add: put_entry_apply)

lemma set_status_same [simp]:
  "set_status url st res m url = map_option (entry_update st res) (m url)"
  by (simp add: set_status_apply)

lemma set_status_other [simp]: "u \<noteq> url \<Longrightarrow> set_status url st res m u = m u"
  by (simp add: set_status_apply)

lemma dom_set_status [simp]: "dom (set_status url st res m) = dom m"
  by (auto simp: set_status_apply dom_def)

text \<open>A later status update hides an earlier one that brought no result.\<close>

lemma entry_update_twice [simp]:
  "entry_update st res (entry_update st' None e) = entry_update st res e"
  by (simp add: entry_update_def split: option.split)

lemma set_status_twice [simp]:
  "set_status url st res (set_status url st' None m) = set_status url st res m"
  by (rule ext) (simp add: set_status_apply option.map_comp comp_def)

subsection \<open>The contract\<close>

text \<open>
  \<open>urls\<close> is the set of URLs the contract speaks about: an implementation that finds its documents
  by a hash of the URL keeps the contract on every set of URLs without a hash collision.
\<close>

locale metadata_repository =
  fixes R :: "'r MetadataRepository"
    and view :: "'r \<Rightarrow> store"
    and urls :: "string set"
    and invar :: "'r \<Rightarrow> bool"
  assumes view_url: "\<lbrakk>invar s; view s url = Some e\<rbrakk> \<Longrightarrow> e_url e = url"
    and find_contract: "\<lbrakk>invar s; url \<in> urls\<rbrakk> \<Longrightarrow>
      wp (FindByURL R url) (\<lambda>r (s', c'). invar s' \<and> view s' = view s \<and>
        (\<forall>x. r = Inr x \<longrightarrow> map_option entry_of x = view s url)) (s, c)"
    and upsert_contract: "\<lbrakk>invar s; URL rec \<in> urls\<rbrakk> \<Longrightarrow>
      wp (Upsert R rec) (\<lambda>(rec', err) (s', c'). invar s' \<and> URL rec' = URL rec \<and>
        (view s' = put_entry rec (view s) \<or> err \<noteq> None \<and> view s' = view s)) (s, c)"
    and update_contract: "\<lbrakk>invar s; url \<in> urls\<rbrakk> \<Longrightarrow>
      wp (UpdateStatus R url st res) (\<lambda>err (s', c'). invar s' \<and>
        (view s' = set_status url st res (view s) \<or> err \<noteq> None \<and> view s' = view s)) (s, c)"
    and ping_contract: "invar s \<Longrightarrow>
      wp (Ping R) (\<lambda>err (s', c'). invar s' \<and> view s' = view s) (s, c)"
begin

lemma find_rule:
  assumes "invar s" and "url \<in> urls"
    and "\<And>r s' c'. \<lbrakk>invar s'; view s' = view s;
           \<And>x. r = Inr x \<Longrightarrow> map_option entry_of x = view s url\<rbrakk> \<Longrightarrow> Q r (s', c')"
  shows "wp (FindByURL R url) Q (s, c)"
  by (rule wp_mono [OF find_contract]) (use assms in \<open>auto\<close>)

lemma upsert_rule:
  assumes "invar s" and "URL rec \<in> urls"
    and "\<And>rec' s' c'. \<lbrakk>invar s'; view s' = put_entry rec (view s)\<rbrakk> \<Longrightarrow> Q (rec', None) (s', c')"
    and "\<And>rec' e s' c'. \<lbrakk>invar s'; view s' = put_entry rec (view s) \<or> view s' = view s\<rbrakk>
           \<Longrightarrow> Q (rec', Some e) (s', c')"
  shows "wp (Upsert R rec) Q (s, c)"
proof -
  obtain rec' err s' c' where run: "run_state (Upsert R rec) (s, c) = ((rec', err), (s', c'))"
    by (metis surj_pair)
  then have "invar s'" "view s' = put_entry rec (view s) \<or> err \<noteq> None \<and> view s' = view s"
    using wpD [OF upsert_contract [OF assms(1,2)] run] by auto
  then show ?thesis
    using run assms(3,4) by (cases err) (auto simp: wp_def)
qed

lemma update_rule:
  assumes "invar s" and "url \<in> urls"
    and "\<And>s' c'. \<lbrakk>invar s'; view s' = set_status url st res (view s)\<rbrakk> \<Longrightarrow> Q None (s', c')"
    and "\<And>e s' c'. \<lbrakk>invar s'; view s' = set_status url st res (view s) \<or> view s' = view s\<rbrakk>
           \<Longrightarrow> Q (Some e) (s', c')"
  shows "wp (UpdateStatus R url st res) Q (s, c)"
proof (rule wp_mono [OF update_contract [OF assms(1,2)]])
  fix err :: "goerr option" and t :: "'r \<times> clock"
  assume "case t of (s', c') \<Rightarrow> invar s' \<and>
     (view s' = set_status url st res (view s) \<or> err \<noteq> None \<and> view s' = view s)"
  then show "Q err t"
    using assms(3,4) by (cases t; cases err) (auto simp del: set_status_same)
qed

end

text \<open>A contract for some URLs is one for fewer of them.\<close>

lemma metadata_repository_subset:
  assumes "metadata_repository R view urls invar" and "us \<subseteq> urls"
  shows "metadata_repository R view us invar"
  using assms unfolding metadata_repository_def by blast

end
