(* ===== verification/MockRepo.thy ===== *)
theory MockRepo
  imports Repository
begin

section \<open>The in-memory repository (pkg/db/mock_repository.go)\<close>

text \<open>
  The map-backed implementation of the interface. Each method runs under the mutex and stores and
  returns copies of the records, so a method is one atomic update of the state and records are
  values. The call counters and the configurable errors are part of the state.
\<close>

record MockRepository =
  records :: "string \<rightharpoonup> MetadataRecord"
  FindByURLCalled :: int
  UpsertCalled :: int
  UpdateStatusCalled :: int
  PingCalled :: int
  FindByURLErr :: "goerr option"
  UpsertErr :: "goerr option"
  UpdateStatusErr :: "goerr option"
  PingErr :: "goerr option"

definition NewMockRepository :: MockRepository where
  "NewMockRepository = \<lparr>records = Map.empty, FindByURLCalled = 0, UpsertCalled = 0,
     UpdateStatusCalled = 0, PingCalled = 0, FindByURLErr = None, UpsertErr = None,
     UpdateStatusErr = None, PingErr = None\<rparr>"

definition mock_FindByURL :: "string \<Rightarrow> (MockRepository, goerr + MetadataRecord option) io" where
  "mock_FindByURL url = act (\<lambda>m.
     let m = m\<lparr>FindByURLCalled := FindByURLCalled m + 1\<rparr>
     in case FindByURLErr m of
          Some e \<Rightarrow> (Inl e, m)
        | None \<Rightarrow> (Inr (records m url), m))"

definition mock_Upsert ::
  "MetadataRecord \<Rightarrow> (MockRepository, MetadataRecord \<times> goerr option) io" where
  "mock_Upsert record = act (\<lambda>m.
     let m = m\<lparr>UpsertCalled := UpsertCalled m + 1\<rparr>
     in case UpsertErr m of
          Some e \<Rightarrow> ((record, Some e), m)
        | None \<Rightarrow> ((record, None), m\<lparr>records := (records m)(URL record \<mapsto> record)\<rparr>))"

definition mock_UpdateStatus ::
  "string \<Rightarrow> Status \<Rightarrow> FetchResult option \<Rightarrow> (MockRepository, goerr option) io" where
  "mock_UpdateStatus url status result = act (\<lambda>m.
     let m = m\<lparr>UpdateStatusCalled := UpdateStatusCalled m + 1\<rparr>
     in case UpdateStatusErr m of
          Some e \<Rightarrow> (Some e, m)
        | None \<Rightarrow>
            (case records m url of
               None \<Rightarrow> (None, m)
             | Some record \<Rightarrow>
                 let record = record\<lparr>Status := status\<rparr>;
                     record = (case result of
                         None \<Rightarrow> record
                       | Some f \<Rightarrow> record\<lparr>Headers := Headers_r f, Cookies := Cookies_r f,
                           PageSource := PageSource_r f,
                           PageSourceSizeBytes := PageSourceSizeBytes_r f,
                           FetchDurationMs := FetchDurationMs_r f,
                           FetchedAt := Some (FetchedAt_r f)\<rparr>)
                 in (None, m\<lparr>records := (records m)(url \<mapsto> record)\<rparr>)))"

definition mock_Ping :: "(MockRepository, goerr option) io" where
  "mock_Ping = act (\<lambda>m. let m = m\<lparr>PingCalled := PingCalled m + 1\<rparr> in (PingErr m, m))"

definition SeedRecord :: "MetadataRecord \<Rightarrow> MockRepository \<Rightarrow> MockRepository" where
  "SeedRecord record m = m\<lparr>records := (records m)(URL record \<mapsto> record)\<rparr>"

definition GetRecord :: "string \<Rightarrow> MockRepository \<Rightarrow> MetadataRecord option" where
  "GetRecord url m = records m url"

definition mock_repository :: "MockRepository MetadataRepository" where
  "mock_repository = \<lparr>FindByURL = mock_FindByURL, Upsert = mock_Upsert,
     UpdateStatus = mock_UpdateStatus, Ping = mock_Ping\<rparr>"

lemmas mock_defs = mock_repository_def mock_FindByURL_def mock_Upsert_def
  mock_UpdateStatus_def mock_Ping_def

subsection \<open>It keeps the contract\<close>

text \<open>Every record is stored under its own URL.\<close>

definition mock_invar :: "MockRepository \<Rightarrow> bool" where
  "mock_invar m \<longleftrightarrow> (\<forall>u r. records m u = Some r \<longrightarrow> URL r = u)"

definition mock_view :: "MockRepository \<Rightarrow> store" where
  "mock_view m = (\<lambda>u. map_option entry_of (records m u))"

lemma mock_invar_new: "mock_invar NewMockRepository"
  by (simp add: mock_invar_def NewMockRepository_def)

lemma mock_invar_seed: "mock_invar m \<Longrightarrow> mock_invar (SeedRecord r m)"
  by (simp add: mock_invar_def SeedRecord_def)

lemma mock_view_put [simp]:
  "mock_view (m\<lparr>records := (records m)(URL r \<mapsto> r)\<rparr>) = put_entry r (mock_view m)"
  by (rule ext) (simp add: mock_view_def put_entry_apply)

text \<open>The fields the mock assigns on a status update are those of the abstract update.\<close>

lemma entry_of_status_update:
  "entry_of (case res of
       None \<Rightarrow> r\<lparr>Status := st\<rparr>
     | Some f \<Rightarrow> r\<lparr>Status := st, Headers := Headers_r f, Cookies := Cookies_r f,
         PageSource := PageSource_r f, PageSourceSizeBytes := PageSourceSizeBytes_r f,
         FetchDurationMs := FetchDurationMs_r f, FetchedAt := Some (FetchedAt_r f)\<rparr>)
   = entry_update st res (entry_of r)"
  by (simp add: entry_of_def entry_update_def split: option.split)

lemma mock_update_contract:
  assumes "mock_invar m"
  shows "wp (mock_UpdateStatus url st res) (\<lambda>err (m', c'). mock_invar m' \<and>
     (mock_view m' = set_status url st res (mock_view m) \<or> err \<noteq> None \<and> mock_view m' = mock_view m))
     (m, c)"
proof (cases "UpdateStatusErr m")
  case (Some e)
  with assms show ?thesis
    by (simp add: mock_UpdateStatus_def mock_invar_def mock_view_def)
next
  case None
  note ok = this
  show ?thesis
  proof (cases "records m url")
    case None
    with ok assms show ?thesis
      by (simp add: mock_UpdateStatus_def mock_invar_def mock_view_def set_status_def)
  next
    case (Some r)
    with ok assms show ?thesis
      by (cases res)
        (auto simp: mock_UpdateStatus_def Let_def mock_invar_def mock_view_def fun_eq_iff
          set_status_apply entry_of_status_update [symmetric])
  qed
qed

interpretation mock: metadata_repository mock_repository mock_view UNIV mock_invar
proof unfold_locales
  fix m c url e
  assume "mock_invar m" "mock_view m url = Some e"
  then show "e_url e = url"
    by (auto simp: mock_invar_def mock_view_def)
next
  fix m c url
  assume "mock_invar m"
  then show "wp (FindByURL mock_repository url) (\<lambda>r (m', c'). mock_invar m' \<and>
      mock_view m' = mock_view m \<and>
      (\<forall>x. r = Inr x \<longrightarrow> map_option entry_of x = mock_view m url)) (m, c)"
    by (auto simp: mock_defs Let_def mock_invar_def mock_view_def split: option.split)
next
  fix m c and r :: MetadataRecord
  assume "mock_invar m"
  then show "wp (Upsert mock_repository r) (\<lambda>(rec', err) (m', c'). mock_invar m' \<and>
      URL rec' = URL r \<and>
      (mock_view m' = put_entry r (mock_view m) \<or> err \<noteq> None \<and> mock_view m' = mock_view m)) (m, c)"
    by (auto simp: mock_defs Let_def mock_invar_def mock_view_def put_entry_apply fun_eq_iff
        split: option.split)
next
  fix m c url st res
  assume "mock_invar m"
  then show "wp (UpdateStatus mock_repository url st res) (\<lambda>err (m', c'). mock_invar m' \<and>
      (mock_view m' = set_status url st res (mock_view m) \<or>
       err \<noteq> None \<and> mock_view m' = mock_view m)) (m, c)"
    using mock_update_contract by (simp add: mock_repository_def)
next
  fix m c
  assume "mock_invar m"
  then show "wp (Ping mock_repository)
      (\<lambda>err (m', c'). mock_invar m' \<and> mock_view m' = mock_view m) (m, c)"
    by (simp add: mock_defs mock_invar_def mock_view_def Let_def)
qed

end
