(* ===== verification/MongoRepo.thy ===== *)
theory MongoRepo
  imports Repository
begin

section \<open>The MongoDB repository (pkg/db/mongo_repository.go)\<close>

text \<open>
  The production implementation of the interface: the update documents \<open>Upsert\<close> and \<open>UpdateStatus\<close>
  build, the struct tags by which a document is decoded, and the four methods. The driver's
  collection and SHA-256 are parameters. The locale \<open>mongo_collection\<close> states what MongoDB documents
  of \<open>FindOne\<close> and \<open>UpdateOne\<close>; under it the repository keeps the contract of \<open>Repository\<close>.
\<close>

subsection \<open>BSON documents\<close>

datatype bson =
    BString string
  | BInt int
  | BTime time
  | BHeaders headers
  | BCookies "CookieRecord list"
  | BObjectID string
  | BNull

type_synonym bsonM = "string \<rightharpoonup> bson"

record update_doc =
  set_fields :: bsonM
  set_on_insert :: bsonM
  inc_fields :: "string \<rightharpoonup> int"

datatype find_error = ErrNoDocuments | FindFailed goerr

record index_model =
  index_key :: string
  index_order :: int
  index_unique :: bool
  index_sparse :: bool

text \<open>The driver's collection: the methods the repository calls, over the state \<open>'d\<close> of the server.\<close>

record 'd collection =
  FindOne :: "bsonM \<Rightarrow> ('d, find_error + bsonM) io"
  UpdateOne :: "bsonM \<Rightarrow> update_doc \<Rightarrow> bool \<Rightarrow> ('d, goerr option) io"
  CreateMany :: "index_model list \<Rightarrow> ('d, goerr option) io"
  ClientPing :: "('d, goerr option) io"
  DecodeError :: "bsonM \<Rightarrow> goerr"

subsection \<open>The key\<close>

definition hex_digit :: "nat \<Rightarrow> char" where
  "hex_digit n = ''0123456789abcdef'' ! (n mod 16)"

definition hex_byte :: "8 word \<Rightarrow> string" where
  "hex_byte w = [hex_digit (unat w div 16), hex_digit (unat w mod 16)]"

definition hashURL :: "(string \<Rightarrow> 8 word list) \<Rightarrow> string \<Rightarrow> string" where
  "hashURL sha256 url = concat (map hex_byte (sha256 url))"

definition hash_filter :: "string \<Rightarrow> bsonM" where
  "hash_filter h = [''url_hash'' \<mapsto> BString h]"

subsection \<open>The update documents\<close>

text \<open>The completion of the record that \<open>Upsert\<close> does before it writes.\<close>

definition complete_record :: "(string \<Rightarrow> 8 word list) \<Rightarrow> time \<Rightarrow> MetadataRecord \<Rightarrow> MetadataRecord" where
  "complete_record sha256 now record =
     (let record = record\<lparr>URLHash := hashURL sha256 (URL record), UpdatedAt := now,
                          SchemaVersion := CurrentSchemaVersion\<rparr>
      in if IsZero (CreatedAt record) then record\<lparr>CreatedAt := now\<rparr> else record)"

definition bson_time_opt :: "time option \<Rightarrow> bson" where
  "bson_time_opt t = (case t of None \<Rightarrow> BNull | Some t \<Rightarrow> BTime t)"

definition upsert_update :: "MetadataRecord \<Rightarrow> update_doc" where
  "upsert_update record =
     \<lparr>set_fields = [
        ''url'' \<mapsto> BString (URL record),
        ''url_hash'' \<mapsto> BString (URLHash record),
        ''status'' \<mapsto> BString (Status record),
        ''schema_version'' \<mapsto> BInt (SchemaVersion record),
        ''headers'' \<mapsto> BHeaders (Headers record),
        ''cookies'' \<mapsto> BCookies (Cookies record),
        ''page_source'' \<mapsto> BString (PageSource record),
        ''page_source_size_bytes'' \<mapsto> BInt (PageSourceSizeBytes record),
        ''error'' \<mapsto> BString (ErrorText record),
        ''retry_count'' \<mapsto> BInt (RetryCount record),
        ''fetch_duration_ms'' \<mapsto> BInt (FetchDurationMs record),
        ''fetched_at'' \<mapsto> bson_time_opt (FetchedAt record),
        ''updated_at'' \<mapsto> BTime (UpdatedAt record)],
      set_on_insert = [''created_at'' \<mapsto> BTime (CreatedAt record)],
      inc_fields = Map.empty\<rparr>"

definition status_update :: "time \<Rightarrow> Status \<Rightarrow> FetchResult option \<Rightarrow> update_doc" where
  "status_update now status result =
     (let updateFields = [''status'' \<mapsto> BString status, ''updated_at'' \<mapsto> BTime now];
          updateFields = (case result of
              None \<Rightarrow> updateFields
            | Some f \<Rightarrow> updateFields(
                ''headers'' \<mapsto> BHeaders (Headers_r f),
                ''cookies'' \<mapsto> BCookies (Cookies_r f),
                ''page_source'' \<mapsto> BString (PageSource_r f),
                ''page_source_size_bytes'' \<mapsto> BInt (PageSourceSizeBytes_r f),
                ''fetch_duration_ms'' \<mapsto> BInt (FetchDurationMs_r f),
                ''fetched_at'' \<mapsto> BTime (FetchedAt_r f)))
      in if status = StatusFailed
         then \<lparr>set_fields = updateFields, set_on_insert = Map.empty,
               inc_fields = [''retry_count'' \<mapsto> 1]\<rparr>
         else \<lparr>set_fields = updateFields, set_on_insert = Map.empty, inc_fields = Map.empty\<rparr>)"

subsection \<open>Decoding by the struct tags of \<open>MetadataRecord\<close>\<close>

text \<open>A field that the document lacks, or holds as null, keeps its zero value.\<close>

fun as_string :: "bson option \<Rightarrow> string option" where
  "as_string None = Some ''''"
| "as_string (Some BNull) = Some ''''"
| "as_string (Some (BString s)) = Some s"
| "as_string (Some _) = None"

fun as_int :: "bson option \<Rightarrow> int option" where
  "as_int None = Some 0"
| "as_int (Some BNull) = Some 0"
| "as_int (Some (BInt i)) = Some i"
| "as_int (Some _) = None"

fun as_time :: "bson option \<Rightarrow> time option" where
  "as_time None = Some 0"
| "as_time (Some BNull) = Some 0"
| "as_time (Some (BTime t)) = Some t"
| "as_time (Some _) = None"

fun as_time_ptr :: "bson option \<Rightarrow> time option option" where
  "as_time_ptr None = Some None"
| "as_time_ptr (Some BNull) = Some None"
| "as_time_ptr (Some (BTime t)) = Some (Some t)"
| "as_time_ptr (Some _) = None"

fun as_headers :: "bson option \<Rightarrow> headers option" where
  "as_headers None = Some Map.empty"
| "as_headers (Some BNull) = Some Map.empty"
| "as_headers (Some (BHeaders h)) = Some h"
| "as_headers (Some _) = None"

fun as_cookies :: "bson option \<Rightarrow> CookieRecord list option" where
  "as_cookies None = Some []"
| "as_cookies (Some BNull) = Some []"
| "as_cookies (Some (BCookies cs)) = Some cs"
| "as_cookies (Some _) = None"

fun as_object_id :: "bson option \<Rightarrow> string option" where
  "as_object_id None = Some ''''"
| "as_object_id (Some (BObjectID i)) = Some i"
| "as_object_id (Some _) = None"

definition decode_record :: "bsonM \<Rightarrow> MetadataRecord option" where
  "decode_record d = do {
     oid \<leftarrow> as_object_id (d ''_id'');
     url \<leftarrow> as_string (d ''url'');
     hash \<leftarrow> as_string (d ''url_hash'');
     status \<leftarrow> as_string (d ''status'');
     version \<leftarrow> as_int (d ''schema_version'');
     headers \<leftarrow> as_headers (d ''headers'');
     cookies \<leftarrow> as_cookies (d ''cookies'');
     page \<leftarrow> as_string (d ''page_source'');
     size \<leftarrow> as_int (d ''page_source_size_bytes'');
     err \<leftarrow> as_string (d ''error'');
     retries \<leftarrow> as_int (d ''retry_count'');
     duration \<leftarrow> as_int (d ''fetch_duration_ms'');
     fetched \<leftarrow> as_time_ptr (d ''fetched_at'');
     created \<leftarrow> as_time (d ''created_at'');
     updated \<leftarrow> as_time (d ''updated_at'');
     Some \<lparr>ID = oid, URL = url, URLHash = hash, Status = status, SchemaVersion = version,
       Headers = headers, Cookies = cookies, PageSource = page, PageSourceSizeBytes = size,
       ErrorText = err, RetryCount = retries, FetchDurationMs = duration, FetchedAt = fetched,
       CreatedAt = created, UpdatedAt = updated\<rparr>
   }"

subsection \<open>The methods\<close>

definition mongo_FindByURL ::
  "(string \<Rightarrow> 8 word list) \<Rightarrow> 'd collection \<Rightarrow> string \<Rightarrow> ('d, goerr + MetadataRecord option) io" where
  "mongo_FindByURL sha256 coll url = do {
     r \<leftarrow> FindOne coll (hash_filter (hashURL sha256 url));
     ret (case r of
         Inl ErrNoDocuments \<Rightarrow> Inr None
       | Inl (FindFailed e) \<Rightarrow> Inl (ErrorfW ''find by url'' e)
       | Inr d \<Rightarrow> (case decode_record d of
             None \<Rightarrow> Inl (ErrorfW ''find by url'' (DecodeError coll d))
           | Some record \<Rightarrow> Inr (Some record)))
   }"

definition mongo_Upsert ::
  "(string \<Rightarrow> 8 word list) \<Rightarrow> 'd collection \<Rightarrow> MetadataRecord
     \<Rightarrow> ('d, MetadataRecord \<times> goerr option) io" where
  "mongo_Upsert sha256 coll record = do {
     now \<leftarrow> time_Now;
     let record = complete_record sha256 now record;
     err \<leftarrow> UpdateOne coll (hash_filter (URLHash record)) (upsert_update record) True;
     ret (record, map_option (ErrorfW ''upsert'') err)
   }"

definition mongo_UpdateStatus ::
  "(string \<Rightarrow> 8 word list) \<Rightarrow> 'd collection \<Rightarrow> string \<Rightarrow> Status \<Rightarrow> FetchResult option
     \<Rightarrow> ('d, goerr option) io" where
  "mongo_UpdateStatus sha256 coll url status result = do {
     now \<leftarrow> time_Now;
     err \<leftarrow> UpdateOne coll (hash_filter (hashURL sha256 url)) (status_update now status result) False;
     ret (map_option
       (ErrorfW (if status = StatusFailed then ''update status (failed)'' else ''update status'')) err)
   }"

definition mongo_Ping :: "'d collection \<Rightarrow> ('d, goerr option) io" where
  "mongo_Ping coll = ClientPing coll"

definition mongo_indexes :: "index_model list" where
  "mongo_indexes = [
     \<lparr>index_key = ''url'', index_order = 1, index_unique = True, index_sparse = True\<rparr>,
     \<lparr>index_key = ''url_hash'', index_order = 1, index_unique = True, index_sparse = False\<rparr>,
     \<lparr>index_key = ''status'', index_order = 1, index_unique = False, index_sparse = False\<rparr>,
     \<lparr>index_key = ''created_at'', index_order = -1, index_unique = False, index_sparse = False\<rparr>]"

definition ensureIndexes :: "'d collection \<Rightarrow> ('d, goerr option) io" where
  "ensureIndexes coll = do {
     err \<leftarrow> CreateMany coll mongo_indexes;
     ret (map_option (ErrorfW ''create indexes'') err)
   }"

definition mongo_repository ::
  "(string \<Rightarrow> 8 word list) \<Rightarrow> 'd collection \<Rightarrow> 'd MetadataRepository" where
  "mongo_repository sha256 coll = \<lparr>FindByURL = mongo_FindByURL sha256 coll,
     Upsert = mongo_Upsert sha256 coll, UpdateStatus = mongo_UpdateStatus sha256 coll,
     Ping = mongo_Ping coll\<rparr>"

definition NewMongoRepository ::
  "(string \<Rightarrow> 8 word list) \<Rightarrow> 'd collection \<Rightarrow> ('d, goerr + 'd MetadataRepository) io" where
  "NewMongoRepository sha256 coll = do {
     err \<leftarrow> ensureIndexes coll;
     ret (case err of
         Some e \<Rightarrow> Inl (ErrorfW ''ensure indexes'' e)
       | None \<Rightarrow> Inr (mongo_repository sha256 coll))
   }"

subsection \<open>What MongoDB documents of its updates\<close>

text \<open>
  \<open>stored\<close> is the value a document holds after the driver has written a Go value: the value itself,
  but for an instant, which BSON keeps in milliseconds. \<open>$set\<close> replaces fields, \<open>$inc\<close> adds to a
  numeric field (a missing one counts as 0, any other value is an error), \<open>$setOnInsert\<close> is used
  when an upsert makes a new document, which then also gets the fields of the filter and an id.
\<close>

fun numeric_value :: "bson option \<Rightarrow> int option" where
  "numeric_value None = Some 0"
| "numeric_value (Some (BInt i)) = Some i"
| "numeric_value (Some _) = None"

definition inc_ok :: "update_doc \<Rightarrow> bsonM \<Rightarrow> bool" where
  "inc_ok u d \<longleftrightarrow> (\<forall>k \<in> dom (inc_fields u). numeric_value (d k) \<noteq> None)"

definition modify :: "(bson \<Rightarrow> bson) \<Rightarrow> update_doc \<Rightarrow> bsonM \<Rightarrow> bsonM" where
  "modify stored u d = (\<lambda>k.
     case set_fields u k of
       Some v \<Rightarrow> Some (stored v)
     | None \<Rightarrow> (case inc_fields u k of
           Some i \<Rightarrow> Some (BInt (the (numeric_value (d k)) + i))
         | None \<Rightarrow> d k))"

definition inserted :: "(bson \<Rightarrow> bson) \<Rightarrow> string \<Rightarrow> string \<Rightarrow> update_doc \<Rightarrow> bsonM" where
  "inserted stored oid h u =
     modify stored u ((hash_filter h)(''_id'' \<mapsto> BObjectID oid)) ++ (map_option stored \<circ> set_on_insert u)"

definition update_effect ::
  "(bson \<Rightarrow> bson) \<Rightarrow> string \<Rightarrow> update_doc \<Rightarrow> bool \<Rightarrow> (string \<rightharpoonup> bsonM) \<Rightarrow> (string \<rightharpoonup> bsonM) \<Rightarrow> bool"
where
  "update_effect stored h u upsert m m' \<longleftrightarrow>
     (case m h of
        Some d \<Rightarrow> inc_ok u d \<and> m' = m(h \<mapsto> modify stored u d)
      | None \<Rightarrow> if upsert then \<exists>oid. m' = m(h \<mapsto> inserted stored oid h u) else m' = m)"

locale bson_storage =
  fixes stored :: "bson \<Rightarrow> bson"
  assumes stored_string [simp]: "stored (BString x) = BString x"
    and stored_int [simp]: "stored (BInt i) = BInt i"
    and stored_headers [simp]: "stored (BHeaders hs) = BHeaders hs"
    and stored_cookies [simp]: "stored (BCookies cs) = BCookies cs"
    and stored_null [simp]: "stored BNull = BNull"
    and stored_time: "\<exists>t'. stored (BTime t) = BTime t'"
begin

lemma as_time_stored [simp]: "\<exists>t'. as_time (Some (stored (BTime t))) = Some t'"
  using stored_time [of t] by auto

lemma as_time_ptr_stored: "\<exists>t'. as_time_ptr (Some (stored (BTime t))) = Some (Some t')"
  using stored_time [of t] by auto

lemma as_time_ptr_stored_opt:
  "\<exists>q. as_time_ptr (Some (stored (bson_time_opt p))) = Some q \<and> (q = None \<longleftrightarrow> p = None)"
  using stored_time by (cases p) (auto simp: bson_time_opt_def, metis as_time_ptr_stored option.distinct(1))

text \<open>
  A status update read back: the fields of the abstract update, one more retry exactly when the
  status is failed, and everything else as before.
\<close>

lemma decode_status_update:
  assumes "decode_record d = Some r" and "inc_ok (status_update now st res) d"
  shows "\<exists>r'. decode_record (modify stored (status_update now st res) d) = Some r'
    \<and> URL r' = URL r \<and> URLHash r' = URLHash r
    \<and> entry_of r' = entry_update st res (entry_of r)
    \<and> RetryCount r' = RetryCount r + (if st = StatusFailed then 1 else 0)
    \<and> CreatedAt r' = CreatedAt r"
proof -
  obtain tu where tu: "stored (BTime now) = BTime tu"
    using stored_time by blast
  show ?thesis
  proof (cases res)
    case None
    with assms tu show ?thesis
      by (auto simp: decode_record_def modify_def status_update_def Let_def bind_eq_Some_conv
          entry_of_def entry_update_def inc_ok_def elim!: numeric_value.elims)
  next
    case (Some f)
    obtain tf where tf: "stored (BTime (FetchedAt_r f)) = BTime tf"
      using stored_time by blast
    from assms tu tf Some show ?thesis
      by (auto simp: decode_record_def modify_def status_update_def Let_def bind_eq_Some_conv
          entry_of_def entry_update_def inc_ok_def elim!: numeric_value.elims)
  qed
qed

text \<open>An upsert read back, for a document that was there and for a new one.\<close>

lemma decode_upsert:
  assumes "decode_record d = Some r"
  shows "\<exists>r'. decode_record (modify stored (upsert_update rec) d) = Some r'
    \<and> entry_of r' = entry_of rec \<and> URLHash r' = URLHash rec \<and> ID r' = ID r
    \<and> RetryCount r' = RetryCount rec \<and> CreatedAt r' = CreatedAt r"
proof -
  obtain tu where tu: "stored (BTime (UpdatedAt rec)) = BTime tu"
    using stored_time by blast
  obtain q where q: "as_time_ptr (Some (stored (bson_time_opt (FetchedAt rec)))) = Some q"
      "q = None \<longleftrightarrow> FetchedAt rec = None"
    using as_time_ptr_stored_opt by blast
  from assms tu q show ?thesis
    by (auto simp: decode_record_def modify_def upsert_update_def bind_eq_Some_conv entry_of_def)
qed

lemma decode_inserted:
  "\<exists>r'. decode_record (inserted stored oid (URLHash rec) (upsert_update rec)) = Some r'
    \<and> entry_of r' = entry_of rec \<and> URLHash r' = URLHash rec \<and> ID r' = oid
    \<and> RetryCount r' = RetryCount rec \<and> BTime (CreatedAt r') = stored (BTime (CreatedAt rec))"
proof -
  obtain tu where tu: "stored (BTime (UpdatedAt rec)) = BTime tu"
    using stored_time by blast
  obtain tc where tc: "stored (BTime (CreatedAt rec)) = BTime tc"
    using stored_time by blast
  obtain q where q: "as_time_ptr (Some (stored (bson_time_opt (FetchedAt rec)))) = Some q"
      "q = None \<longleftrightarrow> FetchedAt rec = None"
    using as_time_ptr_stored_opt by blast
  from tu tc q show ?thesis
    by (auto simp: decode_record_def inserted_def modify_def upsert_update_def hash_filter_def
        map_add_def bind_eq_Some_conv entry_of_def)
qed

end

subsection \<open>The key has no collisions of its own\<close>

lemma hex_digit_inj: "\<lbrakk>a < 16; b < 16; hex_digit a = hex_digit b\<rbrakk> \<Longrightarrow> a = b"
proof -
  have d: "distinct ''0123456789abcdef''" by simp
  assume "a < 16" "b < 16" "hex_digit a = hex_digit b"
  then show "a = b"
    using nth_eq_iff_index_eq [OF d, of a b] by (simp add: hex_digit_def)
qed

lemma hex_byte_inj: "hex_byte v = hex_byte w \<Longrightarrow> v = w"
proof -
  have "unat v < 2 ^ LENGTH(8)" "unat w < 2 ^ LENGTH(8)"
    by (rule unsigned_less)+
  then have lt: "unat v div 16 < 16" "unat w div 16 < 16"
    by auto
  assume eq: "hex_byte v = hex_byte w"
  then have "unat v div 16 = unat w div 16" "unat v mod 16 = unat w mod 16"
    using lt hex_digit_inj [of "unat v div 16" "unat w div 16"]
      hex_digit_inj [of "unat v mod 16" "unat w mod 16"]
    by (simp_all add: hex_byte_def)
  then have "unat v = unat w"
    by (metis div_mult_mod_eq)
  then show "v = w"
    by (simp add: word_unat_eq_iff)
qed

lemma hex_string_inj: "concat (map hex_byte xs) = concat (map hex_byte ys) \<Longrightarrow> xs = ys"
proof (induction xs arbitrary: ys)
  case Nil
  then show ?case by (cases ys) (simp_all add: hex_byte_def)
next
  case (Cons x xs)
  then obtain y ys' where ys: "ys = y # ys'"
    by (cases ys) (simp_all add: hex_byte_def)
  have "hex_byte x @ concat (map hex_byte xs) = hex_byte y @ concat (map hex_byte ys')"
    using Cons.prems ys by simp
  moreover have "length (hex_byte x) = length (hex_byte y)"
    by (simp add: hex_byte_def)
  ultimately have "hex_byte x = hex_byte y" "concat (map hex_byte xs) = concat (map hex_byte ys')"
    by simp_all
  then show ?case
    using Cons.IH hex_byte_inj ys by blast
qed

lemma hashURL_eq_iff: "hashURL sha256 u = hashURL sha256 v \<longleftrightarrow> sha256 u = sha256 v"
  by (auto simp: hashURL_def dest: hex_string_inj)

lemma length_hex_string: "length (concat (map hex_byte xs)) = 2 * length xs"
  by (induction xs) (simp_all add: hex_byte_def)

subsection \<open>The repository over a collection keeps the contract\<close>

definition mongo_view ::
  "(string \<Rightarrow> 8 word list) \<Rightarrow> string set \<Rightarrow> (string \<rightharpoonup> bsonM) \<Rightarrow> store" where
  "mongo_view sha256 urls m = (\<lambda>u.
     if u \<in> urls then map_option entry_of (Option.bind (m (hashURL sha256 u)) decode_record) else None)"

definition mongo_invar ::
  "(string \<Rightarrow> 8 word list) \<Rightarrow> string set \<Rightarrow> (string \<rightharpoonup> bsonM) \<Rightarrow> bool" where
  "mongo_invar sha256 urls m \<longleftrightarrow> (\<forall>u d. u \<in> urls \<longrightarrow> m (hashURL sha256 u) = Some d \<longrightarrow>
     (\<exists>r. decode_record d = Some r \<and> URL r = u))"

locale mongo_collection = bson_storage stored
  for stored :: "bson \<Rightarrow> bson" +
  fixes coll :: "'d collection"
    and docs :: "'d \<Rightarrow> (string \<rightharpoonup> bsonM)"
    and sha256 :: "string \<Rightarrow> 8 word list"
    and urls :: "string set"
  assumes no_collision: "inj_on sha256 urls"
    and find_one: "wp (FindOne coll (hash_filter h)) (\<lambda>r (s', c'). docs s' = docs s \<and>
        (r = Inl ErrNoDocuments \<longrightarrow> docs s h = None) \<and> (\<forall>d. r = Inr d \<longrightarrow> docs s h = Some d)) (s, c)"
    and update_one: "set_fields u ''url_hash'' \<in> {None, Some (BString h)} \<Longrightarrow>
      wp (UpdateOne coll (hash_filter h) u upsert) (\<lambda>err (s', c').
        update_effect stored h u upsert (docs s) (docs s') \<or> err \<noteq> None \<and> docs s' = docs s) (s, c)"
    and client_ping: "wp (ClientPing coll) (\<lambda>err (s', c'). docs s' = docs s) (s, c)"
begin

lemma hash_inj: "\<lbrakk>u \<in> urls; v \<in> urls\<rbrakk> \<Longrightarrow> hashURL sha256 u = hashURL sha256 v \<longleftrightarrow> u = v"
  using no_collision by (auto simp: hashURL_eq_iff inj_on_eq_iff)

lemma mongo_put:
  assumes "mongo_invar sha256 urls m" and "u \<in> urls"
    and "decode_record d = Some r" and "URL r = u"
  shows "mongo_invar sha256 urls (m(hashURL sha256 u \<mapsto> d)) \<and>
    mongo_view sha256 urls (m(hashURL sha256 u \<mapsto> d)) = (mongo_view sha256 urls m)(u \<mapsto> entry_of r)"
proof (intro conjI ext)
  show "mongo_invar sha256 urls (m(hashURL sha256 u \<mapsto> d))"
    using assms hash_inj by (auto simp: mongo_invar_def)
  show "mongo_view sha256 urls (m(hashURL sha256 u \<mapsto> d)) v
      = ((mongo_view sha256 urls m)(u \<mapsto> entry_of r)) v" for v
    using assms hash_inj by (auto simp: mongo_view_def)
qed

lemma upsert_effect_view:
  assumes inv: "mongo_invar sha256 urls m" and u: "URL rec \<in> urls"
    and hash: "URLHash rec = hashURL sha256 (URL rec)"
    and eff: "update_effect stored (URLHash rec) (upsert_update rec) True m m'"
  shows "mongo_invar sha256 urls m' \<and> mongo_view sha256 urls m' = put_entry rec (mongo_view sha256 urls m)"
proof -
  obtain d' r' where m': "m' = m(URLHash rec \<mapsto> d')" and d': "decode_record d' = Some r'"
    and r': "entry_of r' = entry_of rec"
  proof (cases "m (URLHash rec)")
    case None
    then obtain oid where "m' = m(URLHash rec \<mapsto> inserted stored oid (URLHash rec) (upsert_update rec))"
      using eff by (auto simp: update_effect_def)
    then show ?thesis using that decode_inserted by blast
  next
    case (Some d)
    then obtain r where "decode_record d = Some r"
      using inv u hash by (auto simp: mongo_invar_def)
    moreover have "m' = m(URLHash rec \<mapsto> modify stored (upsert_update rec) d)"
      using Some eff by (simp add: update_effect_def)
    ultimately show ?thesis using that decode_upsert by blast
  qed
  have "URL r' = URL rec"
    using r' by (metis entry_of_simps(1))
  then show ?thesis
    using mongo_put [OF inv u d'] m' hash r' by (simp add: put_entry_def)
qed

lemma status_effect_view:
  assumes inv: "mongo_invar sha256 urls m" and u: "url \<in> urls"
    and eff: "update_effect stored (hashURL sha256 url) (status_update now st res) False m m'"
  shows "mongo_invar sha256 urls m' \<and>
    mongo_view sha256 urls m' = set_status url st res (mongo_view sha256 urls m)"
proof (cases "m (hashURL sha256 url)")
  case None
  moreover have "m' = m"
    using None eff by (simp add: update_effect_def)
  ultimately show ?thesis
    using inv by (simp add: mongo_view_def set_status_def)
next
  case (Some d)
  then obtain r where r: "decode_record d = Some r" "URL r = url"
    using inv u by (auto simp: mongo_invar_def)
  have m': "m' = m(hashURL sha256 url \<mapsto> modify stored (status_update now st res) d)"
      "inc_ok (status_update now st res) d"
    using Some eff by (simp_all add: update_effect_def)
  then obtain r' where r': "decode_record (modify stored (status_update now st res) d) = Some r'"
      "URL r' = URL r" "entry_of r' = entry_update st res (entry_of r)"
    using decode_status_update [OF r(1)] by blast
  have "mongo_view sha256 urls m url = Some (entry_of r)"
    using Some r u by (simp add: mongo_view_def)
  then show ?thesis
    using mongo_put [OF inv u r'(1)] r r'(2,3) m'(1) by (simp add: set_status_def)
qed

lemma FindByURL_contract:
  assumes inv: "mongo_invar sha256 urls (docs s)" and u: "url \<in> urls"
  shows "wp (mongo_FindByURL sha256 coll url) (\<lambda>r (s', c'). mongo_invar sha256 urls (docs s') \<and>
      mongo_view sha256 urls (docs s') = mongo_view sha256 urls (docs s) \<and>
      (\<forall>x. r = Inr x \<longrightarrow> map_option entry_of x = mongo_view sha256 urls (docs s) url)) (s, c)"
  unfolding mongo_FindByURL_def wp_bind wp_return
  by (rule wp_mono [OF find_one])
    (use inv u in \<open>auto simp: mongo_view_def split: sum.splits find_error.splits option.splits\<close>)

lemma complete_record_simps [simp]:
  "URL (complete_record sha256 now rec) = URL rec"
  "URLHash (complete_record sha256 now rec) = hashURL sha256 (URL rec)"
  "entry_of (complete_record sha256 now rec) = entry_of rec"
  by (simp_all add: complete_record_def Let_def entry_of_def)

lemma Upsert_contract:
  assumes inv: "mongo_invar sha256 urls (docs s)" and u: "URL rec \<in> urls"
  shows "wp (mongo_Upsert sha256 coll rec) (\<lambda>(rec', err) (s', c').
      mongo_invar sha256 urls (docs s') \<and> URL rec' = URL rec \<and>
      (mongo_view sha256 urls (docs s') = put_entry rec (mongo_view sha256 urls (docs s)) \<or>
       err \<noteq> None \<and> mongo_view sha256 urls (docs s') = mongo_view sha256 urls (docs s))) (s, c)"
proof -
  define rec' where "rec' = complete_record sha256 (c 0) rec"
  have put: "put_entry rec' = put_entry rec"
    by (rule ext) (simp add: put_entry_def rec'_def)
  have eff: "mongo_invar sha256 urls m' \<and> mongo_view sha256 urls m' =
      put_entry rec (mongo_view sha256 urls (docs s))"
    if "update_effect stored (URLHash rec') (upsert_update rec') True (docs s) m'" for m'
    using upsert_effect_view [OF inv _ _ that] u put by (simp add: rec'_def)
  have key: "set_fields (upsert_update rec') ''url_hash'' \<in> {None, Some (BString (URLHash rec'))}"
    by (simp add: upsert_update_def)
  show ?thesis
    unfolding mongo_Upsert_def wp_bind wp_time_Now Let_def rec'_def [symmetric] wp_return
    by (rule wp_mono [OF update_one [OF key]]) (use inv eff in \<open>auto simp: rec'_def\<close>)
qed

lemma UpdateStatus_contract:
  assumes inv: "mongo_invar sha256 urls (docs s)" and u: "url \<in> urls"
  shows "wp (mongo_UpdateStatus sha256 coll url st res) (\<lambda>err (s', c').
      mongo_invar sha256 urls (docs s') \<and>
      (mongo_view sha256 urls (docs s') = set_status url st res (mongo_view sha256 urls (docs s)) \<or>
       err \<noteq> None \<and> mongo_view sha256 urls (docs s') = mongo_view sha256 urls (docs s))) (s, c)"
proof -
  have key: "set_fields (status_update (c 0) st res) ''url_hash''
      \<in> {None, Some (BString (hashURL sha256 url))}"
    by (simp add: status_update_def Let_def split: option.split)
  show ?thesis
    unfolding mongo_UpdateStatus_def wp_bind wp_time_Now wp_return
    by (rule wp_mono [OF update_one [OF key]]) (use inv status_effect_view [OF inv u] in \<open>auto\<close>)
qed

end

sublocale mongo_collection \<subseteq> mongo: metadata_repository "mongo_repository sha256 coll"
  "mongo_view sha256 urls \<circ> docs" urls "mongo_invar sha256 urls \<circ> docs"
proof unfold_locales
  fix s url e
  assume "(mongo_invar sha256 urls \<circ> docs) s" "(mongo_view sha256 urls \<circ> docs) s url = Some e"
  then show "e_url e = url"
    by (auto simp: mongo_view_def mongo_invar_def bind_eq_Some_conv split: if_splits)
next
  fix s c
  assume "(mongo_invar sha256 urls \<circ> docs) s"
  then show "wp (Ping (mongo_repository sha256 coll)) (\<lambda>err (s', c').
      (mongo_invar sha256 urls \<circ> docs) s' \<and>
      (mongo_view sha256 urls \<circ> docs) s' = (mongo_view sha256 urls \<circ> docs) s) (s, c)"
    unfolding mongo_repository_def mongo_Ping_def
    by simp (rule wp_mono [OF client_ping], auto)
qed (simp_all add: mongo_repository_def FindByURL_contract Upsert_contract UpdateStatus_contract
  del: not_None_eq)

subsection \<open>A collection with the documented semantics\<close>

text \<open>
  The documented behaviour, executable: one document per hash, instants cut to milliseconds, and a
  switch that makes every call fail without an effect. It shows that the laws of \<open>mongo_collection\<close>
  hold together, and the witnesses run the repository on it. The digest is the string itself as
  bytes, which has no collisions.
\<close>

record mem_server =
  mem_docs :: "string \<rightharpoonup> bsonM"
  mem_down :: "goerr option"

fun ms_stored :: "bson \<Rightarrow> bson" where
  "ms_stored (BTime t) = BTime (t - t mod Millisecond)"
| "ms_stored v = v"

definition bytes_digest :: "string \<Rightarrow> 8 word list" where
  "bytes_digest s = map (\<lambda>ch. of_nat (of_char ch)) s"

definition mem_find :: "bsonM \<Rightarrow> (mem_server, find_error + bsonM) io" where
  "mem_find q = act (\<lambda>m. case mem_down m of
       Some e \<Rightarrow> (Inl (FindFailed e), m)
     | None \<Rightarrow> (case as_string (q ''url_hash'') of
           None \<Rightarrow> (Inl ErrNoDocuments, m)
         | Some h \<Rightarrow> (case mem_docs m h of
               None \<Rightarrow> (Inl ErrNoDocuments, m)
             | Some d \<Rightarrow> (Inr d, m))))"

definition mem_update :: "bsonM \<Rightarrow> update_doc \<Rightarrow> bool \<Rightarrow> (mem_server, goerr option) io" where
  "mem_update q u upsert = act (\<lambda>m. case mem_down m of
       Some e \<Rightarrow> (Some e, m)
     | None \<Rightarrow> (case as_string (q ''url_hash'') of
           None \<Rightarrow> (None, m)
         | Some h \<Rightarrow> (case mem_docs m h of
               Some d \<Rightarrow> if inc_ok u d
                 then (None, m\<lparr>mem_docs := (mem_docs m)(h \<mapsto> modify ms_stored u d)\<rparr>)
                 else (Some (Opaque ''non-numeric type''), m)
             | None \<Rightarrow> if upsert
                 then (None, m\<lparr>mem_docs := (mem_docs m)(h \<mapsto> inserted ms_stored ''oid'' h u)\<rparr>)
                 else (None, m))))"

definition mem_collection :: "mem_server collection" where
  "mem_collection = \<lparr>FindOne = mem_find, UpdateOne = mem_update,
     CreateMany = (\<lambda>_. act (\<lambda>m. (mem_down m, m))),
     ClientPing = act (\<lambda>m. (mem_down m, m)),
     DecodeError = (\<lambda>_. Opaque ''decode'')\<rparr>"

lemma bytes_digest_inj: "inj bytes_digest"
proof (rule injI)
  fix s t
  assume "bytes_digest s = bytes_digest t"
  then have "map (\<lambda>ch. unat (of_nat (of_char ch) :: 8 word)) s
      = map (\<lambda>ch. unat (of_nat (of_char ch) :: 8 word)) t"
    by (metis (no_types, lifting) bytes_digest_def list.map_comp comp_apply map_eq_conv)
  moreover have "unat (of_nat (of_char ch) :: 8 word) = of_char ch" for ch
    by (simp add: unat_of_nat of_char_def)
  ultimately have "map (of_char :: char \<Rightarrow> nat) s = map of_char t"
    by simp
  then show "s = t"
    by (metis inj_map_eq_map inj_of_char)
qed

interpretation mem: mongo_collection ms_stored mem_collection mem_docs bytes_digest UNIV
proof unfold_locales
  show "inj_on bytes_digest UNIV"
    by (rule bytes_digest_inj)
next
  fix h s c
  show "wp (FindOne mem_collection (hash_filter h)) (\<lambda>r (s', c'). mem_docs s' = mem_docs s \<and>
      (r = Inl ErrNoDocuments \<longrightarrow> mem_docs s h = None) \<and>
      (\<forall>d. r = Inr d \<longrightarrow> mem_docs s h = Some d)) (s, c)"
    by (simp add: mem_collection_def mem_find_def hash_filter_def split: option.split)
next
  fix u upsert h s c
  show "wp (UpdateOne mem_collection (hash_filter h) u upsert) (\<lambda>err (s', c').
      update_effect ms_stored h u upsert (mem_docs s) (mem_docs s') \<or>
      err \<noteq> None \<and> mem_docs s' = mem_docs s) (s, c)"
    by (auto simp: mem_collection_def mem_update_def hash_filter_def update_effect_def
        split: option.split)
next
  fix s c
  show "wp (ClientPing mem_collection) (\<lambda>err (s', c'). mem_docs s' = mem_docs s) (s, c)"
    by (simp add: mem_collection_def)
qed simp_all

end
