(* ===== verification/Urls.thy ===== *)
theory Urls
  imports GoStd
begin

section \<open>Parsing URLs (\<^verbatim>\<open>net/url\<close>)\<close>

text \<open>
  What the validation, the SSRF check and the query of a request read of a URL: \<open>Parse\<close> and
  \<open>ParseRequestURI\<close> of the package (of Go 1.25.1, the version in \<^verbatim>\<open>go.mod\<close>) with every reason to
  refuse, the scheme and the host of the result, \<open>Hostname\<close>, and \<open>Query().Get\<close>. Errors are \<^term>\<open>None\<close>:
  the callers replace them by texts of their own. Strings are bytes.
\<close>

abbreviation ord :: "char \<Rightarrow> nat" where
  "ord c \<equiv> of_char c"

definition is_letter :: "char \<Rightarrow> bool" where
  "is_letter c \<longleftrightarrow> 97 \<le> ord c \<and> ord c \<le> 122 \<or> 65 \<le> ord c \<and> ord c \<le> 90"

definition is_alnum :: "char \<Rightarrow> bool" where
  "is_alnum c \<longleftrightarrow> is_letter c \<or> is_digit c"

definition ishex :: "char \<Rightarrow> bool" where
  "ishex c \<longleftrightarrow> is_digit c \<or> 97 \<le> ord c \<and> ord c \<le> 102 \<or> 65 \<le> ord c \<and> ord c \<le> 70"

definition unhex :: "char \<Rightarrow> nat" where
  "unhex c =
     (if is_digit c then ord c - 48
      else if 97 \<le> ord c \<and> ord c \<le> 102 then ord c - 87
      else if 65 \<le> ord c \<and> ord c \<le> 70 then ord c - 55
      else 0)"

text \<open>\<^verbatim>\<open>strings.Cut\<close> at a character: what is before the first one, and what is after it, if there is one.\<close>

fun Cut :: "char \<Rightarrow> string \<Rightarrow> string \<times> string option" where
  "Cut sep [] = ([], None)"
| "Cut sep (c # cs) =
     (if c = sep then ([], Some cs) else case Cut sep cs of (a, r) \<Rightarrow> (c # a, r))"

text \<open>The part after the last occurrence, and the part before it.\<close>

definition after_last :: "char \<Rightarrow> string \<Rightarrow> string" where
  "after_last sep s = rev (takeWhile (\<lambda>c. c \<noteq> sep) (rev s))"

definition before_last :: "char \<Rightarrow> string \<Rightarrow> string" where
  "before_last sep s = take (length s - length (after_last sep s) - 1) s"

text \<open>\<^verbatim>\<open>strings.Index\<close> of a substring, as the text before and from it.\<close>

fun split_at :: "string \<Rightarrow> string \<Rightarrow> (string \<times> string) option" where
  "split_at p [] = (if p = [] then Some ([], []) else None)"
| "split_at p (c # cs) =
     (if take (length p) (c # cs) = p then Some ([], c # cs)
      else case split_at p cs of None \<Rightarrow> None | Some (a, b) \<Rightarrow> Some (c # a, b))"

subsection \<open>Escapes\<close>

datatype encoding = encodePath | encodeHost | encodeZone | encodeUserPassword
  | encodeQueryComponent | encodeFragment

text \<open>\<^verbatim>\<open>shouldEscape\<close> in the two modes in which \<open>unescape\<close> asks it, host and zone.\<close>

definition host_char :: "char \<Rightarrow> bool" where
  "host_char c \<longleftrightarrow> is_alnum c \<or> c \<in> set ''!$&()*+,;=:[]<>-_.~'' \<or> c = CHR 0x27 \<or> c = CHR 0x22"

text \<open>One step of the check: the number of bytes read, or a malformed or forbidden escape or byte.\<close>

definition escape_ok :: "encoding \<Rightarrow> char \<Rightarrow> char \<Rightarrow> bool" where
  "escape_ok mode a b \<longleftrightarrow> ishex a \<and> ishex b \<and>
     (mode = encodeHost \<longrightarrow> 8 \<le> unhex a \<or> a = CHR ''2'' \<and> b = CHR ''5'') \<and>
     (mode = encodeZone \<longrightarrow> a = CHR ''2'' \<and> b = CHR ''5'' \<or>
        16 * unhex a + unhex b = 32 \<or> host_char (char_of (16 * unhex a + unhex b)))"

fun unescape :: "encoding \<Rightarrow> string \<Rightarrow> string option" where
  "unescape mode [] = Some []"
| "unescape mode (c # cs) =
     (if c = CHR ''%'' then
        (case cs of
           a # b # r \<Rightarrow>
             if escape_ok mode a b
             then map_option (\<lambda>t. char_of (16 * unhex a + unhex b) # t) (unescape mode r)
             else None
         | _ \<Rightarrow> None)
      else if mode \<in> {encodeHost, encodeZone} \<and> ord c < 128 \<and> \<not> host_char c then None
      else map_option (\<lambda>t. (if c = CHR ''+'' \<and> mode = encodeQueryComponent then CHR '' '' else c) # t)
        (unescape mode cs))"

subsection \<open>The authority\<close>

definition validOptionalPort :: "string \<Rightarrow> bool" where
  "validOptionalPort port \<longleftrightarrow>
     (case port of [] \<Rightarrow> True | c # cs \<Rightarrow> c = CHR '':'' \<and> list_all is_digit cs)"

definition parseHost :: "string \<Rightarrow> string option" where
  "parseHost host =
     (if host \<noteq> [] \<and> hd host = CHR ''['' then
        (if CHR '']'' \<notin> set host then None
         else if \<not> validOptionalPort (after_last (CHR '']'') host) then None
         else case split_at ''%25'' (before_last (CHR '']'') host) of
           None \<Rightarrow> unescape encodeHost host
         | Some (a, zone) \<Rightarrow> do {
             host1 \<leftarrow> unescape encodeHost a;
             host2 \<leftarrow> unescape encodeZone zone;
             host3 \<leftarrow> unescape encodeHost (CHR '']'' # after_last (CHR '']'') host);
             Some (host1 @ host2 @ host3)
           })
      else if CHR '':'' \<in> set host \<and> \<not> validOptionalPort (CHR '':'' # after_last (CHR '':'') host) then None
      else unescape encodeHost host)"

definition validUserinfo :: "string \<Rightarrow> bool" where
  "validUserinfo s \<longleftrightarrow>
     list_all (\<lambda>c. is_alnum c \<or> c \<in> set ''-._:~!$&()*+,;=%@'' \<or> c = CHR 0x27) s"

text \<open>Of the user info only whether it is well-formed matters to the callers.\<close>

definition parseAuthority :: "string \<Rightarrow> string option" where
  "parseAuthority authority =
     (if CHR ''@'' \<notin> set authority then parseHost authority
      else do {
        host \<leftarrow> parseHost (after_last (CHR ''@'') authority);
        let userinfo = before_last (CHR ''@'') authority;
        if validUserinfo userinfo \<and> unescape encodeUserPassword userinfo \<noteq> None then Some host else None
      })"

subsection \<open>The URL\<close>

text \<open>Of the result the code reads the scheme and \<^verbatim>\<open>Host\<close> (\<^verbatim>\<open>host[:port]\<close>).\<close>

record parsed_url =
  Scheme :: string
  Host :: string

text \<open>\<open>getScheme\<close>: \<^term>\<open>None\<close> for a leading colon; the flag tells the first character.\<close>

fun getScheme_from :: "bool \<Rightarrow> string \<Rightarrow> (string \<times> string) option option" where
  "getScheme_from first [] = Some None"
| "getScheme_from first (c # cs) =
     (if is_letter c \<or> \<not> first \<and> (is_digit c \<or> c \<in> set ''+-.'') then
        map_option (map_option (\<lambda>(s, r). (c # s, r))) (getScheme_from False cs)
      else if c = CHR '':'' then (if first then None else Some (Some ([], cs)))
      else Some None)"

text \<open>The scheme and the rest; a string without a scheme is its own rest.\<close>

definition getScheme :: "string \<Rightarrow> (string \<times> string) option" where
  "getScheme rawURL =
     (case getScheme_from True rawURL of
        None \<Rightarrow> None
      | Some None \<Rightarrow> Some ('''', rawURL)
      | Some (Some (s, r)) \<Rightarrow> Some (s, r))"

definition has_prefix :: "string \<Rightarrow> string \<Rightarrow> bool" where
  "has_prefix p s \<longleftrightarrow> take (length p) s = p"

definition is_CTL :: "char \<Rightarrow> bool" where
  "is_CTL c \<longleftrightarrow> ord c < 32 \<or> ord c = 127"

text \<open>The authority and the path of a hierarchical URL.\<close>

definition parse_rest :: "bool \<Rightarrow> string \<Rightarrow> string \<Rightarrow> parsed_url option" where
  "parse_rest viaRequest scheme rest =
     (if (scheme \<noteq> '''' \<or> \<not> viaRequest \<and> \<not> has_prefix ''///'' rest) \<and> has_prefix ''//'' rest then do {
        host \<leftarrow> parseAuthority (takeWhile (\<lambda>c. c \<noteq> CHR ''/'') (drop 2 rest));
        _ \<leftarrow> unescape encodePath (dropWhile (\<lambda>c. c \<noteq> CHR ''/'') (drop 2 rest));
        Some \<lparr>Scheme = scheme, Host = host\<rparr>
      }
      else do {
        _ \<leftarrow> unescape encodePath rest;
        Some \<lparr>Scheme = scheme, Host = ''''\<rparr>
      })"

text \<open>Both ways in which the code cuts off the query leave the part before the first question mark.\<close>

definition url_parse :: "bool \<Rightarrow> string \<Rightarrow> parsed_url option" where
  "url_parse viaRequest rawURL =
     (if list_ex is_CTL rawURL then None
      else if rawURL = '''' \<and> viaRequest then None
      else if rawURL = ''*'' then Some \<lparr>Scheme = '''', Host = ''''\<rparr>
      else do {
        (scheme, r) \<leftarrow> getScheme rawURL;
        let scheme = ToLower scheme;
        let rest = fst (Cut (CHR ''?'') r);
        if \<not> has_prefix ''/'' rest then
          (if scheme \<noteq> '''' then Some \<lparr>Scheme = scheme, Host = ''''\<rparr>
           else if viaRequest then None
           else if CHR '':'' \<in> set (fst (Cut (CHR ''/'') rest)) then None
           else parse_rest viaRequest scheme rest)
        else parse_rest viaRequest scheme rest
      })"

definition url_Parse :: "string \<Rightarrow> parsed_url option" where
  "url_Parse rawURL =
     (case Cut (CHR ''#'') rawURL of (u, frag) \<Rightarrow> do {
        url \<leftarrow> url_parse False u;
        _ \<leftarrow> unescape encodeFragment (case frag of None \<Rightarrow> '''' | Some f \<Rightarrow> f);
        Some url
      })"

definition ParseRequestURI :: "string \<Rightarrow> parsed_url option" where
  "ParseRequestURI rawURL = url_parse True rawURL"

text \<open>
  \<^verbatim>\<open>URL.Hostname()\<close>: the host without a valid port, and without the brackets of an IPv6 literal.
\<close>

definition Hostname :: "string \<Rightarrow> string" where
  "Hostname hostPort =
     (let host = (if CHR '':'' \<in> set hostPort \<and> validOptionalPort (CHR '':'' # after_last (CHR '':'') hostPort)
            then before_last (CHR '':'') hostPort else hostPort)
      in if host \<noteq> [] \<and> hd host = CHR ''['' \<and> last host = CHR '']''
         then butlast (tl host) else host)"

subsection \<open>Queries\<close>

text \<open>
  \<^verbatim>\<open>parseQuery\<close> drops the settings it cannot decode and those with a semicolon; \<open>Get\<close> returns the first
  value of the key, or the empty string.
\<close>

definition query_setting :: "string \<Rightarrow> (string \<times> string) option" where
  "query_setting s =
     (if CHR '';'' \<in> set s \<or> s = '''' then None
      else case Cut (CHR ''='') s of (k, v) \<Rightarrow> do {
        key \<leftarrow> unescape encodeQueryComponent k;
        val \<leftarrow> unescape encodeQueryComponent (case v of None \<Rightarrow> '''' | Some x \<Rightarrow> x);
        Some (key, val)
      })"

definition Query_Get :: "string \<Rightarrow> string \<Rightarrow> string" where
  "Query_Get rawQuery key =
     (case map_of (List.map_filter query_setting (Split (CHR ''&'') rawQuery)) key of
        None \<Rightarrow> ''''
      | Some v \<Rightarrow> v)"

subsection \<open>Both parsers agree\<close>

lemma Cut_absent: "sep \<notin> set s \<Longrightarrow> Cut sep s = (s, None)"
  by (induction s) auto

lemma url_parse_modes:
  assumes "url_parse True u = Some p" and "Scheme p \<noteq> ''''"
  shows "url_parse False u = Some p"
proof -
  have scheme: "Scheme q = sc" if "parse_rest v sc r = Some q" for v sc r q
    using that by (auto simp: parse_rest_def bind_eq_Some_conv split: if_splits)
  have rest: "parse_rest True sc r = parse_rest False sc r" if "sc \<noteq> ''''" for sc r
    using that by (simp add: parse_rest_def)
  obtain sc r where u: "\<not> list_ex is_CTL u" "u \<noteq> ''''" "u \<noteq> ''*''" "getScheme u = Some (sc, r)"
    using assms by (auto simp: url_parse_def bind_eq_Some_conv split: if_splits)
  have "Scheme p = ToLower sc"
    using assms(1) u by (auto simp: url_parse_def Let_def dest!: scheme split: if_splits)
  then show ?thesis
    using assms u rest [of "ToLower sc"] by (simp add: url_parse_def Let_def split: if_splits)
qed

text \<open>An absolute URL without a fragment is the same to both.\<close>

lemma ParseRequestURI_Parse:
  assumes "ParseRequestURI u = Some p" and "Scheme p \<noteq> ''''" and "CHR ''#'' \<notin> set u"
  shows "url_Parse u = Some p"
  using url_parse_modes [of u p] assms by (simp add: ParseRequestURI_def url_Parse_def Cut_absent)

subsection \<open>Escaped query values\<close>

text \<open>What a careful client sends for a value: every byte as \<^verbatim>\<open>%XX\<close>.\<close>

definition hex_char :: "nat \<Rightarrow> char" where
  "hex_char n = (if n < 10 then char_of (48 + n) else char_of (55 + n))"

definition percent :: "char \<Rightarrow> string" where
  "percent c = [CHR ''%'', hex_char (ord c div 16), hex_char (ord c mod 16)]"

definition percent_encode :: "string \<Rightarrow> string" where
  "percent_encode s = concat (map percent s)"

text \<open>An escaped value holds none of the separators (\<^verbatim>\<open>& = ;\<close>).\<close>

definition separator :: "char \<Rightarrow> bool" where
  "separator c \<longleftrightarrow> ord c = 38 \<or> ord c = 61 \<or> ord c = 59"

lemma hex_char_simps:
  assumes "n < 16"
  shows "ishex (hex_char n) \<and> unhex (hex_char n) = n \<and> \<not> separator (hex_char n)"
  using assms by (auto simp: hex_char_def ishex_def unhex_def is_digit_def separator_def)

lemma ord_less: "ord c < 256"
  by (simp add: of_char_def)

lemma ord_parts [simp]: "ord c div 16 < 16" "ord c mod 16 < 16"
  using ord_less [of c] by (simp_all add: less_mult_imp_div_less)

lemma unescape_percent_encode [simp]:
  "unescape encodeQueryComponent (percent_encode s) = Some s"
proof (induction s)
  case (Cons c s)
  have "char_of (16 * (ord c div 16) + ord c mod 16) = c"
    by simp
  with Cons show ?case
    by (simp add: percent_encode_def percent_def escape_ok_def hex_char_simps)
qed (simp add: percent_encode_def)

lemma percent_plain: "list_all (\<lambda>x. \<not> separator x) (percent c)"
proof -
  have "\<not> separator (CHR ''%'')"
    by (simp add: separator_def)
  then show ?thesis
    using hex_char_simps [OF ord_parts(1)] hex_char_simps [OF ord_parts(2)]
    by (simp add: percent_def)
qed

lemma percent_encode_plain: "list_all (\<lambda>x. \<not> separator x) (percent_encode s)"
  by (induction s) (simp_all add: percent_encode_def percent_plain)

lemma not_in_percent_encode: "separator x \<Longrightarrow> x \<notin> set (percent_encode s)"
  using percent_encode_plain [of s] by (auto simp: list_all_iff)

lemma Split_absent: "sep \<notin> set s \<Longrightarrow> Split sep s = [s]"
  by (induction s) auto

lemma Query_Get_encoded: "Query_Get (''url='' @ percent_encode u) ''url'' = u"
proof -
  have "CHR ''&'' \<notin> set (''url='' @ percent_encode u)" "CHR '';'' \<notin> set (''url='' @ percent_encode u)"
    by (simp_all add: not_in_percent_encode separator_def)
  moreover have "query_setting (''url='' @ percent_encode u) = Some (''url'', u)"
    using calculation(2) by (simp add: query_setting_def)
  ultimately show ?thesis
    by (simp add: Query_Get_def Split_absent List.map_filter_def)
qed

subsection \<open>A fragment does not move the host\<close>

text \<open>
  \<open>Parse\<close> cuts the fragment off first, \<open>ParseRequestURI\<close> knows no fragments. On a URL that the latter
  accepts with a host, the former sees the same scheme and host: a \<^verbatim>\<open>#\<close> can only stand in the path or
  the query.
\<close>

abbreviation up_to :: "char \<Rightarrow> string \<Rightarrow> string" where
  "up_to sep \<equiv> takeWhile (\<lambda>c. c \<noteq> sep)"

lemma fst_Cut: "fst (Cut sep s) = up_to sep s"
  by (induction s) (auto split: prod.splits)

lemma last_parts: "sep \<in> set s \<Longrightarrow> before_last sep s @ sep # after_last sep s = s"
proof (induction s rule: rev_induct)
  case (snoc c s)
  show ?case
  proof (cases "c = sep")
    case True
    then show ?thesis
      by (simp add: before_last_def after_last_def)
  next
    case False
    with snoc have IH: "before_last sep s @ sep # after_last sep s = s"
      by auto
    have len: "length (after_last sep s) < length s"
      using arg_cong [OF IH, of length] by simp
    have "after_last sep (s @ [c]) = after_last sep s @ [c]"
      using False by (simp add: after_last_def)
    then show ?thesis
      using IH len by (simp add: before_last_def)
  qed
qed simp

lemma split_at_append: "split_at p s = Some (a, b) \<Longrightarrow> s = a @ b"
  by (induction p s arbitrary: a b rule: split_at.induct) (auto split: if_splits option.splits)

lemma getScheme_from_shape:
  assumes "getScheme_from first s = Some (Some (sc, r))"
  shows "s = sc @ CHR '':'' # r \<and> CHR ''#'' \<notin> set sc \<and>
    getScheme_from first (sc @ CHR '':'' # r') = Some (Some (sc, r'))"
  using assms
proof (induction first s arbitrary: sc rule: getScheme_from.induct)
  case (2 first c cs)
  have "\<not> is_letter CHR '':''" "\<not> is_digit CHR '':''" "\<not> is_letter CHR ''#''" "\<not> is_digit CHR ''#''"
    by (simp_all add: is_letter_def is_digit_def)
  with 2 show ?case
    by (auto split: if_splits)
qed simp

lemma hash_escape: "escape_ok m a b \<Longrightarrow> a \<noteq> CHR ''#'' \<and> b \<noteq> CHR ''#''"
  by (auto simp: escape_ok_def ishex_def is_digit_def)

lemma unescape_up_to_hash:
  "unescape m s = Some t \<Longrightarrow> \<exists>t'. unescape m (up_to (CHR ''#'') s) = Some t'"
  by (induction m s arbitrary: t rule: unescape.induct)
    (auto split: if_splits list.splits dest: hash_escape)

lemma unescape_host_no_hash:
  "unescape m s = Some t \<Longrightarrow> m \<in> {encodeHost, encodeZone} \<Longrightarrow> CHR ''#'' \<notin> set s"
proof (induction m s arbitrary: t rule: unescape.induct)
  case (2 m c cs)
  have "\<not> host_char CHR ''#''"
    by (simp add: host_char_def is_alnum_def is_letter_def is_digit_def)
  with 2 show ?case
    by (auto split: if_splits list.splits dest: hash_escape)
qed simp

lemma parseHost_no_hash: "parseHost h = Some x \<Longrightarrow> CHR ''#'' \<notin> set h"
proof -
  assume h: "parseHost h = Some x"
  show ?thesis
  proof (cases "\<exists>t. unescape encodeHost h = Some t")
    case True
    then show ?thesis
      using unescape_host_no_hash by blast
  next
    case False
    with h obtain a zone t1 t2 t3 where br: "CHR '']'' \<in> set h"
      and sp: "split_at ''%25'' (before_last (CHR '']'') h) = Some (a, zone)"
      and t: "unescape encodeHost a = Some t1" "unescape encodeZone zone = Some t2"
        "unescape encodeHost (CHR '']'' # after_last (CHR '']'') h) = Some t3"
      by (auto simp: parseHost_def bind_eq_Some_conv split: if_splits option.splits)
    have "h = a @ zone @ CHR '']'' # after_last (CHR '']'') h"
      using last_parts [OF br] split_at_append [OF sp] by simp
    then show ?thesis
      using t unescape_host_no_hash by (metis UnE insertCI set_append)
  qed
qed

lemma parseAuthority_no_hash: "parseAuthority s = Some x \<Longrightarrow> CHR ''#'' \<notin> set s"
proof (cases "CHR ''@'' \<in> set s")
  case True
  assume s: "parseAuthority s = Some x"
  with True have "CHR ''#'' \<notin> set (after_last (CHR ''@'') s)" "validUserinfo (before_last (CHR ''@'') s)"
    by (auto simp: parseAuthority_def bind_eq_Some_conv Let_def dest: parseHost_no_hash split: if_splits)
  moreover have "\<not> is_alnum CHR ''#''"
    by (simp add: is_alnum_def is_letter_def is_digit_def)
  ultimately have "CHR ''#'' \<notin> set (before_last (CHR ''@'') s @ CHR ''@'' # after_last (CHR ''@'') s)"
    by (auto simp: validUserinfo_def list_all_iff)
  then show ?thesis
    by (simp only: last_parts [OF True] not_False_eq_True)
qed (auto simp: parseAuthority_def dest: parseHost_no_hash)

lemma dropWhile_head: "dropWhile (\<lambda>c. c \<noteq> sep) s = [] \<or> (\<exists>q. dropWhile (\<lambda>c. c \<noteq> sep) s = sep # q)"
  by (induction s) auto

lemma up_to_append: "sep \<notin> set a \<Longrightarrow> up_to sep (a @ b) = a @ up_to sep b"
  by (induction a) auto

lemma dropWhile_sep_append:
  "sep \<notin> set a \<Longrightarrow> dropWhile (\<lambda>c. c \<noteq> sep) (a @ b) = dropWhile (\<lambda>c. c \<noteq> sep) b"
  by (induction a) auto

lemma parse_rest_up_to_hash:
  assumes "parse_rest v sc r = Some p" and "sc \<noteq> ''''" and "Host p \<noteq> ''''"
  shows "parse_rest False sc (up_to (CHR ''#'') r) = Some p"
proof -
  have pre: "has_prefix ''//'' r"
    using assms by (auto simp: parse_rest_def bind_eq_Some_conv split: if_splits)
  then obtain s where s: "r = CHR ''/'' # CHR ''/'' # s"
    by (cases r; cases "tl r") (auto simp: has_prefix_def)
  define auth path where "auth = up_to (CHR ''/'') s" and "path = dropWhile (\<lambda>c. c \<noteq> CHR ''/'') s"
  then have r: "r = CHR ''/'' # CHR ''/'' # auth @ path"
    by (simp add: s)
  obtain t where auth: "parseAuthority auth = Some (Host p)" and path: "unescape encodePath path = Some t"
    and p: "p = \<lparr>Scheme = sc, Host = Host p\<rparr>"
    using assms pre by (auto simp: s parse_rest_def bind_eq_Some_conv auth_def path_def)
  have no: "CHR ''#'' \<notin> set auth"
    by (rule parseAuthority_no_hash [OF auth])
  then have cut: "up_to (CHR ''#'') r = CHR ''/'' # CHR ''/'' # auth @ up_to (CHR ''#'') path"
    by (simp add: r up_to_append)
  have slash: "CHR ''/'' \<notin> set auth"
    unfolding auth_def by (metis set_takeWhileD)
  have hd: "path = [] \<or> (\<exists>q. path = CHR ''/'' # q)"
    unfolding path_def by (rule dropWhile_head)
  have "up_to (CHR ''/'') (auth @ up_to (CHR ''#'') path) = auth \<and>
    dropWhile (\<lambda>c. c \<noteq> CHR ''/'') (auth @ up_to (CHR ''#'') path) = up_to (CHR ''#'') path"
    using hd slash by (auto simp: up_to_append dropWhile_sep_append)
  with unescape_up_to_hash [OF path] show ?thesis
    using assms(2) auth p by (auto simp: parse_rest_def cut has_prefix_def)
qed

lemma up_to_comm: "up_to a (up_to b s) = up_to b (up_to a s)"
  by (induction s) auto

lemma ParseRequestURI_up_to_hash:
  assumes "ParseRequestURI u = Some p" and "Scheme p \<noteq> ''''" and "Host p \<noteq> ''''"
  shows "url_parse False (up_to (CHR ''#'') u) = Some p"
proof -
  have mode: "url_parse False u = Some p"
    using url_parse_modes assms(1,2) by (simp add: ParseRequestURI_def)
  obtain sc r where u: "\<not> list_ex is_CTL u" "u \<noteq> ''''" "u \<noteq> ''*''" "getScheme u = Some (sc, r)"
    using assms(1,2) by (auto simp: ParseRequestURI_def url_parse_def bind_eq_Some_conv split: if_splits)
  have rest: "parse_rest False (ToLower sc) (up_to (CHR ''?'') r) = Some p"
      "has_prefix ''/'' (up_to (CHR ''?'') r)" "ToLower sc \<noteq> ''''"
    using mode u assms(2,3) by (auto simp: url_parse_def Let_def fst_Cut parse_rest_def
        bind_eq_Some_conv split: if_splits)
  from rest(3) have "sc \<noteq> ''''"
    by auto
  with u(4) have gs: "getScheme_from True u = Some (Some (sc, r))"
    by (auto simp: getScheme_def split: option.splits)
  note shape = getScheme_from_shape [OF gs]
  have cut: "up_to (CHR ''#'') u = sc @ CHR '':'' # up_to (CHR ''#'') r"
    using shape [of r] by (simp add: up_to_append)
  have "getScheme (up_to (CHR ''#'') u) = Some (sc, up_to (CHR ''#'') r)"
    using shape [of "up_to (CHR ''#'') r"] unfolding cut by (simp add: getScheme_def)
  moreover have "\<not> list_ex is_CTL (up_to (CHR ''#'') u)"
    using u(1) by (auto simp: list_ex_iff dest: set_takeWhileD)
  moreover have "up_to (CHR ''#'') u \<noteq> ''''" "up_to (CHR ''#'') u \<noteq> ''*''"
    using \<open>sc \<noteq> ''''\<close> by (auto simp: cut append_eq_Cons_conv)
  moreover have "parse_rest False (ToLower sc) (up_to (CHR ''?'') (up_to (CHR ''#'') r)) = Some p"
    using parse_rest_up_to_hash [OF rest(1,3) assms(3)] by (simp add: up_to_comm)
  moreover have "has_prefix ''/'' (up_to (CHR ''?'') (up_to (CHR ''#'') r))"
    using rest(2) by (cases r) (auto simp: has_prefix_def)
  ultimately show ?thesis
    by (simp add: url_parse_def Let_def fst_Cut)
qed

end
