(* ===== verification/IPRanges.thy ===== *)
theory IPRanges
  imports GoStd
begin

unbundle bit_operations_syntax

section \<open>Private address ranges (isPrivateIP of pkg/fetcher/http_fetcher.go)\<close>

text \<open>
  \<^verbatim>\<open>net.IP\<close> is a byte slice of length 4 or 16. \<open>IPNet\<close>, \<open>Contains\<close> and \<open>To4\<close> are those of package
  \<^verbatim>\<open>net\<close>; \<open>mustParseCIDR\<close> takes its constant literal as the bytes of the address and the prefix length.
\<close>

type_synonym ip = "8 word list"

record IPNet =
  IP :: ip
  Mask :: ip

text \<open>The 4-byte form of an IPv4 address, also of one given in the form \<open>::ffff:a.b.c.d\<close>.\<close>

definition To4 :: "ip \<Rightarrow> ip option" where
  "To4 i =
     (if length i = 4 then Some i
      else if length i = 16 \<and> take 12 i = replicate 10 0 @ [0xff, 0xff] then Some (drop 12 i)
      else None)"

fun mask_byte :: "nat \<Rightarrow> 8 word" where
  "mask_byte n = (if n \<ge> 8 then 0xff else NOT (mask (8 - n)))"

definition CIDRMask :: "nat \<Rightarrow> nat \<Rightarrow> ip" where
  "CIDRMask ones len = map (\<lambda>i. mask_byte (ones - 8 * i)) [0..<len]"

definition mustParseCIDR :: "ip \<Rightarrow> nat \<Rightarrow> IPNet" where
  "mustParseCIDR addr ones =
     (let m = CIDRMask ones (length addr) in \<lparr>IP = map2 (AND) addr m, Mask = m\<rparr>)"

definition networkNumberAndMask :: "IPNet \<Rightarrow> (ip \<times> ip) option" where
  "networkNumberAndMask n =
     (case (case To4 (IP n) of
              Some i \<Rightarrow> Some i
            | None \<Rightarrow> if length (IP n) = 16 then Some (IP n) else None) of
        None \<Rightarrow> None
      | Some i \<Rightarrow>
          if length (Mask n) = 4 then (if length i = 4 then Some (i, Mask n) else None)
          else if length (Mask n) = 16 then
            Some (i, if length i = 4 then drop 12 (Mask n) else Mask n)
          else None)"

definition Contains :: "IPNet \<Rightarrow> ip \<Rightarrow> bool" where
  "Contains n i =
     (case networkNumberAndMask n of
        None \<Rightarrow> i = []
      | Some (nn, m) \<Rightarrow>
          let i = (case To4 i of Some x \<Rightarrow> x | None \<Rightarrow> i)
          in length i = length nn \<and>
             list_all (\<lambda>(a, b, c). a AND b = c AND b) (zip nn (zip m i)))"

definition privateRanges :: "IPNet list" where
  "privateRanges = [
     mustParseCIDR [10, 0, 0, 0] 8,
     mustParseCIDR [172, 16, 0, 0] 12,
     mustParseCIDR [192, 168, 0, 0] 16,
     mustParseCIDR [127, 0, 0, 0] 8,
     mustParseCIDR [169, 254, 0, 0] 16,
     mustParseCIDR (replicate 15 0 @ [1]) 128,
     mustParseCIDR (0xfc # replicate 15 0) 7,
     mustParseCIDR ([0xfe, 0x80] @ replicate 14 0) 10]"

definition isPrivateIP :: "ip \<Rightarrow> bool" where
  "isPrivateIP i = list_ex (\<lambda>n. Contains n i) privateRanges"

text \<open>
  \<^verbatim>\<open>IP.String()\<close>: dotted decimal for IPv4; for IPv6 the groups in hexadecimal, the first longest run of
  two or more zero groups written as \<^verbatim>\<open>::\<close>.
\<close>

definition byte_text :: "8 word \<Rightarrow> string" where
  "byte_text b = nat_digits (unat b)"

fun join_text :: "string \<Rightarrow> string list \<Rightarrow> string" where
  "join_text sep [] = ''''"
| "join_text sep [w] = w"
| "join_text sep (w # v # ws) = w @ sep @ join_text sep (v # ws)"

fun hex_text :: "nat \<Rightarrow> string" where
  "hex_text n =
     (if n < 16 then [''0123456789abcdef'' ! n] else hex_text (n div 16) @ [''0123456789abcdef'' ! (n mod 16)])"

declare hex_text.simps [simp del]

fun groups :: "ip \<Rightarrow> nat list" where
  "groups (a # b # r) = (256 * unat a + unat b) # groups r"
| "groups _ = []"

definition zero_run :: "nat list \<Rightarrow> nat \<Rightarrow> nat" where
  "zero_run gs i = length (takeWhile (\<lambda>g. g = 0) (drop i gs))"

definition ip_String :: "ip \<Rightarrow> string" where
  "ip_String i =
     (if i = [] then ''<nil>''
      else if length i \<noteq> 4 \<and> length i \<noteq> 16 then
        ''?'' @ concat (map (\<lambda>b. [''0123456789abcdef'' ! (unat b div 16), ''0123456789abcdef'' ! (unat b mod 16)]) i)
      else case To4 i of
        Some v4 \<Rightarrow> join_text ''.'' (map byte_text v4)
      | None \<Rightarrow>
          let gs = groups i;
              best = foldl (\<lambda>m k. max m (zero_run gs k)) 0 [0..<8]
          in if best < 2 then join_text '':'' (map hex_text gs)
             else let k = hd (filter (\<lambda>k. zero_run gs k = best) [0..<8])
               in join_text '':'' (map hex_text (take k gs)) @ ''::'' @
                  join_text '':'' (map hex_text (drop (k + best) gs)))"

subsection \<open>Bytes under the masks\<close>

lemma all_bytes: "list_all P (map of_nat [0..<256]) \<Longrightarrow> P (b :: 8 word)"
proof -
  assume "list_all P (map of_nat [0..<256])"
  then have all: "\<And>n. n < 256 \<Longrightarrow> P (of_nat n)"
    by (simp add: list_all_iff)
  have "unat b < 2 ^ LENGTH(8)"
    by (rule unsigned_less)
  then have "P (of_nat (unat b))"
    by (intro all) simp
  then show "P b"
    by simp
qed

lemma byte_and_255: "(b :: 8 word) AND 255 = b"
  by (rule all_bytes [where P = "\<lambda>b. b AND 255 = b"]) code_simp

lemma byte_and_240: "(b :: 8 word) AND 240 = 16 \<longleftrightarrow> 16 \<le> b \<and> b \<le> 31"
  by (rule all_bytes [where P = "\<lambda>b. b AND 240 = 16 \<longleftrightarrow> 16 \<le> b \<and> b \<le> 31"]) code_simp

lemma byte_and_254: "(b :: 8 word) AND 254 = 252 \<longleftrightarrow> 252 \<le> b \<and> b \<le> 253"
  by (rule all_bytes [where P = "\<lambda>b. b AND 254 = 252 \<longleftrightarrow> 252 \<le> b \<and> b \<le> 253"]) code_simp

lemma byte_and_192: "(b :: 8 word) AND 192 = 128 \<longleftrightarrow> 128 \<le> b \<and> b \<le> 191"
  by (rule all_bytes [where P = "\<lambda>b. b AND 192 = 128 \<longleftrightarrow> 128 \<le> b \<and> b \<le> 191"]) code_simp

lemmas byte_masks = byte_and_255 byte_and_240 byte_and_254 byte_and_192

subsection \<open>The eight networks, and membership in them\<close>

definition in_network :: "ip \<Rightarrow> ip \<Rightarrow> ip \<Rightarrow> bool" where
  "in_network nn m i \<longleftrightarrow> length i = length nn \<and>
     list_all (\<lambda>(a, b, c). a AND b = c AND b) (zip nn (zip m i))"

lemma Contains_eq:
  "networkNumberAndMask n = Some (nn, m) \<Longrightarrow>
     Contains n i = in_network nn m (case To4 i of Some x \<Rightarrow> x | None \<Rightarrow> i)"
  by (simp add: Contains_def in_network_def Let_def)

lemma private_networks:
  "map networkNumberAndMask privateRanges =
     [Some ([10, 0, 0, 0], [255, 0, 0, 0]),
      Some ([172, 16, 0, 0], [255, 240, 0, 0]),
      Some ([192, 168, 0, 0], [255, 255, 0, 0]),
      Some ([127, 0, 0, 0], [255, 0, 0, 0]),
      Some ([169, 254, 0, 0], [255, 255, 0, 0]),
      Some (replicate 15 0 @ [1], replicate 16 255),
      Some (252 # replicate 15 0, 254 # replicate 15 0),
      Some ([254, 128] @ replicate 14 0, [255, 192] @ replicate 14 0)]"
  by code_simp

lemma isPrivateIP_networks:
  "isPrivateIP i = (let x = (case To4 i of Some x \<Rightarrow> x | None \<Rightarrow> i) in
     in_network [10, 0, 0, 0] [255, 0, 0, 0] x \<or>
     in_network [172, 16, 0, 0] [255, 240, 0, 0] x \<or>
     in_network [192, 168, 0, 0] [255, 255, 0, 0] x \<or>
     in_network [127, 0, 0, 0] [255, 0, 0, 0] x \<or>
     in_network [169, 254, 0, 0] [255, 255, 0, 0] x \<or>
     in_network (replicate 15 0 @ [1]) (replicate 16 255) x \<or>
     in_network (252 # replicate 15 0) (254 # replicate 15 0) x \<or>
     in_network ([254, 128] @ replicate 14 0) ([255, 192] @ replicate 14 0) x)"
  using private_networks
  by (simp add: isPrivateIP_def privateRanges_def Contains_eq Let_def)

lemma isPrivateIP_v4:
  "isPrivateIP [a, b, c, d] \<longleftrightarrow>
     a = 10 \<or> a = 172 \<and> 16 \<le> b \<and> b \<le> 31 \<or> a = 192 \<and> b = 168 \<or> a = 127 \<or> a = 169 \<and> b = 254"
  by (auto simp: isPrivateIP_networks To4_def in_network_def byte_masks)

lemma isPrivateIP_mapped:
  "isPrivateIP (replicate 10 0 @ [255, 255, a, b, c, d]) = isPrivateIP [a, b, c, d]"
  by (simp add: isPrivateIP_networks To4_def eval_nat_numeral)

lemma isPrivateIP_v6:
  assumes "length i = 16" and "To4 i = None"
  shows "isPrivateIP i \<longleftrightarrow> i = replicate 15 0 @ [1] \<or>
     252 \<le> hd i \<and> hd i \<le> 253 \<or> hd i = 254 \<and> 128 \<le> i ! 1 \<and> i ! 1 \<le> 191"
proof -
  obtain x0 x1 x2 x3 x4 x5 x6 x7 x8 x9 xa xb xc xd xe xf where
    i: "i = [x0, x1, x2, x3, x4, x5, x6, x7, x8, x9, xa, xb, xc, xd, xe, xf]"
    using assms(1) by (auto simp: length_Suc_conv eval_nat_numeral)
  show ?thesis
    using assms(2) unfolding i
    by (auto simp: isPrivateIP_networks in_network_def byte_masks eval_nat_numeral)
qed

subsection \<open>Properties\<close>

text \<open>
  C33: The blocked addresses are exactly 10/8, 172.16/12, 192.168/16, 127/8 and 169.254/16, whether
  they are written with 4 bytes or as IPv4-mapped IPv6 addresses, and of the other IPv6 addresses
  \<^verbatim>\<open>::1\<close>, \<^verbatim>\<open>fc00::/7\<close> and \<^verbatim>\<open>fe80::/10\<close>.
\<close>

theorem blocked_addresses:
  assumes "length i = 16" and "To4 i = None"
  shows "(isPrivateIP [a, b, c, d] \<longleftrightarrow>
      a = 10 \<or> a = 172 \<and> 16 \<le> b \<and> b \<le> 31 \<or> a = 192 \<and> b = 168 \<or> a = 127 \<or> a = 169 \<and> b = 254) \<and>
    isPrivateIP (replicate 10 0 @ [255, 255, a, b, c, d]) = isPrivateIP [a, b, c, d] \<and>
    (isPrivateIP i \<longleftrightarrow> i = replicate 15 0 @ [1] \<or>
      252 \<le> hd i \<and> hd i \<le> 253 \<or> hd i = 254 \<and> 128 \<le> i ! 1 \<and> i ! 1 \<le> 191)"
  using isPrivateIP_v6 [OF assms] by (simp add: isPrivateIP_v4 isPrivateIP_mapped)

theorem blocked_addresses_witness:
  "isPrivateIP (0xfd # replicate 15 0) \<and> isPrivateIP [172, 17, 0, 1]"
proof -
  have "To4 (0xfd # replicate 15 0) = None" "length (0xfd # replicate 15 0 :: ip) = 16"
    "(252 :: 8 word) \<le> 0xfd" "(0xfd :: 8 word) \<le> 253" "(16 :: 8 word) \<le> 17" "(17 :: 8 word) \<le> 31"
    by code_simp+
  then show ?thesis
    using blocked_addresses [of "0xfd # replicate 15 0" 172 17 0 1] by (simp only: list.sel) blast
qed

text \<open>
  The unspecified addresses, which reach the local host on most systems, are not blocked.
\<close>

theorem unspecified_not_blocked:
  "\<not> isPrivateIP [0, 0, 0, 0] \<and> \<not> isPrivateIP (replicate 16 0)"
  by code_simp

end
