(* ===== verification/Fetcher.thy ===== *)
theory Fetcher
  imports GoErrors Models GoStd Urls IPRanges
begin

section \<open>The HTTP fetcher (pkg/fetcher)\<close>

text \<open>
  The \<open>Fetcher\<close> interface, its production implementation with the SSRF check, the redirect limit,
  the header redaction and the bounded body, and the test double. What lies outside is a parameter
  of type \<open>http_env\<close>: the resolver, the transport that sends one request, and the texts of the errors
  of \<^verbatim>\<open>net/url\<close> and \<^verbatim>\<open>net/http\<close>.
\<close>

subsection \<open>Results (fetcher.go)\<close>

record CookieInfo =
  Name_i :: string
  Value_i :: string
  Domain_i :: string
  Path_i :: string
  HTTPOnly_i :: bool
  Secure_i :: bool

record FetcherResult =
  StatusCode_f :: int
  Headers_f :: headers
  Cookies_f :: "CookieInfo list"
  PageSource_f :: string
  PageSourceSizeBytes_f :: int
  FetchDurationMs_f :: int
  FetchedAt_f :: time

record 'f Fetcher =
  Fetch :: "string \<Rightarrow> bool \<Rightarrow> ('f, goerr + FetcherResult) io"

text \<open>The fields of \<^verbatim>\<open>http.Cookie\<close> the code reads.\<close>

record http_Cookie =
  Name_h :: string
  Value_h :: string
  Domain_h :: string
  Path_h :: string
  HttpOnly_h :: bool
  Secure_h :: bool

definition CookieFromHTTP :: "http_Cookie \<Rightarrow> CookieInfo" where
  "CookieFromHTTP c = \<lparr>Name_i = Name_h c, Value_i = Value_h c, Domain_i = Domain_h c,
     Path_i = Path_h c, HTTPOnly_i = HttpOnly_h c, Secure_i = Secure_h c\<rparr>"

subsection \<open>The outside world\<close>

record http_request =
  req_url :: string
  req_headers :: headers

text \<open>
  A response: \<open>resp_redirect\<close> is the absolute URL that \<^verbatim>\<open>net/http\<close> would follow (\<open>None\<close> for a response
  that is no redirect or has no location); the body is its bytes and the error, if any, that comes
  after them.
\<close>

record http_response =
  resp_status :: int
  resp_header :: headers
  resp_cookies :: "http_Cookie list"
  resp_redirect :: "string option"
  resp_body :: string
  resp_body_err :: "goerr option"

record 'f http_env =
  LookupIP :: "string \<Rightarrow> ('f, goerr + ip list) io"
  parse_Error :: "string \<Rightarrow> goerr"
  Send :: "http_request \<Rightarrow> ('f, goerr + http_response) io"
  url_Error :: "string \<Rightarrow> goerr \<Rightarrow> goerr"

subsection \<open>Redaction\<close>

definition sensitiveHeaders :: "string \<Rightarrow> bool" where
  "sensitiveHeaders key \<longleftrightarrow> key = ''Set-Cookie'' \<or> key = ''Authorization''"

definition sanitizeHeaders :: "headers \<Rightarrow> headers" where
  "sanitizeHeaders h = (\<lambda>key.
     case h key of
       None \<Rightarrow> None
     | Some values \<Rightarrow> Some (if sensitiveHeaders key then [''[REDACTED]''] else values))"

subsection \<open>The SSRF check\<close>

definition extractHost :: "string \<Rightarrow> string" where
  "extractHost rawURL =
     (case url_Parse rawURL of
        None \<Rightarrow> ''''
      | Some parsed \<Rightarrow> if Host parsed = '''' then '''' else Hostname (Host parsed))"

text \<open>The text of the refusal holds an em dash, three bytes in UTF-8.\<close>

definition em_dash :: string where
  "em_dash = [CHR 0xE2, CHR 0x80, CHR 0x94]"

definition blocked_error :: "ip \<Rightarrow> goerr" where
  "blocked_error i = Opaque
     (''URL resolves to private IP '' @ ip_String i @ '' '' @ em_dash @ '' blocked'')"

definition validateURLSafety :: "'f http_env \<Rightarrow> string \<Rightarrow> ('f, goerr option) io" where
  "validateURLSafety env rawURL =
     (let host = extractHost rawURL
      in if host = '''' then ret (Some (Opaque ''unable to extract host from URL''))
         else do {
           r \<leftarrow> LookupIP env host;
           ret (case r of
               Inl err \<Rightarrow> None
             | Inr ips \<Rightarrow> (case List.find isPrivateIP ips of
                   Some i \<Rightarrow> Some (blocked_error i)
                 | None \<Rightarrow> None))
         })"

subsection \<open>The HTTP client\<close>

text \<open>
  The time-outs and limits of \<^verbatim>\<open>http.Client\<close> and its transport; what they cut off is an error of \<open>Send\<close>
  or of reading the body.
\<close>

record http_client =
  client_Timeout :: duration
  DialTimeout :: duration
  KeepAlive :: duration
  TLSHandshakeTimeout :: duration
  ResponseHeaderTimeout :: duration
  MaxIdleConns :: int
  MaxIdleConnsPerHost :: int

record HTTPFetcher =
  client :: http_client
  maxRedirects :: int
  skipSSRF :: bool

definition NewHTTPFetcher :: "duration \<Rightarrow> int \<Rightarrow> bool \<Rightarrow> HTTPFetcher" where
  "NewHTTPFetcher timeout max_redirects disableSSRF =
     \<lparr>client = \<lparr>client_Timeout = timeout, DialTimeout = 10 * Second, KeepAlive = 30 * Second,
        TLSHandshakeTimeout = 10 * Second, ResponseHeaderTimeout = timeout, MaxIdleConns = 100,
        MaxIdleConnsPerHost = 10\<rparr>,
      maxRedirects = max_redirects, skipSSRF = disableSSRF\<rparr>"

text \<open>\<open>via\<close> is the number of requests already made.\<close>

definition CheckRedirect :: "int \<Rightarrow> nat \<Rightarrow> goerr option" where
  "CheckRedirect max_redirects via =
     (if int via \<ge> max_redirects
      then Some (Opaque (''too many redirects (max '' @ Itoa max_redirects @ '')''))
      else None)"

text \<open>
  \<^verbatim>\<open>http.Client.Do\<close>: send, and while the answer is a redirect ask \<open>CheckRedirect\<close> with the requests
  made so far and go on with the new location. It stops because \<open>CheckRedirect\<close> refuses once
  \<open>max_redirects\<close> requests were made.
\<close>

function client_Do ::
  "'f http_env \<Rightarrow> int \<Rightarrow> nat \<Rightarrow> http_request \<Rightarrow> ('f, goerr + http_response) io" where
  "client_Do env max_redirects via req = do {
     r \<leftarrow> Send env req;
     (case r of
        Inl err \<Rightarrow> ret (Inl (url_Error env (req_url req) err))
      | Inr resp \<Rightarrow>
          (case resp_redirect resp of
             None \<Rightarrow> ret (Inr resp)
           | Some location \<Rightarrow>
               (case CheckRedirect max_redirects (Suc via) of
                  Some err \<Rightarrow> ret (Inl (url_Error env location err))
                | None \<Rightarrow>
                    client_Do env max_redirects (Suc via) (req\<lparr>req_url := location\<rparr>))))
   }"
  by pat_completeness auto
termination
  by (relation "measure (\<lambda>(env, max_redirects, via, req). nat (max_redirects - int via))")
    (auto simp: CheckRedirect_def split: if_splits)

declare client_Do.simps [simp del]

definition body_limit :: nat where
  "body_limit = 5 * 1024 * 1024"

text \<open>\<^verbatim>\<open>io.ReadAll(io.LimitReader(body, limit))\<close>: an error past the limit is never seen.\<close>

definition ReadLimited :: "http_response \<Rightarrow> goerr + string" where
  "ReadLimited resp =
     (if length (resp_body resp) < body_limit
      then (case resp_body_err resp of Some e \<Rightarrow> Inl e | None \<Rightarrow> Inr (resp_body resp))
      else Inr (take body_limit (resp_body resp)))"

text \<open>\<^verbatim>\<open>Duration.Milliseconds()\<close> truncates towards zero.\<close>

definition Milliseconds :: "duration \<Rightarrow> int" where
  "Milliseconds d = (if d \<ge> 0 then d div Millisecond else - ((- d) div Millisecond))"

definition fetch_request :: "string \<Rightarrow> http_request" where
  "fetch_request url = \<lparr>req_url = url, req_headers = [
     ''User-Agent'' \<mapsto> [''MetadataInventory/1.0 (compatible; metadata-fetcher)''],
     ''Accept'' \<mapsto> [''text/html,application/xhtml+xml,application/xml;q=0.9,*/*;q=0.8'']]\<rparr>"

text \<open>
  The three stages of \<open>Fetch\<close> (\<^verbatim>\<open>http.NewRequest\<close> fails exactly when the URL does not parse): what it makes of a response, the request without the check, and the
  whole method.
\<close>

definition extract_result ::
  "time \<Rightarrow> bool \<Rightarrow> http_response \<Rightarrow> ('f, goerr + FetcherResult) io" where
  "extract_result start includePageSource resp = do {
     now \<leftarrow> time_Now;
     fetchedAt \<leftarrow> time_Now;
     let result = \<lparr>StatusCode_f = resp_status resp,
           Headers_f = sanitizeHeaders (resp_header resp),
           Cookies_f = map CookieFromHTTP (resp_cookies resp),
           PageSource_f = '''', PageSourceSizeBytes_f = 0,
           FetchDurationMs_f = Milliseconds (now - start),
           FetchedAt_f = fetchedAt\<rparr>;
     ret (if includePageSource then
            (case ReadLimited resp of
               Inl err \<Rightarrow> Inl (ErrorfW ''read body'' err)
             | Inr body \<Rightarrow> Inr (result\<lparr>PageSource_f := body,
                 PageSourceSizeBytes_f := int (length body)\<rparr>))
          else Inr result)
   }"

definition fetch_unchecked ::
  "'f http_env \<Rightarrow> HTTPFetcher \<Rightarrow> string \<Rightarrow> bool \<Rightarrow> ('f, goerr + FetcherResult) io" where
  "fetch_unchecked env f url includePageSource = do {
     start \<leftarrow> time_Now;
     (case url_Parse url of
        None \<Rightarrow> ret (Inl (ErrorfW ''create request'' (parse_Error env url)))
      | Some _ \<Rightarrow> do {
          r \<leftarrow> client_Do env (maxRedirects f) 0 (fetch_request url);
          (case r of
             Inl err \<Rightarrow> ret (Inl (ErrorfW ''http fetch'' err))
           | Inr resp \<Rightarrow> extract_result start includePageSource resp)
        })
   }"

definition http_Fetch ::
  "'f http_env \<Rightarrow> HTTPFetcher \<Rightarrow> string \<Rightarrow> bool \<Rightarrow> ('f, goerr + FetcherResult) io" where
  "http_Fetch env f url includePageSource = do {
     unsafe \<leftarrow> (if \<not> skipSSRF f then validateURLSafety env url else ret None);
     (case unsafe of
        Some err \<Rightarrow> ret (Inl (ErrorfW ''ssrf protection'' err))
      | None \<Rightarrow> fetch_unchecked env f url includePageSource)
   }"

definition http_fetcher :: "'f http_env \<Rightarrow> HTTPFetcher \<Rightarrow> 'f Fetcher" where
  "http_fetcher env f = \<lparr>Fetch = http_Fetch env f\<rparr>"

subsection \<open>The test double (mock_fetcher.go)\<close>

record MockFetcher =
  Result_m :: "FetcherResult option"
  Err_m :: "goerr option"
  Called :: int
  LastURL :: string

definition mock_default_result :: "time \<Rightarrow> FetcherResult" where
  "mock_default_result now = \<lparr>StatusCode_f = 200,
     Headers_f = [''Content-Type'' \<mapsto> [''text/html; charset=utf-8''],
                  ''Server'' \<mapsto> [''MockServer/1.0'']],
     Cookies_f = [\<lparr>Name_i = ''session'', Value_i = ''abc123'', Domain_i = '''', Path_i = '''',
                   HTTPOnly_i = True, Secure_i = True\<rparr>],
     PageSource_f = ''<html><body>mock</body></html>'', PageSourceSizeBytes_f = 29,
     FetchDurationMs_f = 42, FetchedAt_f = now\<rparr>"

definition mock_Fetch :: "string \<Rightarrow> bool \<Rightarrow> (MockFetcher, goerr + FetcherResult) io" where
  "mock_Fetch url includePageSource = do {
     m \<leftarrow> act (\<lambda>m. let m = m\<lparr>Called := Called m + 1, LastURL := url\<rparr> in (m, m));
     (case Err_m m of
        Some e \<Rightarrow> ret (Inl e)
      | None \<Rightarrow>
          (case Result_m m of
             Some r \<Rightarrow> ret (Inr r)
           | None \<Rightarrow> do { now \<leftarrow> time_Now; ret (Inr (mock_default_result now)) }))
   }"

definition mock_fetcher :: "MockFetcher Fetcher" where
  "mock_fetcher = \<lparr>Fetch = mock_Fetch\<rparr>"

subsection \<open>What a fetch result promises\<close>

text \<open>
  The contract the callers that store a result rely on: no page source unless it was asked for, its
  size recorded correctly and bounded, and the sensitive headers redacted.
\<close>

definition clean_result :: "bool \<Rightarrow> FetcherResult \<Rightarrow> bool" where
  "clean_result includePageSource r \<longleftrightarrow>
     (\<not> includePageSource \<longrightarrow> PageSource_f r = '''')
     \<and> PageSourceSizeBytes_f r = int (length (PageSource_f r))
     \<and> length (PageSource_f r) \<le> body_limit
     \<and> (\<forall>key values. Headers_f r key = Some values \<longrightarrow> sensitiveHeaders key \<longrightarrow>
          values = [''[REDACTED]''])"

text \<open>The contract of the interface, for any such promise \<open>good\<close>.\<close>

locale fetcher_contract =
  fixes F :: "'f Fetcher"
    and good :: "bool \<Rightarrow> FetcherResult \<Rightarrow> bool"
  assumes fetch_good: "wp (Fetch F url inc) (\<lambda>r _. \<forall>res. r = Inr res \<longrightarrow> good inc res) (s, c)"
begin

lemma fetch_rule:
  assumes "\<And>e s' c'. Q (Inl e) (s', c')"
    and "\<And>res s' c'. good inc res \<Longrightarrow> Q (Inr res) (s', c')"
  shows "wp (Fetch F url inc) Q (s, c)"
proof (rule wp_mono [OF fetch_good])
  fix r :: "goerr + FetcherResult" and t :: "'f \<times> clock"
  assume "\<forall>res. r = Inr res \<longrightarrow> good inc res"
  then show "Q r t"
    using assms by (cases r; cases t) auto
qed

end

lemma ReadLimited_length: "ReadLimited resp = Inr body \<Longrightarrow> length body \<le> body_limit"
  by (auto simp: ReadLimited_def split: if_splits option.splits)

lemma sanitizeHeaders_sensitive:
  "sanitizeHeaders h key = Some values \<Longrightarrow> sensitiveHeaders key \<Longrightarrow> values = [''[REDACTED]'']"
  by (auto simp: sanitizeHeaders_def split: option.splits)

lemma extract_result_clean:
  "wp (extract_result start inc resp) (\<lambda>r _. \<forall>res. r = Inr res \<longrightarrow> clean_result inc res) s"
  using ReadLimited_length sanitizeHeaders_sensitive
  by (cases s) (auto simp: extract_result_def Let_def clean_result_def split: sum.splits)

lemma fetch_unchecked_clean:
  "wp (fetch_unchecked env f url inc) (\<lambda>r _. \<forall>res. r = Inr res \<longrightarrow> clean_result inc res) s"
  unfolding fetch_unchecked_def wp_bind
  by (rule wp_any, simp split: option.split, intro impI, rule wp_any)
    (simp add: extract_result_clean split: sum.split)

lemma http_Fetch_clean:
  "wp (http_Fetch env f url inc) (\<lambda>r _. \<forall>res. r = Inr res \<longrightarrow> clean_result inc res) s"
  unfolding http_Fetch_def wp_bind
  by (rule wp_any) (simp add: fetch_unchecked_clean split: option.split)

interpretation http: fetcher_contract "http_fetcher env f" clean_result for env f
  by unfold_locales (simp add: http_fetcher_def http_Fetch_clean)

text \<open>The test double promises nothing: it returns what the test gave it.\<close>

interpretation mockf: fetcher_contract mock_fetcher "\<lambda>_ _. True"
  by unfold_locales (simp add: wp_any)

subsection \<open>The requests a fetch sends\<close>

locale http_transport =
  fixes env :: "'f http_env"
    and requests :: "'f \<Rightarrow> string list"
  assumes send_request: "wp (Send env req) (\<lambda>_ (s', c'). requests s' = requests s @ [req_url req]) (s, c)"
    and lookup_no_request: "wp (LookupIP env host) (\<lambda>_ (s', c'). requests s' = requests s) (s, c)"
begin

lemma client_Do_requests:
  "wp (client_Do env m via req) (\<lambda>_ (s', c'). \<exists>urls. requests s' = requests s @ req_url req # urls
     \<and> int via + int (length urls) < max m (int via + 1)) (s, c)"
proof (induction "nat (m - int via)" arbitrary: via req s c rule: less_induct)
  case less
  show ?case
    unfolding client_Do.simps [of env m via req] wp_bind
  proof (rule wp_mono [OF send_request], clarify)
    fix r s1 c1
    assume s1: "requests s1 = requests s @ [req_url req]"
    show "wp (case r of Inl err \<Rightarrow> ret (Inl (url_Error env (req_url req) err))
        | Inr resp \<Rightarrow> (case resp_redirect resp of
            None \<Rightarrow> ret (Inr resp)
          | Some location \<Rightarrow> (case CheckRedirect m (Suc via) of
              None \<Rightarrow> client_Do env m (Suc via) (req\<lparr>req_url := location\<rparr>)
            | Some err \<Rightarrow> ret (Inl (url_Error env location err)))))
      (\<lambda>_ (s', c'). \<exists>urls. requests s' = requests s @ req_url req # urls
        \<and> int via + int (length urls) < max m (int via + 1)) (s1, c1)"
    proof (cases "\<exists>resp location. r = Inr resp \<and> resp_redirect resp = Some location
        \<and> int (Suc via) < m")
      case True
      then obtain resp location where r: "r = Inr resp" "resp_redirect resp = Some location"
          "int (Suc via) < m"
        by blast
      have "wp (client_Do env m (Suc via) (req\<lparr>req_url := location\<rparr>))
          (\<lambda>_ (s', c'). \<exists>urls. requests s' = requests s1 @ location # urls
            \<and> int (Suc via) + int (length urls) < max m (int (Suc via) + 1)) (s1, c1)"
        using less [of "Suc via" "req\<lparr>req_url := location\<rparr>" s1 c1] r(3) by simp
      then have "wp (client_Do env m (Suc via) (req\<lparr>req_url := location\<rparr>))
          (\<lambda>_ (s', c'). \<exists>urls. requests s' = requests s @ req_url req # urls
            \<and> int via + int (length urls) < max m (int via + 1)) (s1, c1)"
      proof (rule wp_mono, clarify)
        fix s' urls
        assume "requests s' = requests s1 @ location # urls"
          "int (Suc via) + int (length urls) < max m (int (Suc via) + 1)"
        then show "\<exists>urls. requests s' = requests s @ req_url req # urls
            \<and> int via + int (length urls) < max m (int via + 1)"
          using s1 r(3) by (intro exI [of _ "location # urls"]) auto
      qed
      then show ?thesis
        using r by (simp add: CheckRedirect_def)
    next
      case False
      then show ?thesis
        using s1 by (auto simp: CheckRedirect_def split: sum.split option.split)
    qed
  qed
qed

lemma validateURLSafety_requests:
  "wp (validateURLSafety env url) (\<lambda>_ (s', c'). requests s' = requests s) (s, c)"
  by (auto simp: validateURLSafety_def Let_def intro: lookup_no_request)

lemma extract_result_requests:
  "wp (extract_result start inc resp) (\<lambda>_ (s', c'). requests s' = requests s) (s, c)"
  by (simp add: extract_result_def Let_def)

text \<open>A fetch sends no request, or its own URL first and at most \<open>maxRedirects\<close> requests in all.\<close>

definition bounded_requests :: "int \<Rightarrow> string \<Rightarrow> string list \<Rightarrow> string list \<Rightarrow> bool" where
  "bounded_requests m url before after \<longleftrightarrow> after = before \<or>
     (\<exists>urls. after = before @ url # urls \<and> int (length urls) < max m 1)"

lemma fetch_unchecked_requests:
  "wp (fetch_unchecked env f url inc)
     (\<lambda>_ (s', c'). bounded_requests (maxRedirects f) url (requests s) (requests s')) (s, c)"
proof (cases "url_Parse url")
  case (Some u)
  have "wp (client_Do env (maxRedirects f) 0 (fetch_request url))
      (\<lambda>r. wp (case r of Inl err \<Rightarrow> ret (Inl (ErrorfW ''http fetch'' err))
           | Inr resp \<Rightarrow> extract_result (c 0) inc resp)
        (\<lambda>_ (s', c'). bounded_requests (maxRedirects f) url (requests s) (requests s')))
      (s, c1)" for c1
  proof (rule wp_mono [OF client_Do_requests], clarify)
    fix r s1 c1 urls
    assume "requests s1 = requests s @ req_url (fetch_request url) # urls"
      "int 0 + int (length urls) < max (maxRedirects f) (int 0 + 1)"
    then have "bounded_requests (maxRedirects f) url (requests s) (requests s1)"
      by (auto simp: bounded_requests_def fetch_request_def)
    then show "wp (case r of Inl err \<Rightarrow> ret (Inl (ErrorfW ''http fetch'' err))
           | Inr resp \<Rightarrow> extract_result (c 0) inc resp)
        (\<lambda>_ (s', c'). bounded_requests (maxRedirects f) url (requests s) (requests s')) (s1, c1)"
      by (auto split: sum.split intro: wp_mono [OF extract_result_requests])
  qed
  with Some show ?thesis
    by (simp add: fetch_unchecked_def)
qed (simp add: fetch_unchecked_def bounded_requests_def)

lemma http_Fetch_requests:
  "wp (http_Fetch env f url inc)
     (\<lambda>_ (s', c'). bounded_requests (maxRedirects f) url (requests s) (requests s')) (s, c)"
proof -
  have "wp (if \<not> skipSSRF f then validateURLSafety env url else ret None)
      (\<lambda>_ (s', c'). requests s' = requests s) (s, c)"
    by (simp add: validateURLSafety_requests)
  then show ?thesis
    unfolding http_Fetch_def wp_bind
    by (rule wp_mono) (auto split: option.split simp: bounded_requests_def
        intro: wp_mono [OF fetch_unchecked_requests])
qed

end

subsection \<open>A scripted network\<close>

text \<open>
  A world with a fixed resolver and fixed responses that logs the requests it receives: it shows
  that the laws of \<open>http_transport\<close> hold together, and the closed statements run the fetcher on it.
  An unknown name does not resolve and an unknown URL is not reachable.
\<close>

record net =
  net_log :: "string list"
  net_ips :: "string \<rightharpoonup> ip list"
  net_pages :: "string \<rightharpoonup> http_response"

definition net_env :: "net http_env" where
  "net_env = \<lparr>LookupIP = (\<lambda>host. act (\<lambda>n. (case net_ips n host of
         None \<Rightarrow> Inl (Opaque ''no such host'') | Some ips \<Rightarrow> Inr ips, n))),
     parse_Error = (\<lambda>_. Opaque ''parse''),
     Send = (\<lambda>req. act (\<lambda>n. (case net_pages n (req_url req) of
         None \<Rightarrow> Inl (Opaque ''connection refused'') | Some p \<Rightarrow> Inr p,
         n\<lparr>net_log := net_log n @ [req_url req]\<rparr>))),
     url_Error = (\<lambda>_ e. ErrorfW ''Get'' e)\<rparr>"

interpretation net: http_transport net_env net_log
  by unfold_locales (simp_all add: net_env_def)

subsection \<open>Properties\<close>


text \<open>A page for the closed statements.\<close>

definition page :: "string option \<Rightarrow> string \<Rightarrow> http_response" where
  "page location body = \<lparr>resp_status = (if location = None then 200 else 302),
     resp_header = [''Set-Cookie'' \<mapsto> [''sid=1'']],
     resp_cookies = [\<lparr>Name_h = ''sid'', Value_h = ''1'', Domain_h = '''', Path_h = '''',
       HttpOnly_h = True, Secure_h = True\<rparr>],
     resp_redirect = location, resp_body = body, resp_body_err = None\<rparr>"

definition sample_net :: net where
  "sample_net = \<lparr>net_log = [],
     net_ips = [''a.com'' \<mapsto> [[93, 184, 216, 34]], ''db.local'' \<mapsto> [[10, 0, 0, 1]]],
     net_pages = [''http://a.com/'' \<mapsto> page (Some ''http://db.local/'') '''',
       ''http://db.local/'' \<mapsto> page None ''secret'']\<rparr>"

lemma sample_hosts [simp]:
  "extractHost ''http://a.com/'' = ''a.com''"
  "extractHost ''http://db.local/'' = ''db.local''"
  by code_simp+

lemma sample_urls [simp]:
  "url_Parse ''http://a.com/'' = Some \<lparr>Scheme = ''http'', Host = ''a.com''\<rparr>"
  "url_Parse ''http://db.local/'' = Some \<lparr>Scheme = ''http'', Host = ''db.local''\<rparr>"
  by code_simp+

text \<open>Requests of a world are answered from its pages and logged.\<close>

lemma net_Send [simp]:
  "run_state (Send net_env req) (n, c) =
     ((case net_pages n (req_url req) of None \<Rightarrow> Inl (Opaque ''connection refused'') | Some p \<Rightarrow> Inr p),
      (n\<lparr>net_log := net_log n @ [req_url req]\<rparr>, c))"
  by (simp add: net_env_def)

lemma sample_pages [simp]:
  "net_pages sample_net ''http://a.com/'' = Some (page (Some ''http://db.local/'') '''')"
  "net_pages sample_net ''http://db.local/'' = Some (page None ''secret'')"
  "net_log sample_net = []" "net_ips sample_net ''db.local'' = Some [[10, 0, 0, 1]]"
  by (simp_all add: sample_net_def)

lemma page_simps [simp]:
  "resp_redirect (page location body) = location" "resp_body (page location body) = body"
  "resp_body_err (page location body) = None"
  "resp_header (page location body) = [''Set-Cookie'' \<mapsto> [''sid=1'']]"
  by (simp_all add: page_def)

lemma sample_lookup [simp]:
  "run_state (LookupIP net_env ''a.com'') (sample_net, c) = (Inr [[93, 184, 216, 34]], (sample_net, c))"
  "run_state (LookupIP net_env ''db.local'') (sample_net, c) = (Inr [[10, 0, 0, 1]], (sample_net, c))"
  by (simp_all add: net_env_def sample_net_def)


text \<open>
  C25: Only the first URL is checked: a public page that redirects to a private host is followed, the
  private page is requested, and its content is returned.
\<close>

theorem redirect_escapes_check:
  "(\<exists>res. outcome (http_Fetch net_env (NewHTTPFetcher (30 * Second) 10 False) ''http://a.com/'' True) (sample_net, int)
      = Inr res \<and> PageSource_f res = ''secret'') \<and>
   net_log (final (http_Fetch net_env (NewHTTPFetcher (30 * Second) 10 False) ''http://a.com/'' True) (sample_net, int))
     = [''http://a.com/'', ''http://db.local/''] \<and>
   isPrivateIP [10, 0, 0, 1] \<and> net_ips sample_net ''db.local'' = Some [[10, 0, 0, 1]]"
proof -
  have check: "run_state (validateURLSafety net_env ''http://a.com/'') (sample_net, int) =
      (None, (sample_net, int))"
    by (simp add: validateURLSafety_def Let_def isPrivateIP_v4)
  have "run_state (client_Do net_env 10 0 (fetch_request ''http://a.com/'')) (sample_net, c) =
      (Inr (page None ''secret''), (sample_net\<lparr>net_log := [''http://a.com/'', ''http://db.local/'']\<rparr>, c))" for c
    by (simp add: client_Do.simps fetch_request_def CheckRedirect_def)
  with check show ?thesis
    by (simp add: http_Fetch_def fetch_unchecked_def NewHTTPFetcher_def extract_result_def outcome_def
        final_def isPrivateIP_v4 ReadLimited_def body_limit_def Let_def)
qed



text \<open>
  C32: A result is clean: the page source is there only if it was asked for, is at most 5 MiB long and
  its size is recorded exactly; every \<^verbatim>\<open>Set-Cookie\<close> and \<^verbatim>\<open>Authorization\<close> header is redacted.
\<close>

theorem fetched_result_clean:
  assumes "outcome (http_Fetch env f url inc) (s, c) = Inr res"
  shows "(\<not> inc \<longrightarrow> PageSource_f res = '''') \<and>
    PageSourceSizeBytes_f res = int (length (PageSource_f res)) \<and>
    length (PageSource_f res) \<le> 5 * 1024 * 1024 \<and>
    (\<forall>key values. Headers_f res key = Some values \<longrightarrow> key \<in> {''Set-Cookie'', ''Authorization''} \<longrightarrow>
       values = [''[REDACTED]''])"
  using wpD [OF http_Fetch_clean [of env f url inc "(s, c)"]] assms
  by (cases "run_state (http_Fetch env f url inc) (s, c)")
    (auto simp: outcome_def clean_result_def body_limit_def sensitiveHeaders_def)

theorem fetched_result_clean_witness:
  "\<exists>res. outcome (http_Fetch net_env (NewHTTPFetcher (30 * Second) 10 True) ''http://db.local/'' False) (sample_net, int)
     = Inr res \<and> Headers_f res ''Set-Cookie'' = Some [''[REDACTED]''] \<and> PageSource_f res = ''''"
proof -
  have "run_state (client_Do net_env 10 0 (fetch_request ''http://db.local/'')) (sample_net, c) =
      (Inr (page None ''secret''), (sample_net\<lparr>net_log := [''http://db.local/'']\<rparr>, c))" for c
    by (simp add: client_Do.simps fetch_request_def)
  then have "\<exists>res. outcome (http_Fetch net_env (NewHTTPFetcher (30 * Second) 10 True) ''http://db.local/'' False)
      (sample_net, int) = Inr res \<and> Headers_f res ''Set-Cookie'' \<noteq> None"
    by (simp add: http_Fetch_def fetch_unchecked_def NewHTTPFetcher_def extract_result_def outcome_def
        sanitizeHeaders_def Let_def)
  then obtain res where "outcome (http_Fetch net_env (NewHTTPFetcher (30 * Second) 10 True) ''http://db.local/'' False)
      (sample_net, int) = Inr res" and "Headers_f res ''Set-Cookie'' \<noteq> None"
    by blast
  with fetched_result_clean [OF this(1)] show ?thesis
    by auto
qed

text \<open>
  A host that does not resolve passes the check: the fetch goes on as if the check were off.
\<close>

theorem unresolved_host_passes:
  assumes "extractHost url \<noteq> ''''"
    and "run_state (LookupIP env (extractHost url)) (s, c) = (Inl e, (s', c'))"
  shows "run_state (http_Fetch env f url inc) (if skipSSRF f then (s', c') else (s, c)) =
    run_state (fetch_unchecked env f url inc) (s', c')"
  using assms by (simp add: http_Fetch_def validateURLSafety_def Let_def)

theorem unresolved_host_passes_witness:
  "run_state (http_Fetch net_env (NewHTTPFetcher (30 * Second) 10 False) ''http://a.com/'' True) (sample_net\<lparr>net_ips := Map.empty\<rparr>, int)
   = run_state (fetch_unchecked net_env (NewHTTPFetcher (30 * Second) 10 False) ''http://a.com/'' True) (sample_net\<lparr>net_ips := Map.empty\<rparr>, int)"
  using unresolved_host_passes [of "''http://a.com/''" net_env "sample_net\<lparr>net_ips := Map.empty\<rparr>" int
      "Opaque ''no such host''" "sample_net\<lparr>net_ips := Map.empty\<rparr>" int "NewHTTPFetcher (30 * Second) 10 False" True]
  by (simp add: NewHTTPFetcher_def) (simp add: net_env_def)

end
