(* ===== verification/Unicode.thy ===== *)
theory Unicode
  imports GoStd
begin

section \<open>Strings as UTF-8 (\<open>unicode/utf8\<close>)\<close>

text \<open>
  A Go string is a sequence of bytes that need not be valid UTF-8; where \<^verbatim>\<open>encoding/json\<close> reads or
  writes one it goes through it rune by rune and replaces what is not valid.
\<close>

abbreviation ord :: "char \<Rightarrow> nat" where
  "ord \<equiv> of_char"

definition RuneError :: nat where
  "RuneError = 0xFFFD"

definition cont :: "char \<Rightarrow> bool" where
  "cont c \<longleftrightarrow> 0x80 \<le> ord c \<and> ord c \<le> 0xBF"

text \<open>
  The bytes that may follow the first one: how many bytes the rune has and the bounds of the second
  byte (\<open>first\<close> and \<open>acceptRanges\<close> in the library); \<open>None\<close> for a byte no rune starts with.
\<close>

definition rune_class :: "nat \<Rightarrow> (nat \<times> nat \<times> nat) option" where
  "rune_class b =
     (if 0xC2 \<le> b \<and> b \<le> 0xDF then Some (2, 0x80, 0xBF)
      else if b = 0xE0 then Some (3, 0xA0, 0xBF)
      else if b = 0xED then Some (3, 0x80, 0x9F)
      else if 0xE1 \<le> b \<and> b \<le> 0xEF then Some (3, 0x80, 0xBF)
      else if b = 0xF0 then Some (4, 0x90, 0xBF)
      else if 0xF1 \<le> b \<and> b \<le> 0xF3 then Some (4, 0x80, 0xBF)
      else if b = 0xF4 then Some (4, 0x80, 0x8F)
      else None)"

text \<open>The value of the bytes of a rune: the low bits of the first, six bits of each other.\<close>

definition rune_value :: "nat \<Rightarrow> string \<Rightarrow> nat" where
  "rune_value b cs = foldl (\<lambda>v c. v * 64 + (ord c - 0x80))
     (if length cs = 1 then b - 0xC0 else if length cs = 2 then b - 0xE0 else b - 0xF0) cs"

definition decode_rune :: "string \<Rightarrow> nat \<times> nat" where
  "decode_rune s =
     (case s of
        [] \<Rightarrow> (RuneError, 0)
      | c # r \<Rightarrow>
          if ord c < 0x80 then (ord c, 1)
          else (case rune_class (ord c) of
              None \<Rightarrow> (RuneError, 1)
            | Some (n, lo, hi) \<Rightarrow>
                let cs = take (n - 1) r
                in if length cs = n - 1 \<and> lo \<le> ord (hd cs) \<and> ord (hd cs) \<le> hi \<and> list_all cont (tl cs)
                   then (rune_value (ord c) cs, n)
                   else (RuneError, 1)))"

definition bytes_of :: "nat list \<Rightarrow> string" where
  "bytes_of = map char_of"

definition encode_rune :: "nat \<Rightarrow> string" where
  "encode_rune r =
     (if r < 0x80 then bytes_of [r]
      else if r < 0x800 then bytes_of [0xC0 + r div 64, 0x80 + r mod 64]
      else if 0xD800 \<le> r \<and> r \<le> 0xDFFF \<or> 0x10FFFF < r then bytes_of [0xEF, 0xBF, 0xBD]
      else if r < 0x10000 then bytes_of [0xE0 + r div 4096, 0x80 + r div 64 mod 64, 0x80 + r mod 64]
      else bytes_of [0xF0 + r div 262144, 0x80 + r div 4096 mod 64, 0x80 + r div 64 mod 64, 0x80 + r mod 64])"

text \<open>A rune that did not decode.\<close>

definition bad_rune :: "nat \<times> nat \<Rightarrow> bool" where
  "bad_rune p \<longleftrightarrow> p = (RuneError, 1)"

lemma decode_rune_size: "s \<noteq> [] \<Longrightarrow> 0 < snd (decode_rune s) \<and> snd (decode_rune s) \<le> length s"
  by (auto simp: decode_rune_def rune_class_def Let_def split: list.split if_splits)

lemma drop_rune_shorter: "s \<noteq> [] \<Longrightarrow> length (drop (snd (decode_rune s)) s) < length s"
  using decode_rune_size [of s] by simp

text \<open>A rune that decoded is written back as the bytes it was read from.\<close>

lemma good_rune_cases:
  assumes "decode_rune (c # r) = (ru, n)" and "\<not> bad_rune (ru, n)" and "0x80 \<le> ord c"
  obtains (two) c1 q where "r = c1 # q" "n = 2" "ru = (ord c - 0xC0) * 64 + (ord c1 - 0x80)"
      "0xC2 \<le> ord c" "ord c \<le> 0xDF" "cont c1"
  | (three) c1 c2 q where "r = c1 # c2 # q" "n = 3"
      "ru = ((ord c - 0xE0) * 64 + (ord c1 - 0x80)) * 64 + (ord c2 - 0x80)"
      "0xE0 \<le> ord c" "ord c \<le> 0xEF" "cont c1" "cont c2"
      "ord c = 0xE0 \<longrightarrow> 0xA0 \<le> ord c1" "ord c = 0xED \<longrightarrow> ord c1 \<le> 0x9F"
  | (four) c1 c2 c3 q where "r = c1 # c2 # c3 # q" "n = 4"
      "ru = (((ord c - 0xF0) * 64 + (ord c1 - 0x80)) * 64 + (ord c2 - 0x80)) * 64 + (ord c3 - 0x80)"
      "0xF0 \<le> ord c" "ord c \<le> 0xF4" "cont c1" "cont c2" "cont c3"
      "ord c = 0xF0 \<longrightarrow> 0x90 \<le> ord c1" "ord c = 0xF4 \<longrightarrow> ord c1 \<le> 0x8F"
proof -
  obtain k lo hi where cl: "rune_class (ord c) = Some (k, lo, hi)"
    using assms by (cases "rune_class (ord c)") (auto simp: decode_rune_def bad_rune_def)
  let ?cs = "take (k - 1) r"
  have ok: "length ?cs = k - 1" "lo \<le> ord (hd ?cs)" "ord (hd ?cs) \<le> hi" "list_all cont (tl ?cs)"
      "ru = rune_value (ord c) ?cs" "n = k"
    using assms cl by (auto simp: decode_rune_def bad_rune_def Let_def split: if_splits)
  consider "k = 2" | "k = 3" | "k = 4"
    using cl by (auto simp: rune_class_def split: if_splits)
  then show thesis
  proof cases
    case 1
    with ok(1) obtain c1 q where "r = c1 # q" by (cases r) auto
    with 1 ok cl show thesis
      by (intro two [of c1 q]) (auto simp: rune_class_def rune_value_def cont_def split: if_splits)
  next
    case 2
    with ok(1) obtain c1 c2 q where "r = c1 # c2 # q" by (cases r; cases "tl r") auto
    with 2 ok cl show thesis
      by (intro three [of c1 c2 q]) (auto simp: rune_class_def rune_value_def cont_def split: if_splits)
  next
    case 3
    with ok(1) obtain c1 c2 c3 q where "r = c1 # c2 # c3 # q"
      by (cases r; cases "tl r"; cases "tl (tl r)") auto
    with 3 ok cl show thesis
      by (intro four [of c1 c2 c3 q]) (auto simp: rune_class_def rune_value_def cont_def split: if_splits)
  qed
qed

lemma six_bits:
  "y \<le> 63 \<Longrightarrow> (a * 64 + y) div 64 = a"
  "y \<le> 63 \<Longrightarrow> (a * 64 + y) mod 64 = y"
  for a y :: nat
  by simp_all

lemma div_twice:
  "m div 4096 = m div 64 div 64"
  "m div 262144 = m div 64 div 64 div 64"
  for m :: nat
  by (simp_all flip: div_mult2_eq)

lemma encode_decode:
  assumes "decode_rune (c # r) = (ru, n)" and "\<not> bad_rune (ru, n)" and "0x80 \<le> ord c"
  shows "encode_rune ru = take n (c # r)"
  using assms
proof (cases rule: good_rune_cases)
  case (two c1 q)
  define x y where "x = ord c - 0xC0" and "y = ord c1 - 0x80"
  have b: "ord c = 0xC0 + x" "ord c1 = 0x80 + y" "2 \<le> x" "x \<le> 31" "y \<le> 63" "ru = x * 64 + y"
    using two by (auto simp: x_def y_def cont_def)
  then have "encode_rune ru = bytes_of [0xC0 + x, 0x80 + y]"
    by (simp add: encode_rune_def)
  also have "\<dots> = [c, c1]"
    using b(1,2) by (simp only: bytes_of_def list.map, metis char_of_char)
  finally show ?thesis
    using two by simp
next
  case (three c1 c2 q)
  define x y z where "x = ord c - 0xE0" and "y = ord c1 - 0x80" and "z = ord c2 - 0x80"
  have b: "ord c = 0xE0 + x" "ord c1 = 0x80 + y" "ord c2 = 0x80 + z" "x \<le> 15" "y \<le> 63" "z \<le> 63"
      "ru = (x * 64 + y) * 64 + z" "x = 0 \<longrightarrow> 32 \<le> y" "x = 13 \<longrightarrow> y \<le> 31"
    using three by (auto simp: x_def y_def z_def cont_def)
  have "ru div 4096 = x" "ru div 64 mod 64 = y" "ru mod 64 = z"
    by (simp_all only: b(7) div_twice six_bits [OF b(5)] six_bits [OF b(6)])
  moreover have "0x800 \<le> ru" "ru < 0x10000"
    using b(4-8) by (cases "x = 0"; simp)+
  moreover have "\<not> (0xD800 \<le> ru \<and> ru \<le> 0xDFFF)"
    using b(4-7,9) by (cases "x = 13"; cases "x < 13"; simp)
  ultimately have "encode_rune ru = bytes_of [0xE0 + x, 0x80 + y, 0x80 + z]"
    by (auto simp: encode_rune_def)
  also have "\<dots> = [c, c1, c2]"
    using b(1-3) by (simp only: bytes_of_def list.map, metis char_of_char)
  finally show ?thesis
    using three by simp
next
  case (four c1 c2 c3 q)
  define x y z u where "x = ord c - 0xF0" and "y = ord c1 - 0x80" and "z = ord c2 - 0x80"
    and "u = ord c3 - 0x80"
  have b: "ord c = 0xF0 + x" "ord c1 = 0x80 + y" "ord c2 = 0x80 + z" "ord c3 = 0x80 + u"
      "x \<le> 4" "y \<le> 63" "z \<le> 63" "u \<le> 63" "x = 0 \<longrightarrow> 16 \<le> y" "x = 4 \<longrightarrow> y \<le> 15"
    using four(4-) by (auto simp: x_def y_def z_def u_def cont_def)
  have ru: "ru = ((x * 64 + y) * 64 + z) * 64 + u"
    unfolding x_def y_def z_def u_def by (rule four(3))
  have "ru div 262144 = x" "ru div 4096 mod 64 = y" "ru div 64 mod 64 = z" "ru mod 64 = u"
    by (simp_all only: ru div_twice six_bits [OF b(6)] six_bits [OF b(7)] six_bits [OF b(8)])
  moreover have "0x10000 \<le> ru" "ru \<le> 0x10FFFF"
    using b(5-10) ru by (cases "x = 0"; cases "x = 4"; simp)+
  ultimately have "encode_rune ru = bytes_of [0xF0 + x, 0x80 + y, 0x80 + z, 0x80 + u]"
    by (simp add: encode_rune_def)
  also have "\<dots> = [c, c1, c2, c3]"
    using b(1-4) by (simp only: bytes_of_def list.map, metis char_of_char)
  finally show ?thesis
    using four by simp
qed

lemma encode_bad: "encode_rune RuneError = bytes_of [0xEF, 0xBF, 0xBD]"
  by (simp add: encode_rune_def RuneError_def)

text \<open>Decoding looks at the bytes of the rune only.\<close>

lemma decode_rune_append:
  assumes "\<not> bad_rune (decode_rune s)" and "s \<noteq> []"
  shows "decode_rune (take (snd (decode_rune s)) s @ t) = decode_rune s"
proof -
  obtain c r where s: "s = c # r"
    using assms(2) by (cases s) auto
  show ?thesis
  proof (cases "ord c < 0x80")
    case False
    then obtain k lo hi where cl: "rune_class (ord c) = Some (k, lo, hi)"
      using assms by (cases "rune_class (ord c)") (auto simp: s decode_rune_def bad_rune_def)
    moreover have "decode_rune s = (rune_value (ord c) (take (k - 1) r), k)" "length (take (k - 1) r) = k - 1"
      using assms cl False by (auto simp: s decode_rune_def bad_rune_def Let_def split: if_splits)
    moreover have "2 \<le> k"
      using cl by (auto simp: rune_class_def split: if_splits)
    ultimately show ?thesis
      using assms False
      by (cases k) (auto simp: s decode_rune_def bad_rune_def Let_def hd_append split: if_splits)
  qed (simp add: s decode_rune_def)
qed

subsection \<open>Valid strings\<close>

text \<open>What is left of a string when every byte that is not part of a rune becomes U+FFFD.\<close>

function to_valid :: "string \<Rightarrow> string" where
  "to_valid s =
     (if s = [] then [] else encode_rune (fst (decode_rune s)) @ to_valid (drop (snd (decode_rune s)) s))"
  by pat_completeness auto
termination
  by (relation "measure length") (auto simp: decode_rune_size)

function valid_utf8 :: "string \<Rightarrow> bool" where
  "valid_utf8 s \<longleftrightarrow>
     (if s = [] then True
      else \<not> bad_rune (decode_rune s) \<and> valid_utf8 (drop (snd (decode_rune s)) s))"
  by pat_completeness auto
termination
  by (relation "measure length") (auto simp: decode_rune_size)

declare to_valid.simps [simp del] valid_utf8.simps [simp del]

lemma encode_good:
  assumes "s \<noteq> []" and "\<not> bad_rune (decode_rune s)"
  shows "encode_rune (fst (decode_rune s)) = take (snd (decode_rune s)) s"
proof -
  obtain c r where s: "s = c # r"
    using assms(1) by (cases s) auto
  show ?thesis
  proof (cases "ord c < 0x80")
    case True
    then show ?thesis
      by (simp add: s decode_rune_def encode_rune_def bytes_of_def)
  next
    case False
    then show ?thesis
      using encode_decode [OF prod.collapse [symmetric], of c r] assms(2) by (simp add: s)
  qed
qed

lemma to_valid_Nil [simp]: "to_valid [] = []"
  by (simp add: to_valid.simps)

lemma valid_utf8_Nil [simp]: "valid_utf8 []"
  by (simp add: valid_utf8.simps)

lemma to_valid_id: "valid_utf8 s \<Longrightarrow> to_valid s = s"
proof (induction s rule: to_valid.induct)
  case (1 s)
  show ?case
  proof (cases "s = []")
    case False
    then have "\<not> bad_rune (decode_rune s)" "valid_utf8 (drop (snd (decode_rune s)) s)"
      using 1(2) valid_utf8.simps [of s] by auto
    with 1(1) False encode_good [of s] show ?thesis
      by (subst to_valid.simps) simp
  qed simp
qed

text \<open>Only a valid string is left as it is: every other one gets longer.\<close>

lemma to_valid_longer:
  "length s \<le> length (to_valid s) \<and> (\<not> valid_utf8 s \<longrightarrow> length s < length (to_valid s))"
proof (induction s rule: to_valid.induct)
  case (1 s)
  show ?case
  proof (cases "s = []")
    case False
    let ?p = "decode_rune s" and ?t = "drop (snd (decode_rune s)) s"
    have step: "to_valid s = encode_rune (fst ?p) @ to_valid ?t"
        "valid_utf8 s \<longleftrightarrow> \<not> bad_rune ?p \<and> valid_utf8 ?t"
      using False by (simp_all add: to_valid.simps [of s] valid_utf8.simps [of s])
    have size: "snd ?p \<le> length s" "length s = snd ?p + length ?t"
      using decode_rune_size [OF False] by simp_all
    note IH = 1 [OF False]
    show ?thesis
    proof (cases "bad_rune ?p")
      case True
      then have "snd ?p = 1" "length (encode_rune (fst ?p)) = 3"
        by (simp_all add: bad_rune_def encode_bad bytes_of_def)
      then show ?thesis
        unfolding step(1) length_append using IH size by linarith
    next
      case good: False
      then have "length (encode_rune (fst ?p)) = snd ?p"
        using encode_good [OF False good] size(1) by simp
      then show ?thesis
        unfolding step length_append using IH size good by linarith
    qed
  qed simp
qed

lemma to_valid_iff: "to_valid s = s \<longleftrightarrow> valid_utf8 s"
  using to_valid_longer [of s] to_valid_id [of s] by fastforce

text \<open>ASCII is valid.\<close>

lemma decode_ascii [simp]: "ord c < 0x80 \<Longrightarrow> decode_rune (c # r) = (ord c, 1)"
  by (simp add: decode_rune_def)

lemma valid_utf8_ascii [simp]:
  assumes "ord c < 0x80"
  shows "valid_utf8 (c # s) \<longleftrightarrow> valid_utf8 s"
proof -
  have "\<not> bad_rune (ord c, 1)"
    using assms by (simp add: bad_rune_def RuneError_def)
  with assms show ?thesis
    by (subst valid_utf8.simps) simp
qed

lemma valid_ascii: "list_all (\<lambda>c. ord c < 0x80) s \<Longrightarrow> valid_utf8 s"
  by (induction s) simp_all

end
