(* ===== verification/Json.thy ===== *)
theory Json
  imports Unicode
begin

section \<open>JSON (\<open>encoding/json\<close>)\<close>

text \<open>
  What the program uses of \<^verbatim>\<open>encoding/json\<close>: writing a string into a document, the parser of documents
  (its result keeps string literals as they are written), and the unquoting of literals. A byte is
  compared by its code where it has no printable name.
\<close>

subsection \<open>Writing strings\<close>

text \<open>
  The default encoder escapes the quote, the backslash and control characters, what is special in
  HTML, and the two line separators of JavaScript; a byte that is no part of a rune is written as the
  escape of U+FFFD.
\<close>

definition hex_digit_of :: "nat \<Rightarrow> char" where
  "hex_digit_of n = (if n < 10 then char_of (48 + n) else char_of (87 + n))"

definition escape_ascii :: "char \<Rightarrow> string" where
  "escape_ascii c =
     (if ord c = 0x22 \<or> ord c = 0x5C then [CHR 0x5C, c]
      else if ord c = 8 then [CHR 0x5C, CHR ''b'']
      else if ord c = 12 then [CHR 0x5C, CHR ''f'']
      else if ord c = 10 then [CHR 0x5C, CHR ''n'']
      else if ord c = 13 then [CHR 0x5C, CHR ''r'']
      else if ord c = 9 then [CHR 0x5C, CHR ''t'']
      else if ord c < 0x20 \<or> ord c = 0x3C \<or> ord c = 0x3E \<or> ord c = 0x26
        then [CHR 0x5C, CHR ''u'', CHR ''0'', CHR ''0'', hex_digit_of (ord c div 16), hex_digit_of (ord c mod 16)]
      else [c])"

function json_escape :: "string \<Rightarrow> string" where
  "json_escape s =
     (if s = [] then []
      else if ord (hd s) < 0x80 then escape_ascii (hd s) @ json_escape (tl s)
      else let p = decode_rune s; rest = json_escape (drop (snd p) s)
        in if bad_rune p then CHR 0x5C # ''ufffd'' @ rest
           else if fst p = 0x2028 \<or> fst p = 0x2029
             then CHR 0x5C # ''u202'' @ hex_digit_of (fst p mod 16) # rest
           else take (snd p) s @ rest)"
  by pat_completeness auto
termination
  by (relation "measure length") (auto simp: decode_rune_size)

declare json_escape.simps [simp del]

definition json_string :: "string \<Rightarrow> string" where
  "json_string s = CHR 0x22 # json_escape s @ [CHR 0x22]"

subsection \<open>Parsing\<close>

datatype json = JNull | JBool bool | JNumber string | JString string | JArray "json list"
  | JObject "(string \<times> json) list"

definition is_space :: "char \<Rightarrow> bool" where
  "is_space c \<longleftrightarrow> ord c = 32 \<or> ord c = 9 \<or> ord c = 13 \<or> ord c = 10"

definition skip_space :: "string \<Rightarrow> string" where
  "skip_space = dropWhile is_space"

definition hex_val :: "char \<Rightarrow> nat option" where
  "hex_val c =
     (let n = ord c in
      if 48 \<le> n \<and> n \<le> 57 then Some (n - 48)
      else if 97 \<le> n \<and> n \<le> 102 then Some (n - 87)
      else if 65 \<le> n \<and> n \<le> 70 then Some (n - 55)
      else None)"

definition is_hex4 :: "string \<Rightarrow> bool" where
  "is_hex4 s \<longleftrightarrow> 4 \<le> length s \<and> list_all (\<lambda>c. hex_val c \<noteq> None) (take 4 s)"

definition is_escape :: "char \<Rightarrow> bool" where
  "is_escape c \<longleftrightarrow> c \<in> set [CHR ''b'', CHR ''f'', CHR ''n'', CHR ''r'', CHR ''t'', CHR 0x5C, CHR ''/'', CHR 0x22]"

text \<open>A string literal after its opening quote: the bytes up to the closing one, and the rest.\<close>

function scan_string :: "string \<Rightarrow> (string \<times> string) option" where
  "scan_string s =
     (case s of
        [] \<Rightarrow> None
      | c # r \<Rightarrow>
          if ord c = 0x22 then Some ([], r)
          else if ord c < 0x20 then None
          else if ord c = 0x5C then
            (case r of
               [] \<Rightarrow> None
             | e # q \<Rightarrow>
                 if is_escape e then map_option (map_prod ((@) [c, e]) id) (scan_string q)
                 else if e = CHR ''u'' \<and> is_hex4 q
                   then map_option (map_prod ((@) ([c, e] @ take 4 q)) id) (scan_string (drop 4 q))
                 else None)
          else map_option (map_prod ((#) c) id) (scan_string r))"
  by pat_completeness auto
termination
  by (relation "measure length") auto

declare scan_string.simps [simp del]

text \<open>A number: sign, integer part without leading zeros, fraction, exponent.\<close>

definition digits :: "string \<Rightarrow> (string \<times> string) option" where
  "digits s = (let ds = takeWhile is_digit s in if ds = [] then None else Some (ds, dropWhile is_digit s))"

definition scan_number :: "string \<Rightarrow> (string \<times> string) option" where
  "scan_number s =
     (let (sign, s1) = (if take 1 s = ''-'' then (''-'', tl s) else ([], s)) in
      case (if take 1 s1 = ''0'' then Some (''0'', tl s1) else digits s1) of
        None \<Rightarrow> None
      | Some (ip, s2) \<Rightarrow>
          (case (if take 1 s2 = ''.'' then map_option (map_prod ((@) ''.'') id) (digits (tl s2)) else Some ([], s2)) of
             None \<Rightarrow> None
           | Some (fp, s3) \<Rightarrow>
               (case (if take 1 s3 = ''e'' \<or> take 1 s3 = ''E'' then
                        (let k = (if take 1 (tl s3) = ''+'' \<or> take 1 (tl s3) = ''-'' then 2 else 1)
                         in map_option (map_prod ((@) (take k s3)) id) (digits (drop k s3)))
                      else Some ([], s3)) of
                  None \<Rightarrow> None
                | Some (ep, s4) \<Rightarrow> Some (sign @ ip @ fp @ ep, s4))))"

definition scan_word :: "string \<Rightarrow> json \<Rightarrow> string \<Rightarrow> (json \<times> string) option" where
  "scan_word w v s = (if take (length w) s = w then Some (v, drop (length w) s) else None)"

text \<open>
  Values, the elements of an array and the members of an object (after the opening bracket, at least
  one). \<open>d\<close> is how many more brackets may be opened; the library allows 10000. The tests of the
  lengths only serve the termination proof: a part never leaves more than it was given.
\<close>

function scan_value :: "nat \<Rightarrow> string \<Rightarrow> (json \<times> string) option"
  and scan_elements :: "nat \<Rightarrow> string \<Rightarrow> (json list \<times> string) option"
  and scan_members :: "nat \<Rightarrow> string \<Rightarrow> ((string \<times> json) list \<times> string) option" where
  "scan_value d s =
     (case skip_space s of
        [] \<Rightarrow> None
      | c # r \<Rightarrow>
          if ord c = 0x22 then map_option (map_prod JString id) (scan_string r)
          else if c = CHR ''{'' then
            (if d = 0 then None
             else if take 1 (skip_space r) = ''}'' then Some (JObject [], tl (skip_space r))
             else map_option (map_prod JObject id) (scan_members (d - 1) r))
          else if c = CHR ''['' then
            (if d = 0 then None
             else if take 1 (skip_space r) = '']'' then Some (JArray [], tl (skip_space r))
             else map_option (map_prod JArray id) (scan_elements (d - 1) r))
          else if c = CHR ''t'' then scan_word ''true'' (JBool True) (c # r)
          else if c = CHR ''f'' then scan_word ''false'' (JBool False) (c # r)
          else if c = CHR ''n'' then scan_word ''null'' JNull (c # r)
          else map_option (map_prod JNumber id) (scan_number (c # r)))"
| "scan_elements d s =
     (case scan_value d s of
        None \<Rightarrow> None
      | Some (v, r) \<Rightarrow>
          (case skip_space r of
             [] \<Rightarrow> None
           | c # q \<Rightarrow>
               if c = CHR '']'' then Some ([v], q)
               else if c = CHR '','' \<and> length q < length s
                 then map_option (map_prod ((#) v) id) (scan_elements d q)
               else None))"
| "scan_members d s =
     (case skip_space s of
        [] \<Rightarrow> None
      | c # r \<Rightarrow>
          if ord c \<noteq> 0x22 then None
          else (case scan_string r of
              None \<Rightarrow> None
            | Some (k, r1) \<Rightarrow>
                (case skip_space r1 of
                   [] \<Rightarrow> None
                 | c2 # r2 \<Rightarrow>
                     if c2 \<noteq> CHR '':'' \<or> \<not> length r2 < length s then None
                     else (case scan_value d r2 of
                         None \<Rightarrow> None
                       | Some (v, r3) \<Rightarrow>
                           (case skip_space r3 of
                              [] \<Rightarrow> None
                            | c4 # r4 \<Rightarrow>
                                if c4 = CHR ''}'' then Some ([(k, v)], r4)
                                else if c4 = CHR '','' \<and> length r4 < length s
                                  then map_option (map_prod ((#) (k, v)) id) (scan_members d r4)
                                else None)))))"
  by pat_completeness auto
termination
proof (relation "measure (\<lambda>x. case x of
    Inl (d, s) \<Rightarrow> 2 * length s
  | Inr (Inl (d, s)) \<Rightarrow> 2 * length s + 1
  | Inr (Inr (d, s)) \<Rightarrow> 2 * length s + 1)", goal_cases)
  case (2 d s c r)
  then have "length (c # r) \<le> length s"
    by (metis length_dropWhile_le skip_space_def)
  then show ?case
    by simp
next
  case (3 d s c r)
  then have "length (c # r) \<le> length s"
    by (metis length_dropWhile_le skip_space_def)
  then show ?case
    by simp
qed auto

declare scan_value.simps [simp del] scan_elements.simps [simp del] scan_members.simps [simp del]

text \<open>\<^verbatim>\<open>json.Unmarshal\<close> wants the document to be all of the input; a decoder reads its first value.\<close>

definition max_depth :: nat where
  "max_depth = 10000"

definition parse_document :: "string \<Rightarrow> json option" where
  "parse_document s =
     (case scan_value max_depth s of
        None \<Rightarrow> None
      | Some (v, r) \<Rightarrow> if skip_space r = [] then Some v else None)"

definition read_document :: "string \<Rightarrow> json option" where
  "read_document s = map_option fst (scan_value max_depth s)"

subsection \<open>Unquoting\<close>

definition hex4_value :: "string \<Rightarrow> nat" where
  "hex4_value s = foldl (\<lambda>n c. n * 16 + (case hex_val c of None \<Rightarrow> 0 | Some v \<Rightarrow> v)) 0 (take 4 s)"

definition simple_escape :: "char \<Rightarrow> char" where
  "simple_escape c =
     (if c = CHR ''b'' then char_of (8 :: nat)
      else if c = CHR ''f'' then char_of (12 :: nat)
      else if c = CHR ''n'' then char_of (10 :: nat)
      else if c = CHR ''r'' then char_of (13 :: nat)
      else if c = CHR ''t'' then char_of (9 :: nat)
      else c)"

text \<open>The second half of a surrogate pair, written as another escape.\<close>

definition low_surrogate :: "nat \<Rightarrow> string \<Rightarrow> nat option" where
  "low_surrogate hi s =
     (if hi \<le> 0xDBFF \<and> take 2 s = [CHR 0x5C, CHR ''u''] \<and> is_hex4 (drop 2 s)
        \<and> 0xDC00 \<le> hex4_value (drop 2 s) \<and> hex4_value (drop 2 s) \<le> 0xDFFF
      then Some (0x10000 + (hi - 0xD800) * 1024 + (hex4_value (drop 2 s) - 0xDC00))
      else None)"

function unquote :: "string \<Rightarrow> string" where
  "unquote s =
     (case s of
        [] \<Rightarrow> []
      | c # r \<Rightarrow>
          if ord c = 0x5C then
            (case r of
               [] \<Rightarrow> []
             | e # q \<Rightarrow>
                 if e = CHR ''u'' then
                   (let u = hex4_value q in
                    if 0xD800 \<le> u \<and> u \<le> 0xDFFF then
                      (case low_surrogate u (drop 4 q) of
                         Some v \<Rightarrow> encode_rune v @ unquote (drop 10 q)
                       | None \<Rightarrow> encode_rune RuneError @ unquote (drop 4 q))
                    else encode_rune u @ unquote (drop 4 q))
                 else simple_escape e # unquote q)
          else if ord c < 0x80 then c # unquote r
          else encode_rune (fst (decode_rune s)) @ unquote (drop (snd (decode_rune s)) s))"
  by pat_completeness auto
termination
  by (relation "measure length") (auto simp: decode_rune_size)

declare unquote.simps [simp del]

subsection \<open>Structs\<close>

text \<open>
  A member is stored in the field whose name it has, exactly or up to case. Beside the ASCII letters
  two runes fold to one (U+017F to S, U+212A to K); other runes fold to runes outside ASCII, which no
  field name has.
\<close>

definition fold_rune :: "nat \<Rightarrow> nat" where
  "fold_rune r =
     (if 97 \<le> r \<and> r \<le> 122 then r - 32 else if r = 0x17F then 83 else if r = 0x212A then 75 else r)"

function fold_name :: "string \<Rightarrow> nat list" where
  "fold_name s =
     (if s = [] then [] else fold_rune (fst (decode_rune s)) # fold_name (drop (snd (decode_rune s)) s))"
  by pat_completeness auto
termination
  by (relation "measure length") (auto simp: decode_rune_size)

declare fold_name.simps [simp del]

definition is_field :: "string \<Rightarrow> string \<Rightarrow> bool" where
  "is_field name k \<longleftrightarrow> fold_name k = fold_name name"

text \<open>
  A string field keeps its value on \<^verbatim>\<open>null\<close> and refuses everything but a string; later members
  overwrite earlier ones. An error is \<open>None\<close>: the callers drop what was decoded beside it.
\<close>

definition text_field :: "json \<Rightarrow> string \<Rightarrow> string option" where
  "text_field v old =
     (case v of JNull \<Rightarrow> Some old | JString raw \<Rightarrow> Some (unquote raw) | _ \<Rightarrow> None)"

primrec fold_fields :: "(string \<Rightarrow> json \<Rightarrow> 'r \<Rightarrow> 'r option) \<Rightarrow> (string \<times> json) list \<Rightarrow> 'r \<Rightarrow> 'r option" where
  "fold_fields f [] r = Some r"
| "fold_fields f (m # ms) r =
     (case f (unquote (fst m)) (snd m) r of None \<Rightarrow> None | Some r' \<Rightarrow> fold_fields f ms r')"

definition decode_struct :: "(string \<Rightarrow> json \<Rightarrow> 'r \<Rightarrow> 'r option) \<Rightarrow> json \<Rightarrow> 'r \<Rightarrow> 'r option" where
  "decode_struct f v r =
     (case v of JNull \<Rightarrow> Some r | JObject ms \<Rightarrow> fold_fields f ms r | _ \<Rightarrow> None)"

subsection \<open>What was written is read back\<close>

definition plain_byte :: "char \<Rightarrow> bool" where
  "plain_byte c \<longleftrightarrow> 0x20 \<le> ord c \<and> ord c \<noteq> 0x22 \<and> ord c \<noteq> 0x5C"

lemma scan_plain:
  "list_all plain_byte cs \<Longrightarrow> scan_string (cs @ t) = map_option (map_prod ((@) cs) id) (scan_string t)"
proof (induction cs)
  case (Cons c cs)
  then have "scan_string ((c # cs) @ t) = map_option (map_prod ((#) c) id) (scan_string (cs @ t))"
    by (subst scan_string.simps) (simp add: plain_byte_def)
  with Cons show ?case
    by (cases "scan_string t") auto
qed (cases "scan_string t"; auto)

lemma scan_escape:
  assumes "is_escape e"
  shows "scan_string (CHR 0x5C # e # t) = map_option (map_prod ((@) [CHR 0x5C, e]) id) (scan_string t)"
  using assms by (subst scan_string.simps) simp

lemma scan_unicode:
  assumes "is_hex4 [a, b, c, d]"
  shows "scan_string (CHR 0x5C # CHR ''u'' # a # b # c # d # t) =
    map_option (map_prod ((@) [CHR 0x5C, CHR ''u'', a, b, c, d]) id) (scan_string t)"
proof -
  have "is_hex4 (a # b # c # d # t)" "\<not> is_escape (CHR ''u'')"
    using assms by (simp_all add: is_hex4_def is_escape_def)
  then show ?thesis
    by (subst scan_string.simps) simp
qed

lemma ord_cases:
  "ord (CHR 0x5C) = 0x5C" "ord (CHR 0x22) = 0x22"
  by code_simp+

lemma hex_digit_val [simp]: "n < 16 \<Longrightarrow> hex_val (hex_digit_of n) = Some n"
  by (auto simp: hex_val_def hex_digit_of_def Let_def)

lemma hex_u00: "ord c < 0x80 \<Longrightarrow>
    is_hex4 [CHR ''0'', CHR ''0'', hex_digit_of (ord c div 16), hex_digit_of (ord c mod 16)] \<and>
    hex4_value ([CHR ''0'', CHR ''0'', hex_digit_of (ord c div 16), hex_digit_of (ord c mod 16)] @ t) = ord c"
proof -
  assume "ord c < 0x80"
  moreover have "hex_val (CHR ''0'') = Some 0"
    by code_simp
  ultimately show ?thesis
    by (simp add: is_hex4_def hex4_value_def)
qed

text \<open>One piece of the output: an ASCII byte, a byte that is no rune, a line separator, or a rune.\<close>

lemma escape_ascii_cases:
  assumes "ord c < 0x80"
  obtains (plain) "escape_ascii c = [c]" "plain_byte c"
  | (short) e where "escape_ascii c = [CHR 0x5C, e]" "is_escape e" "simple_escape e = c" "e \<noteq> CHR ''u''"
  | (long) "escape_ascii c = [CHR 0x5C, CHR ''u'', CHR ''0'', CHR ''0'',
      hex_digit_of (ord c div 16), hex_digit_of (ord c mod 16)]"
proof -
  consider "ord c = 0x22" | "ord c = 0x5C" | "ord c = 8" | "ord c = 12" | "ord c = 10" | "ord c = 13" | "ord c = 9"
    | "ord c < 0x20 \<or> ord c = 0x3C \<or> ord c = 0x3E \<or> ord c = 0x26" "ord c \<notin> {0x22, 0x5C, 8, 12, 10, 13, 9}"
    | "\<not> (ord c < 0x20 \<or> ord c = 0x3C \<or> ord c = 0x3E \<or> ord c = 0x26)" "ord c \<notin> {0x22, 0x5C, 8, 12, 10, 13, 9}"
    by blast
  then show thesis
  proof cases
    case 1
    then have "c = CHR 0x22" by (metis char_of_char ord_cases(2))
    moreover have "is_escape (CHR 0x22)" "simple_escape (CHR 0x22) = CHR 0x22" by code_simp+
    ultimately show thesis by (intro short [of c]) (auto simp: escape_ascii_def)
  next
    case 2
    then have "c = CHR 0x5C" by (metis char_of_char ord_cases(1))
    moreover have "is_escape (CHR 0x5C)" "simple_escape (CHR 0x5C) = CHR 0x5C" by code_simp+
    ultimately show thesis by (intro short [of c]) (auto simp: escape_ascii_def)
  next
    case 3
    then have "c = char_of (8 :: nat)" by (metis char_of_char)
    moreover have "is_escape (CHR ''b'')" "simple_escape (CHR ''b'') = char_of (8 :: nat)" by code_simp+
    ultimately show thesis using 3 by (intro short [of "CHR ''b''"]) (auto simp: escape_ascii_def)
  next
    case 4
    then have "c = char_of (12 :: nat)" by (metis char_of_char)
    moreover have "is_escape (CHR ''f'')" "simple_escape (CHR ''f'') = char_of (12 :: nat)" by code_simp+
    ultimately show thesis using 4 by (intro short [of "CHR ''f''"]) (auto simp: escape_ascii_def)
  next
    case 5
    then have "c = char_of (10 :: nat)" by (metis char_of_char)
    moreover have "is_escape (CHR ''n'')" "simple_escape (CHR ''n'') = char_of (10 :: nat)" by code_simp+
    ultimately show thesis using 5 by (intro short [of "CHR ''n''"]) (auto simp: escape_ascii_def)
  next
    case 6
    then have "c = char_of (13 :: nat)" by (metis char_of_char)
    moreover have "is_escape (CHR ''r'')" "simple_escape (CHR ''r'') = char_of (13 :: nat)" by code_simp+
    ultimately show thesis using 6 by (intro short [of "CHR ''r''"]) (auto simp: escape_ascii_def)
  next
    case 7
    then have "c = char_of (9 :: nat)" by (metis char_of_char)
    moreover have "is_escape (CHR ''t'')" "simple_escape (CHR ''t'') = char_of (9 :: nat)" by code_simp+
    ultimately show thesis using 7 by (intro short [of "CHR ''t''"]) (auto simp: escape_ascii_def)
  next
    case 8
    then show thesis by (intro long) (simp add: escape_ascii_def)
  next
    case 9
    then show thesis by (intro plain) (auto simp: escape_ascii_def plain_byte_def)
  qed
qed

text \<open>The pieces of \<open>json_escape\<close>: what it writes first and where it goes on.\<close>

definition first_piece :: "string \<Rightarrow> string" where
  "first_piece s =
     (if ord (hd s) < 0x80 then escape_ascii (hd s)
      else if bad_rune (decode_rune s) then CHR 0x5C # ''ufffd''
      else if fst (decode_rune s) = 0x2028 \<or> fst (decode_rune s) = 0x2029
        then CHR 0x5C # ''u202'' @ [hex_digit_of (fst (decode_rune s) mod 16)]
      else take (snd (decode_rune s)) s)"

lemma json_escape_step:
  assumes "s \<noteq> []"
  shows "json_escape s = first_piece s @ json_escape (drop (snd (decode_rune s)) s)"
proof (cases "ord (hd s) < 0x80")
  case True
  then have "decode_rune s = (ord (hd s), 1)"
    using assms by (cases s) auto
  with True assms show ?thesis
    by (subst json_escape.simps) (simp add: first_piece_def drop_Suc)
next
  case False
  with assms show ?thesis
    by (subst json_escape.simps) (simp add: first_piece_def Let_def)
qed

lemma high_bytes:
  assumes "\<not> bad_rune (decode_rune s)" and "s \<noteq> []" and "\<not> ord (hd s) < 0x80"
  shows "list_all plain_byte (take (snd (decode_rune s)) s)"
proof -
  obtain c r where s: "s = c # r"
    using assms(2) by (cases s) auto
  have b: "0x80 \<le> ord c"
    using assms(3) s by simp
  have pl: "plain_byte x" if "0x80 \<le> ord x" for x
    using that by (simp add: plain_byte_def)
  obtain ru n where d: "decode_rune (c # r) = (ru, n)"
    by (metis surj_pair)
  then have "\<not> bad_rune (ru, n)"
    using assms(1) s by simp
  from good_rune_cases [OF d this b] have "list_all plain_byte (take n (c # r))"
    using b by cases (auto simp: cont_def intro: pl)
  then show ?thesis
    by (simp add: s d)
qed

lemma scan_piece:
  assumes "s \<noteq> []"
  shows "scan_string (first_piece s @ t) = map_option (map_prod ((@) (first_piece s)) id) (scan_string t)"
proof (cases "ord (hd s) < 0x80")
  case True
  then have f: "first_piece s = escape_ascii (hd s)"
    by (simp add: first_piece_def)
  show ?thesis
  proof (cases rule: escape_ascii_cases [OF True])
    case 1
    with scan_plain [of "[hd s]" t] show ?thesis
      by (simp add: f)
  next
    case (2 e)
    with scan_escape [of e t] show ?thesis
      by (simp add: f)
  next
    case 3
    with scan_unicode hex_u00 [OF True] show ?thesis
      by (simp add: f)
  qed
next
  case False
  have "is_hex4 ''fffd''" "hex_val (CHR ''2'') = Some 2" "hex_val (CHR ''0'') = Some 0"
    by code_simp+
  with False assms scan_plain [OF high_bytes [OF _ assms False], of t]
    scan_unicode [of "CHR ''f''" "CHR ''f''" "CHR ''f''" "CHR ''d''" t]
    scan_unicode [of "CHR ''2''" "CHR ''0''" "CHR ''2''" "hex_digit_of (fst (decode_rune s) mod 16)" t]
  show ?thesis
    by (auto simp: first_piece_def is_hex4_def)
qed

lemma scan_json_escape: "scan_string (json_escape s @ CHR 0x22 # t) = Some (json_escape s, t)"
proof (induction s rule: json_escape.induct)
  case (1 s)
  show ?case
  proof (cases "s = []")
    case True
    then show ?thesis
      by (simp add: json_escape.simps scan_string.simps [of "CHR 0x22 # t"] ord_cases)
  next
    case False
    have "scan_string (json_escape (drop (snd (decode_rune s)) s) @ CHR 0x22 # t) =
        Some (json_escape (drop (snd (decode_rune s)) s), t)"
    proof (cases "ord (hd s) < 0x80")
      case True
      then have "drop (snd (decode_rune s)) s = tl s"
        using False by (cases s) auto
      with 1(1) True False show ?thesis by simp
    qed (use 1(2) False in simp)
    then show ?thesis
      unfolding json_escape_step [OF False] append_assoc scan_piece [OF False] by simp
  qed
qed

lemma unquote_Nil [simp]: "unquote [] = []"
  by (simp add: unquote.simps)

lemma unquote_escape: "e \<noteq> CHR ''u'' \<Longrightarrow> unquote (CHR 0x5C # e # t) = simple_escape e # unquote t"
  by (subst unquote.simps) simp

lemma unquote_unicode:
  assumes "hex4_value (h @ t) = u" and "length h = 4" and "\<not> (0xD800 \<le> u \<and> u \<le> 0xDFFF)"
  shows "unquote (CHR 0x5C # CHR ''u'' # h @ t) = encode_rune u @ unquote t"
  using assms by (subst unquote.simps) (auto simp: Let_def)

text \<open>A rune above ASCII is copied, wherever it stands.\<close>

lemma unquote_rune:
  assumes "\<not> bad_rune (decode_rune s)" and "s \<noteq> []" and "\<not> ord (hd s) < 0x80"
  shows "unquote (take (snd (decode_rune s)) s @ t) = take (snd (decode_rune s)) s @ unquote t"
proof -
  let ?n = "snd (decode_rune s)"
  obtain c r where s: "take ?n s @ t = c # r" "ord c = ord (hd s)"
    using assms(2) decode_rune_size [OF assms(2)] by (cases s; cases ?n) auto
  have d: "decode_rune (c # r) = decode_rune s"
    using decode_rune_append [OF assms(1,2), of t] s(1) by simp
  have drop: "drop ?n (c # r) = t"
    using s(1) decode_rune_size [OF assms(2)] by (metis append_eq_conv_conj length_take min.absorb2)
  have hc: "\<not> ord c < 0x80"
    using s(2) assms(3) by simp
  have "unquote (c # r) = encode_rune (fst (decode_rune s)) @ unquote t"
    using hc by (subst unquote.simps) (auto simp: d drop)
  then show ?thesis
    using encode_good [OF assms(2,1)] s(1) by simp
qed

lemma unquote_piece:
  assumes "s \<noteq> []"
  shows "unquote (first_piece s @ t) = encode_rune (fst (decode_rune s)) @ unquote t"
proof (cases "ord (hd s) < 0x80")
  case True
  then have f: "first_piece s = escape_ascii (hd s)" "decode_rune s = (ord (hd s), 1)"
    using assms by (auto simp: first_piece_def neq_Nil_conv)
  have e: "encode_rune (ord (hd s)) = [hd s]"
    using True by (simp add: encode_rune_def bytes_of_def)
  show ?thesis
  proof (cases rule: escape_ascii_cases [OF True])
    case 1
    then have "unquote (hd s # t) = hd s # unquote t"
      using True by (subst unquote.simps) (simp add: plain_byte_def)
    with 1 show ?thesis
      by (simp add: f e)
  next
    case (2 x)
    with unquote_escape [of x t] show ?thesis
      by (simp add: f e)
  next
    case 3
    with unquote_unicode [of "[CHR ''0'', CHR ''0'', hex_digit_of (ord (hd s) div 16), hex_digit_of (ord (hd s) mod 16)]" t
        "ord (hd s)"] hex_u00 [OF True, of t] True show ?thesis
      by (simp add: f e)
  qed
next
  case False
  show ?thesis
  proof (cases "bad_rune (decode_rune s)")
    case True
    have "hex4_value (''fffd'' @ t) = 0xFFFD"
      by (simp add: hex4_value_def hex_val_def)
    with unquote_unicode [of "''fffd''" t "0xFFFD"] True False show ?thesis
      by (simp add: first_piece_def bad_rune_def RuneError_def)
  next
    case good: False
    show ?thesis
    proof (cases "fst (decode_rune s) = 0x2028 \<or> fst (decode_rune s) = 0x2029")
      case True
      define u where "u = fst (decode_rune s)"
      have "hex4_value (''202'' @ hex_digit_of (u mod 16) # t) = u"
        using True unfolding u_def [symmetric]
        by (auto simp: hex4_value_def hex_val_def hex_digit_of_def)
      with unquote_unicode [of "''202'' @ [hex_digit_of (u mod 16)]" t u] True False good show ?thesis
        unfolding u_def [symmetric] by (auto simp: first_piece_def u_def)
    next
      case sep: False
      with unquote_rune [OF good assms False, of t] False good encode_good [OF assms good] show ?thesis
        by (simp add: first_piece_def)
    qed
  qed
qed

lemma unquote_json_escape: "unquote (json_escape s) = to_valid s"
proof (induction s rule: to_valid.induct)
  case (1 s)
  show ?case
  proof (cases "s = []")
    case False
    with 1 unquote_piece [OF False] show ?thesis
      by (subst to_valid.simps) (simp add: json_escape_step [OF False])
  qed (simp add: json_escape.simps)
qed

subsection \<open>Objects of strings\<close>

text \<open>A string literal between its quotes, and a member of an object.\<close>

definition literal :: "string \<Rightarrow> bool" where
  "literal raw \<longleftrightarrow> (\<forall>t. scan_string (raw @ CHR 0x22 # t) = Some (raw, t))"

definition json_literal :: "string \<Rightarrow> string" where
  "json_literal raw = CHR 0x22 # raw @ [CHR 0x22]"

definition json_member :: "string \<Rightarrow> string \<Rightarrow> string" where
  "json_member name val = json_literal name @ CHR '':'' # val"

lemma length_json_literal [simp]: "length (json_literal raw) = length raw + 2"
  by (simp add: json_literal_def)

lemma json_string_literal: "json_string s = json_literal (json_escape s)"
  by (simp add: json_string_def json_literal_def)

lemma literal_escape [simp]: "literal (json_escape s)"
  by (simp add: literal_def scan_json_escape)

lemma literal_plain: "list_all plain_byte raw \<Longrightarrow> literal raw"
  by (simp add: literal_def scan_plain scan_string.simps [of "CHR 0x22 # _"] ord_cases)

lemma unquote_plain:
  "list_all (\<lambda>c. plain_byte c \<and> ord c < 0x80) raw \<Longrightarrow> unquote raw = raw"
  by (induction raw) (auto simp: unquote.simps [of "_ # _"] plain_byte_def)

lemma skip_space_Cons [simp]: "\<not> is_space c \<Longrightarrow> skip_space (c # r) = c # r"
  by (simp add: skip_space_def)

lemma not_space [simp]:
  "\<not> is_space (CHR 0x22)" "\<not> is_space (CHR '':'')" "\<not> is_space (CHR '','')"
  "\<not> is_space (CHR ''}'')" "\<not> is_space (CHR ''{'')"
  by code_simp+

lemma scan_value_literal:
  assumes "literal raw"
  shows "scan_value d (json_literal raw @ t) = Some (JString raw, t)"
  using assms by (simp add: scan_value.simps json_literal_def literal_def ord_cases)

lemma scan_members_literal:
  assumes "literal name" and "literal raw"
  shows "scan_members d (json_member name (json_literal raw) @ CHR ''}'' # t) = Some ([(name, JString raw)], t)"
    and "scan_members d (json_member name (json_literal raw) @ CHR '','' # t) =
      map_option (map_prod ((#) (name, JString raw)) id) (scan_members d t)"
proof -
  have name: "scan_string (name @ CHR 0x22 # u) = Some (name, u)" for u
    using assms(1) by (simp add: literal_def)
  have val: "scan_value d (json_literal raw @ u) = Some (JString raw, u)" for u
    by (rule scan_value_literal [OF assms(2)])
  have m: "json_member name (json_literal raw) @ u =
      CHR 0x22 # name @ CHR 0x22 # CHR '':'' # json_literal raw @ u" for u
    by (simp add: json_member_def json_literal_def)
  show "scan_members d (json_member name (json_literal raw) @ CHR ''}'' # t) = Some ([(name, JString raw)], t)"
    unfolding m by (subst scan_members.simps) (simp add: name val ord_cases)
  show "scan_members d (json_member name (json_literal raw) @ CHR '','' # t) =
      map_option (map_prod ((#) (name, JString raw)) id) (scan_members d t)"
    unfolding m by (subst scan_members.simps) (simp add: name val ord_cases)
qed

fun json_members :: "(string \<times> string) list \<Rightarrow> string" where
  "json_members [] = ''}''"
| "json_members [(k, raw)] = json_member k (json_literal raw) @ ''}''"
| "json_members ((k, raw) # ms) = json_member k (json_literal raw) @ CHR '','' # json_members ms"

definition json_object :: "(string \<times> string) list \<Rightarrow> string" where
  "json_object ms = CHR ''{'' # json_members ms"

lemma scan_json_members:
  assumes "ms \<noteq> []" and "\<forall>(k, raw) \<in> set ms. literal k \<and> literal raw"
  shows "scan_members d (json_members ms @ t) = Some (map (\<lambda>(k, raw). (k, JString raw)) ms, t)"
  using assms
proof (induction ms rule: json_members.induct)
  case (2 k raw)
  then show ?case
    using scan_members_literal(1) [of k raw d t] by simp
next
  case (3 k raw m ms)
  then show ?case
    using scan_members_literal(2) [of k raw d "json_members (m # ms) @ t"] by (cases m) auto
qed simp

lemma scan_json_object:
  assumes "ms \<noteq> []" and "\<forall>(k, raw) \<in> set ms. literal k \<and> literal raw"
  shows "scan_value max_depth (json_object ms @ t) = Some (JObject (map (\<lambda>(k, raw). (k, JString raw)) ms), t)"
proof -
  have "\<exists>r. json_members ms = CHR 0x22 # r"
    using assms(1) by (cases ms rule: json_members.cases) (auto simp: json_member_def json_literal_def)
  then obtain r where r: "json_members ms = CHR 0x22 # r"
    by blast
  have "scan_members 9999 (json_members ms @ t) = Some (map (\<lambda>(k, raw). (k, JString raw)) ms, t)"
    by (rule scan_json_members [OF assms])
  moreover have "ord (CHR ''{'') \<noteq> 0x22"
    by code_simp
  ultimately show ?thesis
    by (subst scan_value.simps) (simp add: json_object_def max_depth_def r)
qed

lemma parse_json_object:
  assumes "ms \<noteq> []" and "\<forall>(k, raw) \<in> set ms. literal k \<and> literal raw"
  shows "parse_document (json_object ms) = Some (JObject (map (\<lambda>(k, raw). (k, JString raw)) ms))"
    and "read_document (json_object ms @ t) = Some (JObject (map (\<lambda>(k, raw). (k, JString raw)) ms))"
  using scan_json_object [OF assms, of "[]"] scan_json_object [OF assms, of t]
  by (simp_all add: parse_document_def read_document_def skip_space_def)

end
