(* ===== verification/GoTime.thy ===== *)
theory GoTime
  imports GoStd "HOL-Library.Monad_Syntax"
begin

section \<open>Time stamps as text (\<open>time.RFC3339\<close>)\<close>

text \<open>
  \<^verbatim>\<open>t.UTC().Format(time.RFC3339)\<close>, the form \<^verbatim>\<open>Time.MarshalJSON\<close> writes (with the fraction of the
  second), and the parser of \<^verbatim>\<open>Time.UnmarshalJSON\<close>. A day is counted from 1 January of year 1 of
  the proleptic Gregorian calendar.
\<close>

subsection \<open>Calendar\<close>

text \<open>
  Years are cut into eras of 400, centuries of 100 (an era has 4), cycles of 4 (a century has 25) and
  single years (a cycle has 4); they start on 1 March here, so that a leap day is the last day of its
  year. Only the last century of an era and the last year of a cycle can be longer by a day.
\<close>

definition era_of :: "int \<Rightarrow> int" where "era_of z = z div 146097"

definition century_of :: "int \<Rightarrow> int" where "century_of z = min 3 (z mod 146097 div 36524)"

definition day_of_century :: "int \<Rightarrow> int" where
  "day_of_century z = z mod 146097 - 36524 * century_of z"

definition cycle_of :: "int \<Rightarrow> int" where "cycle_of z = day_of_century z div 1461"

definition year_of_cycle :: "int \<Rightarrow> int" where
  "year_of_cycle z = min 3 (day_of_century z mod 1461 div 365)"

definition day_of_year :: "int \<Rightarrow> int" where
  "day_of_year z = day_of_century z mod 1461 - 365 * year_of_cycle z"

definition march_year :: "int \<Rightarrow> int" where
  "march_year z = 400 * era_of z + 100 * century_of z + 4 * cycle_of z + year_of_cycle z"

text \<open>The days before a year that starts in March, and before a month of it (March is 0).\<close>

definition days_before_year :: "int \<Rightarrow> int" where
  "days_before_year y = 365 * y + y div 4 - y div 100 + y div 400"

definition days_before_month :: "int \<Rightarrow> int" where
  "days_before_month mp = (153 * mp + 2) div 5"

definition month_of_year :: "int \<Rightarrow> int" where
  "month_of_year doy = (5 * doy + 2) div 153"

text \<open>1 January of year 1 is 306 days after 1 March of year 0.\<close>

definition civil_date :: "int \<Rightarrow> int \<times> int \<times> int" where
  "civil_date days =
     (let z = days + 306; mp = month_of_year (day_of_year z)
      in (march_year z + (if mp < 10 then 0 else 1), if mp < 10 then mp + 3 else mp - 9,
          day_of_year z - days_before_month mp + 1))"

definition day_number :: "int \<Rightarrow> int \<Rightarrow> int \<Rightarrow> int" where
  "day_number y m d =
     days_before_year (if m \<le> 2 then y - 1 else y) +
     days_before_month (if m \<le> 2 then m + 9 else m - 3) + (d - 1) - 306"

definition leap_year :: "int \<Rightarrow> bool" where
  "leap_year y \<longleftrightarrow> y mod 4 = 0 \<and> (y mod 100 \<noteq> 0 \<or> y mod 400 = 0)"

definition days_in :: "int \<Rightarrow> int \<Rightarrow> int" where
  "days_in y m =
     (if m = 2 then if leap_year y then 29 else 28
      else if m \<in> {4, 6, 9, 11} then 30 else 31)"

lemma div_bounds: "0 < k \<Longrightarrow> k * (n div k) \<le> n \<and> n < k * (n div k) + k" for k n :: int
  by (smt (verit) mult_div_mod_eq pos_mod_bound pos_mod_sign)

lemma div_eqI: "a = k * q + r \<Longrightarrow> 0 \<le> r \<Longrightarrow> r < k \<Longrightarrow> a div k = q" for a k q r :: int
  by simp

lemma cycle_ranges:
  "0 \<le> century_of z \<and> century_of z \<le> 3" "0 \<le> day_of_century z"
  "day_of_century z < 36524 \<or> century_of z = 3 \<and> day_of_century z = 36524"
  "0 \<le> cycle_of z \<and> cycle_of z \<le> 24" "0 \<le> year_of_cycle z \<and> year_of_cycle z \<le> 3"
  "0 \<le> day_of_year z \<and> (day_of_year z \<le> 364 \<or>
     day_of_year z = 365 \<and> year_of_cycle z = 3 \<and> (cycle_of z < 24 \<or> century_of z = 3))"
proof -
  define m k r l where "m = z mod 146097" and "k = m div 36524" and "r = day_of_century z mod 1461"
    and "l = r div 365"
  have m: "0 \<le> m" "m \<le> 146096" "36524 * k \<le> m" "m < 36524 * k + 36524"
    using div_bounds [of 36524 m] by (simp_all add: m_def k_def)
  have doc: "day_of_century z = m - 36524 * min 3 k" "century_of z = min 3 k"
    by (simp_all add: day_of_century_def century_of_def m_def k_def)
  have k: "0 \<le> k" "k \<le> 4"
    using m by linarith+
  then show c: "0 \<le> century_of z \<and> century_of z \<le> 3"
    by (simp add: doc)
  show d: "0 \<le> day_of_century z"
    and d': "day_of_century z < 36524 \<or> century_of z = 3 \<and> day_of_century z = 36524"
    using m k unfolding doc min_def by (cases "k = 4"; simp)+
  have q: "1461 * cycle_of z \<le> day_of_century z" "day_of_century z < 1461 * cycle_of z + 1461"
      "day_of_century z = 1461 * cycle_of z + r"
    using div_bounds [of 1461 "day_of_century z"] by (simp_all add: cycle_of_def r_def)
  show q': "0 \<le> cycle_of z \<and> cycle_of z \<le> 24"
    using q d d' by linarith
  have r: "0 \<le> r" "r \<le> 1460" "365 * l \<le> r" "r < 365 * l + 365"
    using div_bounds [of 365 r] by (simp_all add: r_def l_def)
  have l: "0 \<le> l" "l \<le> 4"
    using r by linarith+
  have y: "year_of_cycle z = min 3 l" "day_of_year z = r - 365 * min 3 l"
    by (simp_all add: year_of_cycle_def day_of_year_def r_def l_def)
  show "0 \<le> year_of_cycle z \<and> year_of_cycle z \<le> 3"
    using l by (simp add: y)
  show "0 \<le> day_of_year z \<and> (day_of_year z \<le> 364 \<or>
     day_of_year z = 365 \<and> year_of_cycle z = 3 \<and> (cycle_of z < 24 \<or> century_of z = 3))"
    using r l q q' d' unfolding y min_def by (cases "l = 4"; simp; linarith)
qed

lemma days_before_march_year:
  "days_before_year (march_year z) + day_of_year z = z"
proof -
  define e c q y where "e = era_of z" and "c = century_of z" and "q = cycle_of z" and "y = year_of_cycle z"
  have rng: "0 \<le> c" "c \<le> 3" "0 \<le> q" "q \<le> 24" "0 \<le> y" "y \<le> 3"
    using cycle_ranges [of z] by (simp_all add: c_def q_def y_def)
  have "(400 * e + 100 * c + 4 * q + y) div 4 = 100 * e + 25 * c + q"
    by (rule div_eqI [of _ _ _ y]) (use rng in auto)
  moreover have "(400 * e + 100 * c + 4 * q + y) div 100 = 4 * e + c"
    by (rule div_eqI [of _ _ _ "4 * q + y"]) (use rng in auto)
  moreover have "(400 * e + 100 * c + 4 * q + y) div 400 = e"
    by (rule div_eqI [of _ _ _ "100 * c + 4 * q + y"]) (use rng in auto)
  moreover have "z = 146097 * e + 36524 * c + 1461 * q + 365 * y + day_of_year z"
  proof -
    have "z = 146097 * era_of z + z mod 146097"
      by (simp add: era_of_def)
    moreover have "z mod 146097 = 36524 * c + day_of_century z"
      by (simp add: c_def day_of_century_def)
    moreover have "day_of_century z = 1461 * q + day_of_century z mod 1461"
      by (simp add: q_def cycle_of_def)
    moreover have "day_of_century z mod 1461 = 365 * y + day_of_year z"
      by (simp add: y_def day_of_year_def)
    ultimately show ?thesis
      by (simp add: e_def)
  qed
  ultimately show ?thesis
    by (simp add: days_before_year_def march_year_def flip: e_def c_def q_def y_def)
qed

lemma month_ranges:
  assumes "0 \<le> doy" and "doy \<le> 365"
  shows "0 \<le> month_of_year doy" "month_of_year doy \<le> 11"
    "days_before_month (month_of_year doy) \<le> doy"
    "doy < days_before_month (month_of_year doy + 1)"
proof -
  define m where "m = month_of_year doy"
  have m: "153 * m \<le> 5 * doy + 2" "5 * doy + 2 < 153 * m + 153"
    using div_bounds [of 153 "5 * doy + 2"] by (simp_all add: m_def month_of_year_def)
  then show "0 \<le> month_of_year doy" "month_of_year doy \<le> 11"
    using assms unfolding m_def by linarith+
  have "5 * days_before_month m \<le> 153 * m + 2"
    "153 * (m + 1) + 2 < 5 * days_before_month (m + 1) + 5"
    using div_bounds [of 5 "153 * m + 2"] div_bounds [of 5 "153 * (m + 1) + 2"]
    by (simp_all add: days_before_month_def)
  then show "days_before_month (month_of_year doy) \<le> doy" "doy < days_before_month (month_of_year doy + 1)"
    using m unfolding m_def [symmetric] by (auto simp: algebra_simps)
qed

text \<open>The number of a day and its date determine each other, and the date is one of the calendar.\<close>

lemma day_number_civil_date:
  assumes "civil_date days = (y, m, d)"
  shows "day_number y m d = days" "1 \<le> m \<and> m \<le> 12" "1 \<le> d \<and> d \<le> days_in y m"
proof -
  define z where "z = days + 306"
  define doy where "doy = day_of_year z"
  define mp where "mp = month_of_year doy"
  have doy: "0 \<le> doy" "doy \<le> 365"
    using cycle_ranges(6) [of z] by (auto simp: doy_def)
  note mr = month_ranges [OF this, folded mp_def]
  have ymd: "y = march_year z + (if mp < 10 then 0 else 1)" "m = (if mp < 10 then mp + 3 else mp - 9)"
      "d = doy - days_before_month mp + 1"
    using assms by (auto simp: civil_date_def Let_def simp flip: z_def doy_def mp_def)
  show "1 \<le> m \<and> m \<le> 12"
    using mr by (auto simp: ymd)
  have "(if m \<le> 2 then y - 1 else y) = march_year z" "(if m \<le> 2 then m + 9 else m - 3) = mp"
    using mr by (auto simp: ymd)
  then show "day_number y m d = days"
    using days_before_march_year [of z] by (simp add: day_number_def ymd(3) doy_def z_def)
  have leap: "leap_year y" if "mp = 11" "doy = 365"
  proof -
    define e c q where "e = era_of z" and "c = century_of z" and "q = cycle_of z"
    have rng: "0 \<le> c" "c \<le> 3" "0 \<le> q" "q \<le> 24" "q < 24 \<or> c = 3" "year_of_cycle z = 3"
      using cycle_ranges [of z] that by (auto simp: doy_def c_def q_def)
    have y: "y = 400 * e + 100 * c + 4 * (q + 1)"
      using that rng by (simp add: ymd march_year_def e_def c_def q_def)
    have "y mod 4 = 0"
      by (simp add: y)
    moreover have "y mod 100 \<noteq> 0 \<or> y mod 400 = 0"
    proof (cases "q = 24")
      case True
      with rng show ?thesis by (simp add: y)
    next
      case False
      have "y = 100 * (4 * e + c) + 4 * (q + 1)"
        by (simp add: y)
      moreover have "4 * (q + 1) mod 100 = 4 * (q + 1)"
        using rng False by (intro mod_pos_pos_trivial) auto
      ultimately have "y mod 100 = 4 * (q + 1)"
        by (simp only: mod_mult_self4)
      with rng show ?thesis by simp
    qed
    ultimately show ?thesis
      by (simp add: leap_year_def)
  qed
  have leap': "leap_year y \<or> doy \<le> 364" if "mp = 11"
    using leap [OF that] doy(2) by (cases "doy = 365") auto
  have "mp \<in> {0, 1, 2, 3, 4, 5, 6, 7, 8, 9, 10, 11}"
    using mr(1,2) by (simp, presburger)
  then show "1 \<le> d \<and> d \<le> days_in y m"
    using mr(3,4) doy leap'
    by (auto simp: ymd(2,3) days_in_def days_before_month_def)
qed

subsection \<open>Writing\<close>

definition pad_int :: "nat \<Rightarrow> int \<Rightarrow> string" where
  "pad_int w i =
     (let ds = nat_digits (nat \<bar>i\<bar>)
      in (if i < 0 then ''-'' else '''') @ replicate (w - length ds) (CHR ''0'') @ ds)"

definition second_of_day :: "time \<Rightarrow> int" where
  "second_of_day t = t div Second mod 86400"

definition date_and_time :: "time \<Rightarrow> string" where
  "date_and_time t =
     (case civil_date (t div Second div 86400) of (y, m, d) \<Rightarrow>
        pad_int 4 y @ ''-'' @ pad_int 2 m @ ''-'' @ pad_int 2 d @ ''T'' @
        pad_int 2 (second_of_day t div 3600) @ '':'' @
        pad_int 2 (second_of_day t div 60 mod 60) @ '':'' @ pad_int 2 (second_of_day t mod 60))"

definition FormatRFC3339 :: "time \<Rightarrow> string" where
  "FormatRFC3339 t = date_and_time t @ ''Z''"

text \<open>The fraction of the second with the zeros at its end left out, and the point if nothing is left.\<close>

fun trim_zeros :: "string \<Rightarrow> string" where
  "trim_zeros [] = []"
| "trim_zeros (c # cs) =
     (let r = trim_zeros cs in if r = [] \<and> c = CHR ''0'' then [] else c # r)"

definition fraction_digits :: "int \<Rightarrow> string" where
  "fraction_digits ns = trim_zeros (pad_int 9 ns)"

definition FormatRFC3339Nano :: "time \<Rightarrow> string" where
  "FormatRFC3339Nano t =
     (let fr = fraction_digits (t mod Second)
      in date_and_time t @ (if fr = [] then [] else CHR ''.'' # fr) @ ''Z'')"

definition year_of :: "time \<Rightarrow> int" where
  "year_of t = fst (civil_date (t div Second div 86400))"

subsection \<open>The parser\<close>

text \<open>
  A number of exactly \<open>w\<close> digits, at most \<open>hi\<close> and at least \<open>lo\<close>; a literal byte; the fraction; the
  zone, as its offset in seconds. The library is more lenient than RFC 3339 (its strict checks are
  switched off): an hour may have one digit, a comma may stand before the fraction, and an offset may
  be up to 24:60.
\<close>

definition take_num :: "nat \<Rightarrow> int \<Rightarrow> int \<Rightarrow> string \<Rightarrow> (int \<times> string) option" where
  "take_num w lo hi s =
     (let ds = take w s; v = int (digits_value ds)
      in if length ds = w \<and> list_all is_digit ds \<and> lo \<le> v \<and> v \<le> hi then Some (v, drop w s) else None)"

definition take_char :: "char \<Rightarrow> string \<Rightarrow> string option" where
  "take_char c s = (case s of [] \<Rightarrow> None | x # r \<Rightarrow> if x = c then Some r else None)"

definition take_hour :: "string \<Rightarrow> (int \<times> string) option" where
  "take_hour s =
     (if list_all is_digit (take 1 (drop 1 s)) \<and> 2 \<le> length s then take_num 2 0 23 s
      else take_num 1 0 23 s)"

definition take_fraction :: "string \<Rightarrow> (int \<times> string) option" where
  "take_fraction s =
     (case s of
        [] \<Rightarrow> Some (0, s)
      | c # r \<Rightarrow>
          if c = CHR ''.'' \<or> c = CHR '','' then
            (let ds = takeWhile is_digit r
             in if ds = [] then None
                else Some (int (digits_value (take 9 (ds @ replicate 9 (CHR ''0'')))), dropWhile is_digit r))
          else Some (0, s))"

definition take_zone :: "string \<Rightarrow> (int \<times> string) option" where
  "take_zone s =
     (case s of
        [] \<Rightarrow> None
      | c # r \<Rightarrow>
          if c = CHR ''Z'' then Some (0, r)
          else if c = CHR ''+'' \<or> c = CHR ''-'' then do {
            (h, r) \<leftarrow> take_num 2 0 24 r;
            r \<leftarrow> take_char (CHR '':'') r;
            (m, r) \<leftarrow> take_num 2 0 60 r;
            Some ((if c = CHR ''-'' then -1 else 1) * (h * 3600 + m * 60), r)
          }
          else None)"

definition ParseRFC3339 :: "string \<Rightarrow> time option" where
  "ParseRFC3339 s = do {
     (y, s) \<leftarrow> take_num 4 0 9999 s;
     s \<leftarrow> take_char (CHR ''-'') s;
     (mo, s) \<leftarrow> take_num 2 1 12 s;
     s \<leftarrow> take_char (CHR ''-'') s;
     (d, s) \<leftarrow> take_num 2 1 (days_in y mo) s;
     s \<leftarrow> take_char (CHR ''T'') s;
     (h, s) \<leftarrow> take_hour s;
     s \<leftarrow> take_char (CHR '':'') s;
     (mi, s) \<leftarrow> take_num 2 0 59 s;
     s \<leftarrow> take_char (CHR '':'') s;
     (sec, s) \<leftarrow> take_num 2 0 59 s;
     (ns, s) \<leftarrow> take_fraction s;
     (off, s) \<leftarrow> take_zone s;
     if s = [] then Some ((day_number y mo d * 86400 + h * 3600 + mi * 60 + sec - off) * Second + ns)
     else None
   }"

subsection \<open>What was written is read back\<close>

lemma digits_value_append: "digits_value (a @ b) = digits_value a * 10 ^ length b + digits_value b"
proof (induction b rule: rev_induct)
  case (snoc c b)
  then show ?case
    using digits_value_snoc [of "a @ b" c] by (simp add: algebra_simps)
qed (simp add: digits_value_def)

lemma digits_value_zeros [simp]: "digits_value (replicate n (CHR ''0'')) = 0"
  by (induction n) (simp_all add: digits_value_append [of "[_]", simplified] digits_value_def digit_val_def)

lemma length_nat_digits: "0 < w \<Longrightarrow> n < 10 ^ w \<Longrightarrow> length (nat_digits n) \<le> w"
proof (induction n arbitrary: w rule: nat_digits.induct)
  case (1 n)
  show ?case
  proof (cases "n < 10")
    case False
    with 1(3) obtain v where w: "w = Suc v" "0 < v"
      using 1(2) by (cases w; cases "w - 1") auto
    with False 1(3) 1(1) [of v] show ?thesis
      by (subst nat_digits.simps) (simp add: div_less_iff_less_mult)
  qed (use 1(2) in \<open>simp add: nat_digits.simps\<close>)
qed

lemma pad_int_digits:
  assumes "0 \<le> i" and "i < 10 ^ w" and "0 < w"
  shows "length (pad_int w i) = w" "list_all is_digit (pad_int w i)" "digits_value (pad_int w i) = nat i"
proof -
  have "nat i < 10 ^ w"
    using assms by (simp add: nat_less_iff)
  then have "length (nat_digits (nat i)) \<le> w"
    using assms(3) length_nat_digits by blast
  then show "length (pad_int w i) = w" "digits_value (pad_int w i) = nat i"
    using assms(1) by (simp_all add: pad_int_def Let_def digits_value_append)
  show "list_all is_digit (pad_int w i)"
    using assms(1) nat_digits_all [of "nat i"]
    by (auto simp: pad_int_def Let_def list_all_iff is_digit_def)
qed

lemma take_num_pad:
  assumes "lo \<le> i" and "i \<le> hi" and "0 \<le> i" and "i < 10 ^ w" and "0 < w"
  shows "take_num w lo hi (pad_int w i @ s) = Some (i, s)"
  using pad_int_digits [OF assms(3-5)] assms by (simp add: take_num_def)

lemma take_hour_pad:
  assumes "0 \<le> i" and "i \<le> 23"
  shows "take_hour (pad_int 2 i @ s) = Some (i, s)"
proof -
  have p: "length (pad_int 2 i) = 2" "list_all is_digit (pad_int 2 i)"
    using pad_int_digits [of i 2] assms by simp_all
  then have "list_all is_digit (take 1 (drop 1 (pad_int 2 i @ s)))"
    by (cases "pad_int 2 i"; cases "tl (pad_int 2 i)") auto
  with p show ?thesis
    using take_num_pad [of 0 i 23 2 s] assms by (simp add: take_hour_def)
qed

lemma take_char_Cons [simp]: "take_char c (c # s) = Some s"
  by (simp add: take_char_def)

lemma trim_zeros_append: "\<exists>n. s = trim_zeros s @ replicate n (CHR ''0'')"
proof (induction s)
  case (Cons c s)
  then obtain n where n: "s = trim_zeros s @ replicate n (CHR ''0'')"
    by blast
  show ?case
  proof (cases "trim_zeros s = [] \<and> c = CHR ''0''")
    case True
    with n have "c # s = trim_zeros (c # s) @ replicate (Suc n) (CHR ''0'')"
      by simp
    then show ?thesis
      by blast
  next
    case False
    then have "trim_zeros (c # s) = c # trim_zeros s"
      by (auto simp: Let_def)
    with n show ?thesis
      by (metis append_Cons)
  qed
qed simp

lemma take_fraction_nano:
  assumes "0 \<le> ns" and "ns < Second"
  shows "take_fraction ((if fraction_digits ns = [] then [] else CHR ''.'' # fraction_digits ns) @ ''Z'') =
    Some (ns, ''Z'')"
proof -
  obtain n where n: "pad_int 9 ns = fraction_digits ns @ replicate n (CHR ''0'')"
    using trim_zeros_append unfolding fraction_digits_def by blast
  have p: "length (pad_int 9 ns) = 9" "list_all is_digit (pad_int 9 ns)" "digits_value (pad_int 9 ns) = nat ns"
    using pad_int_digits [of ns 9] assms by simp_all
  have d: "list_all is_digit (fraction_digits ns)"
    using p(2) n by simp
  have "take 9 (fraction_digits ns @ replicate 9 (CHR ''0'')) = pad_int 9 ns"
    using p(1) n by (auto simp: take_replicate min_def)
  moreover have "takeWhile is_digit (fraction_digits ns @ ''Z'') = fraction_digits ns"
      "dropWhile is_digit (fraction_digits ns @ ''Z'') = ''Z''"
    using d by (simp_all add: takeWhile_append dropWhile_append list_all_iff is_digit_def)
  moreover have "ns = 0" if "fraction_digits ns = []"
    using that n p(3) assms by (simp)
  ultimately show ?thesis
    using p(3) assms by (simp add: take_fraction_def Let_def)
qed

lemma nums_aux:
  fixes y m d h mi sec :: int
  assumes "0 \<le> y" "y \<le> 9999" "1 \<le> m \<and> m \<le> 12" "1 \<le> d" "d \<le> 31" "d \<le> k" "0 \<le> h" "h \<le> 23"
    "0 \<le> mi" "mi \<le> 59" "0 \<le> sec" "sec \<le> 59"
  shows "take_num 4 0 9999 (pad_int 4 y @ s) = Some (y, s)"
      "take_num 2 1 12 (pad_int 2 m @ s) = Some (m, s)"
      "take_num 2 1 k (pad_int 2 d @ s) = Some (d, s)"
      "take_hour (pad_int 2 h @ s) = Some (h, s)"
      "take_num 2 0 59 (pad_int 2 mi @ s) = Some (mi, s)"
      "take_num 2 0 59 (pad_int 2 sec @ s) = Some (sec, s)"
  using assms by (simp_all add: take_num_pad take_hour_pad)

theorem ParseRFC3339_format:
  assumes "0 \<le> year_of t" and "year_of t \<le> 9999"
  shows "ParseRFC3339 (FormatRFC3339Nano t) = Some t"
proof -
  define sod where "sod = second_of_day t"
  obtain y m d where date: "civil_date (t div Second div 86400) = (y, m, d)"
    by (metis surj_pair)
  note dn = day_number_civil_date [OF date]
  have y: "0 \<le> y" "y \<le> 9999"
    using assms by (simp_all add: year_of_def date)
  have d: "1 \<le> d" "d \<le> 31" "d \<le> days_in y m"
    using dn(3) by (auto simp: days_in_def split: if_splits)
  have sod: "0 \<le> sod" "sod < 86400"
    by (simp_all add: sod_def second_of_day_def)
  have h: "sod div 3600 = sod div 60 div 60"
    by (simp flip: zdiv_zmult2_eq)
  have parts: "0 \<le> sod div 3600" "sod div 3600 \<le> 23" "0 \<le> sod div 60 mod 60" "sod div 60 mod 60 \<le> 59"
      "0 \<le> sod mod 60" "sod mod 60 \<le> 59"
    using sod div_bounds [of 3600 sod] pos_mod_bound [of 60 "sod div 60"] pos_mod_bound [of 60 sod]
    by (simp_all add: pos_imp_zdiv_nonneg_iff)
  have sum: "sod = sod div 3600 * 3600 + sod div 60 mod 60 * 60 + sod mod 60"
    using mult_div_mod_eq [of 60 sod] mult_div_mod_eq [of 60 "sod div 60"] unfolding h by linarith
  have t: "t = (day_number y m d * 86400 + sod) * Second + t mod Second"
    unfolding dn(1) sod_def second_of_day_def by (simp only: div_mult_mod_eq)
  have ns: "0 \<le> t mod Second" "t mod Second < Second"
    by simp_all
  have nums: "take_num 4 0 9999 (pad_int 4 y @ s) = Some (y, s)"
      "take_num 2 1 12 (pad_int 2 m @ s) = Some (m, s)"
      "take_num 2 1 (days_in y m) (pad_int 2 d @ s) = Some (d, s)"
      "take_hour (pad_int 2 (sod div 3600) @ s) = Some (sod div 3600, s)"
      "take_num 2 0 59 (pad_int 2 (sod div 60 mod 60) @ s) = Some (sod div 60 mod 60, s)"
      "take_num 2 0 59 (pad_int 2 (sod mod 60) @ s) = Some (sod mod 60, s)" for s
    using nums_aux [OF y dn(2) d(1,2,3) parts] by simp_all
  have "FormatRFC3339Nano t = pad_int 4 y @ CHR ''-'' # pad_int 2 m @ CHR ''-'' # pad_int 2 d @ CHR ''T'' #
      pad_int 2 (sod div 3600) @ CHR '':'' # pad_int 2 (sod div 60 mod 60) @ CHR '':'' # pad_int 2 (sod mod 60) @
      (if fraction_digits (t mod Second) = [] then [] else CHR ''.'' # fraction_digits (t mod Second)) @ ''Z''"
    by (simp add: FormatRFC3339Nano_def date_and_time_def date sod_def)
  moreover have "take_zone ''Z'' = Some (0, [])"
    by (simp add: take_zone_def)
  ultimately have "ParseRFC3339 (FormatRFC3339Nano t) =
      Some ((day_number y m d * 86400 + sod div 3600 * 3600 + sod div 60 mod 60 * 60 + sod mod 60 - 0) * Second + t mod Second)"
    by (simp only: ParseRFC3339_def nums take_char_Cons take_fraction_nano [OF ns] Option.bind.bind_lunit
        prod.case simp_thms if_True)
  also have "\<dots> = Some t"
    using t sum by (simp add: algebra_simps)
  finally show ?thesis .
qed

end
