(* ===== verification/Kafka.thy ===== *)
theory Kafka
  imports GoErrors Json GoTime
begin

section \<open>Messages and the producer (pkg/kafka/messages.go, producer.go)\<close>

text \<open>
  The message the API publishes, the \<open>EventProducer\<close> interface with its contract (a published
  message is appended to what was sent), its JSON encoding, the producer on a Kafka writer, and the
  test double. The writer of the client library is a parameter.
\<close>

definition MessageVersion :: string where
  "MessageVersion = ''1''"

record FetchRequestMessage =
  Version_q :: string
  URL_q :: string
  RequestedAt_q :: time
  RequestID_q :: string
  Source_q :: string

record 'p EventProducer =
  Publish :: "FetchRequestMessage \<Rightarrow> ('p, goerr option) io"
  Ping_p :: "('p, goerr option) io"
  Close_p :: "('p, goerr option) io"

text \<open>
  As with the repository, a failed publish may have stored the message: the acknowledgement can be
  lost. \<open>wire m\<close> is what the other side receives for \<open>m\<close>.
\<close>

locale event_producer =
  fixes P :: "'p EventProducer"
    and sent :: "'p \<Rightarrow> FetchRequestMessage list"
    and wire :: "FetchRequestMessage \<Rightarrow> FetchRequestMessage"
  assumes publish_contract: "wp (Publish P m) (\<lambda>err (s', c').
      sent s' = sent s @ [wire m] \<or> err \<noteq> None \<and> sent s' = sent s) (s, c)"
    and producer_ping: "wp (Ping_p P) (\<lambda>_ (s', c'). sent s' = sent s) (s, c)"
begin

lemma publish_rule:
  assumes "\<And>s' c'. sent s' = sent s @ [wire m] \<Longrightarrow> Q None (s', c')"
    and "\<And>e s' c'. sent s' = sent s @ [wire m] \<or> sent s' = sent s \<Longrightarrow> Q (Some e) (s', c')"
  shows "wp (Publish P m) Q (s, c)"
proof (rule wp_mono [OF publish_contract])
  fix err :: "goerr option" and t :: "'p \<times> clock"
  assume "case t of (s', c') \<Rightarrow> sent s' = sent s @ [wire m] \<or> err \<noteq> None \<and> sent s' = sent s"
  then show "Q err t"
    using assms by (cases t; cases err) auto
qed

end

subsection \<open>The Kafka client library\<close>

record kafka_message =
  Key :: string
  Value :: string
  MsgHeaders :: "(string \<times> string) list"
  Offset :: int
  Partition :: int

definition plain_message :: "string \<Rightarrow> string \<Rightarrow> kafka_message" where
  "plain_message k v = \<lparr>Key = k, Value = v, MsgHeaders = [], Offset = 0, Partition = 0\<rparr>"

record 'k kafka_writer =
  WriteMessages :: "kafka_message \<Rightarrow> ('k, goerr option) io"
  CloseWriter :: "('k, goerr option) io"
  DialContext :: "string \<Rightarrow> ('k, goerr option) io"

subsection \<open>The message as JSON\<close>

text \<open>
  \<^verbatim>\<open>json.Marshal\<close> of the struct, by its tags. It fails only on a year of other than four digits.
\<close>

definition year_error :: goerr where
  "year_error = Opaque (''json: error calling MarshalJSON for type time.Time: '' @
     ''Time.MarshalJSON: year outside of range [0,9999]'')"

definition Marshal :: "FetchRequestMessage \<Rightarrow> goerr + string" where
  "Marshal q =
     (if year_of (RequestedAt_q q) < 0 \<or> 9999 < year_of (RequestedAt_q q) then Inl year_error
      else Inr (json_object [(''version'', json_escape (Version_q q)), (''url'', json_escape (URL_q q)),
        (''requested_at'', FormatRFC3339Nano (RequestedAt_q q)),
        (''request_id'', json_escape (RequestID_q q)), (''source'', json_escape (Source_q q))]))"

text \<open>
  \<^verbatim>\<open>json.Unmarshal\<close> into the zero struct; \<open>None\<close> is an error, of which the callers only log the text.
  Unknown members are skipped.
\<close>

definition zero_message :: FetchRequestMessage where
  "zero_message = \<lparr>Version_q = [], URL_q = [], RequestedAt_q = 0, RequestID_q = [], Source_q = []\<rparr>"

definition time_field :: "json \<Rightarrow> time \<Rightarrow> time option" where
  "time_field v old =
     (case v of JNull \<Rightarrow> Some old | JString raw \<Rightarrow> ParseRFC3339 raw | _ \<Rightarrow> None)"

definition message_field :: "string \<Rightarrow> json \<Rightarrow> FetchRequestMessage \<Rightarrow> FetchRequestMessage option" where
  "message_field k v q =
     (if is_field ''version'' k then map_option (\<lambda>x. q\<lparr>Version_q := x\<rparr>) (text_field v (Version_q q))
      else if is_field ''url'' k then map_option (\<lambda>x. q\<lparr>URL_q := x\<rparr>) (text_field v (URL_q q))
      else if is_field ''requested_at'' k
        then map_option (\<lambda>x. q\<lparr>RequestedAt_q := x\<rparr>) (time_field v (RequestedAt_q q))
      else if is_field ''request_id'' k then map_option (\<lambda>x. q\<lparr>RequestID_q := x\<rparr>) (text_field v (RequestID_q q))
      else if is_field ''source'' k then map_option (\<lambda>x. q\<lparr>Source_q := x\<rparr>) (text_field v (Source_q q))
      else Some q)"

definition Unmarshal :: "string \<Rightarrow> FetchRequestMessage option" where
  "Unmarshal data =
     (case parse_document data of
        None \<Rightarrow> None
      | Some v \<Rightarrow> decode_struct message_field v zero_message)"

text \<open>
  What arrives: bytes that are not UTF-8 arrive as U+FFFD, everything else as it was.
\<close>

definition on_wire :: "FetchRequestMessage \<Rightarrow> FetchRequestMessage" where
  "on_wire q = q\<lparr>Version_q := to_valid (Version_q q), URL_q := to_valid (URL_q q),
     RequestID_q := to_valid (RequestID_q q), Source_q := to_valid (Source_q q)\<rparr>"

lemma field_names [simp]:
  "literal ''version''" "unquote ''version'' = ''version''"
  "literal ''url''" "unquote ''url'' = ''url''"
  "literal ''requested_at''" "unquote ''requested_at'' = ''requested_at''"
  "literal ''request_id''" "unquote ''request_id'' = ''request_id''"
  "literal ''source''" "unquote ''source'' = ''source''"
  by (rule literal_plain, code_simp | code_simp)+

lemma fold_names:
  "fold_name ''version'' = [86, 69, 82, 83, 73, 79, 78]"
  "fold_name ''url'' = [85, 82, 76]"
  "fold_name ''requested_at'' = [82, 69, 81, 85, 69, 83, 84, 69, 68, 95, 65, 84]"
  "fold_name ''request_id'' = [82, 69, 81, 85, 69, 83, 84, 95, 73, 68]"
  "fold_name ''source'' = [83, 79, 85, 82, 67, 69]"
  by code_simp+

lemma fields_distinct [simp]:
  "is_field ''version'' ''version''" "\<not> is_field ''version'' ''url''"
  "\<not> is_field ''version'' ''requested_at''" "\<not> is_field ''version'' ''request_id''"
  "\<not> is_field ''version'' ''source''" "is_field ''url'' ''url''" "\<not> is_field ''url'' ''requested_at''"
  "\<not> is_field ''url'' ''request_id''" "\<not> is_field ''url'' ''source''"
  "is_field ''requested_at'' ''requested_at''" "\<not> is_field ''requested_at'' ''request_id''"
  "\<not> is_field ''requested_at'' ''source''" "is_field ''request_id'' ''request_id''"
  "\<not> is_field ''request_id'' ''source''" "is_field ''source'' ''source''"
  by (simp_all add: is_field_def fold_names)

lemma plain_digits: "list_all is_digit ds \<Longrightarrow> list_all plain_byte ds"
  by (auto simp: list_all_iff is_digit_def plain_byte_def)

lemma plain_punctuation:
  "plain_byte (CHR ''-'')" "plain_byte (CHR '':'')" "plain_byte (CHR ''T'')" "plain_byte (CHR ''Z'')"
  "plain_byte (CHR ''.'')" "plain_byte (CHR ''0'')"
  by code_simp+

lemma plain_pad_int: "list_all plain_byte (pad_int w i)"
  using plain_digits [OF nat_digits_all [of "nat \<bar>i\<bar>"]] plain_punctuation
  by (auto simp: pad_int_def Let_def list_all_iff)

lemma plain_time: "list_all plain_byte (FormatRFC3339Nano t)"
proof -
  have "list_all plain_byte (fraction_digits ns)" for ns
    using plain_pad_int [of 9 ns] trim_zeros_append [of "pad_int 9 ns"]
    unfolding fraction_digits_def by (metis list_all_append)
  then show ?thesis
    using plain_pad_int plain_punctuation
    by (simp add: FormatRFC3339Nano_def date_and_time_def Let_def split: prod.split)
qed

lemma Unmarshal_Marshal:
  assumes "Marshal q = Inr data"
  shows "Unmarshal data = Some (on_wire q)"
proof -
  have year: "0 \<le> year_of (RequestedAt_q q)" "year_of (RequestedAt_q q) \<le> 9999"
    using assms by (auto simp: Marshal_def split: if_splits)
  have lit: "literal (FormatRFC3339Nano (RequestedAt_q q))"
    by (rule literal_plain [OF plain_time])
  have "parse_document data = Some (JObject [(''version'', JString (json_escape (Version_q q))),
      (''url'', JString (json_escape (URL_q q))),
      (''requested_at'', JString (FormatRFC3339Nano (RequestedAt_q q))),
      (''request_id'', JString (json_escape (RequestID_q q))), (''source'', JString (json_escape (Source_q q)))])"
    using assms year lit by (auto simp: Marshal_def parse_json_object)
  then show ?thesis
    by (simp add: Unmarshal_def decode_struct_def message_field_def text_field_def time_field_def
        unquote_json_escape ParseRFC3339_format [OF year] zero_message_def on_wire_def)
qed

lemma on_wire_simps [simp]:
  "URL_q (on_wire q) = to_valid (URL_q q)"
  by (simp add: on_wire_def)

subsection \<open>The producer\<close>

datatype required_acks = RequireNone | RequireOne | RequireAll

record writer_config =
  Addr_w :: "string list"
  Topic_w :: string
  BatchTimeout :: duration
  RequiredAcks :: required_acks
  Async :: bool

record KafkaProducer =
  writer_cfg :: writer_config
  brokers :: "string list"
  topic :: string

definition NewKafkaProducer :: "string list \<Rightarrow> string \<Rightarrow> KafkaProducer" where
  "NewKafkaProducer brokers_list topic_name =
     \<lparr>writer_cfg = \<lparr>Addr_w = brokers_list, Topic_w = topic_name, BatchTimeout = 10 * Millisecond,
        RequiredAcks = RequireOne, Async = False\<rparr>,
      brokers = brokers_list, topic = topic_name\<rparr>"

definition kafka_Publish ::
  "'k kafka_writer \<Rightarrow> FetchRequestMessage \<Rightarrow> ('k, goerr option) io" where
  "kafka_Publish writer msg =
     (case Marshal msg of
        Inl err \<Rightarrow> ret (Some (ErrorfW ''marshal message'' err))
      | Inr data \<Rightarrow> do {
          err \<leftarrow> WriteMessages writer (plain_message (URL_q msg) data);
          ret (map_option (ErrorfW ''publish to kafka'') err)
        })"

text \<open>\<open>Ping\<close> of the producer; the consumer's is the same code.\<close>

definition kafka_Ping :: "'k kafka_writer \<Rightarrow> string list \<Rightarrow> ('k, goerr option) io" where
  "kafka_Ping writer brokers_list =
     (case brokers_list of
        [] \<Rightarrow> ret (Some (Opaque ''no kafka brokers configured''))
      | b # _ \<Rightarrow>
          if b = '''' then ret (Some (Opaque ''no kafka brokers configured''))
          else do {
            err \<leftarrow> DialContext writer b;
            ret (map_option (ErrorfW (''dial kafka broker '' @ b)) err)
          })"

definition kafka_producer ::
  "'k kafka_writer \<Rightarrow> KafkaProducer \<Rightarrow> 'k EventProducer" where
  "kafka_producer writer p = \<lparr>Publish = kafka_Publish writer,
     Ping_p = kafka_Ping writer (brokers p), Close_p = CloseWriter writer\<rparr>"

text \<open>
  The documented behaviour of the writer the producer relies on: a message that was written is at the
  end of the topic.
\<close>

definition decoded_topic :: "kafka_message list \<Rightarrow> FetchRequestMessage list" where
  "decoded_topic ms =
     concat (map (\<lambda>m. case Unmarshal (Value m) of None \<Rightarrow> [] | Some q \<Rightarrow> [q]) ms)"

locale kafka_topic =
  fixes writer :: "'k kafka_writer"
    and log :: "'k \<Rightarrow> kafka_message list"
  assumes write_message: "wp (WriteMessages writer m) (\<lambda>err (s', c').
      log s' = log s @ [m] \<or> err \<noteq> None \<and> log s' = log s) (s, c)"
    and dial: "wp (DialContext writer b) (\<lambda>_ (s', c'). log s' = log s) (s, c)"
begin

lemma decoded_topic_snoc:
  "Marshal q = Inr data \<Longrightarrow>
     decoded_topic (ms @ [plain_message k data]) = decoded_topic ms @ [on_wire q]"
  by (simp add: decoded_topic_def plain_message_def Unmarshal_Marshal)

lemma kafka_Publish_contract:
  "wp (kafka_Publish writer q) (\<lambda>err (s', c').
     decoded_topic (log s') = decoded_topic (log s) @ [on_wire q] \<or>
     err \<noteq> None \<and> decoded_topic (log s') = decoded_topic (log s)) (s, c)"
proof (cases "Marshal q")
  case (Inr data)
  then show ?thesis
    by (simp add: kafka_Publish_def del: not_None_eq)
      (rule wp_mono [OF write_message], auto simp: decoded_topic_snoc)
qed (simp add: kafka_Publish_def)

lemma kafka_Ping_log: "wp (kafka_Ping writer bs) (\<lambda>_ (s', c'). log s' = log s) (s, c)"
  by (auto simp: kafka_Ping_def split: list.split intro: wp_mono [OF dial])

end

sublocale kafka_topic \<subseteq> producer: event_producer "kafka_producer writer p"
  "decoded_topic \<circ> log" on_wire for p
proof unfold_locales
  show "wp (Publish (kafka_producer writer p) q) (\<lambda>err (s', c').
      (decoded_topic \<circ> log) s' = (decoded_topic \<circ> log) s @ [on_wire q] \<or>
      err \<noteq> None \<and> (decoded_topic \<circ> log) s' = (decoded_topic \<circ> log) s) (s, c)" for q s c
    using kafka_Publish_contract by (simp add: kafka_producer_def)
  show "wp (Ping_p (kafka_producer writer p))
      (\<lambda>_ (s', c'). (decoded_topic \<circ> log) s' = (decoded_topic \<circ> log) s) (s, c)" for s c
    by (simp add: kafka_producer_def) (rule wp_mono [OF kafka_Ping_log], auto)
qed

subsection \<open>The test double\<close>

record MockProducer =
  Messages :: "FetchRequestMessage list"
  Err_k :: "goerr option"
  PingErr_k :: "goerr option"
  Closed_k :: bool
  PingCalled_k :: int

definition mock_Publish :: "FetchRequestMessage \<Rightarrow> (MockProducer, goerr option) io" where
  "mock_Publish msg = act (\<lambda>m. case Err_k m of
       Some e \<Rightarrow> (Some e, m)
     | None \<Rightarrow> (None, m\<lparr>Messages := Messages m @ [msg]\<rparr>))"

definition mock_producer_Ping :: "(MockProducer, goerr option) io" where
  "mock_producer_Ping = act (\<lambda>m. (PingErr_k m, m\<lparr>PingCalled_k := PingCalled_k m + 1\<rparr>))"

definition mock_producer_Close :: "(MockProducer, goerr option) io" where
  "mock_producer_Close = act (\<lambda>m. (None, m\<lparr>Closed_k := True\<rparr>))"

definition mock_producer :: "MockProducer EventProducer" where
  "mock_producer = \<lparr>Publish = mock_Publish, Ping_p = mock_producer_Ping,
     Close_p = mock_producer_Close\<rparr>"

lemmas mock_producer_defs = mock_producer_def mock_Publish_def mock_producer_Ping_def
  mock_producer_Close_def

interpretation mockp: event_producer mock_producer Messages "\<lambda>m. m"
  by unfold_locales (simp_all add: mock_producer_defs split: option.split)

subsection \<open>A topic in memory\<close>

text \<open>
  A broker that appends or, when down, refuses: it shows that the laws of \<open>kafka_topic\<close> hold together,
  and the closed statements use it.
\<close>

record broker =
  broker_log :: "kafka_message list"
  broker_down :: "goerr option"

definition mem_writer :: "broker kafka_writer" where
  "mem_writer = \<lparr>WriteMessages = (\<lambda>m. act (\<lambda>b. case broker_down b of
         Some e \<Rightarrow> (Some e, b)
       | None \<Rightarrow> (None, b\<lparr>broker_log := broker_log b @ [m]\<rparr>))),
     CloseWriter = act (\<lambda>b. (None, b)),
     DialContext = (\<lambda>_. act (\<lambda>b. (broker_down b, b)))\<rparr>"

interpretation topic: kafka_topic mem_writer broker_log
  by unfold_locales (simp_all add: mem_writer_def split: option.split)

subsection \<open>Properties\<close>

text \<open>
  C11: What the producer encodes the consumer decodes: encoding fails exactly on a year of other than
  four digits, and the bytes decode to the message as it was, to the nanosecond, except that bytes
  which are not UTF-8 have become U+FFFD.
\<close>

theorem message_arrives:
  "(case Marshal q of
      Inl err \<Rightarrow> year_of (RequestedAt_q q) \<notin> {0..9999}
    | Inr data \<Rightarrow> year_of (RequestedAt_q q) \<in> {0..9999} \<and> Unmarshal data = Some (on_wire q)) \<and>
   (on_wire q = q \<longleftrightarrow> list_all valid_utf8 [Version_q q, URL_q q, RequestID_q q, Source_q q])"
proof -
  have "on_wire q = q \<longleftrightarrow> list_all valid_utf8 [Version_q q, URL_q q, RequestID_q q, Source_q q]"
    by (cases q) (auto simp: on_wire_def to_valid_iff)
  then show ?thesis
    using Unmarshal_Marshal [of q] by (auto simp: Marshal_def)
qed

end
