(* ===== verification/Consumer.thy ===== *)
theory Consumer
  imports Kafka
begin

section \<open>The Kafka consumer (pkg/kafka/consumer.go)\<close>

text \<open>
  The consume loop with its manual commits, the retries of one message with their back-off, and the
  dead letter topic. The reader, the writer of the dead letter topic and the context are parameters
  (\<open>consumer_env\<close>); the handler works on a state of its own, beside theirs.
\<close>

subsection \<open>Configuration\<close>

datatype start_offset = FirstOffset | LastOffset

record reader_config =
  Brokers_rc :: "string list"
  Topic_rc :: string
  GroupID_rc :: string
  MinBytes :: int
  MaxBytes :: int
  CommitInterval :: duration
  StartOffset :: start_offset
  MaxWait :: duration

record KafkaConsumer =
  reader :: reader_config
  dltTopic :: string
  brokers_c :: "string list"
  maxRetries_c :: int

definition NewKafkaConsumer ::
  "string list \<Rightarrow> string \<Rightarrow> string \<Rightarrow> string \<Rightarrow> int \<Rightarrow> KafkaConsumer" where
  "NewKafkaConsumer brokers_list topic_name groupID dlt_topic max_retries =
     \<lparr>reader = \<lparr>Brokers_rc = brokers_list, Topic_rc = topic_name, GroupID_rc = groupID,
        MinBytes = 1, MaxBytes = 10000000, CommitInterval = 0, StartOffset = LastOffset,
        MaxWait = 1 * Second\<rparr>,
      dltTopic = dlt_topic, brokers_c = brokers_list, maxRetries_c = max_retries\<rparr>"

text \<open>
  \<open>After d\<close> is the \<^verbatim>\<open>select\<close> between the context's end (\<^term>\<open>False\<close>) and a timer of \<open>d\<close>
  (\<^term>\<open>True\<close>); \<open>ctx_Done\<close> asks whether the context has ended.
\<close>

record 'k consumer_env =
  FetchMessage :: "('k, goerr + kafka_message) io"
  CommitMessages :: "kafka_message \<Rightarrow> ('k, goerr option) io"
  WriteDLT :: "kafka_message \<Rightarrow> ('k, goerr option) io"
  CloseReader :: "('k, goerr option) io"
  CloseDLT :: "('k, goerr option) io"
  ctx_Done :: "('k, bool) io"
  After :: "duration \<Rightarrow> ('k, bool) io"

record ('k, 'h) consumer_world =
  kafka_st :: 'k
  handler_st :: 'h

type_synonym 'h MessageHandler = "FetchRequestMessage \<Rightarrow> ('h, goerr option) io"

abbreviation on_kafka :: "('k, 'a) io \<Rightarrow> (('k, 'h) consumer_world, 'a) io" where
  "on_kafka \<equiv> zoom kafka_st kafka_st_update"

abbreviation on_handler :: "('h, 'a) io \<Rightarrow> (('k, 'h) consumer_world, 'a) io" where
  "on_handler \<equiv> zoom handler_st handler_st_update"

subsection \<open>The back-off\<close>

text \<open>\<^verbatim>\<open>time.Duration\<close> is a signed 64-bit integer, so the products wrap around.\<close>

definition retryBackoff :: "64 word \<Rightarrow> 64 word" where
  "retryBackoff attempt =
     (let backoff = attempt * 200 * 1000000
      in if 2 * 1000000000 <s backoff then 2 * 1000000000 else backoff)"

subsection \<open>One message\<close>

definition dlt_message ::
  "KafkaConsumer \<Rightarrow> kafka_message \<Rightarrow> goerr \<Rightarrow> time \<Rightarrow> int \<Rightarrow> kafka_message" where
  "dlt_message cons original processingErr now retriesUsed =
     (plain_message (Key original) (Value original))\<lparr>MsgHeaders :=
        [(''original-topic'', Topic_rc (reader cons)),
         (''error'', Error processingErr),
         (''failed-at'', FormatRFC3339 now),
         (''retry-count'', Itoa retriesUsed),
         (''max-retries'', Itoa (maxRetries_c cons))]\<rparr>"

definition sendToDLT ::
  "'k consumer_env \<Rightarrow> KafkaConsumer \<Rightarrow> kafka_message \<Rightarrow> goerr \<Rightarrow> int \<Rightarrow> ('k, goerr option) io" where
  "sendToDLT env cons original processingErr retriesUsed = do {
     now \<leftarrow> time_Now;
     err \<leftarrow> WriteDLT env (dlt_message cons original processingErr now retriesUsed);
     ret (map_option (ErrorfW ''write to DLT'') err)
   }"

text \<open>
  The loop over the attempts. \<open>attempt\<close> never passes \<open>maxRetries\<close> by more than one, so it stays in
  Go's \<open>int\<close>.
\<close>

function attempt_loop ::
  "'k consumer_env \<Rightarrow> KafkaConsumer \<Rightarrow> 'h MessageHandler \<Rightarrow> kafka_message \<Rightarrow>
   FetchRequestMessage \<Rightarrow> int \<Rightarrow> (('k, 'h) consumer_world, bool) io" where
  "attempt_loop env cons handler msg fetchMsg attempt =
     (if attempt \<le> maxRetries_c cons then do {
        err \<leftarrow> on_handler (handler fetchMsg);
        (case err of
           None \<Rightarrow> ret True
         | Some e \<Rightarrow>
             if attempt < maxRetries_c cons then do {
               fired \<leftarrow> on_kafka (After env (sint (retryBackoff (word_of_int (attempt + 1)))));
               if \<not> fired then ret False
               else attempt_loop env cons handler msg fetchMsg (attempt + 1)
             }
             else do {
               dltErr \<leftarrow> on_kafka (sendToDLT env cons msg e attempt);
               ret (dltErr = None)
             })
      }
      else ret True)"
  by pat_completeness auto
termination
  by (relation "measure (\<lambda>(env, cons, handler, msg, fetchMsg, attempt).
        nat (maxRetries_c cons + 1 - attempt))") auto

declare attempt_loop.simps [simp del]

definition processMessage ::
  "'k consumer_env \<Rightarrow> KafkaConsumer \<Rightarrow> 'h MessageHandler \<Rightarrow> kafka_message \<Rightarrow>
   (('k, 'h) consumer_world, bool) io" where
  "processMessage env cons handler msg =
     (case Unmarshal (Value msg) of
        None \<Rightarrow> ret True
      | Some fetchMsg \<Rightarrow> attempt_loop env cons handler msg fetchMsg 0)"

text \<open>A failed commit is only logged.\<close>

definition commitOffset :: "'k consumer_env \<Rightarrow> kafka_message \<Rightarrow> ('k, unit) io" where
  "commitOffset env msg = do { err \<leftarrow> CommitMessages env msg; ret () }"

subsection \<open>The loop\<close>

text \<open>
  One pass of \<open>Start\<close>: \<^term>\<open>False\<close> when the method returns (always nil). The loop itself may run for
  ever; \<open>Start n\<close> runs at most \<open>n\<close> passes, \<^term>\<open>None\<close> when it has not returned by then.
\<close>

definition Start_step ::
  "'k consumer_env \<Rightarrow> KafkaConsumer \<Rightarrow> 'h MessageHandler \<Rightarrow>
   (('k, 'h) consumer_world, bool) io" where
  "Start_step env cons handler = do {
     stopped \<leftarrow> on_kafka (ctx_Done env);
     if stopped then ret False
     else do {
       r \<leftarrow> on_kafka (FetchMessage env);
       (case r of
          Inl err \<Rightarrow> do { ended \<leftarrow> on_kafka (ctx_Done env); ret (\<not> ended) }
        | Inr msg \<Rightarrow> do {
            commit \<leftarrow> processMessage env cons handler msg;
            if commit then do { _ \<leftarrow> on_kafka (commitOffset env msg); ret True }
            else ret True
          })
     }
   }"

fun Start :: "nat \<Rightarrow> 'k consumer_env \<Rightarrow> KafkaConsumer \<Rightarrow> 'h MessageHandler \<Rightarrow>
   (('k, 'h) consumer_world, goerr option option) io" where
  "Start 0 env cons handler = ret None"
| "Start (Suc n) env cons handler = do {
     go \<leftarrow> Start_step env cons handler;
     if go then Start n env cons handler else ret (Some None)
   }"

definition Close_c :: "'k consumer_env \<Rightarrow> ('k, goerr option) io" where
  "Close_c env = do {
     err1 \<leftarrow> CloseReader env;
     err2 \<leftarrow> CloseDLT env;
     ret (case err1 of Some e \<Rightarrow> Some e | None \<Rightarrow> err2)
   }"

text \<open>\<open>Ping\<close> is the producer's \<open>Ping\<close>, letter by letter.\<close>

definition consumer_Ping :: "'k kafka_writer \<Rightarrow> KafkaConsumer \<Rightarrow> ('k, goerr option) io" where
  "consumer_Ping writer cons = kafka_Ping writer (brokers_c cons)"

subsection \<open>The back-off is bounded\<close>

text \<open>Up to 46116860184 attempts the product does not wrap around.\<close>

lemma sint_word_of_int_small:
  "- (2 ^ 63) \<le> i \<Longrightarrow> i < 2 ^ 63 \<Longrightarrow> sint (word_of_int i :: 64 word) = i"
  by (simp add: sint_sbintrunc' signed_take_bit_int_eq_self_iff)

lemma retryBackoff_exact:
  assumes "0 < a" and "a \<le> 46116860184"
  shows "sint (retryBackoff (word_of_int a)) = min (a * (200 * Millisecond)) (2 * Second)"
proof -
  have prod: "word_of_int a * 200 * 1000000 = (word_of_int (a * 200000000) :: 64 word)"
    by (simp add: mult.assoc)
  have "sint (word_of_int (a * 200000000) :: 64 word) = a * 200000000"
    using assms by (intro sint_word_of_int_small) simp_all
  moreover have "sint (2000000000 :: 64 word) = 2000000000"
    using sint_word_of_int_small [of 2000000000] by simp
  ultimately show ?thesis
    by (simp add: retryBackoff_def Let_def prod word_sless_alt)
qed

subsection \<open>Runs of the handler\<close>

text \<open>
  \<open>logged handler\<close> is the handler with a ghost log of its runs: what message it got and how it
  ended. It adds nothing the code could see, so what holds of every logged handler holds of every
  handler.
\<close>

type_synonym run = "FetchRequestMessage \<times> goerr option"

definition logged :: "'h MessageHandler \<Rightarrow> ('h \<times> run list) MessageHandler" where
  "logged handler q = State (\<lambda>((h, runs), c).
     case run_state (handler q) (h, c) of (err, (h', c')) \<Rightarrow> (err, ((h', runs @ [(q, err)]), c')))"

abbreviation runs_of :: "('k, 'h \<times> run list) consumer_world \<Rightarrow> run list" where
  "runs_of w \<equiv> snd (handler_st w)"

lemma wp_logged:
  "wp (logged handler q) Q ((h, runs), c) \<longleftrightarrow>
     wp (handler q) (\<lambda>err (h', c'). Q err ((h', runs @ [(q, err)]), c')) (h, c)"
  by (simp add: wp_def logged_def split: prod.split)

lemma logged_rule:
  assumes "\<And>err h' c'. Q err ((h', runs @ [(q, err)]), c')"
  shows "wp (logged handler q) Q ((h, runs), c)"
  unfolding wp_logged by (rule wp_any) (use assms in auto)

text \<open>
  The runs of one message: failures, and then perhaps a success. \<open>retried q rs\<close>: every run but the
  last one failed.
\<close>

definition retried :: "FetchRequestMessage \<Rightarrow> run list \<Rightarrow> bool" where
  "retried q rs \<longleftrightarrow> rs \<noteq> [] \<and> (\<forall>r \<in> set rs. fst r = q) \<and> (\<forall>r \<in> set (butlast rs). snd r \<noteq> None)"

lemma retried_single [simp]: "retried q [(q, err)]"
  by (simp add: retried_def)

lemma retried_Cons: "retried q rs \<Longrightarrow> retried q ((q, Some e) # rs)"
  by (auto simp: retried_def)

text \<open>
  A message is settled by the runs \<open>rs\<close> and the dead letters \<open>ds\<close>: it does not decode, or the handler
  succeeded on it, or its key and value are in the dead letter topic.
\<close>

definition settled :: "run list \<Rightarrow> kafka_message list \<Rightarrow> kafka_message \<Rightarrow> bool" where
  "settled rs ds m \<longleftrightarrow>
     (case Unmarshal (Value m) of
        None \<Rightarrow> True
      | Some q \<Rightarrow> (q, None) \<in> set rs \<or> (\<exists>d \<in> set ds. Key d = Key m \<and> Value d = Value m))"

lemma settled_mono:
  "settled rs ds m \<Longrightarrow> settled (rs' @ rs) (ds' @ ds) m"
  "settled rs ds m \<Longrightarrow> settled (rs @ rs') (ds @ ds') m"
  by (auto simp: settled_def split: option.splits)

subsection \<open>The contract of the broker\<close>

locale consumer_broker =
  fixes env :: "'k consumer_env"
    and dlt :: "'k \<Rightarrow> kafka_message list"
    and committed :: "'k \<Rightarrow> kafka_message list"
  assumes fetch_message: "wp (FetchMessage env)
      (\<lambda>_ (s', c'). dlt s' = dlt s \<and> committed s' = committed s) (s, c)"
    and commit_messages: "wp (CommitMessages env m) (\<lambda>err (s', c'). dlt s' = dlt s \<and>
      (committed s' = committed s @ [m] \<or> err \<noteq> None \<and> committed s' = committed s)) (s, c)"
    and write_dlt: "wp (WriteDLT env m) (\<lambda>err (s', c'). committed s' = committed s \<and>
      (dlt s' = dlt s @ [m] \<or> err \<noteq> None \<and> dlt s' = dlt s)) (s, c)"
    and ctx_done: "wp (ctx_Done env)
      (\<lambda>_ (s', c'). dlt s' = dlt s \<and> committed s' = committed s) (s, c)"
    and after: "wp (After env d)
      (\<lambda>_ (s', c'). dlt s' = dlt s \<and> committed s' = committed s) (s, c)"
begin

text \<open>
  How the processing of a message ends, from the dead letter topic \<open>dlt0\<close> before it: the message is
  to be committed because the last run succeeded, or because all \<open>n\<close> runs failed and a copy is in the
  dead letter topic; or it is not to be committed.
\<close>

definition settled_after ::
  "KafkaConsumer \<Rightarrow> kafka_message \<Rightarrow> kafka_message list \<Rightarrow> kafka_message list \<Rightarrow> int \<Rightarrow>
   run list \<Rightarrow> bool \<Rightarrow> bool" where
  "settled_after cons msg dlt0 dlt1 n rs commit \<longleftrightarrow>
     (commit \<and> snd (last rs) = None \<and> dlt1 = dlt0)
     \<or> (int (length rs) = n \<and>
        (\<exists>e now. snd (last rs) = Some e \<and>
          (dlt1 = dlt0 @ [dlt_message cons msg e now (maxRetries_c cons)] \<or>
           \<not> commit \<and> dlt1 = dlt0)))
     \<or> (\<not> commit \<and> snd (last rs) \<noteq> None \<and> dlt1 = dlt0 \<and> int (length rs) < n)"

lemma settled_after_Cons:
  "settled_after cons msg d0 d1 (n - 1) rs commit \<Longrightarrow> rs \<noteq> [] \<Longrightarrow>
     settled_after cons msg d0 d1 n (r # rs) commit"
  by (auto simp: settled_after_def)

lemma sendToDLT_rule:
  assumes "\<And>s' c' now. \<lbrakk>committed s' = committed s;
        dlt s' = dlt s @ [dlt_message cons m e now n]\<rbrakk> \<Longrightarrow> Q None (s', c')"
    and "\<And>s' c' err now. \<lbrakk>committed s' = committed s;
        dlt s' = dlt s @ [dlt_message cons m e now n] \<or> dlt s' = dlt s\<rbrakk> \<Longrightarrow> Q (Some err) (s', c')"
  shows "wp (sendToDLT env cons m e n) Q (s, c)"
proof -
  have "Q (map_option (ErrorfW ''write to DLT'') err) (s', c')"
    if "committed s' = committed s"
      "dlt s' = dlt s @ [dlt_message cons m e (c 0) n] \<or> err \<noteq> None \<and> dlt s' = dlt s"
    for err s' c'
    using that assms(1) [of s' "c 0" c'] assms(2) [of s' "c 0" _ c'] by (cases err) auto
  then show ?thesis
    unfolding sendToDLT_def wp_bind wp_time_Now wp_return
    by (intro wp_mono [OF write_dlt]) auto
qed

text \<open>One attempt: it ends in a success, a retry, the end of the context, or the last failure.\<close>

lemma attempt_rule:
  fixes w :: "('k, 'h \<times> run list) consumer_world" and handler :: "'h MessageHandler"
  assumes le: "attempt \<le> maxRetries_c cons"
    and ok: "\<And>w' c'. \<lbrakk>runs_of w' = runs_of w @ [(q, None)]; kafka_st w' = kafka_st w\<rbrakk>
      \<Longrightarrow> Q True (w', c')"
    and retry: "\<And>w' c'. \<lbrakk>attempt < maxRetries_c cons; \<exists>e. runs_of w' = runs_of w @ [(q, Some e)];
        dlt (kafka_st w') = dlt (kafka_st w); committed (kafka_st w') = committed (kafka_st w)\<rbrakk>
      \<Longrightarrow> wp (attempt_loop env cons (logged handler) msg q (attempt + 1)) Q (w', c')"
    and cancelled: "\<And>w' c'. \<lbrakk>attempt < maxRetries_c cons; \<exists>e. runs_of w' = runs_of w @ [(q, Some e)];
        dlt (kafka_st w') = dlt (kafka_st w); committed (kafka_st w') = committed (kafka_st w)\<rbrakk>
      \<Longrightarrow> Q False (w', c')"
    and dead: "\<And>w' c' commit. \<lbrakk>attempt = maxRetries_c cons;
        committed (kafka_st w') = committed (kafka_st w);
        \<exists>e now. runs_of w' = runs_of w @ [(q, Some e)] \<and>
          (dlt (kafka_st w') = dlt (kafka_st w) @ [dlt_message cons msg e now attempt] \<or>
           \<not> commit \<and> dlt (kafka_st w') = dlt (kafka_st w))\<rbrakk> \<Longrightarrow> Q commit (w', c')"
  shows "wp (attempt_loop env cons (logged handler) msg q attempt) Q (w, c)"
proof -
  obtain h runs where h: "handler_st w = (h, runs)"
    by (cases "handler_st w")
  show ?thesis
  proof (cases "attempt < maxRetries_c cons")
    case True
    then show ?thesis
      by (subst attempt_loop.simps) (auto simp: wp_zoom h split: option.split
          intro!: logged_rule wp_mono [OF after] ok retry cancelled)
  next
    case False
    with le have "attempt = maxRetries_c cons"
      by simp
    then show ?thesis
      by (subst attempt_loop.simps) (auto simp: wp_zoom h split: option.split
          intro!: logged_rule sendToDLT_rule ok dead, blast+)
  qed
qed

lemma attempt_loop_outcome:
  fixes w :: "('k, 'h \<times> run list) consumer_world" and handler :: "'h MessageHandler"
  assumes "attempt \<le> maxRetries_c cons"
  shows "wp (attempt_loop env cons (logged handler) msg q attempt)
    (\<lambda>commit (w', c'). \<exists>rs. runs_of w' = runs_of w @ rs \<and> retried q rs \<and>
       int (length rs) \<le> maxRetries_c cons + 1 - attempt \<and>
       committed (kafka_st w') = committed (kafka_st w) \<and>
       settled_after cons msg (dlt (kafka_st w)) (dlt (kafka_st w'))
         (maxRetries_c cons + 1 - attempt) rs commit)
    (w, c)"
  using assms
proof (induction "nat (maxRetries_c cons - attempt)" arbitrary: attempt w c rule: less_induct)
  case less
  show ?case
  proof (rule attempt_rule [OF less.prems])
    fix c' and w' :: "('k, 'h \<times> run list) consumer_world"
    assume lt: "attempt < maxRetries_c cons" and "\<exists>e. runs_of w' = runs_of w @ [(q, Some e)]"
      and same: "dlt (kafka_st w') = dlt (kafka_st w)" "committed (kafka_st w') = committed (kafka_st w)"
    then obtain e where w': "runs_of w' = runs_of w @ [(q, Some e)]"
      by blast
    have smaller: "nat (maxRetries_c cons - (attempt + 1)) < nat (maxRetries_c cons - attempt)"
      "attempt + 1 \<le> maxRetries_c cons"
      using lt by simp_all
    show "wp (attempt_loop env cons (logged handler) msg q (attempt + 1))
        (\<lambda>commit (w', c'). \<exists>rs. runs_of w' = runs_of w @ rs \<and> retried q rs \<and>
          int (length rs) \<le> maxRetries_c cons + 1 - attempt \<and>
          committed (kafka_st w') = committed (kafka_st w) \<and>
          settled_after cons msg (dlt (kafka_st w)) (dlt (kafka_st w'))
            (maxRetries_c cons + 1 - attempt) rs commit) (w', c')"
    proof (rule wp_mono [OF less.hyps [OF smaller]], clarify, goal_cases)
      case (1 commit w'' c'' rs)
      then have "settled_after cons msg (dlt (kafka_st w)) (dlt (kafka_st w''))
          (maxRetries_c cons + 1 - attempt) ((q, Some e) # rs) commit"
        by (intro settled_after_Cons) (auto simp: same retried_def algebra_simps)
      with 1 show ?case
        by (intro exI [of _ "(q, Some e) # rs"]) (auto simp: w' same retried_Cons)
    qed
  qed (use less.prems in \<open>auto simp: settled_after_def\<close>)
qed

lemma settled_after_settled:
  assumes "retried q rs" and "settled_after cons m d0 d1 n rs commit"
    and "Unmarshal (Value m) = Some q"
  shows "\<exists>ds. d1 = d0 @ ds \<and> (commit \<longrightarrow> settled rs ds m)"
proof -
  have "last rs \<in> set rs"
    using assms(1) by (simp add: retried_def)
  then have "snd (last rs) = None \<Longrightarrow> (q, None) \<in> set rs"
    using assms(1) by (metis prod.collapse retried_def)
  then show ?thesis
    using assms(2,3)
    by (auto simp: settled_after_def settled_def dlt_message_def plain_message_def)
qed

lemma processMessage_settles:
  fixes w :: "('k, 'h \<times> run list) consumer_world" and handler :: "'h MessageHandler"
  assumes "0 \<le> maxRetries_c cons"
  shows "wp (processMessage env cons (logged handler) m)
    (\<lambda>commit (w', c'). \<exists>rs ds. runs_of w' = runs_of w @ rs \<and>
       dlt (kafka_st w') = dlt (kafka_st w) @ ds \<and>
       committed (kafka_st w') = committed (kafka_st w) \<and>
       (commit \<longrightarrow> settled rs ds m)) (w, c)"
proof (cases "Unmarshal (Value m)")
  case None
  then show ?thesis
    by (auto simp: processMessage_def settled_def)
next
  case (Some q)
  have "wp (attempt_loop env cons (logged handler) m q 0)
    (\<lambda>commit (w', c'). \<exists>rs ds. runs_of w' = runs_of w @ rs \<and>
       dlt (kafka_st w') = dlt (kafka_st w) @ ds \<and>
       committed (kafka_st w') = committed (kafka_st w) \<and>
       (commit \<longrightarrow> settled rs ds m)) (w, c)"
    by (rule wp_mono [OF attempt_loop_outcome [OF assms]])
      (use settled_after_settled [OF _ _ Some] in blast)
  then show ?thesis
    by (simp add: processMessage_def Some)
qed

text \<open>What a piece of the loop's history may add to the log, the dead letters and the commits.\<close>

definition progress ::
  "('k, 'h \<times> run list) consumer_world \<Rightarrow> ('k, 'h \<times> run list) consumer_world \<Rightarrow> bool"
  where
  "progress w w' \<longleftrightarrow> (\<exists>rs ds cs. runs_of w' = runs_of w @ rs \<and>
     dlt (kafka_st w') = dlt (kafka_st w) @ ds \<and>
     committed (kafka_st w') = committed (kafka_st w) @ cs \<and>
     (\<forall>m \<in> set cs. settled rs ds m))"

lemma progress_trans:
  assumes "progress w w'" and "progress w' w''"
  shows "progress w w''"
proof -
  obtain rs ds cs where 1: "runs_of w' = runs_of w @ rs"
      "dlt (kafka_st w') = dlt (kafka_st w) @ ds"
      "committed (kafka_st w') = committed (kafka_st w) @ cs" "\<forall>m \<in> set cs. settled rs ds m"
    using assms(1) by (auto simp: progress_def)
  obtain rs' ds' cs' where 2: "runs_of w'' = runs_of w' @ rs'"
      "dlt (kafka_st w'') = dlt (kafka_st w') @ ds'"
      "committed (kafka_st w'') = committed (kafka_st w') @ cs'"
      "\<forall>m \<in> set cs'. settled rs' ds' m"
    using assms(2) by (auto simp: progress_def)
  have "\<forall>m \<in> set (cs @ cs'). settled (rs @ rs') (ds @ ds') m"
    using 1(4) 2(4) by (auto intro: settled_mono)
  with 1 2 show ?thesis
    unfolding progress_def
    by (intro exI [of _ "rs @ rs'"] exI [of _ "ds @ ds'"] exI [of _ "cs @ cs'"]) simp
qed

lemma progress_same:
  "runs_of w' = runs_of w \<Longrightarrow> dlt (kafka_st w') = dlt (kafka_st w) \<Longrightarrow>
     committed (kafka_st w') = committed (kafka_st w) \<Longrightarrow> progress w w'"
  by (simp add: progress_def)

lemma Start_step_progress:
  fixes w :: "('k, 'h \<times> run list) consumer_world" and handler :: "'h MessageHandler"
  assumes "0 \<le> maxRetries_c cons"
  shows "wp (Start_step env cons (logged handler)) (\<lambda>_ (w', c'). progress w w') (w, c)"
proof -
  have commit: "wp (on_kafka (commitOffset env m)) (\<lambda>_ (w', c'). progress w w') (w1, c1)"
    if "runs_of w1 = runs_of w @ rs" "dlt (kafka_st w1) = dlt (kafka_st w) @ ds"
      "committed (kafka_st w1) = committed (kafka_st w)" "settled rs ds m"
    for m rs ds c1 and w1 :: "('k, 'h \<times> run list) consumer_world"
    using that unfolding wp_zoom commitOffset_def wp_bind wp_return
    by (intro wp_mono [OF commit_messages]) (auto simp: progress_def)
  have handle: "wp (processMessage env cons (logged handler) m)
      (\<lambda>commit. wp (if commit then do { _ \<leftarrow> on_kafka (commitOffset env m); ret True } else ret True)
        (\<lambda>_ (w', c'). progress w w')) (w1, c1)"
    if "runs_of w1 = runs_of w" "dlt (kafka_st w1) = dlt (kafka_st w)"
      "committed (kafka_st w1) = committed (kafka_st w)"
    for m c1 and w1 :: "('k, 'h \<times> run list) consumer_world"
    by (rule wp_mono [OF processMessage_settles [OF assms]])
      (use that commit in \<open>auto simp: progress_def\<close>)
  show ?thesis
    unfolding Start_step_def wp_bind wp_zoom
    by (rule wp_mono [OF ctx_done])
      (auto simp: wp_zoom split: sum.split
        intro!: progress_same wp_mono [OF fetch_message] wp_mono [OF ctx_done] handle)
qed

lemma Start_progress:
  fixes w :: "('k, 'h \<times> run list) consumer_world" and handler :: "'h MessageHandler"
  assumes "0 \<le> maxRetries_c cons"
  shows "wp (Start n env cons (logged handler)) (\<lambda>_ (w', c'). progress w w') (w, c)"
proof (induction n arbitrary: w c)
  case 0
  then show ?case
    by (simp add: progress_same)
next
  case (Suc n)
  have "wp (if go then Start n env cons (logged handler) else ret (Some None))
      (\<lambda>_ (w', c'). progress w w') (w1, c1)"
    if "progress w w1" for go w1 c1
    using that by (auto intro!: wp_mono [OF Suc.IH] intro: progress_trans)
  then show ?case
    by (auto intro!: wp_mono [OF Start_step_progress [OF assms]])
qed

end

subsection \<open>A partition in memory\<close>

text \<open>
  A reader over a finite list of messages, after which the context ends; a dead letter writer that
  may be down; a broker that records the commits. It shows that the laws of \<open>consumer_broker\<close> hold
  together, and the closed statements run the consumer on it.
\<close>

record partition =
  inbox :: "kafka_message list"
  dead_letters :: "kafka_message list"
  commits :: "kafka_message list"
  dlt_down :: "goerr option"
  ended :: bool

definition mem_partition :: "partition consumer_env" where
  "mem_partition = \<lparr>
     FetchMessage = act (\<lambda>p. case inbox p of
         [] \<Rightarrow> (Inl (Opaque ''context canceled''), p\<lparr>ended := True\<rparr>)
       | m # ms \<Rightarrow> (Inr m, p\<lparr>inbox := ms\<rparr>)),
     CommitMessages = (\<lambda>m. act (\<lambda>p. (None, p\<lparr>commits := commits p @ [m]\<rparr>))),
     WriteDLT = (\<lambda>m. act (\<lambda>p. case dlt_down p of
         Some e \<Rightarrow> (Some e, p)
       | None \<Rightarrow> (None, p\<lparr>dead_letters := dead_letters p @ [m]\<rparr>))),
     CloseReader = act (\<lambda>p. (None, p)),
     CloseDLT = act (\<lambda>p. (None, p)),
     ctx_Done = act (\<lambda>p. (ended p, p)),
     After = (\<lambda>_. act (\<lambda>p. (\<not> ended p, p)))\<rparr>"

definition new_partition :: "kafka_message list \<Rightarrow> partition" where
  "new_partition ms = \<lparr>inbox = ms, dead_letters = [], commits = [], dlt_down = None,
     ended = False\<rparr>"

interpretation part: consumer_broker mem_partition dead_letters commits
  by unfold_locales (simp_all add: mem_partition_def split: list.split option.split)

text \<open>A handler that answers from a script (and then succeeds), and sample messages.\<close>

definition scripted_handler :: "goerr option list MessageHandler" where
  "scripted_handler q = act (\<lambda>rs. case rs of [] \<Rightarrow> (None, []) | r # rs' \<Rightarrow> (r, rs'))"

definition sample_request :: "string \<Rightarrow> FetchRequestMessage" where
  "sample_request u = \<lparr>Version_q = MessageVersion, URL_q = u, RequestedAt_q = 0,
     RequestID_q = ''r1'', Source_q = ''api-post''\<rparr>"

definition sample_message :: "string \<Rightarrow> int \<Rightarrow> kafka_message" where
  "sample_message u i =
     (plain_message u (case Marshal (sample_request u) of Inr d \<Rightarrow> d | Inl _ \<Rightarrow> ''''))
       \<lparr>Offset := i\<rparr>"

definition sample_consumer :: "int \<Rightarrow> KafkaConsumer" where
  "sample_consumer n = NewKafkaConsumer [''kafka:9092''] ''requested'' ''workers'' ''failed'' n"

definition sample_world ::
  "partition \<Rightarrow> goerr option list \<Rightarrow> (partition, goerr option list \<times> run list) consumer_world" where
  "sample_world p rs = \<lparr>kafka_st = p, handler_st = (rs, [])\<rparr>"

lemma decode_sample [simp]:
  assumes "valid_utf8 u"
  shows "Unmarshal (Value (sample_message u i)) = Some (sample_request u)"
proof -
  have "year_of (RequestedAt_q (sample_request u)) = 1"
    unfolding sample_request_def FetchRequestMessage.simps by code_simp
  then obtain d where d: "Marshal (sample_request u) = Inr d"
    by (auto simp: Marshal_def)
  have "on_wire (sample_request u) = sample_request u"
    using assms by (simp add: on_wire_def sample_request_def MessageVersion_def to_valid_id)
  with Unmarshal_Marshal [OF d] show ?thesis
    by (simp add: sample_message_def plain_message_def d)
qed

lemma sample_message_simps [simp]:
  "Key (sample_message u i) = u" "Offset (sample_message u i) = i"
  "Partition (sample_message u i) = 0"
  by (simp_all add: sample_message_def plain_message_def)

lemma sample_message_inject [simp]:
  "sample_message u i = sample_message v j \<longleftrightarrow> u = v \<and> i = j"
  by (metis sample_message_simps(1,2))

lemma sample_request_inject [simp]: "sample_request u = sample_request v \<longleftrightarrow> u = v"
  by (auto simp: sample_request_def)

lemma sample_consumer_simps [simp]:
  "maxRetries_c (sample_consumer n) = n"
  by (simp add: sample_consumer_def NewKafkaConsumer_def)

text \<open>The equations that run the consumer on a concrete input.\<close>

lemmas run_consumer = Start_step_def processMessage_def attempt_loop.simps logged_def
  scripted_handler_def sendToDLT_def commitOffset_def mem_partition_def sample_world_def
  new_partition_def eval_nat_numeral

subsection \<open>Properties\<close>





text \<open>
  C38: The back-off before attempt \<open>a\<close> is \<open>a * 200\<close> ms, but never more than 2 s, as long as the product
  fits in 64 bits, that is up to 46116860184 attempts.
\<close>

theorem backoff_bounded:
  assumes "0 < a" and "a \<le> 46116860184"
  shows "sint (retryBackoff (word_of_int a)) = min (a * (200 * Millisecond)) (2 * Second)"
  by (rule retryBackoff_exact [OF assms])

theorem backoff_bounded_witness:
  "sint (retryBackoff (word_of_int 3)) = 600 * Millisecond \<and>
   sint (retryBackoff (word_of_int 46116860184)) = 2 * Second"
  using backoff_bounded [of 3] backoff_bounded [of 46116860184] by simp

text \<open>
  A negative \<open>maxRetries\<close>, which the configuration accepts, makes the consumer commit every
  message without handing it to the handler.
\<close>

theorem negative_retries_skip_all:
  assumes "maxRetries_c cons < 0"
  shows "run_state (processMessage env cons handler m) s = (True, s)"
  using assms by (simp add: processMessage_def attempt_loop.simps split: option.split)

theorem negative_retries_skip_all_witness:
  "run_state (processMessage mem_partition (sample_consumer (-1)) scripted_handler
     (sample_message ''a'' 0)) (\<lparr>kafka_st = new_partition [], handler_st = []\<rparr>, int)
   = (True, (\<lparr>kafka_st = new_partition [], handler_st = []\<rparr>, int))"
  by (rule negative_retries_skip_all) simp

text \<open>
  The loop ends: once the context is done, \<open>Start\<close> returns nil at the head of the next pass, and
  neither fetches a message nor runs the handler.
\<close>

theorem Start_stops:
  assumes "run_state (ctx_Done env) (kafka_st w, c) = (True, (k, c'))"
  shows "run_state (Start (Suc n) env cons handler) (w, c) = (Some None, (w\<lparr>kafka_st := k\<rparr>, c'))"
  using assms by (simp add: Start_step_def)

theorem Start_stops_witness:
  "run_state (Start (Suc 0) mem_partition (sample_consumer 3) scripted_handler)
     (\<lparr>kafka_st = (new_partition [sample_message ''a'' 0])\<lparr>ended := True\<rparr>, handler_st = []\<rparr>, int)
   = (Some None, (\<lparr>kafka_st = (new_partition [sample_message ''a'' 0])\<lparr>ended := True\<rparr>,
       handler_st = []\<rparr>, int))"
  by (subst Start_stops [where c' = int]) (simp_all add: mem_partition_def)

text \<open>
  C24: A failing dead letter topic loses messages. The message at offset 0 fails for good and cannot be
  written to the dead letter topic, so it is not committed; the loop goes on to the message at offset
  1 of the same partition and commits it. A Kafka commit covers all smaller offsets, so no consumer
  of the group ever sees the first message again, and it is not settled.
\<close>

theorem dlt_outage_skips_message:
  "\<exists>w' c' a b. run_state
      (Start 3 mem_partition (sample_consumer 0) (logged scripted_handler))
      (sample_world ((new_partition [a, b])\<lparr>dlt_down := Some (Opaque ''leader not available'')\<rparr>)
         [Some (Opaque ''timeout'')], int) = (Some None, (w', c')) \<and>
    Partition a = Partition b \<and> Offset a < Offset b \<and>
    a \<notin> set (commits (kafka_st w')) \<and> b \<in> set (commits (kafka_st w')) \<and>
    \<not> settled (runs_of w') (dead_letters (kafka_st w')) a"
proof -
  obtain w' c' where "run_state
      (Start 3 mem_partition (sample_consumer 0) (logged scripted_handler))
      (sample_world ((new_partition [sample_message ''a'' 0, sample_message ''b'' 1])
           \<lparr>dlt_down := Some (Opaque ''leader not available'')\<rparr>)
         [Some (Opaque ''timeout'')], int) = (Some None, (w', c'))"
    and "runs_of w' = [(sample_request ''a'', Some (Opaque ''timeout'')), (sample_request ''b'', None)]"
      "commits (kafka_st w') = [sample_message ''b'' 1]" "dead_letters (kafka_st w') = []"
    by (simp add: run_consumer)
  then show ?thesis
    by (intro exI [of _ w'] exI [of _ c'] exI [of _ "sample_message ''a'' 0"]
        exI [of _ "sample_message ''b'' 1"]) (simp add: settled_def)
qed

end
