(* ===== verification/Durations.thy ===== *)
theory Durations
  imports GoStd
begin

section \<open>Parsing durations (\<^verbatim>\<open>time.ParseDuration\<close>)\<close>

text \<open>
  The parser of the durations in the environment: a sign and then numbers with units, such as
  \<^verbatim>\<open>1h15m30.5s\<close>. Go computes the fraction of a unit in floating point,
  \<^verbatim>\<open>uint64(float64(f) * (float64(unit) / scale))\<close>; this one product is the parameter \<open>frac\<close>
  (arguments \<open>f\<close>, \<open>unit\<close>, \<open>scale\<close>). All else is integer arithmetic on \<^verbatim>\<open>uint64\<close>, whose additions
  are written with their wrap-around.
\<close>

type_synonym fraction = "nat \<Rightarrow> nat \<Rightarrow> nat \<Rightarrow> nat"

definition unitMap :: "string \<rightharpoonup> nat" where
  "unitMap = [
     ''ns'' \<mapsto> 1,
     ''us'' \<mapsto> 1000,
     [CHR 0xC2, CHR 0xB5, CHR ''s''] \<mapsto> 1000,
     [CHR 0xCE, CHR 0xBC, CHR ''s''] \<mapsto> 1000,
     ''ms'' \<mapsto> 1000000,
     ''s'' \<mapsto> 1000000000,
     ''m'' \<mapsto> 60 * 1000000000,
     ''h'' \<mapsto> 3600 * 1000000000]"

fun leadingInt :: "nat \<Rightarrow> string \<Rightarrow> (nat \<times> string) option" where
  "leadingInt x [] = Some (x, [])"
| "leadingInt x (c # cs) =
     (if \<not> is_digit c then Some (x, c # cs)
      else if 2 ^ 63 div 10 < x then None
      else let x = x * 10 + digit_val c in if 2 ^ 63 < x then None else leadingInt x cs)"

text \<open>Once the digits overflow, the rest of them is skipped (the flag).\<close>

fun leadingFraction :: "bool \<Rightarrow> nat \<Rightarrow> nat \<Rightarrow> string \<Rightarrow> nat \<times> nat \<times> string" where
  "leadingFraction ovf x scale [] = (x, scale, [])"
| "leadingFraction ovf x scale (c # cs) =
     (if \<not> is_digit c then (x, scale, c # cs)
      else if ovf \<or> (2 ^ 63 - 1) div 10 < x \<or> 2 ^ 63 < x * 10 + digit_val c
      then leadingFraction True x scale cs
      else leadingFraction False (x * 10 + digit_val c) (scale * 10) cs)"

definition digit_or_dot :: "char \<Rightarrow> bool" where
  "digit_or_dot c \<longleftrightarrow> c = CHR ''.'' \<or> is_digit c"

text \<open>One number with its unit: its value in nanoseconds and the rest of the text.\<close>

definition duration_item :: "fraction \<Rightarrow> string \<Rightarrow> (nat \<times> string) option" where
  "duration_item frac s =
     (if s = [] \<or> \<not> digit_or_dot (hd s) then None
      else case leadingInt 0 s of
        None \<Rightarrow> None
      | Some (v, s1) \<Rightarrow>
          let pre = length s \<noteq> length s1;
              dot = s1 \<noteq> [] \<and> hd s1 = CHR ''.'';
              s2 = (if dot then tl s1 else s1)
          in case (if dot then leadingFraction False 0 1 s2 else (0, 1, s2)) of (f, scale, s3) \<Rightarrow>
            let post = dot \<and> length s2 \<noteq> length s3;
                u = takeWhile (\<lambda>c. \<not> digit_or_dot c) s3;
                rest = dropWhile (\<lambda>c. \<not> digit_or_dot c) s3
            in if \<not> pre \<and> \<not> post then None
               else if u = [] then None
               else case unitMap u of
                 None \<Rightarrow> None
               | Some unit \<Rightarrow>
                   if 2 ^ 63 div unit < v then None
                   else let v = v * unit;
                            v = (if 0 < f then (v + frac f unit scale) mod 2 ^ 64 else v)
                     in if 2 ^ 63 < v then None else Some (v, rest))"

text \<open>The parsers only move forward, so the loop of \<open>ParseDuration\<close> ends.\<close>

lemma leadingInt_length: "leadingInt x s = Some (v, r) \<Longrightarrow> length r \<le> length s"
  by (induction x s rule: leadingInt.induct) (auto simp: Let_def split: if_splits)

lemma leadingFraction_length: "leadingFraction b x k s = (f, k', r) \<Longrightarrow> length r \<le> length s"
  by (induction b x k s rule: leadingFraction.induct) (auto split: if_splits)

lemma dropWhile_shorter: "takeWhile P xs \<noteq> [] \<Longrightarrow> length (dropWhile P xs) < length xs"
  by (metis length_append length_greater_0_conv less_add_same_cancel2 takeWhile_dropWhile_id)

lemma duration_item_length:
  assumes "duration_item frac s = Some (v, rest)"
  shows "length rest < length s"
proof -
  obtain w s1 where 1: "leadingInt 0 s = Some (w, s1)"
    using assms by (auto simp: duration_item_def split: if_splits option.splits)
  define s2 where "s2 = (if s1 \<noteq> [] \<and> hd s1 = CHR ''.'' then tl s1 else s1)"
  obtain f k s3 where 3: "(if s1 \<noteq> [] \<and> hd s1 = CHR ''.'' then leadingFraction False 0 1 s2
      else (0, 1, s2)) = (f, k, s3)"
    by (metis surj_pair)
  have "takeWhile (\<lambda>c. \<not> digit_or_dot c) s3 \<noteq> []" "rest = dropWhile (\<lambda>c. \<not> digit_or_dot c) s3"
    using assms 1 3 unfolding duration_item_def s2_def
    by (auto simp: Let_def split: if_splits option.splits prod.splits)
  then have "length rest < length s3"
    by (simp add: dropWhile_shorter)
  moreover have "length s3 \<le> length s2"
    using 3 leadingFraction_length by (auto split: if_splits)
  moreover have "length s2 \<le> length s1"
    by (simp add: s2_def)
  ultimately show ?thesis
    using leadingInt_length [OF 1] by linarith
qed

function duration_items :: "fraction \<Rightarrow> nat \<Rightarrow> string \<Rightarrow> nat option" where
  "duration_items frac d s =
     (if s = [] then Some d
      else case duration_item frac s of
        None \<Rightarrow> None
      | Some (v, rest) \<Rightarrow>
          let d = (d + v) mod 2 ^ 64 in if 2 ^ 63 < d then None else duration_items frac d rest)"
  by pat_completeness auto
termination
  by (relation "measure (\<lambda>(frac, d, s). length s)") (auto dest: duration_item_length)

declare duration_items.simps [simp del]

definition ParseDuration :: "fraction \<Rightarrow> string \<Rightarrow> duration option" where
  "ParseDuration frac s =
     (let neg = (s \<noteq> [] \<and> hd s = CHR ''-'');
          s = (if s \<noteq> [] \<and> (hd s = CHR ''-'' \<or> hd s = CHR ''+'') then tl s else s)
      in if s = ''0'' then Some 0
         else if s = [] then None
         else case duration_items frac 0 s of
           None \<Rightarrow> None
         | Some d \<Rightarrow>
             if neg then Some (- int d)
             else if 2 ^ 63 - 1 < d then None else Some (int d))"

text \<open>The result is a \<^verbatim>\<open>time.Duration\<close>: it fits in 64 bits.\<close>

lemma duration_items_bound: "duration_items frac d s = Some n \<Longrightarrow> d \<le> 2 ^ 63 \<Longrightarrow> n \<le> 2 ^ 63"
proof (induction frac d s rule: duration_items.induct)
  case (1 frac d s)
  from "1.prems"(1) show ?case
    by (subst (asm) duration_items.simps)
      (use 1 in \<open>auto simp: Let_def split: if_splits option.splits prod.splits\<close>)
qed

lemma ParseDuration_range: "ParseDuration frac s = Some d \<Longrightarrow> - (2 ^ 63) \<le> d \<and> d < 2 ^ 63"
  by (auto simp: ParseDuration_def Let_def dest!: duration_items_bound
      split: if_splits option.splits)

end
