(* ===== verification/Config.thy ===== *)
theory Config
  imports GoErrors Durations
begin

section \<open>Configuration and feature flags (pkg/config, pkg/featureflags)\<close>

text \<open>
  The environment is a function from names to values, empty for an unset name, as \<^verbatim>\<open>os.Getenv\<close>
  reads it. What the \<^verbatim>\<open>.env\<close> loader makes of it, the floating-point product of
  \<open>ParseDuration\<close> and \<^verbatim>\<open>strconv.Quote\<close> (in one error text) are parameters.
\<close>

type_synonym environ = "string \<Rightarrow> string"

record config_env =
  godotenv_Load :: "environ \<Rightarrow> environ"
  fraction_of :: fraction
  Quote :: "string \<Rightarrow> string"

record Config =
  ServiceName :: string
  ServiceVersion :: string
  Environment :: string
  HTTPPort :: int
  WorkerMetricsPort :: int
  ReadTimeout :: duration
  WriteTimeout :: duration
  ShutdownTimeout :: duration
  MongoURI :: string
  MongoDB :: string
  MongoMaxPoolSize :: nat
  MongoConnTimeout :: duration
  KafkaBrokers :: "string list"
  KafkaTopic :: string
  KafkaGroupID :: string
  KafkaDLTTopic :: string
  KafkaMaxRetries :: int
  FetchTimeout :: duration
  FetchMaxRedirects :: int
  DisableSSRF :: bool
  LogLevel :: string
  FFRateLimitEnabled :: bool
  FFCircuitBreakerEnabled :: bool
  FFPageSourceStorage :: bool
  FFAsyncFetchOnly :: bool
  FFMetricsEnabled :: bool
  FFTracingEnabled :: bool
  OTelEndpoint :: string

subsection \<open>Reading one variable\<close>

definition envOrDefault :: "environ \<Rightarrow> string \<Rightarrow> string \<Rightarrow> string" where
  "envOrDefault getenv key defaultVal =
     (let v = getenv key in if v \<noteq> '''' then v else defaultVal)"

definition envIntOrDefault :: "environ \<Rightarrow> string \<Rightarrow> int \<Rightarrow> int" where
  "envIntOrDefault getenv key defaultVal =
     (let v = getenv key
      in if v = '''' then defaultVal
         else case Atoi v of None \<Rightarrow> defaultVal | Some i \<Rightarrow> i)"

definition envUint64OrDefault :: "environ \<Rightarrow> string \<Rightarrow> nat \<Rightarrow> nat" where
  "envUint64OrDefault getenv key defaultVal =
     (let v = getenv key
      in if v = '''' then defaultVal
         else case ParseUint v of None \<Rightarrow> defaultVal | Some i \<Rightarrow> i)"

definition envBoolOrDefault :: "environ \<Rightarrow> string \<Rightarrow> bool \<Rightarrow> bool" where
  "envBoolOrDefault getenv key defaultVal =
     (let v = getenv key
      in if v = '''' then defaultVal
         else case ParseBool v of None \<Rightarrow> defaultVal | Some b \<Rightarrow> b)"

definition envDurationOrDefault :: "fraction \<Rightarrow> environ \<Rightarrow> string \<Rightarrow> duration \<Rightarrow> duration" where
  "envDurationOrDefault frac getenv key defaultVal =
     (let v = getenv key
      in if v = '''' then defaultVal
         else case ParseDuration frac v of None \<Rightarrow> defaultVal | Some d \<Rightarrow> d)"

subsection \<open>Validation\<close>

definition validLogLevels :: "string \<Rightarrow> bool" where
  "validLogLevels l \<longleftrightarrow> l \<in> {''debug'', ''info'', ''warn'', ''error''}"

definition validate :: "(string \<Rightarrow> string) \<Rightarrow> Config \<Rightarrow> goerr option" where
  "validate quote cfg =
     (if MongoURI cfg = '''' then Some (Opaque ''MONGO_URI is required'')
      else if MongoDB cfg = '''' then Some (Opaque ''MONGO_DB is required'')
      else if KafkaBrokers cfg = [] \<or> KafkaBrokers cfg ! 0 = ''''
        then Some (Opaque ''KAFKA_BROKERS is required'')
      else if HTTPPort cfg \<le> 0 \<or> HTTPPort cfg > 65535
        then Some (Opaque (''HTTP_PORT must be between 1 and 65535, got '' @ Itoa (HTTPPort cfg)))
      else if WorkerMetricsPort cfg \<le> 0 \<or> WorkerMetricsPort cfg > 65535
        then Some (Opaque (''WORKER_METRICS_PORT must be between 1 and 65535, got '' @
          Itoa (WorkerMetricsPort cfg)))
      else if \<not> validLogLevels (ToLower (LogLevel cfg))
        then Some (Opaque (''LOG_LEVEL must be one of debug, info, warn, error; got '' @
          quote (LogLevel cfg)))
      else None)"

subsection \<open>Load\<close>

definition read_config :: "fraction \<Rightarrow> environ \<Rightarrow> Config" where
  "read_config frac getenv = \<lparr>
     ServiceName = envOrDefault getenv ''SERVICE_NAME'' ''metadata-inventory'',
     ServiceVersion = envOrDefault getenv ''SERVICE_VERSION'' ''0.1.0'',
     Environment = envOrDefault getenv ''ENVIRONMENT'' ''development'',
     HTTPPort = envIntOrDefault getenv ''HTTP_PORT'' 8080,
     WorkerMetricsPort = envIntOrDefault getenv ''WORKER_METRICS_PORT'' 9091,
     ReadTimeout = envDurationOrDefault frac getenv ''HTTP_READ_TIMEOUT'' (15 * Second),
     WriteTimeout = envDurationOrDefault frac getenv ''HTTP_WRITE_TIMEOUT'' (15 * Second),
     ShutdownTimeout = envDurationOrDefault frac getenv ''HTTP_SHUTDOWN_TIMEOUT'' (30 * Second),
     MongoURI = envOrDefault getenv ''MONGO_URI'' ''mongodb://localhost:27017'',
     MongoDB = envOrDefault getenv ''MONGO_DB'' ''metadata_inventory'',
     MongoMaxPoolSize = envUint64OrDefault getenv ''MONGO_MAX_POOL_SIZE'' 50,
     MongoConnTimeout = envDurationOrDefault frac getenv ''MONGO_CONN_TIMEOUT'' (10 * Second),
     KafkaBrokers = Split (CHR '','') (envOrDefault getenv ''KAFKA_BROKERS'' ''localhost:9092''),
     KafkaTopic = envOrDefault getenv ''KAFKA_TOPIC'' ''url.fetch.requested'',
     KafkaGroupID = envOrDefault getenv ''KAFKA_GROUP_ID'' ''metadata-worker-v1'',
     KafkaDLTTopic = envOrDefault getenv ''KAFKA_DLT_TOPIC'' ''url.fetch.failed'',
     KafkaMaxRetries = envIntOrDefault getenv ''KAFKA_MAX_RETRIES'' 3,
     FetchTimeout = envDurationOrDefault frac getenv ''FETCH_TIMEOUT'' (30 * Second),
     FetchMaxRedirects = envIntOrDefault getenv ''FETCH_MAX_REDIRECTS'' 10,
     DisableSSRF = envBoolOrDefault getenv ''DISABLE_SSRF'' False,
     LogLevel = envOrDefault getenv ''LOG_LEVEL'' ''info'',
     FFRateLimitEnabled = envBoolOrDefault getenv ''FF_RATE_LIMIT_ENABLED'' False,
     FFCircuitBreakerEnabled = envBoolOrDefault getenv ''FF_CIRCUIT_BREAKER_ENABLED'' False,
     FFPageSourceStorage = envBoolOrDefault getenv ''FF_PAGE_SOURCE_STORAGE'' True,
     FFAsyncFetchOnly = envBoolOrDefault getenv ''FF_ASYNC_FETCH_ONLY'' False,
     FFMetricsEnabled = envBoolOrDefault getenv ''FF_METRICS_ENABLED'' True,
     FFTracingEnabled = envBoolOrDefault getenv ''FF_TRACING_ENABLED'' False,
     OTelEndpoint = envOrDefault getenv ''OTEL_ENDPOINT'' ''localhost:4317''\<rparr>"

definition Load :: "config_env \<Rightarrow> environ \<Rightarrow> goerr + Config" where
  "Load env getenv =
     (let getenv = godotenv_Load env getenv;
          cfg = read_config (fraction_of env) getenv
      in case validate (Quote env) cfg of
           Some err \<Rightarrow> Inl (ErrorfW ''config validation'' err)
         | None \<Rightarrow> Inr cfg)"

subsection \<open>Feature flags\<close>

type_synonym Flag = string

definition RateLimitEnabled :: Flag where "RateLimitEnabled = ''FF_RATE_LIMIT_ENABLED''"
definition CircuitBreakerEnabled :: Flag where
  "CircuitBreakerEnabled = ''FF_CIRCUIT_BREAKER_ENABLED''"
definition PageSourceStorage :: Flag where "PageSourceStorage = ''FF_PAGE_SOURCE_STORAGE''"
definition AsyncFetchOnly :: Flag where "AsyncFetchOnly = ''FF_ASYNC_FETCH_ONLY''"
definition MetricsEnabled :: Flag where "MetricsEnabled = ''FF_METRICS_ENABLED''"
definition TracingEnabled :: Flag where "TracingEnabled = ''FF_TRACING_ENABLED''"

lemmas flag_defs = RateLimitEnabled_def CircuitBreakerEnabled_def PageSourceStorage_def
  AsyncFetchOnly_def MetricsEnabled_def TracingEnabled_def

text \<open>The interface \<open>FeatureFlags\<close> has the one method \<open>IsEnabled\<close>: it is that function.\<close>

type_synonym FeatureFlags = "Flag \<Rightarrow> bool"

type_synonym EnvFlags = "Flag \<rightharpoonup> bool"

definition NewEnvFlags :: "Config \<Rightarrow> EnvFlags" where
  "NewEnvFlags cfg = [
     RateLimitEnabled \<mapsto> FFRateLimitEnabled cfg,
     CircuitBreakerEnabled \<mapsto> FFCircuitBreakerEnabled cfg,
     PageSourceStorage \<mapsto> FFPageSourceStorage cfg,
     AsyncFetchOnly \<mapsto> FFAsyncFetchOnly cfg,
     MetricsEnabled \<mapsto> FFMetricsEnabled cfg,
     TracingEnabled \<mapsto> FFTracingEnabled cfg]"

definition IsEnabled :: "EnvFlags \<Rightarrow> FeatureFlags" where
  "IsEnabled f flag = (case f flag of None \<Rightarrow> False | Some b \<Rightarrow> b)"

subsection \<open>What a loaded configuration promises\<close>

definition well_configured :: "Config \<Rightarrow> bool" where
  "well_configured cfg \<longleftrightarrow>
     MongoURI cfg \<noteq> '''' \<and> MongoDB cfg \<noteq> '''' \<and>
     KafkaBrokers cfg \<noteq> [] \<and> hd (KafkaBrokers cfg) \<noteq> '''' \<and>
     1 \<le> HTTPPort cfg \<and> HTTPPort cfg \<le> 65535 \<and>
     1 \<le> WorkerMetricsPort cfg \<and> WorkerMetricsPort cfg \<le> 65535 \<and>
     validLogLevels (ToLower (LogLevel cfg))"

lemma validate_iff: "validate quote cfg = None \<longleftrightarrow> well_configured cfg"
  by (cases "KafkaBrokers cfg") (auto simp: validate_def well_configured_def)

lemma envInt_range:
  "- (2 ^ 63) \<le> d \<Longrightarrow> d < 2 ^ 63 \<Longrightarrow>
     - (2 ^ 63) \<le> envIntOrDefault getenv key d \<and> envIntOrDefault getenv key d < 2 ^ 63"
  by (auto simp: envIntOrDefault_def Let_def dest: Atoi_range split: option.split)

lemma envDuration_range:
  "- (2 ^ 63) \<le> d \<Longrightarrow> d < 2 ^ 63 \<Longrightarrow>
     - (2 ^ 63) \<le> envDurationOrDefault frac getenv key d \<and>
     envDurationOrDefault frac getenv key d < 2 ^ 63"
  by (auto simp: envDurationOrDefault_def Let_def dest: ParseDuration_range split: option.split)

lemma envUint64_range: "d < 2 ^ 64 \<Longrightarrow> envUint64OrDefault getenv key d < 2 ^ 64"
  by (auto simp: envUint64OrDefault_def Let_def dest: ParseUint_range split: option.split)


text \<open>The variables that hold a number, a switch or a duration.\<close>

definition malformed :: "fraction \<Rightarrow> string \<Rightarrow> string \<Rightarrow> bool" where
  "malformed frac key v \<longleftrightarrow>
     key \<in> {''HTTP_PORT'', ''WORKER_METRICS_PORT'', ''KAFKA_MAX_RETRIES'', ''FETCH_MAX_REDIRECTS''}
       \<and> Atoi v = None
     \<or> key = ''MONGO_MAX_POOL_SIZE'' \<and> ParseUint v = None
     \<or> key \<in> {''DISABLE_SSRF'', ''FF_RATE_LIMIT_ENABLED'', ''FF_CIRCUIT_BREAKER_ENABLED'',
         ''FF_PAGE_SOURCE_STORAGE'', ''FF_ASYNC_FETCH_ONLY'', ''FF_METRICS_ENABLED'',
         ''FF_TRACING_ENABLED''} \<and> ParseBool v = None
     \<or> key \<in> {''HTTP_READ_TIMEOUT'', ''HTTP_WRITE_TIMEOUT'', ''HTTP_SHUTDOWN_TIMEOUT'',
         ''MONGO_CONN_TIMEOUT'', ''FETCH_TIMEOUT''} \<and> ParseDuration frac v = None"

lemma env_unset:
  "envOrDefault (getenv(key := '''')) k d =
     (if k = key then d else envOrDefault getenv k d)"
  "envIntOrDefault (getenv(key := '''')) k i =
     (if k = key then i else envIntOrDefault getenv k i)"
  "envUint64OrDefault (getenv(key := '''')) k n =
     (if k = key then n else envUint64OrDefault getenv k n)"
  "envBoolOrDefault (getenv(key := '''')) k b =
     (if k = key then b else envBoolOrDefault getenv k b)"
  "envDurationOrDefault frac (getenv(key := '''')) k t =
     (if k = key then t else envDurationOrDefault frac getenv k t)"
  by (simp_all add: envOrDefault_def envIntOrDefault_def envUint64OrDefault_def
      envBoolOrDefault_def envDurationOrDefault_def)

lemma env_malformed:
  "Atoi (getenv key) = None \<Longrightarrow> envIntOrDefault getenv key i = i"
  "ParseUint (getenv key) = None \<Longrightarrow> envUint64OrDefault getenv key n = n"
  "ParseBool (getenv key) = None \<Longrightarrow> envBoolOrDefault getenv key b = b"
  "ParseDuration frac (getenv key) = None \<Longrightarrow> envDurationOrDefault frac getenv key t = t"
  by (simp_all add: envIntOrDefault_def envUint64OrDefault_def
      envBoolOrDefault_def envDurationOrDefault_def Let_def)

text \<open>
  A number, a switch or a duration that does not parse counts as unset: the configuration is the
  one with the variable removed, so its default applies, and nothing reports the mistake.
\<close>

theorem malformed_counts_as_unset:
  assumes "malformed frac key (getenv key)"
  shows "read_config frac getenv = read_config frac (getenv(key := ''''))"
  using assms unfolding malformed_def insert_iff empty_iff
  by (elim disjE conjE) (simp_all add: read_config_def env_unset env_malformed)

theorem malformed_counts_as_unset_witness:
  "read_config (\<lambda>f u k. f * u div k) ((\<lambda>_. '''')(''KAFKA_MAX_RETRIES'' := ''three'')) =
   read_config (\<lambda>f u k. f * u div k) (((\<lambda>_. '''')(''KAFKA_MAX_RETRIES'' := ''three''))(''KAFKA_MAX_RETRIES'' := ''''))"
  by (rule malformed_counts_as_unset) (simp add: malformed_def Atoi_def parse_digits_def is_digit_def)

text \<open>
  The flags handed to the services are those of the configuration; an unknown flag is off.
\<close>

theorem flags_of_config:
  "IsEnabled (NewEnvFlags cfg) flag \<longleftrightarrow>
     (flag = RateLimitEnabled \<and> FFRateLimitEnabled cfg) \<or>
     (flag = CircuitBreakerEnabled \<and> FFCircuitBreakerEnabled cfg) \<or>
     (flag = PageSourceStorage \<and> FFPageSourceStorage cfg) \<or>
     (flag = AsyncFetchOnly \<and> FFAsyncFetchOnly cfg) \<or>
     (flag = MetricsEnabled \<and> FFMetricsEnabled cfg) \<or>
     (flag = TracingEnabled \<and> FFTracingEnabled cfg)"
  by (simp add: IsEnabled_def NewEnvFlags_def flag_defs)

end
