(* ===== verification/Observability.thy ===== *)
theory Observability
  imports GoErrors GoStd
begin

section \<open>Observability (pkg/observability)\<close>

text \<open>
  The request-scoped values of the context, the loggers built from them, timers, and the Prometheus
  instruments with what was recorded in them. Log lines are not modelled: nothing reads them back.
\<close>

subsection \<open>Context values\<close>

text \<open>
  Of a \<^verbatim>\<open>context.Context\<close> the code reads two values, under keys of a private type; a missing value is
  \<^term>\<open>None\<close>.
\<close>

record Context =
  RequestIDKey :: "string option"
  TraceIDKey :: "string option"

definition Background :: Context where
  "Background = \<lparr>RequestIDKey = None, TraceIDKey = None\<rparr>"

definition ContextWithRequestID :: "Context \<Rightarrow> string \<Rightarrow> Context" where
  "ContextWithRequestID ctx requestID = ctx\<lparr>RequestIDKey := Some requestID\<rparr>"

definition ContextWithTraceID :: "Context \<Rightarrow> string \<Rightarrow> Context" where
  "ContextWithTraceID ctx traceID = ctx\<lparr>TraceIDKey := Some traceID\<rparr>"

definition RequestIDFromContext :: "Context \<Rightarrow> string" where
  "RequestIDFromContext ctx = (case RequestIDKey ctx of Some v \<Rightarrow> v | None \<Rightarrow> '''')"

lemma RequestID_roundtrip [simp]:
  "RequestIDFromContext (ContextWithRequestID ctx i) = i"
  "RequestIDFromContext (ContextWithTraceID ctx t) = RequestIDFromContext ctx"
  by (simp_all add: RequestIDFromContext_def ContextWithRequestID_def ContextWithTraceID_def)

subsection \<open>Loggers\<close>

datatype level = LevelDebug | LevelInfo | LevelWarn | LevelError

record Logger =
  Level :: level
  AddSource :: bool
  Attrs :: "(string \<times> string) list"

definition With :: "Logger \<Rightarrow> string \<times> string \<Rightarrow> Logger" where
  "With l a = l\<lparr>Attrs := Attrs l @ [a]\<rparr>"

definition SetupLogger :: "string \<Rightarrow> string \<Rightarrow> string \<Rightarrow> Logger" where
  "SetupLogger lvl serviceName version =
     (let l = ToLower lvl;
          logLevel = (if l = ''debug'' then LevelDebug
                      else if l = ''warn'' then LevelWarn
                      else if l = ''error'' then LevelError
                      else LevelInfo)
      in With (With \<lparr>Level = logLevel, AddSource = (logLevel = LevelDebug), Attrs = []\<rparr>
           (''service'', serviceName)) (''version'', version))"

text \<open>\<open>def\<close> is \<^verbatim>\<open>slog.Default()\<close>; a nil base logger is \<^term>\<open>None\<close>.\<close>

definition LoggerFromContext :: "Logger \<Rightarrow> Context \<Rightarrow> Logger option \<Rightarrow> Logger" where
  "LoggerFromContext dflt ctx base =
     (let base = (case base of None \<Rightarrow> dflt | Some l \<Rightarrow> l);
          base = (case RequestIDKey ctx of
              Some reqID \<Rightarrow> if reqID \<noteq> '''' then With base (''request_id'', reqID) else base
            | None \<Rightarrow> base)
      in case TraceIDKey ctx of
           Some traceID \<Rightarrow> if traceID \<noteq> '''' then With base (''trace_id'', traceID) else base
         | None \<Rightarrow> base)"

subsection \<open>Timers\<close>

text \<open>
  \<open>Elapsed\<close> is left a duration; the code turns it into seconds in floating point, for the metrics only.
\<close>

type_synonym Timer = time

definition NewTimer :: "('s, Timer) io" where
  "NewTimer = time_Now"

definition Elapsed :: "Timer \<Rightarrow> ('s, duration) io" where
  "Elapsed start = do { now \<leftarrow> time_Now; ret (now - start) }"

subsection \<open>Metrics\<close>

text \<open>
  An instrument with labels: its full name, the names of its labels, the upper bounds of its buckets
  (in milliseconds) and the values recorded for each list of label values. \<open>WithLabelValues\<close> panics
  when the number of values is not that of the labels; \<open>metrics_wf\<close> below states the numbers every
  update of the code uses, and \<open>NewMetrics\<close> has them, so the panic does not arise.
\<close>

record counter_vec =
  counter_name :: string
  counter_labels :: "string list"
  counts :: "string list \<Rightarrow> nat"

record histogram_vec =
  histogram_name :: string
  histogram_labels :: "string list"
  buckets :: "int list"
  observations :: "string list \<Rightarrow> duration list"

definition Inc :: "string list \<Rightarrow> counter_vec \<Rightarrow> counter_vec" where
  "Inc values v = v\<lparr>counts := (counts v)(values := counts v values + 1)\<rparr>"

definition Observe :: "string list \<Rightarrow> duration \<Rightarrow> histogram_vec \<Rightarrow> histogram_vec" where
  "Observe values d v =
     v\<lparr>observations := (observations v)(values := observations v values @ [d])\<rparr>"

record Metrics =
  HTTPRequestsTotal :: counter_vec
  HTTPRequestDuration :: histogram_vec
  MetadataCacheHits :: counter_vec
  MetadataCacheMisses :: counter_vec
  FetchDuration :: histogram_vec
  FetchErrorsTotal :: counter_vec
  KafkaMessagesProduced :: counter_vec
  KafkaMessagesConsumed :: counter_vec
  MongoOperationDuration :: histogram_vec

definition NewCounterVec :: "string \<Rightarrow> string \<Rightarrow> string list \<Rightarrow> counter_vec" where
  "NewCounterVec namespace name labels =
     \<lparr>counter_name = namespace @ ''_'' @ name, counter_labels = labels, counts = (\<lambda>_. 0)\<rparr>"

definition NewHistogramVec ::
  "string \<Rightarrow> string \<Rightarrow> int list \<Rightarrow> string list \<Rightarrow> histogram_vec" where
  "NewHistogramVec namespace name bounds labels =
     \<lparr>histogram_name = namespace @ ''_'' @ name, histogram_labels = labels, buckets = bounds,
      observations = (\<lambda>_. [])\<rparr>"

text \<open>\<^verbatim>\<open>prometheus.DefBuckets\<close>\<close>

definition DefBuckets :: "int list" where
  "DefBuckets = [5, 10, 25, 50, 100, 250, 500, 1000, 2500, 5000, 10000]"

definition NewMetrics :: "string \<Rightarrow> Metrics" where
  "NewMetrics namespace = \<lparr>
     HTTPRequestsTotal = NewCounterVec namespace ''http_requests_total''
       [''method'', ''path'', ''status_code''],
     HTTPRequestDuration = NewHistogramVec namespace ''http_request_duration_seconds'' DefBuckets
       [''method'', ''path''],
     MetadataCacheHits = NewCounterVec namespace ''metadata_cache_hits_total'' [],
     MetadataCacheMisses = NewCounterVec namespace ''metadata_cache_misses_total'' [],
     FetchDuration = NewHistogramVec namespace ''fetch_duration_seconds''
       [100, 250, 500, 1000, 2500, 5000, 10000, 30000] [''status''],
     FetchErrorsTotal = NewCounterVec namespace ''worker_fetch_errors_total'' [''error_type''],
     KafkaMessagesProduced = NewCounterVec namespace ''kafka_messages_produced_total'' [''topic''],
     KafkaMessagesConsumed = NewCounterVec namespace ''kafka_messages_consumed_total''
       [''topic'', ''status''],
     MongoOperationDuration = NewHistogramVec namespace ''mongodb_operation_duration_seconds''
       [1, 5, 10, 25, 50, 100, 250, 500, 1000] [''operation'']\<rparr>"

definition metrics_wf :: "Metrics \<Rightarrow> bool" where
  "metrics_wf m \<longleftrightarrow> length (counter_labels (HTTPRequestsTotal m)) = 3 \<and>
     length (histogram_labels (HTTPRequestDuration m)) = 2 \<and>
     length (histogram_labels (FetchDuration m)) = 1 \<and>
     length (counter_labels (FetchErrorsTotal m)) = 1"

lemma metrics_wf_new: "metrics_wf (NewMetrics ns)"
  by (simp add: metrics_wf_def NewMetrics_def NewCounterVec_def NewHistogramVec_def)

lemma labels_Inc [simp]: "counter_labels (Inc vs v) = counter_labels v"
  by (simp add: Inc_def)

lemma labels_Observe [simp]: "histogram_labels (Observe vs d v) = histogram_labels v"
  by (simp add: Observe_def)

end
