(* ===== verification/Service.thy ===== *)
theory Service
  imports MockRepo MongoRepo Fetcher Kafka Config Observability
begin

section \<open>The metadata service (pkg/service)\<close>

text \<open>
  \<open>SubmitURL\<close> and \<open>GetMetadata\<close> over any implementation of the three interfaces. The state of the
  service is that of its three dependencies, each updated by its own operations only.
\<close>

record ('r, 'f, 'p) service_world =
  repo_st :: 'r
  fetch_st :: 'f
  prod_st :: 'p

abbreviation on_repo :: "('r, 'a) io \<Rightarrow> (('r, 'f, 'p) service_world, 'a) io" where
  "on_repo \<equiv> zoom repo_st repo_st_update"

abbreviation on_fetcher :: "('f, 'a) io \<Rightarrow> (('r, 'f, 'p) service_world, 'a) io" where
  "on_fetcher \<equiv> zoom fetch_st fetch_st_update"

abbreviation on_producer :: "('p, 'a) io \<Rightarrow> (('r, 'f, 'p) service_world, 'a) io" where
  "on_producer \<equiv> zoom prod_st prod_st_update"

record ('r, 'f, 'p) MetadataServiceImpl =
  repo :: "'r MetadataRepository"
  producer :: "'p EventProducer"
  fetcher :: "'f Fetcher"
  flags :: FeatureFlags

text \<open>A result \<^verbatim>\<open>(record, flag, err)\<close>: the record and the flag are nil and false beside an error.\<close>

type_synonym service_result = "goerr + MetadataRecord option \<times> bool"

record 'w MetadataService =
  svc_SubmitURL :: "Context \<Rightarrow> string \<Rightarrow> ('w, service_result) io"
  svc_GetMetadata :: "Context \<Rightarrow> string \<Rightarrow> ('w, service_result) io"

subsection \<open>Building what is stored and sent\<close>

definition convertCookies :: "CookieInfo list \<Rightarrow> CookieRecord list" where
  "convertCookies cookies = map (\<lambda>c. \<lparr>Name_c = Name_i c, Value_c = Value_i c,
     Domain_c = Domain_i c, Path_c = Path_i c, HTTPOnly_c = HTTPOnly_i c,
     Secure_c = Secure_i c\<rparr>) cookies"

definition fetch_result_of :: "FetcherResult \<Rightarrow> FetchResult" where
  "fetch_result_of result = \<lparr>Headers_r = Headers_f result,
     Cookies_r = convertCookies (Cookies_f result), PageSource_r = PageSource_f result,
     PageSourceSizeBytes_r = PageSourceSizeBytes_f result,
     FetchDurationMs_r = FetchDurationMs_f result, FetchedAt_r = FetchedAt_f result\<rparr>"

definition pending_record :: "string \<Rightarrow> time \<Rightarrow> MetadataRecord" where
  "pending_record url now =
     zero_record\<lparr>URL := url, Status := StatusPending, CreatedAt := now\<rparr>"

definition fetch_message :: "Context \<Rightarrow> string \<Rightarrow> string \<Rightarrow> time \<Rightarrow> FetchRequestMessage" where
  "fetch_message ctx url source now = \<lparr>Version_q = MessageVersion, URL_q = url,
     RequestedAt_q = now, RequestID_q = RequestIDFromContext ctx, Source_q = source\<rparr>"

definition db_error :: "goerr \<Rightarrow> goerr" where
  "db_error err = ErrorfWV (Sentinel ErrDatabaseError) err"

subsection \<open>The operations\<close>

definition dispatchAsyncFetch ::
  "('r, 'f, 'p) MetadataServiceImpl \<Rightarrow> Context \<Rightarrow> string \<Rightarrow> string \<Rightarrow>
   (('r, 'f, 'p) service_world, goerr option) io" where
  "dispatchAsyncFetch s ctx url source = do {
     now \<leftarrow> time_Now;
     err \<leftarrow> on_producer (Publish (producer s) (fetch_message ctx url source now));
     ret (map_option (ErrorfWV (Sentinel ErrKafkaError)) err)
   }"

definition read_back ::
  "('r, 'f, 'p) MetadataServiceImpl \<Rightarrow> string \<Rightarrow> (('r, 'f, 'p) service_world, service_result) io"
  where
  "read_back s url = do {
     r \<leftarrow> on_repo (FindByURL (repo s) url);
     ret (case r of Inl err \<Rightarrow> Inl (db_error err) | Inr record \<Rightarrow> Inr (record, True))
   }"

text \<open>
  The asynchronous and the inline half of \<open>SubmitURL\<close>; the latter ends with what it makes of the
  result of the fetch.
\<close>

definition submit_async ::
  "('r, 'f, 'p) MetadataServiceImpl \<Rightarrow> Context \<Rightarrow> string \<Rightarrow>
   (('r, 'f, 'p) service_world, service_result) io" where
  "submit_async s ctx url = do {
     err \<leftarrow> dispatchAsyncFetch s ctx url ''api-post'';
     (case err of Some e \<Rightarrow> ret (Inl e) | None \<Rightarrow> read_back s url)
   }"

definition store_outcome ::
  "('r, 'f, 'p) MetadataServiceImpl \<Rightarrow> string \<Rightarrow> goerr + FetcherResult \<Rightarrow>
   (('r, 'f, 'p) service_world, service_result) io" where
  "store_outcome s url r =
     (case r of
        Inl fetchErr \<Rightarrow> do {
          _ \<leftarrow> on_repo (UpdateStatus (repo s) url StatusFailed None);
          ret (Inl (ErrorfWV (Sentinel ErrFetchFailed) fetchErr))
        }
      | Inr result \<Rightarrow> do {
          err \<leftarrow> on_repo (UpdateStatus (repo s) url StatusReady (Some (fetch_result_of result)));
          (case err of Some e \<Rightarrow> ret (Inl (db_error e)) | None \<Rightarrow> read_back s url)
        })"

definition submit_inline ::
  "('r, 'f, 'p) MetadataServiceImpl \<Rightarrow> string \<Rightarrow> (('r, 'f, 'p) service_world, service_result) io"
  where
  "submit_inline s url = do {
     _ \<leftarrow> on_repo (UpdateStatus (repo s) url StatusFetching None);
     r \<leftarrow> on_fetcher (Fetch (fetcher s) url (flags s PageSourceStorage));
     store_outcome s url r
   }"

text \<open>Both operations store a new pending record, with a time stamp.\<close>

definition upsert_pending ::
  "('r, 'f, 'p) MetadataServiceImpl \<Rightarrow> string \<Rightarrow>
   (('r, 'f, 'p) service_world, MetadataRecord \<times> goerr option) io" where
  "upsert_pending s url = do {
     now \<leftarrow> time_Now;
     on_repo (Upsert (repo s) (pending_record url now))
   }"

definition SubmitURL ::
  "('r, 'f, 'p) MetadataServiceImpl \<Rightarrow> Context \<Rightarrow> string \<Rightarrow>
   (('r, 'f, 'p) service_world, service_result) io" where
  "SubmitURL s ctx url = do {
     r \<leftarrow> on_repo (FindByURL (repo s) url);
     (case r of
        Inl err \<Rightarrow> ret (Inl (db_error err))
      | Inr existing \<Rightarrow>
          if is_some_and (\<lambda>e. Status e = StatusReady) existing then ret (Inr (existing, False))
          else if is_some_and (\<lambda>e. Status e = StatusPending \<or> Status e = StatusFetching) existing
          then ret (Inr (existing, False))
          else do {
            (_, err) \<leftarrow> upsert_pending s url;
            (case err of
               Some e \<Rightarrow> ret (Inl (db_error e))
             | None \<Rightarrow> if flags s AsyncFetchOnly then submit_async s ctx url else submit_inline s url)
          })
   }"

definition GetMetadata ::
  "('r, 'f, 'p) MetadataServiceImpl \<Rightarrow> Context \<Rightarrow> string \<Rightarrow>
   (('r, 'f, 'p) service_world, service_result) io" where
  "GetMetadata s ctx url = do {
     r \<leftarrow> on_repo (FindByURL (repo s) url);
     (case r of
        Inl err \<Rightarrow> ret (Inl (db_error err))
      | Inr record \<Rightarrow>
          if is_some_and (\<lambda>e. Status e = StatusReady) record then ret (Inr (record, False))
          else if is_some_and (\<lambda>e. Status e = StatusPending \<or> Status e = StatusFetching) record
          then ret (Inr (None, True))
          else do {
            (_, err) \<leftarrow> upsert_pending s url;
            (case err of
               Some e \<Rightarrow> ret (Inl (db_error e))
             | None \<Rightarrow> do {
                 err \<leftarrow> dispatchAsyncFetch s ctx url ''api-get'';
                 (case err of Some e \<Rightarrow> ret (Inl e) | None \<Rightarrow> ret (Inr (None, True)))
               })
          })
   }"

definition NewMetadataService ::
  "'r MetadataRepository \<Rightarrow> 'p EventProducer \<Rightarrow> 'f Fetcher \<Rightarrow> FeatureFlags \<Rightarrow>
   ('r, 'f, 'p) service_world MetadataService" where
  "NewMetadataService r p f fl =
     (let s = \<lparr>repo = r, producer = p, fetcher = f, flags = fl\<rparr>
      in \<lparr>svc_SubmitURL = SubmitURL s, svc_GetMetadata = GetMetadata s\<rparr>)"

text \<open>A sequence of requests, for the statements about histories.\<close>

datatype api_call = CallSubmit Context string | CallGet Context string

fun call_url :: "api_call \<Rightarrow> string" where
  "call_url (CallSubmit ctx url) = url"
| "call_url (CallGet ctx url) = url"

fun run_call :: "('r, 'f, 'p) MetadataServiceImpl \<Rightarrow> api_call \<Rightarrow>
   (('r, 'f, 'p) service_world, service_result) io" where
  "run_call s (CallSubmit ctx url) = SubmitURL s ctx url"
| "run_call s (CallGet ctx url) = GetMetadata s ctx url"

primrec run_calls :: "('r, 'f, 'p) MetadataServiceImpl \<Rightarrow> api_call list \<Rightarrow>
   (('r, 'f, 'p) service_world, service_result list) io" where
  "run_calls s [] = ret []"
| "run_calls s (call # calls) = do {
     r \<leftarrow> run_call s call;
     rs \<leftarrow> run_calls s calls;
     ret (r # rs)
   }"

subsection \<open>The abstract service\<close>

text \<open>
  What a caller can observe: the map of entries and the messages sent. A URL is claimable when no
  entry, or one with another status than the three the service waits for or serves, is stored for it.
\<close>

type_synonym api_state = "store \<times> FetchRequestMessage list"

definition in_progress :: "Status \<Rightarrow> bool" where
  "in_progress st \<longleftrightarrow> st = StatusPending \<or> st = StatusFetching"

definition claimable :: "store \<Rightarrow> string \<Rightarrow> bool" where
  "claimable m url \<longleftrightarrow>
     (case m url of
        None \<Rightarrow> True
      | Some e \<Rightarrow> e_status e \<noteq> StatusReady \<and> \<not> in_progress (e_status e))"

definition pending_entry :: "string \<Rightarrow> entry" where
  "pending_entry url = \<lparr>e_url = url, e_status = StatusPending, e_headers = Map.empty,
     e_cookies = [], e_page_source = '''', e_page_source_size = 0, e_error = '''',
     e_duration = 0, e_fetched = False\<rparr>"

definition claimed :: "Status \<Rightarrow> string \<Rightarrow> store \<Rightarrow> store" where
  "claimed st url m = m(url \<mapsto> (pending_entry url)\<lparr>e_status := st\<rparr>)"

definition ready_entry :: "FetchResult \<Rightarrow> string \<Rightarrow> entry" where
  "ready_entry f url = entry_update StatusReady (Some f) (pending_entry url)"

lemma entry_of_pending_record [simp]: "entry_of (pending_record url now) = pending_entry url"
  by (simp add: entry_of_def pending_record_def pending_entry_def zero_record_def)

lemma URL_pending_record [simp]: "URL (pending_record url now) = url"
  by (simp add: pending_record_def)

lemma pending_entry_status [simp]:
  "e_status (pending_entry url) = StatusPending"
  "(pending_entry url)\<lparr>e_status := StatusPending\<rparr> = pending_entry url"
  by (simp_all add: pending_entry_def)

lemma db_error_is [simp]: "errors_Is (db_error e) ErrDatabaseError"
  by (simp add: db_error_def)

lemma put_pending [simp]: "put_entry (pending_record url now) m = claimed StatusPending url m"
  by (simp add: put_entry_def claimed_def)

lemma claimed_simps [simp]:
  "claimed st url m url = Some ((pending_entry url)\<lparr>e_status := st\<rparr>)"
  "u \<noteq> url \<Longrightarrow> claimed st url m u = m u"
  "claimed st url (claimed st' url m) = claimed st url m"
  by (simp_all add: claimed_def)

lemma set_status_claimed [simp]:
  "set_status url st None (claimed st' url m) = claimed st url m"
  by (simp add: set_status_def claimed_def entry_update_def)

lemma set_ready_claimed [simp]:
  "set_status url StatusReady (Some f) (claimed st url m) = m(url \<mapsto> ready_entry f url)"
  by (simp add: set_status_def claimed_def entry_update_def ready_entry_def)

text \<open>The three cases both operations tell apart by the record they find.\<close>

lemma lookup_cases:
  assumes "map_option entry_of x = m url"
  obtains (ready) rec where "x = Some rec" "m url = Some (entry_of rec)" "Status rec = StatusReady"
  | (busy) rec where "x = Some rec" "m url = Some (entry_of rec)" "in_progress (Status rec)"
  | (claim) "claimable m url" "\<not> is_some_and (\<lambda>e. Status e = StatusReady) x"
      "\<not> is_some_and (\<lambda>e. Status e = StatusPending \<or> Status e = StatusFetching) x"
proof (cases x)
  case None
  with assms show ?thesis
    by (intro claim) (simp_all add: claimable_def flip: assms)
next
  case (Some rec)
  then have m: "m url = Some (entry_of rec)"
    using assms by simp
  show ?thesis
  proof (cases "Status rec = StatusReady \<or> in_progress (Status rec)")
    case True
    with m Some show ?thesis
      by (auto intro: ready busy)
  next
    case False
    with m Some show ?thesis
      by (intro claim) (auto simp: claimable_def in_progress_def)
  qed
qed

text \<open>The outcomes of \<open>GetMetadata\<close>.\<close>

inductive get_spec ::
  "(FetchRequestMessage \<Rightarrow> FetchRequestMessage) \<Rightarrow> Context \<Rightarrow> string \<Rightarrow> api_state \<Rightarrow>
   service_result \<Rightarrow> api_state \<Rightarrow> bool"
  for wire ctx url where
  get_cached: "\<lbrakk>m url = Some (entry_of rec); Status rec = StatusReady\<rbrakk> \<Longrightarrow>
     get_spec wire ctx url (m, q) (Inr (Some rec, False)) (m, q)"
| get_busy: "\<lbrakk>m url = Some e; in_progress (e_status e)\<rbrakk> \<Longrightarrow>
     get_spec wire ctx url (m, q) (Inr (None, True)) (m, q)"
| get_queued: "claimable m url \<Longrightarrow>
     get_spec wire ctx url (m, q) (Inr (None, True))
       (claimed StatusPending url m, q @ [wire (fetch_message ctx url ''api-get'' now)])"
| get_db_error: "errors_Is err ErrDatabaseError \<Longrightarrow> get_spec wire ctx url (m, q) (Inl err) (m, q)"
| get_db_error_claimed: "\<lbrakk>errors_Is err ErrDatabaseError; claimable m url\<rbrakk> \<Longrightarrow>
     get_spec wire ctx url (m, q) (Inl err) (claimed StatusPending url m, q)"
| get_queue_error: "\<lbrakk>errors_Is err ErrKafkaError; claimable m url\<rbrakk> \<Longrightarrow>
     get_spec wire ctx url (m, q) (Inl err) (claimed StatusPending url m, q)"
| get_queue_error_sent: "\<lbrakk>errors_Is err ErrKafkaError; claimable m url\<rbrakk> \<Longrightarrow>
     get_spec wire ctx url (m, q) (Inl err)
       (claimed StatusPending url m, q @ [wire (fetch_message ctx url ''api-get'' now)])"

text \<open>
  The outcomes of \<open>SubmitURL\<close>; \<open>good\<close> is what the fetcher promises of a result, given whether the
  page source was asked for.
\<close>

inductive submit_spec ::
  "(FetchRequestMessage \<Rightarrow> FetchRequestMessage) \<Rightarrow> FeatureFlags \<Rightarrow>
   (bool \<Rightarrow> FetcherResult \<Rightarrow> bool) \<Rightarrow> Context \<Rightarrow> string \<Rightarrow> api_state \<Rightarrow>
   service_result \<Rightarrow> api_state \<Rightarrow> bool"
  for wire fl good ctx url where
  submit_known: "\<lbrakk>m url = Some (entry_of rec);
       Status rec = StatusReady \<or> in_progress (Status rec)\<rbrakk> \<Longrightarrow>
     submit_spec wire fl good ctx url (m, q) (Inr (Some rec, False)) (m, q)"
| submit_queued: "\<lbrakk>fl AsyncFetchOnly; claimable m url; entry_of rec = pending_entry url\<rbrakk> \<Longrightarrow>
     submit_spec wire fl good ctx url (m, q) (Inr (Some rec, True))
       (claimed StatusPending url m, q @ [wire (fetch_message ctx url ''api-post'' now)])"
| submit_stored: "\<lbrakk>\<not> fl AsyncFetchOnly; claimable m url; good (fl PageSourceStorage) f;
       entry_of rec = ready_entry (fetch_result_of f) url\<rbrakk> \<Longrightarrow>
     submit_spec wire fl good ctx url (m, q) (Inr (Some rec, True))
       (m(url \<mapsto> ready_entry (fetch_result_of f) url), q)"
| submit_fetch_failed: "\<lbrakk>\<not> fl AsyncFetchOnly; claimable m url; errors_Is err ErrFetchFailed;
       st \<in> {StatusPending, StatusFetching, StatusFailed}\<rbrakk> \<Longrightarrow>
     submit_spec wire fl good ctx url (m, q) (Inl err) (claimed st url m, q)"
| submit_db_error: "errors_Is err ErrDatabaseError \<Longrightarrow>
     submit_spec wire fl good ctx url (m, q) (Inl err) (m, q)"
| submit_db_error_claimed: "\<lbrakk>errors_Is err ErrDatabaseError; claimable m url;
       st = StatusPending \<or> st = StatusFetching \<and> \<not> fl AsyncFetchOnly\<rbrakk> \<Longrightarrow>
     submit_spec wire fl good ctx url (m, q) (Inl err) (claimed st url m, q)"
| submit_db_error_sent: "\<lbrakk>errors_Is err ErrDatabaseError; claimable m url; fl AsyncFetchOnly\<rbrakk> \<Longrightarrow>
     submit_spec wire fl good ctx url (m, q) (Inl err)
       (claimed StatusPending url m, q @ [wire (fetch_message ctx url ''api-post'' now)])"
| submit_db_error_stored: "\<lbrakk>errors_Is err ErrDatabaseError; \<not> fl AsyncFetchOnly;
       claimable m url; good (fl PageSourceStorage) f\<rbrakk> \<Longrightarrow>
     submit_spec wire fl good ctx url (m, q) (Inl err)
       (m(url \<mapsto> ready_entry (fetch_result_of f) url), q)"
| submit_queue_error: "\<lbrakk>fl AsyncFetchOnly; claimable m url; errors_Is err ErrKafkaError\<rbrakk> \<Longrightarrow>
     submit_spec wire fl good ctx url (m, q) (Inl err) (claimed StatusPending url m, q)"
| submit_queue_error_sent: "\<lbrakk>fl AsyncFetchOnly; claimable m url; errors_Is err ErrKafkaError\<rbrakk> \<Longrightarrow>
     submit_spec wire fl good ctx url (m, q) (Inl err)
       (claimed StatusPending url m, q @ [wire (fetch_message ctx url ''api-post'' now)])"

subsection \<open>What a call does to one URL\<close>

text \<open>The messages sent for a URL.\<close>

definition messages_for :: "string \<Rightarrow> FetchRequestMessage list \<Rightarrow> FetchRequestMessage list" where
  "messages_for url q = filter (\<lambda>msg. URL_q msg = url) q"

text \<open>The URLs that arrive as they were sent.\<close>

definition keeps_urls :: "(FetchRequestMessage \<Rightarrow> FetchRequestMessage) \<Rightarrow> string set \<Rightarrow> bool" where
  "keeps_urls wire us \<longleftrightarrow> (\<forall>m. URL_q m \<in> us \<longrightarrow> URL_q (wire m) = URL_q m)"

lemma keeps_urls_mono: "keeps_urls wire us' \<Longrightarrow> us \<subseteq> us' \<Longrightarrow> keeps_urls wire us"
  by (auto simp: keeps_urls_def)

lemma messages_for_fetch [simp]:
  assumes "keeps_urls wire us" and "url \<in> us"
  shows "messages_for u (q @ [wire (fetch_message ctx url source now)]) =
    messages_for u q @ (if u = url then [wire (fetch_message ctx url source now)] else [])"
  using assms by (simp add: messages_for_def fetch_message_def keeps_urls_def)

text \<open>One call of either operation, for some URL of \<open>us\<close>.\<close>

definition api_step ::
  "(FetchRequestMessage \<Rightarrow> FetchRequestMessage) \<Rightarrow> FeatureFlags \<Rightarrow> (bool \<Rightarrow> FetcherResult \<Rightarrow> bool) \<Rightarrow> string set \<Rightarrow> api_state \<Rightarrow> api_state \<Rightarrow> bool" where
  "api_step wire fl good us t t' \<longleftrightarrow> (\<exists>ctx url res. url \<in> us \<and>
     (get_spec wire ctx url t res t' \<or> submit_spec wire fl good ctx url t res t'))"

lemma api_step_mono: "us \<subseteq> us' \<Longrightarrow> api_step wire fl good us t t' \<Longrightarrow> api_step wire fl good us' t t'"
  unfolding api_step_def by blast

lemma api_steps_mono:
  "us \<subseteq> us' \<Longrightarrow> (api_step wire fl good us)\<^sup>*\<^sup>* t t' \<Longrightarrow> (api_step wire fl good us')\<^sup>*\<^sup>* t t'"
  by (erule rtranclp_mono [THEN predicate2D, rotated]) (auto intro: api_step_mono)

text \<open>
  Seen from one URL, a call changes nothing; or it claims the URL and sends no message for it; or it
  claims it, leaves it pending, and sends one message.
\<close>

lemma api_step_cases [consumes 2, case_names same claimed sent]:
  assumes "api_step wire fl good us (m, q) (m', q')" and "keeps_urls wire us"
  obtains "m' u = m u" "messages_for u q' = messages_for u q"
  | "u \<in> us" "claimable m u" "messages_for u q' = messages_for u q"
  | msg where "u \<in> us" "claimable m u" "m' u = Some (pending_entry u)"
      "messages_for u q' = messages_for u q @ [msg]"
proof -
  obtain ctx url res where url: "url \<in> us"
    and step: "get_spec wire ctx url (m, q) res (m', q') \<or> submit_spec wire fl good ctx url (m, q) res (m', q')"
    using assms(1) by (auto simp: api_step_def)
  note sent = messages_for_fetch [OF assms(2) url]
  show ?thesis
  proof (cases "u = url")
    case True
    with url step show ?thesis
      by (auto simp: sent elim!: get_spec.cases submit_spec.cases intro: that)
  next
    case False
    with step have "m' u = m u" "messages_for u q' = messages_for u q"
      by (auto simp: sent elim!: get_spec.cases submit_spec.cases)
    then show ?thesis
      by (rule that(1))
  qed
qed

text \<open>What any number of calls does to one URL: the same three cases.\<close>

lemma api_steps_cases:
  assumes "(api_step wire fl good us)\<^sup>*\<^sup>* (m, q) (m', q')" and "keeps_urls wire us"
  shows "(m' u = m u \<and> messages_for u q' = messages_for u q)
    \<or> (u \<in> us \<and> claimable m u \<and> messages_for u q' = messages_for u q)
    \<or> (u \<in> us \<and> claimable m u \<and> m' u = Some (pending_entry u) \<and>
        (\<exists>msg. messages_for u q' = messages_for u q @ [msg]))"
  using assms(1)
proof (induction "(m', q')" arbitrary: m' q' rule: rtranclp_induct)
  case (step t)
  obtain m1 q1 where t: "t = (m1, q1)"
    by (cases t)
  have "\<not> claimable m1 u" if "m1 u = Some (pending_entry u)"
    using that by (simp add: claimable_def in_progress_def)
  moreover have "claimable m u" if "m1 u = m u" "claimable m1 u"
    using that by (simp add: claimable_def)
  moreover note step(3) [OF t]
  ultimately show ?case
    by (cases rule: api_step_cases [OF step(2) [unfolded t] assms(2), where u = u]) auto
qed simp

subsection \<open>The service implements it\<close>

locale metadata_service =
  metadata_repository R view urls invar + event_producer P sent wire + fetcher_contract F good
  for R :: "'r MetadataRepository" and view :: "'r \<Rightarrow> store" and urls invar
    and P :: "'p EventProducer" and sent :: "'p \<Rightarrow> FetchRequestMessage list" and wire
    and F :: "'f Fetcher" and good :: "bool \<Rightarrow> FetcherResult \<Rightarrow> bool" +
  fixes fl :: FeatureFlags
  assumes wire_urls: "keeps_urls wire urls"
begin

abbreviation srv :: "('r, 'f, 'p) MetadataServiceImpl" where
  "srv \<equiv> \<lparr>repo = R, producer = P, fetcher = F, flags = fl\<rparr>"

definition observe :: "('r, 'f, 'p) service_world \<Rightarrow> api_state" where
  "observe w = (view (repo_st w), sent (prod_st w))"

definition ok :: "('r, 'f, 'p) service_world \<Rightarrow> bool" where
  "ok w \<longleftrightarrow> invar (repo_st w)"

text \<open>The contracts of the dependencies, seen from the service's world.\<close>

lemma find_world:
  assumes "ok w" and "url \<in> urls"
    and "\<And>r w' c'. \<lbrakk>ok w'; observe w' = observe w;
           \<And>x. r = Inr x \<Longrightarrow> map_option entry_of x = fst (observe w) url\<rbrakk> \<Longrightarrow> Q r (w', c')"
  shows "wp (on_repo (FindByURL R url)) Q (w, c)"
  unfolding wp_zoom
  by (rule find_rule) (use assms in \<open>auto simp: ok_def observe_def\<close>)

lemma upsert_world:
  assumes "ok w" and "url \<in> urls"
    and "\<And>r w' c'. \<lbrakk>ok w'; observe w' = (claimed StatusPending url (fst (observe w)), snd (observe w))\<rbrakk>
      \<Longrightarrow> Q (r, None) (w', c')"
    and "\<And>r e w' c'. \<lbrakk>ok w'; observe w' = (claimed StatusPending url (fst (observe w)), snd (observe w))
           \<or> observe w' = observe w\<rbrakk> \<Longrightarrow> Q (r, Some e) (w', c')"
  shows "wp (upsert_pending srv url) Q (w, c)"
  unfolding upsert_pending_def wp_bind wp_time_Now wp_zoom
  by (simp, rule upsert_rule) (use assms in \<open>auto simp: ok_def observe_def\<close>)

lemma update_world:
  assumes "ok w" and "url \<in> urls"
    and "\<And>w' c'. \<lbrakk>ok w'; observe w' = (set_status url st res (fst (observe w)), snd (observe w))\<rbrakk>
      \<Longrightarrow> Q None (w', c')"
    and "\<And>e w' c'. \<lbrakk>ok w'; observe w' = (set_status url st res (fst (observe w)), snd (observe w))
           \<or> observe w' = observe w\<rbrakk> \<Longrightarrow> Q (Some e) (w', c')"
  shows "wp (on_repo (UpdateStatus R url st res)) Q (w, c)"
  unfolding wp_zoom
  by (rule update_rule) (use assms in \<open>auto simp: ok_def observe_def\<close>)

lemma dispatch_world:
  assumes "ok w"
    and "\<And>now w' c'. \<lbrakk>ok w'; observe w' =
           (fst (observe w), snd (observe w) @ [wire (fetch_message ctx url source now)])\<rbrakk> \<Longrightarrow> Q None (w', c')"
    and "\<And>e w' c'. \<lbrakk>ok w'; errors_Is e ErrKafkaError; observe w' = observe w\<rbrakk> \<Longrightarrow> Q (Some e) (w', c')"
    and "\<And>e now w' c'. \<lbrakk>ok w'; errors_Is e ErrKafkaError; observe w' =
           (fst (observe w), snd (observe w) @ [wire (fetch_message ctx url source now)])\<rbrakk>
         \<Longrightarrow> Q (Some e) (w', c')"
  shows "wp (dispatchAsyncFetch srv ctx url source) Q (w, c)"
proof -
  have "Q (map_option (ErrorfWV (Sentinel ErrKafkaError)) err) (w\<lparr>prod_st := s'\<rparr>, c')"
    if "sent s' = sent (prod_st w) @ [wire (fetch_message ctx url source (c 0))] \<or>
      err \<noteq> None \<and> sent s' = sent (prod_st w)" for err s' c'
    using that assms(1) assms(2) [of "w\<lparr>prod_st := s'\<rparr>" "c 0" c'] assms(3) [of "w\<lparr>prod_st := s'\<rparr>" _ c']
      assms(4) [of "w\<lparr>prod_st := s'\<rparr>" _ "c 0" c']
    by (cases err) (auto simp: ok_def observe_def)
  then show ?thesis
    unfolding dispatchAsyncFetch_def wp_bind wp_time_Now wp_zoom wp_return
    by (simp, intro wp_mono [OF publish_contract]) auto
qed

lemma fetch_world:
  assumes "ok w"
    and "\<And>e w' c'. \<lbrakk>ok w'; observe w' = observe w\<rbrakk> \<Longrightarrow> Q (Inl e) (w', c')"
    and "\<And>f w' c'. \<lbrakk>ok w'; observe w' = observe w; good inc f\<rbrakk> \<Longrightarrow> Q (Inr f) (w', c')"
  shows "wp (on_fetcher (Fetch F url inc)) Q (w, c)"
  unfolding wp_zoom
  by (rule fetch_rule) (use assms in \<open>auto simp: ok_def observe_def\<close>)

text \<open>Every run is an outcome of the specification.\<close>

abbreviation get_post where
  "get_post ctx url w \<equiv> \<lambda>res (w', c'). ok w' \<and> get_spec wire ctx url (observe w) res (observe w')"

lemma get_claim:
  assumes "ok w" and "url \<in> urls" and "claimable (fst (observe w)) url"
  shows "wp (upsert_pending srv url) (\<lambda>r. wp (case r of (_, err) \<Rightarrow> (case err of
             Some e \<Rightarrow> ret (Inl (db_error e))
           | None \<Rightarrow> do {
               err \<leftarrow> dispatchAsyncFetch srv ctx url ''api-get'';
               (case err of Some e \<Rightarrow> ret (Inl e) | None \<Rightarrow> ret (Inr (None, True)))
             })) (get_post ctx url w)) (w, c)"
  using assms
  by (cases "observe w")
    (auto intro!: upsert_world dispatch_world, (blast intro: get_spec.intros db_error_is)+)

lemma GetMetadata_outcome:
  assumes "ok w" and "url \<in> urls"
  shows "wp (GetMetadata srv ctx url) (get_post ctx url w) (w, c)"
  unfolding GetMetadata_def wp_bind MetadataServiceImpl.simps
proof (rule find_world [OF assms], goal_cases)
  case (1 r w' c')
  show ?case
  proof (cases r)
    case (Inl err)
    with 1 show ?thesis
      by (cases "observe w") (auto intro: get_db_error)
  next
    case (Inr x)
    from 1(3) [OF Inr] show ?thesis
    proof (cases rule: lookup_cases)
      case (ready rec)
      with Inr 1 show ?thesis
        by (cases "observe w") (auto intro: get_cached)
    next
      case (busy rec)
      with Inr 1 show ?thesis
        by (cases "observe w") (auto intro!: get_busy [of _ _ "entry_of rec"] simp: in_progress_def)
    next
      case claim
      with Inr get_claim [OF 1(1) assms(2), of ctx c'] 1(2) show ?thesis
        by simp
    qed
  qed
qed

text \<open>The three stages of \<open>SubmitURL\<close>, from the last one back.\<close>

abbreviation submit_post where
  "submit_post ctx url w \<equiv> \<lambda>res (w', c'). ok w' \<and> submit_spec wire fl good ctx url (observe w) res (observe w')"

lemma read_back_rule:
  assumes "ok w" and "url \<in> urls" and "fst (observe w) url = Some e"
    and "\<And>rec w' c'. \<lbrakk>ok w'; observe w' = observe w; entry_of rec = e\<rbrakk> \<Longrightarrow> Q (Inr (Some rec, True)) (w', c')"
    and "\<And>err w' c'. \<lbrakk>ok w'; observe w' = observe w; errors_Is err ErrDatabaseError\<rbrakk>
      \<Longrightarrow> Q (Inl err) (w', c')"
  shows "wp (read_back srv url) Q (w, c)"
  unfolding read_back_def wp_bind
  using assms by (auto intro!: find_world split: sum.split)

lemma submit_async_outcome:
  assumes "ok w0" and "url \<in> urls" and "claimable m url" and "fl AsyncFetchOnly"
    and "observe w0 = (claimed StatusPending url m, q)"
  shows "wp (submit_async srv ctx url)
    (\<lambda>res (w', c'). ok w' \<and> submit_spec wire fl good ctx url (m, q) res (observe w')) (w0, c)"
  unfolding submit_async_def wp_bind
  using assms
  by (auto intro!: dispatch_world read_back_rule) (blast intro: submit_spec.intros)+

text \<open>After the best-effort update to \<open>fetching\<close> the entry is still pending or fetching.\<close>

lemma store_outcome_rule:
  assumes "ok w0" and "url \<in> urls" and "claimable m url" and "\<not> fl AsyncFetchOnly"
    and "observe w0 = (claimed st url m, q)" and "st = StatusPending \<or> st = StatusFetching"
    and "\<And>f. r = Inr f \<Longrightarrow> good (fl PageSourceStorage) f"
  shows "wp (store_outcome srv url r)
    (\<lambda>res (w', c'). ok w' \<and> submit_spec wire fl good ctx url (m, q) res (observe w')) (w0, c)"
proof (cases r)
  case (Inl e)
  with assms show ?thesis
    by (auto simp: store_outcome_def intro!: update_world submit_fetch_failed)
next
  case (Inr f)
  with assms show ?thesis
    by (auto simp: store_outcome_def simp del: set_status_same intro!: update_world read_back_rule)
      (auto intro: submit_stored submit_db_error_stored submit_db_error_claimed)
qed

lemma submit_inline_outcome:
  assumes "ok w0" and "url \<in> urls" and "claimable m url" and "\<not> fl AsyncFetchOnly"
    and "observe w0 = (claimed StatusPending url m, q)"
  shows "wp (submit_inline srv url)
    (\<lambda>res (w', c'). ok w' \<and> submit_spec wire fl good ctx url (m, q) res (observe w')) (w0, c)"
  unfolding submit_inline_def wp_bind
  using assms by (auto intro!: update_world fetch_world store_outcome_rule)

lemma submit_claim:
  assumes "ok w" and "url \<in> urls" and "claimable (fst (observe w)) url"
  shows "wp (upsert_pending srv url) (\<lambda>r. wp (case r of (_, err) \<Rightarrow> (case err of
             Some e \<Rightarrow> ret (Inl (db_error e))
           | None \<Rightarrow> if fl AsyncFetchOnly then submit_async srv ctx url else submit_inline srv url))
      (submit_post ctx url w)) (w, c)"
proof (rule upsert_world [OF assms(1,2)], goal_cases)
  case (1 r w' c')
  then show ?case
    by (cases "observe w") (use assms in \<open>auto intro!: submit_async_outcome submit_inline_outcome\<close>)
next
  case (2 r e w' c')
  then show ?case
    by (cases "observe w")
      (use assms in \<open>auto intro!: submit_db_error submit_db_error_claimed\<close>)
qed

lemma SubmitURL_outcome:
  assumes "ok w" and "url \<in> urls"
  shows "wp (SubmitURL srv ctx url) (submit_post ctx url w) (w, c)"
  unfolding SubmitURL_def wp_bind MetadataServiceImpl.simps
proof (rule find_world [OF assms], goal_cases)
  case (1 r w' c')
  show ?case
  proof (cases r)
    case (Inl err)
    with 1 show ?thesis
      by (cases "observe w") (auto intro: submit_db_error)
  next
    case (Inr x)
    from 1(3) [OF Inr] show ?thesis
    proof (cases rule: lookup_cases)
      case (ready rec)
      with Inr 1 show ?thesis
        by (cases "observe w") (auto intro: submit_known)
    next
      case (busy rec)
      with Inr 1 show ?thesis
        by (cases "observe w") (auto intro: submit_known simp: in_progress_def)
    next
      case claim
      with Inr submit_claim [OF 1(1) assms(2), of ctx c'] 1(2) show ?thesis
        by simp
    qed
  qed
qed

text \<open>A sequence of calls.\<close>

lemma run_call_outcome:
  assumes "ok w" and "call_url call \<in> urls"
  shows "wp (run_call srv call) (\<lambda>_ (w', c'). ok w' \<and>
    api_step wire fl good {call_url call} (observe w) (observe w')) (w, c)"
proof (cases call)
  case (CallSubmit ctx url)
  have "wp (SubmitURL srv ctx url) (\<lambda>_ (w', c'). ok w' \<and>
      api_step wire fl good {url} (observe w) (observe w')) (w, c)"
    by (rule wp_mono [OF SubmitURL_outcome]) (use assms CallSubmit in \<open>auto simp: api_step_def\<close>)
  with CallSubmit show ?thesis
    by simp
next
  case (CallGet ctx url)
  have "wp (GetMetadata srv ctx url) (\<lambda>_ (w', c'). ok w' \<and>
      api_step wire fl good {url} (observe w) (observe w')) (w, c)"
    by (rule wp_mono [OF GetMetadata_outcome]) (use assms CallGet in \<open>auto simp: api_step_def\<close>)
  with CallGet show ?thesis
    by simp
qed

lemma run_calls_outcome:
  assumes "ok w" and "\<forall>call \<in> set calls. call_url call \<in> urls"
  shows "wp (run_calls srv calls) (\<lambda>_ (w', c'). ok w' \<and>
    (api_step wire fl good (call_url ` set calls))\<^sup>*\<^sup>* (observe w) (observe w')) (w, c)"
  using assms
proof (induction calls arbitrary: w c)
  case Nil
  then show ?case
    by simp
next
  case (Cons call calls)
  have rest: "wp (run_calls srv calls) (\<lambda>_ (w', c'). ok w' \<and>
      (api_step wire fl good (call_url ` set (call # calls)))\<^sup>*\<^sup>* (observe w) (observe w')) (w1, c1)"
    if "ok w1" and step: "api_step wire fl good {call_url call} (observe w) (observe w1)" for w1 c1
  proof (rule wp_mono [OF Cons.IH], goal_cases)
    case (3 rs t)
    have sub: "call_url ` set calls \<subseteq> call_url ` set (call # calls)"
        "{call_url call} \<subseteq> call_url ` set (call # calls)"
      by auto
    from 3 show ?case
      by (cases t) (blast intro: converse_rtranclp_into_rtranclp
          api_step_mono [OF sub(2) step] api_steps_mono [OF sub(1)])
  qed (use that Cons.prems in auto)
  show ?case
    unfolding run_calls.simps wp_bind wp_return
    by (rule wp_mono [OF run_call_outcome]) (use Cons.prems rest in \<open>auto simp: wp_conj\<close>)
qed

end

subsection \<open>Instances\<close>

text \<open>
  The service on the test doubles, and on the production implementations: there for the URLs that are
  valid UTF-8, because a message changes others.
\<close>

definition valid_urls :: "string set" where
  "valid_urls = {u. valid_utf8 u}"

lemma on_wire_urls: "keeps_urls on_wire valid_urls"
  by (simp add: keeps_urls_def valid_urls_def to_valid_id)

interpretation mocks: metadata_service mock_repository mock_view UNIV mock_invar
    mock_producer Messages "\<lambda>m. m" mock_fetcher "\<lambda>_ _. True" fl for fl
  by unfold_locales (simp add: keeps_urls_def)

interpretation prod: metadata_service "mongo_repository bytes_digest mem_collection"
    "mongo_view bytes_digest UNIV \<circ> mem_docs" valid_urls "mongo_invar bytes_digest UNIV \<circ> mem_docs"
    "kafka_producer mem_writer kp" "decoded_topic \<circ> broker_log" on_wire
    "http_fetcher env f" clean_result fl
  for env f kp fl
  by (intro metadata_service.intro metadata_service_axioms.intro on_wire_urls
      metadata_repository_subset [OF mem.mongo.metadata_repository_axioms]) (simp, unfold_locales)

text \<open>The service on the test doubles as the tests set it up, for the closed statements.\<close>

type_synonym mock_world = "(MockRepository, MockFetcher, MockProducer) service_world"

definition mock_srv ::
  "FeatureFlags \<Rightarrow> (MockRepository, MockFetcher, MockProducer) MetadataServiceImpl" where
  "mock_srv fl = \<lparr>repo = mock_repository, producer = mock_producer, fetcher = mock_fetcher,
     flags = fl\<rparr>"

definition new_mock_world :: mock_world where
  "new_mock_world = \<lparr>repo_st = NewMockRepository,
     fetch_st = \<lparr>Result_m = None, Err_m = None, Called = 0, LastURL = ''''\<rparr>,
     prod_st = \<lparr>Messages = [], Err_k = None, PingErr_k = None, Closed_k = False, PingCalled_k = 0\<rparr>\<rparr>"

lemma new_mock_world_simps [simp]:
  "mock_invar (repo_st new_mock_world)"
  "mock_view (repo_st new_mock_world) = Map.empty"
  "Messages (prod_st new_mock_world) = []"
  by (simp_all add: new_mock_world_def mock_invar_new) (simp add: mock_view_def NewMockRepository_def)

text \<open>The equations that run the service on the test doubles.\<close>

lemmas run_mocks = SubmitURL_def GetMetadata_def upsert_pending_def dispatchAsyncFetch_def
  submit_async_def submit_inline_def store_outcome_def read_back_def mock_defs mock_producer_defs
  mock_fetcher_def mock_Fetch_def mock_srv_def new_mock_world_def NewMockRepository_def Let_def
  outcome_def final_def

subsection \<open>Properties\<close>

text \<open>
  C2: \<open>GetMetadata\<close> implements its specification, over every repository and producer that keep their
  contracts: a ready record is served and nothing changes; a record in progress is reported as queued
  and nothing changes; any other URL becomes pending and exactly one \<^verbatim>\<open>api-get\<close> message for it, with
  the caller's request id, is sent; errors wrap the database or the Kafka sentinel, and leave a state
  the specification allows.
\<close>

theorem GetMetadata_refines:
  assumes "metadata_service R view urls invar P sent wire F good"
    and "invar (repo_st w)" and "url \<in> urls"
    and "m = GetMetadata \<lparr>repo = R, producer = P, fetcher = F, flags = fl\<rparr> ctx url"
  shows "invar (repo_st (final m (w, c))) \<and>
    get_spec wire ctx url (view (repo_st w), sent (prod_st w)) (outcome m (w, c))
      (view (repo_st (final m (w, c))), sent (prod_st (final m (w, c))))"
  using wp_final [OF metadata_service.GetMetadata_outcome [OF assms(1), of w]] assms(2-4)
  by (simp add: metadata_service.ok_def [OF assms(1)] metadata_service.observe_def [OF assms(1)])

theorem GetMetadata_refines_witness:
  "get_spec (\<lambda>m. m) Background ''http://a.com/'' (Map.empty, [])
     (outcome (GetMetadata (mock_srv (\<lambda>_. False)) Background ''http://a.com/'') (new_mock_world, int))
     (mock_view (repo_st (final (GetMetadata (mock_srv (\<lambda>_. False)) Background ''http://a.com/'') (new_mock_world, int))),
      Messages (prod_st (final (GetMetadata (mock_srv (\<lambda>_. False)) Background ''http://a.com/'') (new_mock_world, int))))"
  using GetMetadata_refines [OF mocks.metadata_service_axioms _ _ refl, of new_mock_world
      "''http://a.com/''" "\<lambda>_. False" Background int]
  by (simp add: mock_srv_def)

text \<open>
  C1: \<open>SubmitURL\<close> implements its specification: a ready record or one in progress is returned and
  nothing changes; any other URL is fetched inline and stored as ready with what the fetcher returned
  (or marked as failed with an error that wraps \<^verbatim>\<open>ErrFetchFailed\<close>), or, in the asynchronous mode,
  becomes pending with exactly one \<^verbatim>\<open>api-post\<close> message.
\<close>

theorem SubmitURL_refines:
  assumes "metadata_service R view urls invar P sent wire F good"
    and "invar (repo_st w)" and "url \<in> urls"
    and "m = SubmitURL \<lparr>repo = R, producer = P, fetcher = F, flags = fl\<rparr> ctx url"
  shows "invar (repo_st (final m (w, c))) \<and>
    submit_spec wire fl good ctx url (view (repo_st w), sent (prod_st w)) (outcome m (w, c))
      (view (repo_st (final m (w, c))), sent (prod_st (final m (w, c))))"
  using wp_final [OF metadata_service.SubmitURL_outcome [OF assms(1), of w]] assms(2-4)
  by (simp add: metadata_service.ok_def [OF assms(1)] metadata_service.observe_def [OF assms(1)])

theorem SubmitURL_refines_witness:
  "submit_spec (\<lambda>m. m) (\<lambda>_. False) (\<lambda>_ _. True) Background ''http://a.com/'' (Map.empty, [])
     (outcome (SubmitURL (mock_srv (\<lambda>_. False)) Background ''http://a.com/'') (new_mock_world, int))
     (mock_view (repo_st (final (SubmitURL (mock_srv (\<lambda>_. False)) Background ''http://a.com/'') (new_mock_world, int))),
      Messages (prod_st (final (SubmitURL (mock_srv (\<lambda>_. False)) Background ''http://a.com/'') (new_mock_world, int))))"
  using SubmitURL_refines [OF mocks.metadata_service_axioms _ _ refl, of new_mock_world
      "''http://a.com/''" "\<lambda>_. False" Background int]
  by (simp add: mock_srv_def)

text \<open>
  C15: Over any sequence of API calls, the entry of a URL that is ready or in progress, or that no
  call names, stays what it is, and no message is sent for it. So the API never overwrites a result
  and never touches another URL; and a URL whose fetch got lost stays in progress for ever as far as
  the API is concerned.
\<close>

theorem unclaimable_untouched:
  assumes "metadata_service R view urls invar P sent wire F good"
    and "invar (repo_st w)" and "\<forall>call \<in> set calls. call_url call \<in> urls"
    and "m = run_calls \<lparr>repo = R, producer = P, fetcher = F, flags = fl\<rparr> calls"
    and "\<not> claimable (view (repo_st w)) u \<or> u \<notin> call_url ` set calls"
  shows "view (repo_st (final m (w, c))) u = view (repo_st w) u \<and>
    messages_for u (sent (prod_st (final m (w, c)))) = messages_for u (sent (prod_st w))"
proof -
  have steps: "(api_step wire fl good (call_url ` set calls))\<^sup>*\<^sup>* (view (repo_st w), sent (prod_st w))
      (view (repo_st (final m (w, c))), sent (prod_st (final m (w, c))))"
    using wp_final [OF metadata_service.run_calls_outcome [OF assms(1), of w]] assms(2-4)
    by (simp add: metadata_service.ok_def [OF assms(1)] metadata_service.observe_def [OF assms(1)])
  have "keeps_urls wire (call_url ` set calls)"
    using keeps_urls_mono [OF metadata_service.wire_urls [OF assms(1)]] assms(3) by blast
  from api_steps_cases [OF steps this, of u] assms(5) show ?thesis
    by blast
qed

theorem unclaimable_untouched_witness:
  "mock_view (repo_st (final (run_calls (mock_srv (\<lambda>_. False)) [CallGet Background ''http://a.com/''])
     (new_mock_world, int))) ''http://b.com/'' = None"
  using unclaimable_untouched [OF mocks.metadata_service_axioms _ _ refl, of new_mock_world
      "[CallGet Background ''http://a.com/'']" "''http://b.com/''" "\<lambda>_. False" int]
  by (simp add: mock_srv_def)

text \<open>
  C16: Any sequence of API calls sends at most one message for a URL, whatever its state was, so
  polling never floods the topic.
\<close>

theorem at_most_one_message:
  assumes "metadata_service R view urls invar P sent wire F good"
    and "invar (repo_st w)" and "\<forall>call \<in> set calls. call_url call \<in> urls"
    and "m = run_calls \<lparr>repo = R, producer = P, fetcher = F, flags = fl\<rparr> calls"
  shows "\<exists>ms. messages_for u (sent (prod_st (final m (w, c)))) =
      messages_for u (sent (prod_st w)) @ ms \<and> length ms \<le> 1"
proof -
  have steps: "(api_step wire fl good (call_url ` set calls))\<^sup>*\<^sup>* (view (repo_st w), sent (prod_st w))
      (view (repo_st (final m (w, c))), sent (prod_st (final m (w, c))))"
    using wp_final [OF metadata_service.run_calls_outcome [OF assms(1), of w]] assms(2-4)
    by (simp add: metadata_service.ok_def [OF assms(1)] metadata_service.observe_def [OF assms(1)])
  have "keeps_urls wire (call_url ` set calls)"
    using keeps_urls_mono [OF metadata_service.wire_urls [OF assms(1)]] assms(3) by blast
  from api_steps_cases [OF steps this, of u] show ?thesis
    by fastforce
qed

theorem at_most_one_message_witness:
  "\<exists>ms. messages_for ''http://a.com/'' (Messages (prod_st (final (run_calls (mock_srv (\<lambda>_. False))
      [CallGet Background ''http://a.com/'', CallGet Background ''http://a.com/''])
      (new_mock_world, int)))) = ms \<and> length ms \<le> 1"
  using at_most_one_message [OF mocks.metadata_service_axioms _ _ refl, where w = new_mock_world
      and calls = "[CallGet Background ''http://a.com/'', CallGet Background ''http://a.com/'']"
      and fl = "\<lambda>_. False" and u = "''http://a.com/''" and c = int]
  by (simp add: mock_srv_def messages_for_def)

text \<open>
  C23: A publish that fails is never made up for. When the producer is down, a GET for a new URL
  answers with an error that wraps \<^verbatim>\<open>ErrKafkaError\<close> but leaves the record pending; after the producer
  is back, no sequence of API calls ever sends a message for the URL or changes its record.
\<close>

theorem failed_publish_stays_pending:
  assumes "w1 = final (GetMetadata (mock_srv fl) ctx url)
      (new_mock_world\<lparr>prod_st := (prod_st new_mock_world)\<lparr>Err_k := Some e\<rparr>\<rparr>, c)"
    and "w2 = final (run_calls (mock_srv fl) calls)
      (w1\<lparr>prod_st := (prod_st w1)\<lparr>Err_k := None\<rparr>\<rparr>, c')"
  shows "messages_for url (Messages (prod_st w2)) = [] \<and>
    map_option Status (records (repo_st w2) url) = Some StatusPending"
proof -
  define w1' where "w1' = w1\<lparr>prod_st := (prod_st w1)\<lparr>Err_k := None\<rparr>\<rparr>"
  have w1: "repo_st w1' = (repo_st new_mock_world)\<lparr>FindByURLCalled := 1, UpsertCalled := 1,
      records := [url \<mapsto> pending_record url (c 0)]\<rparr>" "Messages (prod_st w1') = []"
    by (simp_all add: w1'_def assms(1) run_mocks)
  then have view: "mock_view (repo_st w1') url = Some (pending_entry url)"
      and inv: "mock_invar (repo_st w1')"
    by (simp_all add: mock_view_def mock_invar_def)
  have "(api_step (\<lambda>m. m) fl (\<lambda>_ _. True) (call_url ` set calls))\<^sup>*\<^sup>*
      (mock_view (repo_st w1'), Messages (prod_st w1')) (mock_view (repo_st w2), Messages (prod_st w2))"
    using wp_final [OF mocks.run_calls_outcome [of w1' calls fl c']] inv
    by (simp add: mocks.ok_def mocks.observe_def assms(2) mock_srv_def w1'_def)
  from api_steps_cases [OF this, of url]
  have "mock_view (repo_st w2) url = Some (pending_entry url)" "messages_for url (Messages (prod_st w2)) = []"
    by (auto simp: view w1(2) claimable_def in_progress_def messages_for_def keeps_urls_def)
  then show ?thesis
    by (auto simp: mock_view_def dest: arg_cong [where f = e_status])
qed

theorem failed_publish_stays_pending_witness:
  "\<exists>w1 w2. w1 = final (GetMetadata (mock_srv (\<lambda>_. False)) Background ''http://a.com/'')
      (new_mock_world\<lparr>prod_st := (prod_st new_mock_world)\<lparr>Err_k := Some (Opaque ''down'')\<rparr>\<rparr>, int) \<and>
    w2 = final (run_calls (mock_srv (\<lambda>_. False)) [CallGet Background ''http://a.com/''])
      (w1\<lparr>prod_st := (prod_st w1)\<lparr>Err_k := None\<rparr>\<rparr>, int) \<and>
    messages_for ''http://a.com/'' (Messages (prod_st w2)) = []"
  using failed_publish_stays_pending [OF refl refl, of "''http://a.com/''" "\<lambda>_. False"
      "[CallGet Background ''http://a.com/'']" Background "Opaque ''down''" int int]
  by blast

end
