(* ===== verification/Worker.thy ===== *)
theory Worker
  imports Service Consumer
begin

section \<open>The worker (worker/consumer/consumer.go)\<close>

text \<open>
  The handler the consumer calls for each message: mark the record as fetching, fetch, store the
  result or the failure, record metrics. Its state is that of the repository and the fetcher beside
  the metrics, which may be absent.
\<close>

record ('r, 'f) worker_world =
  repo_w :: 'r
  fetch_w :: 'f
  metrics_w :: "Metrics option"

record ('r, 'f) Worker =
  w_repo :: "'r MetadataRepository"
  w_fetcher :: "'f Fetcher"
  w_flags :: FeatureFlags

definition NewWorker ::
  "'r MetadataRepository \<Rightarrow> 'f Fetcher \<Rightarrow> FeatureFlags \<Rightarrow> ('r, 'f) Worker" where
  "NewWorker r f fl = \<lparr>w_repo = r, w_fetcher = f, w_flags = fl\<rparr>"

text \<open>The package has a copy of the service's function.\<close>

definition worker_convertCookies :: "CookieInfo list \<Rightarrow> CookieRecord list" where
  "worker_convertCookies cookies = map (\<lambda>c. \<lparr>Name_c = Name_i c, Value_c = Value_i c,
     Domain_c = Domain_i c, Path_c = Path_i c, HTTPOnly_c = HTTPOnly_i c,
     Secure_c = Secure_i c\<rparr>) cookies"

definition worker_result :: "FetcherResult \<Rightarrow> FetchResult" where
  "worker_result result = \<lparr>Headers_r = Headers_f result,
     Cookies_r = worker_convertCookies (Cookies_f result), PageSource_r = PageSource_f result,
     PageSourceSizeBytes_r = PageSourceSizeBytes_f result,
     FetchDurationMs_r = FetchDurationMs_f result, FetchedAt_r = FetchedAt_f result\<rparr>"

text \<open>The two updates of the metrics; nothing when there are none.\<close>

definition count_failure :: "duration \<Rightarrow> Metrics \<Rightarrow> Metrics" where
  "count_failure fetchDuration m =
     m\<lparr>FetchDuration := Observe [''failure''] fetchDuration (FetchDuration m),
       FetchErrorsTotal := Inc [''fetch_error''] (FetchErrorsTotal m)\<rparr>"

definition count_success :: "duration \<Rightarrow> Metrics \<Rightarrow> Metrics" where
  "count_success fetchDuration m =
     m\<lparr>FetchDuration := Observe [''success''] fetchDuration (FetchDuration m)\<rparr>"

definition on_metrics :: "(Metrics \<Rightarrow> Metrics) \<Rightarrow> (('r, 'f) worker_world, unit) io" where
  "on_metrics g = act (\<lambda>w. ((), w\<lparr>metrics_w := map_option g (metrics_w w)\<rparr>))"

abbreviation on_repo_w :: "('r, 'a) io \<Rightarrow> (('r, 'f) worker_world, 'a) io" where
  "on_repo_w \<equiv> zoom repo_w repo_w_update"

abbreviation on_fetcher_w :: "('f, 'a) io \<Rightarrow> (('r, 'f) worker_world, 'a) io" where
  "on_fetcher_w \<equiv> zoom fetch_w fetch_w_update"

definition fetch_url_error :: "string \<Rightarrow> goerr \<Rightarrow> goerr" where
  "fetch_url_error url err = ErrorfW (''fetch url '' @ url) err"

definition update_db_error :: "string \<Rightarrow> goerr \<Rightarrow> goerr" where
  "update_db_error url err = ErrorfW (''update db for '' @ url) err"

text \<open>What the handler makes of the result of the fetch.\<close>

definition finish_message ::
  "('r, 'f) Worker \<Rightarrow> string \<Rightarrow> duration \<Rightarrow> goerr + FetcherResult \<Rightarrow>
   (('r, 'f) worker_world, goerr option) io" where
  "finish_message wk url fetchDuration r =
     (case r of
        Inl err \<Rightarrow> do {
          _ \<leftarrow> on_repo_w (UpdateStatus (w_repo wk) url StatusFailed None);
          on_metrics (count_failure fetchDuration);
          ret (Some (fetch_url_error url err))
        }
      | Inr result \<Rightarrow> do {
          err \<leftarrow> on_repo_w (UpdateStatus (w_repo wk) url StatusReady (Some (worker_result result)));
          (case err of
             Some e \<Rightarrow> ret (Some (update_db_error url e))
           | None \<Rightarrow> do { on_metrics (count_success fetchDuration); ret None })
        })"

definition handleMessage ::
  "('r, 'f) Worker \<Rightarrow> FetchRequestMessage \<Rightarrow> (('r, 'f) worker_world, goerr option) io" where
  "handleMessage wk msg = do {
     _ \<leftarrow> on_repo_w (UpdateStatus (w_repo wk) (URL_q msg) StatusFetching None);
     timer \<leftarrow> NewTimer;
     r \<leftarrow> on_fetcher_w (Fetch (w_fetcher wk) (URL_q msg) (w_flags wk PageSourceStorage));
     fetchDuration \<leftarrow> Elapsed timer;
     finish_message wk (URL_q msg) fetchDuration r
   }"

definition worker_Start ::
  "nat \<Rightarrow> 'k consumer_env \<Rightarrow> KafkaConsumer \<Rightarrow> ('r, 'f) Worker \<Rightarrow>
   (('k, ('r, 'f) worker_world) consumer_world, goerr option option) io" where
  "worker_Start n env cons wk = Start n env cons (handleMessage wk)"

definition worker_Close :: "'k consumer_env \<Rightarrow> ('k, goerr option) io" where
  "worker_Close env = Close_c env"

lemma worker_result_eq: "worker_result = fetch_result_of"
  by (rule ext)
    (simp add: worker_result_def fetch_result_of_def worker_convertCookies_def convertCookies_def)

subsection \<open>The abstract worker\<close>

text \<open>
  The outcomes of handling a message for \<open>url\<close>: the store after it, and the error returned. A store
  without an entry for the URL stays as it is, even in the successful case.
\<close>

inductive worker_spec ::
  "(FetcherResult \<Rightarrow> bool) \<Rightarrow> string \<Rightarrow> store \<Rightarrow> goerr option \<Rightarrow> store \<Rightarrow> bool" for good url where
  handled: "good f \<Longrightarrow>
     worker_spec good url m None (set_status url StatusReady (Some (fetch_result_of f)) m)"
| fetch_error: "st \<in> {StatusFetching, StatusFailed} \<Longrightarrow>
     worker_spec good url m (Some (fetch_url_error url e)) (set_status url st None m)"
| fetch_error_untouched:
     "worker_spec good url m (Some (fetch_url_error url e)) m"
| store_error: "worker_spec good url m (Some (update_db_error url e)) m"
| store_error_fetching:
     "worker_spec good url m (Some (update_db_error url e))
        (set_status url StatusFetching None m)"
| store_error_stored: "good f \<Longrightarrow>
     worker_spec good url m (Some (update_db_error url e))
       (set_status url StatusReady (Some (fetch_result_of f)) m)"

text \<open>
  The metrics: a failed fetch is one observation of \<open>failure\<close> and one fetch error, a success is one
  observation of \<open>success\<close>, and a result that could not be stored leaves no trace in them.
\<close>

definition metered :: "string \<Rightarrow> Metrics option \<Rightarrow> goerr option \<Rightarrow> Metrics option \<Rightarrow> bool" where
  "metered url ms err ms' \<longleftrightarrow>
     (err = None \<and> (\<exists>d. ms' = map_option (count_success d) ms))
     \<or> (\<exists>e d. err = Some (fetch_url_error url e) \<and> ms' = map_option (count_failure d) ms)
     \<or> (\<exists>e. err = Some (update_db_error url e) \<and> ms' = ms)"

lemma metered_intros:
  "metered url ms None (map_option (count_success d) ms)"
  "metered url ms (Some (fetch_url_error url e)) (map_option (count_failure d) ms)"
  "metered url ms (Some (update_db_error url e)) ms"
  by (auto simp: metered_def)

subsection \<open>The worker implements it\<close>

locale metadata_worker =
  metadata_repository R view urls invar + fetcher_contract F good
  for R :: "'r MetadataRepository" and view :: "'r \<Rightarrow> store" and urls invar
    and F :: "'f Fetcher" and good :: "bool \<Rightarrow> FetcherResult \<Rightarrow> bool"
begin

abbreviation wrk :: "FeatureFlags \<Rightarrow> ('r, 'f) Worker" where
  "wrk fl \<equiv> \<lparr>w_repo = R, w_fetcher = F, w_flags = fl\<rparr>"

lemma update_worker:
  assumes "invar (repo_w w)" and "url \<in> urls"
    and "\<And>w' c'. \<lbrakk>invar (repo_w w'); view (repo_w w') = set_status url st res (view (repo_w w));
           metrics_w w' = metrics_w w\<rbrakk> \<Longrightarrow> Q None (w', c')"
    and "\<And>e w' c'. \<lbrakk>invar (repo_w w'); view (repo_w w') = set_status url st res (view (repo_w w)) \<or>
           view (repo_w w') = view (repo_w w); metrics_w w' = metrics_w w\<rbrakk> \<Longrightarrow> Q (Some e) (w', c')"
  shows "wp (on_repo_w (UpdateStatus R url st res)) Q (w, c)"
  unfolding wp_zoom
  by (rule update_rule) (use assms in auto)

definition worker_post ::
  "FeatureFlags \<Rightarrow> string \<Rightarrow> ('r, 'f) worker_world \<Rightarrow> goerr option \<Rightarrow>
   ('r, 'f) worker_world \<times> clock \<Rightarrow> bool" where
  "worker_post fl url w = (\<lambda>err (w', c'). invar (repo_w w') \<and> metered url (metrics_w w) err (metrics_w w') \<and>
     worker_spec (good (fl PageSourceStorage)) url (view (repo_w w)) err (view (repo_w w')))"

lemma finish_message_rule:
  assumes "invar (repo_w w1)" and "url \<in> urls"
    and "view (repo_w w1) = view (repo_w w) \<or>
      view (repo_w w1) = set_status url StatusFetching None (view (repo_w w))"
    and "metrics_w w1 = metrics_w w"
    and "\<And>f. r = Inr f \<Longrightarrow> good (fl PageSourceStorage) f"
  shows "wp (finish_message (wrk fl) url d r) (worker_post fl url w) (w1, c)"
proof (cases r)
  case (Inl e)
  with assms show ?thesis
    by (auto simp: finish_message_def on_metrics_def worker_post_def metered_intros
        simp del: set_status_same intro!: update_worker)
      (simp_all add: worker_spec.intros)
next
  case (Inr f)
  with assms show ?thesis
    by (auto simp: finish_message_def on_metrics_def worker_post_def metered_intros worker_result_eq
        simp del: set_status_same intro!: update_worker)
      (simp_all add: worker_spec.intros)
qed

lemma handleMessage_outcome:
  assumes "invar (repo_w w)" and "URL_q msg \<in> urls"
  shows "wp (handleMessage (wrk fl) msg) (worker_post fl (URL_q msg) w) (w, c)"
  unfolding handleMessage_def wp_bind
proof (simp, rule update_worker [OF assms], goal_cases)
  case (1 w1 c1)
  then show ?case
    using assms unfolding NewTimer_def Elapsed_def
    by (auto simp: wp_zoom intro!: fetch_rule finish_message_rule)
next
  case (2 e w1 c1)
  then show ?case
    using assms unfolding NewTimer_def Elapsed_def
    by (auto simp: wp_zoom intro!: fetch_rule finish_message_rule)
qed

end

subsection \<open>Instances and properties\<close>

interpretation mockw: metadata_worker mock_repository mock_view UNIV mock_invar mock_fetcher
    "\<lambda>_ _. True"
  by unfold_locales

interpretation prodw: metadata_worker "mongo_repository bytes_digest mem_collection"
    "mongo_view bytes_digest UNIV \<circ> mem_docs" valid_urls "mongo_invar bytes_digest UNIV \<circ> mem_docs"
    "http_fetcher env f" clean_result
  for env f
  by (intro metadata_worker.intro metadata_repository_subset [OF mem.mongo.metadata_repository_axioms])
    (simp, unfold_locales)

text \<open>The worker on the test doubles, for the closed statements.\<close>

definition mock_worker :: "(MockRepository, MockFetcher) Worker" where
  "mock_worker = \<lparr>w_repo = mock_repository, w_fetcher = mock_fetcher, w_flags = (\<lambda>_. False)\<rparr>"

definition mock_worker_world ::
  "MetadataRecord list \<Rightarrow> goerr option \<Rightarrow> (MockRepository, MockFetcher) worker_world" where
  "mock_worker_world rs err = \<lparr>repo_w = fold SeedRecord rs NewMockRepository,
     fetch_w = \<lparr>Result_m = None, Err_m = err, Called = 0, LastURL = ''''\<rparr>,
     metrics_w = Some (NewMetrics ''metadata_worker'')\<rparr>"



text \<open>
  The metrics of one message: a success adds one observation of \<open>success\<close>, a failed fetch one of
  \<open>failure\<close> and one \<open>fetch_error\<close>; a result that could not be stored is not counted at all.
\<close>

theorem handleMessage_metrics:
  assumes "metadata_worker R view urls invar F good"
    and "invar (repo_w w)" and "URL_q msg \<in> urls"
    and "m = handleMessage \<lparr>w_repo = R, w_fetcher = F, w_flags = fl\<rparr> msg"
  shows "metered (URL_q msg) (metrics_w w) (outcome m (w, c)) (metrics_w (final m (w, c)))"
  using wpD [OF metadata_worker.handleMessage_outcome [OF assms(1), of w msg fl c]] assms(2-4)
  by (cases "run_state m (w, c)")
    (auto simp: metadata_worker.worker_post_def [OF assms(1)] final_def outcome_def)

theorem handleMessage_metrics_witness:
  "metered ''http://a.com/'' (Some (NewMetrics ''metadata_worker''))
     (outcome (handleMessage mock_worker (sample_request ''http://a.com/'')) (mock_worker_world [] None, int))
     (metrics_w (final (handleMessage mock_worker (sample_request ''http://a.com/''))
        (mock_worker_world [] None, int)))"
  using handleMessage_metrics [OF mockw.metadata_worker_axioms _ _ refl, of "mock_worker_world [] None"
      "sample_request ''http://a.com/''" "\<lambda>_. False" int]
  by (simp add: mock_worker_def mock_worker_world_def mock_invar_new sample_request_def)

text \<open>
  C29: A message delivered again can undo a result. The record is ready; the second delivery fails to
  fetch, and the record, page and all, becomes failed.
\<close>

theorem redelivery_undoes_ready:
  assumes "Status rec = StatusReady" and "URL rec = URL_q msg"
  shows "map_option Status (records (repo_w (final (handleMessage mock_worker msg)
      (mock_worker_world [rec] (Some e), c))) (URL_q msg)) = Some StatusFailed"
  using assms by (simp add: handleMessage_def finish_message_def NewTimer_def Elapsed_def
      on_metrics_def mock_worker_def mock_worker_world_def mock_defs mock_fetcher_def mock_Fetch_def
      SeedRecord_def NewMockRepository_def Let_def final_def)

theorem redelivery_undoes_ready_witness:
  "map_option Status (records (repo_w (final (handleMessage mock_worker (sample_request ''http://a.com/''))
     (mock_worker_world [zero_record\<lparr>URL := ''http://a.com/'', Status := StatusReady\<rparr>]
       (Some (Opaque ''timeout'')), int))) ''http://a.com/'') = Some StatusFailed"
  using redelivery_undoes_ready [of "zero_record\<lparr>URL := ''http://a.com/'', Status := StatusReady\<rparr>"
      "sample_request ''http://a.com/''" "Opaque ''timeout''" int]
  by (simp add: sample_request_def)

end
