(* ===== verification/RateLimit.thy ===== *)
theory RateLimit
  imports GoErrors
begin

section \<open>The rate limiter (pkg/middleware/ratelimit.go)\<close>

text \<open>
  A counter per key that is set back when a window has passed, and the sweep of a background
  goroutine that forgets old keys. Both run under the mutex, so each is one atomic step. The HTTP
  side of the limiter is in the theory of the middleware.
\<close>

record visitor =
  tokens :: int
  lastReset :: time

record RateLimiter =
  visitors :: "string \<rightharpoonup> visitor"
  rate :: int
  window :: duration

definition NewRateLimiter :: "int \<Rightarrow> duration \<Rightarrow> RateLimiter" where
  "NewRateLimiter r w = \<lparr>visitors = Map.empty, rate = r, window = w\<rparr>"

lemma NewRateLimiter_simps [simp]:
  "rate (NewRateLimiter r w) = r" "window (NewRateLimiter r w) = w"
  by (simp_all add: NewRateLimiter_def)

definition set_visitor :: "string \<Rightarrow> visitor \<Rightarrow> (RateLimiter, unit) io" where
  "set_visitor ip v = act (\<lambda>rl. ((), rl\<lparr>visitors := (visitors rl)(ip \<mapsto> v)\<rparr>))"

text \<open>The clock is read only for a known key, and once more when the counter is set back.\<close>

definition allow :: "string \<Rightarrow> (RateLimiter, bool) io" where
  "allow ip = do {
     rl \<leftarrow> act (\<lambda>rl. (rl, rl));
     expired \<leftarrow> (case visitors rl ip of
         None \<Rightarrow> ret True
       | Some v \<Rightarrow> do { now \<leftarrow> time_Now; ret (now - lastReset v > window rl) });
     if expired then do {
       now \<leftarrow> time_Now;
       _ \<leftarrow> set_visitor ip \<lparr>tokens = rate rl - 1, lastReset = now\<rparr>;
       ret True
     }
     else (case visitors rl ip of
         None \<Rightarrow> ret True
       | Some v \<Rightarrow>
           if tokens v \<le> 0 then ret False
           else do { _ \<leftarrow> set_visitor ip (v\<lparr>tokens := tokens v - 1\<rparr>); ret True })
   }"

text \<open>
  One tick of the sweep; \<open>now ip\<close> is the clock as it is read for the key \<open>ip\<close> (the map is visited in
  no fixed order).
\<close>

definition cleanup_tick :: "(string \<Rightarrow> time) \<Rightarrow> RateLimiter \<Rightarrow> RateLimiter" where
  "cleanup_tick now rl = rl\<lparr>visitors := (\<lambda>ip.
     case visitors rl ip of
       None \<Rightarrow> None
     | Some v \<Rightarrow> if now ip - lastReset v > 2 * window rl then None else Some v)\<rparr>"

subsection \<open>Histories\<close>

text \<open>
  Arrivals (a key and the two readings of the clock it may take) and sweeps, in any order; the result
  is the arrivals that were let through.
\<close>

datatype event = Arrival string time time | Sweep "string \<Rightarrow> time"

definition readings :: "time \<Rightarrow> time \<Rightarrow> clock" where
  "readings t t' n = (if n = 0 then t else t')"

fun history :: "event list \<Rightarrow> RateLimiter \<Rightarrow> (string \<times> time) list \<times> RateLimiter" where
  "history [] rl = ([], rl)"
| "history (Arrival ip t t' # es) rl =
     (let ok = outcome (allow ip) (rl, readings t t');
          (acc, rl') = history es (final (allow ip) (rl, readings t t'))
      in (if ok then (ip, t) # acc else acc, rl'))"
| "history (Sweep now # es) rl = history es (cleanup_tick now rl)"

text \<open>One arrival, seen from its key.\<close>

definition arrival :: "RateLimiter \<Rightarrow> string \<Rightarrow> time \<Rightarrow> time \<Rightarrow> bool \<times> visitor" where
  "arrival rl ip t t' =
     (case visitors rl ip of
        None \<Rightarrow> (True, \<lparr>tokens = rate rl - 1, lastReset = t\<rparr>)
      | Some v \<Rightarrow>
          if t - lastReset v > window rl then (True, \<lparr>tokens = rate rl - 1, lastReset = t'\<rparr>)
          else if tokens v \<le> 0 then (False, v)
          else (True, v\<lparr>tokens := tokens v - 1\<rparr>))"

lemma allow_run:
  "outcome (allow ip) (rl, readings t t') = fst (arrival rl ip t t')"
  "final (allow ip) (rl, readings t t') =
     rl\<lparr>visitors := (visitors rl)(ip \<mapsto> snd (arrival rl ip t t'))\<rparr>"
  by (auto simp: allow_def set_visitor_def outcome_def final_def arrival_def readings_def
      map_upd_triv split: option.split)

subsection \<open>The bound\<close>

text \<open>Every counter is below the rate.\<close>

definition counters_ok :: "RateLimiter \<Rightarrow> bool" where
  "counters_ok rl \<longleftrightarrow> (\<forall>ip v. visitors rl ip = Some v \<longrightarrow> tokens v \<le> rate rl - 1)"

lemma counters_ok_new: "counters_ok (NewRateLimiter r w)"
  by (simp add: counters_ok_def NewRateLimiter_def)

lemma counters_ok_arrival:
  "counters_ok rl \<Longrightarrow> counters_ok (rl\<lparr>visitors := (visitors rl)(ip \<mapsto> snd (arrival rl ip t t'))\<rparr>)"
  by (fastforce simp: counters_ok_def arrival_def split: option.splits if_splits)

lemma counters_ok_sweep: "counters_ok rl \<Longrightarrow> counters_ok (cleanup_tick now rl)"
  by (auto simp: counters_ok_def cleanup_tick_def split: option.splits if_splits)

text \<open>
  Within a period of one window that starts at \<open>T\<close>: what the key \<open>ip\<close> can still be granted. A counter
  set back inside the period cannot be set back again in it.
\<close>

definition credit :: "time \<Rightarrow> RateLimiter \<Rightarrow> string \<Rightarrow> int" where
  "credit T rl ip =
     (case visitors rl ip of
        None \<Rightarrow> max (rate rl) 1
      | Some v \<Rightarrow> max (tokens v) 0 + (if T \<le> lastReset v then 0 else max (rate rl) 1))"

fun in_period :: "time \<Rightarrow> duration \<Rightarrow> event \<Rightarrow> bool" where
  "in_period T W (Arrival ip t t') \<longleftrightarrow> T \<le> t \<and> t < T + W \<and> t \<le> t'"
| "in_period T W (Sweep now) \<longleftrightarrow> (\<forall>ip. now ip < T + W)"

lemma credit_arrival:
  assumes "T \<le> t" "t < T + window rl" "t \<le> t'"
  shows "(if fst (arrival rl ip t t') then 1 else 0) +
    credit T (rl\<lparr>visitors := (visitors rl)(ip \<mapsto> snd (arrival rl ip t t'))\<rparr>) ip \<le> credit T rl ip"
  using assms by (auto simp: credit_def arrival_def split: option.split)

lemma credit_other:
  "ip' \<noteq> ip \<Longrightarrow> credit T (rl\<lparr>visitors := (visitors rl)(ip \<mapsto> v)\<rparr>) ip' = credit T rl ip'"
  by (simp add: credit_def split: option.split)

lemma credit_sweep:
  assumes "\<forall>ip. now ip < T + window rl" and "0 \<le> window rl"
  shows "credit T (cleanup_tick now rl) ip \<le> credit T rl ip"
  using spec [OF assms(1), of ip] assms(2)
  by (auto simp: credit_def cleanup_tick_def split: option.split)

lemma history_credit:
  assumes "0 \<le> W" and "window rl = W" and "\<forall>e \<in> set es. in_period T W e"
  shows "int (length (filter (\<lambda>(k, t). k = ip) (fst (history es rl)))) \<le> credit T rl ip"
  using assms
proof (induction es rl rule: history.induct)
  case (1 rl)
  then show ?case
    by (auto simp: credit_def split: option.split)
next
  case (2 k t t' es rl)
  let ?rl' = "rl\<lparr>visitors := (visitors rl)(k \<mapsto> snd (arrival rl k t t'))\<rparr>"
  have IH: "int (length (filter (\<lambda>(k, t). k = ip) (fst (history es ?rl')))) \<le> credit T ?rl' ip"
    using 2 by (simp add: allow_run)
  show ?case
  proof (cases "k = ip")
    case True
    with IH credit_arrival [of T t rl t' ip] 2 show ?thesis
      by (auto simp: allow_run split: prod.split if_splits)
  next
    case False
    with IH credit_other [of ip k T rl] show ?thesis
      by (auto simp: allow_run split: prod.split)
  qed
next
  case (3 now es rl)
  then have "int (length (filter (\<lambda>(k, t). k = ip) (fst (history es (cleanup_tick now rl)))))
      \<le> credit T (cleanup_tick now rl) ip"
    by (simp add: cleanup_tick_def)
  with credit_sweep [of now T rl ip] 3 show ?case
    by simp
qed

subsection \<open>Sweeps cannot be observed\<close>

text \<open>
  \<open>forgot T small big\<close>: the limiter \<open>small\<close> has forgotten some keys of \<open>big\<close> whose window had passed by
  the time \<open>T\<close>.
\<close>

definition forgot :: "time \<Rightarrow> RateLimiter \<Rightarrow> RateLimiter \<Rightarrow> bool" where
  "forgot T small big \<longleftrightarrow> rate small = rate big \<and> window small = window big \<and>
     (\<forall>ip. visitors small ip = visitors big ip \<or> visitors small ip = None \<and>
        (\<exists>v. visitors big ip = Some v \<and> T - lastReset v > window big))"

lemma forgot_arrival:
  assumes "forgot T small big" and "T \<le> t"
  shows "arrival small ip t t = arrival big ip t t"
proof -
  from assms(1) consider "visitors small ip = visitors big ip"
    | v where "visitors small ip = None" "visitors big ip = Some v" "T - lastReset v > window big"
    unfolding forgot_def by blast
  then show ?thesis
    using assms by cases (auto simp: arrival_def forgot_def split: option.split)
qed

lemma forgot_upd:
  "forgot T small big \<Longrightarrow> T \<le> t \<Longrightarrow>
     forgot t (small\<lparr>visitors := (visitors small)(ip \<mapsto> v)\<rparr>) (big\<lparr>visitors := (visitors big)(ip \<mapsto> v)\<rparr>)"
  by (fastforce simp: forgot_def)

lemma forgot_sweep:
  assumes "forgot T small big" "0 \<le> window big" "T \<le> U" "\<forall>ip. now ip \<le> U"
  shows "forgot U (cleanup_tick now small) big"
  unfolding forgot_def
proof (intro conjI allI)
  fix ip
  have "now ip \<le> U"
    using assms(4) by simp
  from assms(1) consider "visitors small ip = visitors big ip"
    | v where "visitors small ip = None" "visitors big ip = Some v" "T - lastReset v > window big"
    unfolding forgot_def by blast
  then show "visitors (cleanup_tick now small) ip = visitors big ip \<or>
      visitors (cleanup_tick now small) ip = None \<and>
      (\<exists>v. visitors big ip = Some v \<and> U - lastReset v > window big)"
    using assms(1-3) \<open>now ip \<le> U\<close>
    by cases (auto simp: cleanup_tick_def forgot_def split: option.split)
qed (use assms(1) in \<open>simp_all add: forgot_def cleanup_tick_def\<close>)

text \<open>A history whose clock never goes back, and stands still during one arrival.\<close>

fun timed :: "time \<Rightarrow> event list \<Rightarrow> bool" where
  "timed T [] \<longleftrightarrow> True"
| "timed T (Arrival ip t t' # es) \<longleftrightarrow> T \<le> t \<and> t' = t \<and> timed t es"
| "timed T (Sweep now # es) \<longleftrightarrow> (\<exists>U. T \<le> U \<and> (\<forall>ip. now ip \<le> U) \<and> timed U es)"

fun is_arrival :: "event \<Rightarrow> bool" where
  "is_arrival (Arrival _ _ _) = True"
| "is_arrival (Sweep _) = False"

lemma history_forgot:
  assumes "timed T es" and "forgot T small big" and "0 \<le> window big"
  shows "fst (history es small) = fst (history (filter is_arrival es) big)"
  using assms
proof (induction es small arbitrary: T big rule: history.induct)
  case (2 ip t t' es rl)
  have same: "arrival rl ip t t = arrival big ip t t"
    using 2 by (auto intro: forgot_arrival)
  have "fst (history es (rl\<lparr>visitors := (visitors rl)(ip \<mapsto> snd (arrival big ip t t))\<rparr>)) =
      fst (history (filter is_arrival es) (big\<lparr>visitors := (visitors big)(ip \<mapsto> snd (arrival big ip t t))\<rparr>))"
    using "2.IH" [OF refl, unfolded allow_run, of t
        "big\<lparr>visitors := (visitors big)(ip \<mapsto> snd (arrival big ip t t))\<rparr>"]
      "2.prems" same forgot_upd [of T rl big t] by simp
  with "2.prems" same show ?case
    by (auto simp: allow_run split: prod.split)
next
  case (3 now es rl)
  then obtain U where "T \<le> U" "\<forall>ip. now ip \<le> U" "timed U es"
    by auto
  with 3 show ?case
    by (auto intro!: "3.IH" forgot_sweep)
qed simp

subsection \<open>Properties\<close>

text \<open>
  C5: In any period of one window, at most \<open>2 * rate - 1\<close> requests of a key get through, whatever the
  arrivals and the sweeps before and in the period; each arrival takes its readings of the clock in
  order. (With the rate 100 that is 199 and not 100: a window starts with a request, not with the
  period.)
\<close>

theorem window_bound:
  assumes "counters_ok rl" and "0 \<le> W" and "window rl = W"
    and "\<forall>e \<in> set es. in_period T W e"
  shows "int (length (filter (\<lambda>(k, t). k = ip) (fst (history es rl)))) \<le> 2 * max (rate rl) 1 - 1"
proof -
  have "credit T rl ip \<le> 2 * max (rate rl) 1 - 1"
    using assms(1) by (fastforce simp: credit_def counters_ok_def split: option.split)
  with history_credit [OF assms(2,3,4), of ip] show ?thesis
    by simp
qed

theorem window_bound_witness:
  "int (length (filter (\<lambda>(k, t). k = ''10.0.0.1:4000'') (fst (history
     [Arrival ''10.0.0.1:4000'' 1 1, Arrival ''10.0.0.1:4000'' 2 2, Sweep (\<lambda>_. 3)] (NewRateLimiter 1 60)))))
   \<le> 1"
  using window_bound [of "NewRateLimiter 1 60" 60
      "[Arrival ''10.0.0.1:4000'' 1 1, Arrival ''10.0.0.1:4000'' 2 2, Sweep (\<lambda>_. 3)]" 0 "''10.0.0.1:4000''"]
  by (simp add: counters_ok_new del: history.simps)



end
