(* ===== verification/Handlers.thy ===== *)
theory Handlers
  imports Service RateLimit
begin

section \<open>The HTTP handlers (api/handlers)\<close>

text \<open>
  The POST and GET handlers of \<^verbatim>\<open>/v1/metadata\<close>, the liveness and the readiness probe, over a model of
  \<^verbatim>\<open>http.ResponseWriter\<close>. The body of a response is the Go value handed to the JSON encoder; the body of
  a request is the bytes the decoder reads.
\<close>

subsection \<open>Requests and responses\<close>

record request =
  Method :: string
  Path :: string
  RawQuery :: string
  Body :: string
  HeaderGet :: "string \<Rightarrow> string"
  Ctx :: Context

record PendingResponse =
  Status_p :: string
  URL_p :: string
  Message_p :: string
  PollAfterSeconds :: int

record HealthResponse =
  Status_h :: string
  Timestamp :: string

record ReadyResponse =
  Status_y :: string
  Checks :: "string \<rightharpoonup> string"

datatype json_value =
    JRecord "MetadataRecord option"
  | JError ErrorResponse
  | JPending PendingResponse
  | JHealth HealthResponse
  | JReady ReadyResponse

text \<open>
  The writer: the headers set so far, the status and the headers that were sent, and the body. Only
  the first \<open>WriteHeader\<close> counts; a write before it sends status 200; headers set after it are lost.
  The logging and the metrics middleware wrap the writer to see the status
  (\<^verbatim>\<open>responseWriter\<close> of \<^verbatim>\<open>logging.go\<close>): \<open>wrappers\<close> holds their records, the innermost first, and every
  call passes through all of them. Header names are kept as the code spells them.
\<close>

record wrapper =
  statusCode :: int
  wrote :: bool

record ResponseWriter =
  header :: "string \<rightharpoonup> string"
  sent_head :: "(int \<times> (string \<rightharpoonup> string)) option"
  written :: "json_value list"
  wrappers :: "wrapper list"

definition new_response :: ResponseWriter where
  "new_response = \<lparr>header = Map.empty, sent_head = None, written = [], wrappers = []\<rparr>"

definition newResponseWriter :: wrapper where
  "newResponseWriter = \<lparr>statusCode = 200, wrote = False\<rparr>"

definition wrapper_WriteHeader :: "int \<Rightarrow> wrapper \<Rightarrow> wrapper" where
  "wrapper_WriteHeader code x = (if \<not> wrote x then \<lparr>statusCode = code, wrote = True\<rparr> else x)"

definition wrapper_Write :: "wrapper \<Rightarrow> wrapper" where
  "wrapper_Write x = (if \<not> wrote x then x\<lparr>wrote := True\<rparr> else x)"

definition Set :: "string \<Rightarrow> string \<Rightarrow> ResponseWriter \<Rightarrow> ResponseWriter" where
  "Set key v rw = rw\<lparr>header := (header rw)(key \<mapsto> v)\<rparr>"

definition send_head :: "int \<Rightarrow> ResponseWriter \<Rightarrow> ResponseWriter" where
  "send_head code rw =
     (case sent_head rw of None \<Rightarrow> rw\<lparr>sent_head := Some (code, header rw)\<rparr> | Some _ \<Rightarrow> rw)"

definition WriteHeader :: "int \<Rightarrow> ResponseWriter \<Rightarrow> ResponseWriter" where
  "WriteHeader code rw =
     send_head code (rw\<lparr>wrappers := map (wrapper_WriteHeader code) (wrappers rw)\<rparr>)"

definition Write :: "json_value \<Rightarrow> ResponseWriter \<Rightarrow> ResponseWriter" where
  "Write b rw =
     (let rw = send_head 200 (rw\<lparr>wrappers := map wrapper_Write (wrappers rw)\<rparr>)
      in rw\<lparr>written := written rw @ [b]\<rparr>)"

text \<open>What the client gets when the handler has returned; a handler that wrote nothing sends 200.\<close>

definition status_of :: "ResponseWriter \<Rightarrow> int" where
  "status_of rw = (case sent_head rw of None \<Rightarrow> 200 | Some (code, _) \<Rightarrow> code)"

definition sent_headers :: "ResponseWriter \<Rightarrow> string \<rightharpoonup> string" where
  "sent_headers rw = (case sent_head rw of None \<Rightarrow> header rw | Some (_, h) \<Rightarrow> h)"

text \<open>
  The state a handler works on: the application behind it, the response, and what the middleware
  keeps (the lines of the access log, the metrics, the rate limiter). \<open>RemoteAddr\<close> is the one field of
  the request that is assigned while the request is served: \<^verbatim>\<open>RealIP\<close> writes it into the request object
  it shares with the logging middleware outside of it. A handler returns or panics; a panic unwinds
  through the middleware (\<open>Panicked\<close>).
\<close>

record log_line =
  log_method :: string
  log_path :: string
  log_query :: string
  log_status :: int
  log_duration :: duration
  log_remote :: string
  log_agent :: string
  log_attrs :: "(string \<times> string) list"

record 'w http_world =
  app :: 'w
  RemoteAddr :: string
  resp :: ResponseWriter
  access_log :: "log_line list"
  http_metrics :: Metrics
  limiter :: RateLimiter

datatype completion = Returned | Panicked

type_synonym 'w handler = "request \<Rightarrow> ('w http_world, completion) io"

abbreviation on_app :: "('w, 'a) io \<Rightarrow> ('w http_world, 'a) io" where
  "on_app \<equiv> zoom app app_update"

definition respond :: "(ResponseWriter \<Rightarrow> ResponseWriter) \<Rightarrow> ('w http_world, completion) io" where
  "respond f = act (\<lambda>w. (Returned, w\<lparr>resp := f (resp w)\<rparr>))"

definition writeJSON :: "int \<Rightarrow> json_value \<Rightarrow> ResponseWriter \<Rightarrow> ResponseWriter" where
  "writeJSON status data rw =
     Write data (WriteHeader status (Set ''Content-Type'' ''application/json'' rw))"

definition writeError :: "int \<Rightarrow> string \<Rightarrow> string \<Rightarrow> string \<Rightarrow> ResponseWriter \<Rightarrow> ResponseWriter" where
  "writeError status code message requestID rw =
     writeJSON status (JError \<lparr>ErrorCode = code, Message = message, RequestID = requestID,
       Details = ''''\<rparr>) rw"

text \<open>The response of one \<open>writeJSON\<close> on a fresh writer, with the headers the middleware had set.\<close>

lemma writeJSON_simps [simp]:
  "sent_head rw = None \<Longrightarrow> status_of (writeJSON status data rw) = status"
  "sent_head rw = None \<Longrightarrow> sent_headers (writeJSON status data rw) =
     (header rw)(''Content-Type'' \<mapsto> ''application/json'')"
  "written (writeJSON status data rw) = written rw @ [data]"
  by (simp_all add: writeJSON_def status_of_def sent_headers_def Write_def WriteHeader_def
      send_head_def Set_def Let_def split: option.split)

subsection \<open>Validation and errors\<close>

text \<open>
  \<^verbatim>\<open>json.NewDecoder(r.Body).Decode(&req)\<close>: the first JSON value of the body, decoded into the struct;
  what follows it is not looked at. \<open>None\<close> is an error.
\<close>

record PostRequest =
  URL_post :: string

definition post_field :: "string \<Rightarrow> json \<Rightarrow> PostRequest \<Rightarrow> PostRequest option" where
  "post_field k v req =
     (if is_field ''url'' k then map_option (\<lambda>x. req\<lparr>URL_post := x\<rparr>) (text_field v (URL_post req))
      else Some req)"

definition DecodePost :: "string \<Rightarrow> PostRequest option" where
  "DecodePost body =
     (case read_document body of
        None \<Rightarrow> None
      | Some v \<Rightarrow> decode_struct post_field v \<lparr>URL_post = []\<rparr>)"

text \<open>The body a client sends for a URL; bytes that are not UTF-8 arrive as U+FFFD.\<close>

definition post_body :: "string \<Rightarrow> string" where
  "post_body url = json_object [(''url'', json_escape url)]"

lemma DecodePost_body: "DecodePost (post_body url @ t) = Some \<lparr>URL_post = to_valid url\<rparr>"
  by (simp add: DecodePost_def post_body_def parse_json_object decode_struct_def post_field_def
      text_field_def unquote_json_escape)

definition validateURL :: "string \<Rightarrow> goerr option" where
  "validateURL rawURL =
     (if rawURL = '''' then Some (Opaque ''URL is required'')
      else if length rawURL > 2048 then Some (Opaque ''URL must be at most 2048 characters'')
      else case ParseRequestURI rawURL of
        None \<Rightarrow> Some (Opaque ''URL must be a valid absolute URL'')
      | Some parsed \<Rightarrow>
          let scheme = ToLower (Scheme parsed)
          in if scheme \<noteq> ''http'' \<and> scheme \<noteq> ''https''
             then Some (Opaque ''URL must use http or https scheme'')
             else if Host parsed = '''' then Some (Opaque ''URL must include a host'')
             else None)"

definition handleServiceError :: "goerr \<Rightarrow> string \<Rightarrow> ResponseWriter \<Rightarrow> ResponseWriter" where
  "handleServiceError err requestID =
     (if errors_Is err ErrInvalidURL
        then writeError 400 ''INVALID_URL'' (Error err) requestID
      else if errors_Is err ErrFetchFailed
        then writeError 422 ''FETCH_FAILED'' (Error err) requestID
      else if errors_Is err ErrAlreadyPending
        then writeError 409 ''ALREADY_PENDING'' (Error err) requestID
      else if errors_Is err ErrDatabaseError
        then writeError 500 ''DATABASE_ERROR'' ''A database error occurred'' requestID
      else if errors_Is err ErrKafkaError
        then writeError 500 ''QUEUE_ERROR'' ''Failed to queue request'' requestID
      else writeError 500 ''INTERNAL_ERROR'' ''An unexpected error occurred'' requestID)"

subsection \<open>POST and GET /v1/metadata\<close>

text \<open>What the handlers answer to a result of the service.\<close>

definition post_response :: "string \<Rightarrow> service_result \<Rightarrow> ResponseWriter \<Rightarrow> ResponseWriter" where
  "post_response requestID r =
     (case r of
        Inl err \<Rightarrow> handleServiceError err requestID
      | Inr (rec, isNew) \<Rightarrow>
          if is_some_and (\<lambda>x. Status x = ''pending'' \<or> Status x = ''fetching'') rec
          then writeJSON 202 (JRecord rec)
          else if isNew then writeJSON 201 (JRecord rec)
          else writeJSON 200 (JRecord rec))"

definition post_ServeHTTP :: "'w MetadataService \<Rightarrow> 'w handler" where
  "post_ServeHTTP svc r =
     (let requestID = RequestIDFromContext (Ctx r)
      in case DecodePost (Body r) of
           None \<Rightarrow> respond (writeError 400 ''INVALID_BODY'' ''Request body must be valid JSON'' requestID)
         | Some req \<Rightarrow>
             (case validateURL (URL_post req) of
                Some err \<Rightarrow> respond (writeError 400 ''INVALID_URL'' (Error err) requestID)
              | None \<Rightarrow> do {
                  res \<leftarrow> on_app (svc_SubmitURL svc (Ctx r) (URL_post req));
                  respond (post_response requestID res)
                }))"

definition pending_response :: "string \<Rightarrow> PendingResponse" where
  "pending_response rawURL = \<lparr>Status_p = ''pending'', URL_p = rawURL,
     Message_p = ''Fetch request queued'', PollAfterSeconds = 5\<rparr>"

definition get_response ::
  "string \<Rightarrow> string \<Rightarrow> service_result \<Rightarrow> ResponseWriter \<Rightarrow> ResponseWriter" where
  "get_response requestID rawURL r =
     (case r of
        Inl err \<Rightarrow> handleServiceError err requestID
      | Inr (rec, queued) \<Rightarrow>
          if rec \<noteq> None then writeJSON 200 (JRecord rec)
          else if queued then writeJSON 202 (JPending (pending_response rawURL))
          else writeError 500 ''INTERNAL_ERROR'' ''An unexpected error occurred'' requestID)"

definition get_ServeHTTP :: "'w MetadataService \<Rightarrow> 'w handler" where
  "get_ServeHTTP svc r =
     (let requestID = RequestIDFromContext (Ctx r);
          rawURL = Query_Get (RawQuery r) ''url''
      in if rawURL = ''''
         then respond (writeError 400 ''MISSING_PARAM'' ''url query parameter is required'' requestID)
         else case validateURL rawURL of
           Some err \<Rightarrow> respond (writeError 400 ''INVALID_URL'' (Error err) requestID)
         | None \<Rightarrow> do {
             res \<leftarrow> on_app (svc_GetMetadata svc (Ctx r) rawURL);
             respond (get_response requestID rawURL res)
           })"

subsection \<open>Probes\<close>

definition health_ServeHTTP :: "'w handler" where
  "health_ServeHTTP r = do {
     now \<leftarrow> time_Now;
     respond (writeJSON 200 (JHealth \<lparr>Status_h = ''ok'', Timestamp = FormatRFC3339 now\<rparr>))
   }"

text \<open>The readiness handler holds the repository's ping and, when there is one, Kafka's.\<close>

record 'w ReadyHandler =
  repo_Ping :: "('w, goerr option) io"
  kafka_pinger :: "('w, goerr option) io option"

definition check_text :: "goerr option \<Rightarrow> string" where
  "check_text err = (case err of Some e \<Rightarrow> ''error: '' @ Error e | None \<Rightarrow> ''ok'')"

definition ready_response :: "goerr option \<Rightarrow> goerr option option \<Rightarrow> ResponseWriter \<Rightarrow> ResponseWriter"
  where
  "ready_response mongo kafka =
     (let checks = [''mongodb'' \<mapsto> check_text mongo,
            ''kafka'' \<mapsto> (case kafka of None \<Rightarrow> ''skipped'' | Some err \<Rightarrow> check_text err)];
          allOK = (mongo = None \<and> \<not> is_some_and (\<lambda>err. err \<noteq> None) kafka)
      in if allOK then writeJSON 200 (JReady \<lparr>Status_y = ''ready'', Checks = checks\<rparr>)
         else writeJSON 503 (JReady \<lparr>Status_y = ''degraded'', Checks = checks\<rparr>))"

definition ready_ServeHTTP :: "'w ReadyHandler \<Rightarrow> 'w handler" where
  "ready_ServeHTTP h r = do {
     mongo \<leftarrow> on_app (repo_Ping h);
     kafka \<leftarrow> (case kafka_pinger h of
         None \<Rightarrow> ret None
       | Some ping \<Rightarrow> do { err \<leftarrow> on_app ping; ret (Some err) });
     respond (ready_response mongo kafka)
   }"

subsection \<open>Running a handler\<close>

lemma respond_run [simp]: "run_state (respond f) (w, c) = (Returned, (w\<lparr>resp := f (resp w)\<rparr>, c))"
  by (simp add: respond_def)

text \<open>A handler that calls the service and answers: its response and the state it leaves.\<close>

lemma wp_call_respond:
  assumes "wp m (\<lambda>res (s', c'). Q res s') (app w, c)"
  shows "\<exists>res s'. Q res s' \<and>
    final (do { res \<leftarrow> on_app m; respond (f res) }) (w, c) = w\<lparr>app := s', resp := f res (resp w)\<rparr>"
  using assms by (cases "run_state m (app w, c)") (auto simp: wp_def final_def)

text \<open>The codes of the error bodies, by the sentinel the error wraps.\<close>

definition error_response :: "goerr \<Rightarrow> int \<times> string" where
  "error_response err =
     (case root_sentinel err of
        Some ErrInvalidURL \<Rightarrow> (400, ''INVALID_URL'')
      | Some ErrFetchFailed \<Rightarrow> (422, ''FETCH_FAILED'')
      | Some ErrAlreadyPending \<Rightarrow> (409, ''ALREADY_PENDING'')
      | Some ErrDatabaseError \<Rightarrow> (500, ''DATABASE_ERROR'')
      | Some ErrKafkaError \<Rightarrow> (500, ''QUEUE_ERROR'')
      | _ \<Rightarrow> (500, ''INTERNAL_ERROR''))"

lemma handleServiceError_simps:
  assumes "sent_head rw = None"
  shows "\<exists>e. written (handleServiceError err requestID rw) = written rw @ [JError e] \<and>
    RequestID e = requestID \<and>
    (status_of (handleServiceError err requestID rw), ErrorCode e) = error_response err"
  using assms
  by (cases "root_sentinel err")
    (auto simp: handleServiceError_def errors_Is_iff error_response_def writeError_def
      split: sentinel.split)

text \<open>A request and a fresh response on the test doubles, for the closed statements.\<close>

definition sample_http :: "string \<Rightarrow> request" where
  "sample_http url = \<lparr>Method = ''GET'', Path = ''/v1/metadata'', RawQuery = ''url='' @ percent_encode url, Body = post_body url, HeaderGet = (\<lambda>_. ''''),
     Ctx = ContextWithRequestID Background ''r1''\<rparr>"

definition new_http_world :: "mock_world http_world" where
  "new_http_world = \<lparr>app = new_mock_world, RemoteAddr = ''10.0.0.1:4000'', resp = new_response, access_log = [],
     http_metrics = NewMetrics ''metadata'', limiter = NewRateLimiter 100 (60 * Second)\<rparr>"

lemma sample_http_simps [simp]:
  "Query_Get (RawQuery (sample_http url)) ''url'' = url" "Body (sample_http url) = post_body url"
  "RequestIDFromContext (Ctx (sample_http url)) = ''r1''"
  "resp new_http_world = new_response" "app new_http_world = new_mock_world"
  "sent_head new_response = None" "written new_response = []"
  by (simp_all add: sample_http_def new_http_world_def new_response_def Query_Get_encoded [simplified])

lemma sample_url_valid [simp]: "validateURL ''http://a.com/'' = None"
  "DecodePost (post_body ''http://a.com/'') = Some \<lparr>URL_post = ''http://a.com/''\<rparr>"
  by (code_simp, use DecodePost_body [of "''http://a.com/''" "[]"] in \<open>simp add: to_valid_id\<close>)

subsection \<open>Properties\<close>

text \<open>
  A URL is accepted exactly when it has 1 to 2048 bytes and parses to an absolute URL with the
  scheme http or https (in any case) and a host.
\<close>

theorem validateURL_iff:
  "validateURL u = None \<longleftrightarrow> u \<noteq> '''' \<and> length u \<le> 2048 \<and>
     (\<exists>p. ParseRequestURI u = Some p \<and> ToLower (Scheme p) \<in> {''http'', ''https''} \<and> Host p \<noteq> '''')"
  by (auto simp: validateURL_def Let_def split: option.split)

text \<open>
  C30: The host of an accepted URL is the host the SSRF check resolves: validation and check parse the
  URL with different functions (\<^verbatim>\<open>ParseRequestURI\<close>, \<^verbatim>\<open>Parse\<close>), but wherever a \<^verbatim>\<open>#\<close>, an \<^verbatim>\<open>@\<close> or an
  escape stands in it, the two never disagree about the host; at most the check finds the fragment
  malformed, and then no host at all, so that the URL is not fetched.
\<close>

theorem validated_host_is_checked:
  assumes "validateURL u = None"
  shows "\<exists>p. ParseRequestURI u = Some p \<and> Host p \<noteq> '''' \<and>
    (url_Parse u = Some p \<and> extractHost u = Hostname (Host p) \<or>
     url_Parse u = None \<and> extractHost u = '''')"
proof -
  obtain p where p: "ParseRequestURI u = Some p" "ToLower (Scheme p) \<noteq> ''''" "Host p \<noteq> ''''"
    using assms by (auto simp: validateURL_def Let_def split: option.splits if_splits)
  from p(2) have "Scheme p \<noteq> ''''"
    by auto
  have "fst (Cut (CHR ''#'') u) = up_to (CHR ''#'') u"
    by (rule fst_Cut)
  with ParseRequestURI_up_to_hash [OF p(1) \<open>Scheme p \<noteq> ''''\<close> p(3)] have "url_Parse u = Some p \<or> url_Parse u = None"
    by (cases "Cut (CHR ''#'') u") (auto simp: url_Parse_def bind_eq_None_conv split: option.splits)
  with p show ?thesis
    by (auto simp: extractHost_def)
qed

theorem validated_host_is_checked_witness:
  "extractHost ''http://a.com/'' = ''a.com''"
proof -
  have "ParseRequestURI ''http://a.com/'' = Some \<lparr>Scheme = ''http'', Host = ''a.com''\<rparr>"
    "Hostname ''a.com'' = ''a.com''" "url_Parse ''http://a.com/'' \<noteq> None"
    by code_simp+
  then show ?thesis
    using validated_host_is_checked [of "''http://a.com/''"] by auto
qed

text \<open>Two accepted URLs that no fetch takes: no host name before the port, a malformed fragment.\<close>

lemma accepted_not_fetchable:
  "validateURL ''http://:80/'' = None \<and> extractHost ''http://:80/'' = '''' \<and>
   validateURL ''http://a.com/?q#%zz'' = None \<and> extractHost ''http://a.com/?q#%zz'' = ''''"
  by code_simp

text \<open>A request that is refused.\<close>

lemma refused_run:
  assumes "m = post_ServeHTTP svc r \<and>
           (case DecodePost (Body r) of None \<Rightarrow> True | Some req \<Rightarrow> validateURL (URL_post req) \<noteq> None)
       \<or> m = get_ServeHTTP svc r \<and> validateURL (Query_Get (RawQuery r) ''url'') \<noteq> None"
  shows "app (final m (w, c)) = app w"
    and "\<exists>code msg. resp (final m (w, c)) = writeError 400 code msg (RequestIDFromContext (Ctx r)) (resp w)"
  using assms
  by (auto simp: post_ServeHTTP_def get_ServeHTTP_def Let_def final_def split: option.splits)
    (intro exI, rule refl)+

text \<open>
  A request the handlers refuse (a body that does not decode, a missing or invalid URL) is
  answered with status 400 and an error body with the request id, and the service is not called.
\<close>

theorem invalid_requests_refused:
  assumes "sent_head (resp w) = None" and "written (resp w) = []"
    and "m = post_ServeHTTP svc r \<and>
           (case DecodePost (Body r) of None \<Rightarrow> True | Some req \<Rightarrow> validateURL (URL_post req) \<noteq> None)
       \<or> m = get_ServeHTTP svc r \<and> validateURL (Query_Get (RawQuery r) ''url'') \<noteq> None"
  shows "app (final m (w, c)) = app w \<and> status_of (resp (final m (w, c))) = 400 \<and>
    (\<exists>e. written (resp (final m (w, c))) = [JError e] \<and> RequestID e = RequestIDFromContext (Ctx r))"
  using refused_run [OF assms(3), where w = w and c = c] assms(1,2) by (auto simp: writeError_def)

lemma status_of_entry:
  "entry_of rec = pending_entry url \<Longrightarrow> Status rec = StatusPending"
  "entry_of rec = ready_entry f url \<Longrightarrow> Status rec = StatusReady"
  by (auto simp: entry_of_def pending_entry_def ready_entry_def entry_update_def)

lemma bad_scheme: "validateURL ''ftp://a.com/'' = Some (Opaque ''URL must use http or https scheme'')"
  by code_simp

theorem invalid_requests_refused_witness:
  "app (final (get_ServeHTTP (NewMetadataService mock_repository mock_producer mock_fetcher (\<lambda>_. False))
     (sample_http ''ftp://a.com/'')) (new_http_world, int)) = new_mock_world"
  using invalid_requests_refused [of new_http_world
      "get_ServeHTTP (NewMetadataService mock_repository mock_producer mock_fetcher (\<lambda>_. False))
         (sample_http ''ftp://a.com/'')"
      "NewMetadataService mock_repository mock_producer mock_fetcher (\<lambda>_. False)"
      "sample_http ''ftp://a.com/''" int]
  using bad_scheme by simp

text \<open>
  C35: A client that escapes the URL in the query gets exactly that URL to the service: any bytes, the
  separators of the query and of the URL itself included, arrive as they were.
\<close>

theorem escaped_query_reaches_service:
  assumes "RawQuery r = ''url='' @ percent_encode u" and "validateURL u = None"
  shows "get_ServeHTTP svc r = do {
    res \<leftarrow> on_app (svc_GetMetadata svc (Ctx r) u);
    respond (get_response (RequestIDFromContext (Ctx r)) u res)
  }"
proof -
  have "u \<noteq> ''''"
    using assms(2) by (auto simp: validateURL_def)
  then show ?thesis
    using assms(2) unfolding get_ServeHTTP_def assms(1) Query_Get_encoded by simp
qed

theorem escaped_query_reaches_service_witness:
  "get_ServeHTTP (NewMetadataService mock_repository mock_producer mock_fetcher (\<lambda>_. False))
      (sample_http ''http://a.com/?a=b&c=d'') = do {
    res \<leftarrow> on_app (svc_GetMetadata
      (NewMetadataService mock_repository mock_producer mock_fetcher (\<lambda>_. False))
      (ContextWithRequestID Background ''r1'') ''http://a.com/?a=b&c=d'');
    respond (get_response ''r1'' ''http://a.com/?a=b&c=d'' res)
  }"
proof -
  have "validateURL ''http://a.com/?a=b&c=d'' = None"
    by code_simp
  moreover have "RawQuery (sample_http u) = ''url='' @ percent_encode u"
    "Ctx (sample_http u) = ContextWithRequestID Background ''r1''" for u
    by (simp_all add: sample_http_def)
  ultimately show ?thesis
    using escaped_query_reaches_service [of "sample_http ''http://a.com/?a=b&c=d''"
        "''http://a.com/?a=b&c=d''" "NewMetadataService mock_repository mock_producer mock_fetcher (\<lambda>_. False)"]
    by simp
qed

text \<open>The errors the service returns are those its specification names.\<close>

lemma submit_spec_errors:
  "submit_spec wire fl good ctx url t (Inl err) t' \<Longrightarrow>
     error_response err \<in> {(422, ''FETCH_FAILED''), (500, ''DATABASE_ERROR''), (500, ''QUEUE_ERROR'')}"
  by (auto simp: error_response_def errors_Is_iff elim: submit_spec.cases)

lemma get_spec_errors:
  "get_spec wire ctx url t (Inl err) t' \<Longrightarrow>
     error_response err \<in> {(500, ''DATABASE_ERROR''), (500, ''QUEUE_ERROR'')}"
  by (auto simp: error_response_def errors_Is_iff elim: get_spec.cases)

text \<open>A valid URL gets to the service, and the response is made of an outcome its specification allows.\<close>

lemma GET_runs:
  assumes "metadata_service R view urls invar P sent wire F good"
    and "invar (repo_st (app w))" and "url \<in> urls"
    and "Query_Get (RawQuery r) ''url'' = url" and "validateURL url = None"
  obtains res s' where
    "get_spec wire (Ctx r) url (view (repo_st (app w)), sent (prod_st (app w))) res
       (view (repo_st s'), sent (prod_st s'))"
    and "final (get_ServeHTTP (NewMetadataService R P F fl) r) (w, c) =
      w\<lparr>app := s', resp := get_response (RequestIDFromContext (Ctx r)) url res (resp w)\<rparr>"
proof -
  have ne: "url \<noteq> ''''"
    using assms(5) by (auto simp: validateURL_def)
  have "wp (GetMetadata \<lparr>repo = R, producer = P, fetcher = F, flags = fl\<rparr> (Ctx r) url)
      (\<lambda>res (s', c'). get_spec wire (Ctx r) url (view (repo_st (app w)), sent (prod_st (app w))) res
         (view (repo_st s'), sent (prod_st s'))) (app w, c)"
    using metadata_service.GetMetadata_outcome [OF assms(1), of "app w" url fl "Ctx r" c] assms(2,3)
    by (auto simp: metadata_service.ok_def [OF assms(1)] metadata_service.observe_def [OF assms(1)]
        elim!: wp_mono)
  from wp_call_respond [OF this, of "get_response (RequestIDFromContext (Ctx r)) url"] show thesis
    using assms(4,5) ne that by (auto simp: get_ServeHTTP_def Let_def NewMetadataService_def)
qed

lemma POST_runs:
  assumes "metadata_service R view urls invar P sent wire F good"
    and "invar (repo_st (app w))" and "url \<in> urls"
    and "DecodePost (Body r) = Some \<lparr>URL_post = url\<rparr>" and "validateURL url = None"
  obtains res s' where
    "submit_spec wire fl good (Ctx r) url (view (repo_st (app w)), sent (prod_st (app w))) res
       (view (repo_st s'), sent (prod_st s'))"
    and "final (post_ServeHTTP (NewMetadataService R P F fl) r) (w, c) =
      w\<lparr>app := s', resp := post_response (RequestIDFromContext (Ctx r)) res (resp w)\<rparr>"
proof -
  have "wp (SubmitURL \<lparr>repo = R, producer = P, fetcher = F, flags = fl\<rparr> (Ctx r) url)
      (\<lambda>res (s', c'). submit_spec wire fl good (Ctx r) url (view (repo_st (app w)), sent (prod_st (app w))) res
         (view (repo_st s'), sent (prod_st s'))) (app w, c)"
    using metadata_service.SubmitURL_outcome [OF assms(1), of "app w" url fl "Ctx r" c] assms(2,3)
    by (auto simp: metadata_service.ok_def [OF assms(1)] metadata_service.observe_def [OF assms(1)]
        elim!: wp_mono)
  from wp_call_respond [OF this, of "post_response (RequestIDFromContext (Ctx r))"] show thesis
    using assms(4,5) that by (auto simp: post_ServeHTTP_def Let_def NewMetadataService_def)
qed

text \<open>
  C18: The answers of GET to a valid URL: status 200 with the stored record exactly as a ready record;
  202 when the URL is in progress (now); 500 with a database or a queue error. Nothing else, in
  particular never the internal error at the end of the handler.
\<close>

theorem GET_answers:
  assumes "metadata_service R view urls invar P sent wire F good"
    and "invar (repo_st (app w))" and "url \<in> urls"
    and "Query_Get (RawQuery r) ''url'' = url" and "validateURL url = None"
    and "sent_head (resp w) = None" and "written (resp w) = []"
    and "w' = final (get_ServeHTTP (NewMetadataService R P F fl) r) (w, c)"
  shows "case written (resp w') of
      [JRecord (Some rec)] \<Rightarrow> status_of (resp w') = 200 \<and> Status rec = StatusReady \<and>
        view (repo_st (app w)) url = Some (entry_of rec)
    | [JPending p] \<Rightarrow> status_of (resp w') = 202 \<and> URL_p p = url \<and>
        (\<exists>e. view (repo_st (app w')) url = Some e \<and> in_progress (e_status e))
    | [JError e] \<Rightarrow> status_of (resp w') = 500 \<and>
        ErrorCode e \<in> {''DATABASE_ERROR'', ''QUEUE_ERROR''} \<and>
        RequestID e = RequestIDFromContext (Ctx r)
    | _ \<Rightarrow> False"
proof -
  let ?id = "RequestIDFromContext (Ctx r)"
  obtain res s' where
    spec: "get_spec wire (Ctx r) url (view (repo_st (app w)), sent (prod_st (app w))) res
         (view (repo_st s'), sent (prod_st s'))"
    and w': "w' = w\<lparr>app := s', resp := get_response ?id url res (resp w)\<rparr>"
    using GET_runs [OF assms(1-5), of fl c] assms(8) by metis
  show ?thesis
  proof (cases res)
    case (Inl err)
    with get_spec_errors spec have
      "error_response err \<in> {(500, ''DATABASE_ERROR''), (500, ''QUEUE_ERROR'')}"
      by blast
    with handleServiceError_simps [OF assms(6), of err ?id] Inl assms(7) show ?thesis
      by (auto simp: w' get_response_def)
  next
    case (Inr p)
    with spec assms(6,7) show ?thesis
      by (auto simp: w' get_response_def pending_response_def in_progress_def elim!: get_spec.cases)
  qed
qed

theorem GET_answers_witness:
  "case written (resp (final (get_ServeHTTP
        (NewMetadataService mock_repository mock_producer mock_fetcher (\<lambda>_. False))
        (sample_http ''http://a.com/'')) (new_http_world, int))) of
      [JRecord (Some rec)] \<Rightarrow> False | [JPending p] \<Rightarrow> URL_p p = ''http://a.com/'' | [JError e] \<Rightarrow> True | _ \<Rightarrow> False"
  using GET_answers [OF mocks.metadata_service_axioms _ _ _ _ _ _ refl, of new_http_world
      "''http://a.com/''" "sample_http ''http://a.com/''" "\<lambda>_. False" int]
  by (auto split: list.splits json_value.splits option.splits)

text \<open>
  C17: The answers of POST with a valid URL: 200 with the record that was ready before; 201 with the
  record that was fetched and stored as ready; 202 with a record in progress; 422 when the fetch
  failed; 500 with a database or a queue error. A record in the body is the stored one.
\<close>

theorem POST_answers:
  assumes "metadata_service R view urls invar P sent wire F good"
    and "invar (repo_st (app w))" and "url \<in> urls"
    and "DecodePost (Body r) = Some \<lparr>URL_post = url\<rparr>" and "validateURL url = None"
    and "sent_head (resp w) = None" and "written (resp w) = []"
    and "w' = final (post_ServeHTTP (NewMetadataService R P F fl) r) (w, c)"
  shows "case written (resp w') of
      [JRecord (Some rec)] \<Rightarrow>
        view (repo_st (app w')) url = Some (entry_of rec) \<and>
        (status_of (resp w') = 200 \<and> Status rec = StatusReady \<and>
           view (repo_st (app w)) url = Some (entry_of rec)
         \<or> status_of (resp w') = 201 \<and> Status rec = StatusReady \<and>
           claimable (view (repo_st (app w))) url
         \<or> status_of (resp w') = 202 \<and> in_progress (Status rec))
    | [JError e] \<Rightarrow> (status_of (resp w'), ErrorCode e) \<in>
        {(422, ''FETCH_FAILED''), (500, ''DATABASE_ERROR''), (500, ''QUEUE_ERROR'')} \<and>
        RequestID e = RequestIDFromContext (Ctx r)
    | _ \<Rightarrow> False"
proof -
  let ?id = "RequestIDFromContext (Ctx r)"
  obtain res s' where
    spec: "submit_spec wire fl good (Ctx r) url (view (repo_st (app w)), sent (prod_st (app w))) res
         (view (repo_st s'), sent (prod_st s'))"
    and w': "w' = w\<lparr>app := s', resp := post_response ?id res (resp w)\<rparr>"
    using POST_runs [OF assms(1-5), of fl c] assms(8) by metis
  show ?thesis
  proof (cases res)
    case (Inl err)
    with submit_spec_errors spec have "error_response err \<in>
        {(422, ''FETCH_FAILED''), (500, ''DATABASE_ERROR''), (500, ''QUEUE_ERROR'')}"
      by blast
    with handleServiceError_simps [OF assms(6), of err ?id] Inl assms(7) show ?thesis
      by (auto simp: w' post_response_def)
  next
    case (Inr p)
    with spec assms(6,7) show ?thesis
      by (auto simp: w' post_response_def in_progress_def status_defs
          elim!: submit_spec.cases dest: status_of_entry [unfolded status_defs])
  qed
qed

theorem POST_answers_witness:
  "case written (resp (final (post_ServeHTTP
        (NewMetadataService mock_repository mock_producer mock_fetcher (\<lambda>_. False))
        (sample_http ''http://a.com/'')) (new_http_world, int))) of
      [JRecord (Some rec)] \<Rightarrow> True | [JError e] \<Rightarrow> RequestID e = ''r1'' | _ \<Rightarrow> False"
  using POST_answers [OF mocks.metadata_service_axioms _ _ _ _ _ _ refl, of new_http_world
      "''http://a.com/''" "sample_http ''http://a.com/''" "\<lambda>_. False" int]
  by (auto split: list.splits json_value.splits option.splits)

text \<open>
  The readiness probe answers 200 exactly when the repository answers its ping and Kafka, where
  it is checked, answers its own; otherwise 503. The body names the state of both.
\<close>

theorem ready_probe:
  assumes "sent_head (resp w) = None" and "written (resp w) = []"
    and "run_state (repo_Ping h) (app w, c) = (mongo, (s1, c1))"
    and "kafka_pinger h = Some ping" and "run_state ping (s1, c1) = (kafka, (s2, c2))"
    and "w' = final (ready_ServeHTTP h r) (w, c)"
  shows "status_of (resp w') = (if mongo = None \<and> kafka = None then 200 else 503) \<and>
    (\<exists>y. written (resp w') = [JReady y] \<and>
      Checks y = [''mongodb'' \<mapsto> check_text mongo, ''kafka'' \<mapsto> check_text kafka])"
  using assms by (auto simp: ready_ServeHTTP_def ready_response_def final_def Let_def)

theorem ready_probe_witness:
  "status_of (resp (final (ready_ServeHTTP
      \<lparr>repo_Ping = ret None, kafka_pinger = Some (ret (Some (Opaque ''down'')))\<rparr> (sample_http ''''))
      (new_http_world, int))) = 503"
  using ready_probe [OF _ _ _ _ _ refl, of new_http_world
      "\<lparr>repo_Ping = ret None, kafka_pinger = Some (ret (Some (Opaque ''down'')))\<rparr>"
      int None new_mock_world int "ret (Some (Opaque ''down''))" "Some (Opaque ''down'')"
      new_mock_world int "sample_http ''''"]
  by simp

end
