(* ===== verification/JsonText.thy ===== *)
theory JsonText
  imports Json
begin

section \<open>Writing JSON documents\<close>

text \<open>
  The compact form \<^verbatim>\<open>encoding/json\<close> writes, over the values of the parser: string literals and numbers
  stand in a value the way they are written. The parser reads back every value whose literals are
  well-formed and that is not nested deeper than it allows.
\<close>

fun print_json :: "json \<Rightarrow> string"
  and print_elements :: "json list \<Rightarrow> string"
  and print_members :: "(string \<times> json) list \<Rightarrow> string" where
  "print_json JNull = ''null''"
| "print_json (JBool b) = (if b then ''true'' else ''false'')"
| "print_json (JNumber s) = s"
| "print_json (JString raw) = json_literal raw"
| "print_json (JArray vs) = CHR ''['' # print_elements vs"
| "print_json (JObject ms) = CHR ''{'' # print_members ms"
| "print_elements [] = '']''"
| "print_elements (v # vs) =
     print_json v @ (if vs = [] then '']'' else CHR '','' # print_elements vs)"
| "print_members [] = ''}''"
| "print_members ((k, v) # ms) =
     json_member k (print_json v) @ (if ms = [] then ''}'' else CHR '','' # print_members ms)"

text \<open>How many brackets are open at most.\<close>

fun json_depth :: "json \<Rightarrow> nat"
  and elements_depth :: "json list \<Rightarrow> nat"
  and members_depth :: "(string \<times> json) list \<Rightarrow> nat" where
  "json_depth (JArray vs) = Suc (elements_depth vs)"
| "json_depth (JObject ms) = Suc (members_depth ms)"
| "json_depth _ = 0"
| "elements_depth [] = 0"
| "elements_depth (v # vs) = max (json_depth v) (elements_depth vs)"
| "members_depth [] = 0"
| "members_depth ((k, v) # ms) = max (json_depth v) (members_depth ms)"

text \<open>What may follow a number, and the numbers: the scanner reads them whole.\<close>

definition stops :: "string \<Rightarrow> bool" where
  "stops t \<longleftrightarrow> t = [] \<or> \<not> is_digit (hd t) \<and> hd t \<notin> {CHR ''.'', CHR ''e'', CHR ''E''}"

definition number :: "string \<Rightarrow> bool" where
  "number s \<longleftrightarrow> s \<noteq> [] \<and> (hd s = CHR ''-'' \<or> is_digit (hd s)) \<and>
     (\<forall>t. stops t \<longrightarrow> scan_number (s @ t) = Some (s, t))"

fun wf_json :: "json \<Rightarrow> bool"
  and wf_elements :: "json list \<Rightarrow> bool"
  and wf_members :: "(string \<times> json) list \<Rightarrow> bool" where
  "wf_json (JNumber s) = number s"
| "wf_json (JString raw) = literal raw"
| "wf_json (JArray vs) = wf_elements vs"
| "wf_json (JObject ms) = wf_members ms"
| "wf_json _ = True"
| "wf_elements [] = True"
| "wf_elements (v # vs) = (wf_json v \<and> wf_elements vs)"
| "wf_members [] = True"
| "wf_members ((k, v) # ms) = (literal k \<and> wf_json v \<and> wf_members ms)"

lemma stops_simps [simp]:
  "stops []" "stops (CHR '','' # t)" "stops (CHR '']'' # t)" "stops (CHR ''}'' # t)"
  "stops (CHR 0x0A # t)"
  by (simp_all add: stops_def is_digit_def)

lemma not_space_brackets [simp]: "\<not> is_space (CHR '']'')" "\<not> is_space (CHR ''['')"
  by code_simp+

lemma digit_not_space: "is_digit c \<Longrightarrow> \<not> is_space c"
  by (auto simp: is_digit_def is_space_def)

text \<open>The first byte of a value: not white space, and no closing bracket.\<close>

lemma number_head:
  assumes "number s"
  shows "\<exists>c r. s = c # r \<and> \<not> is_space c \<and> ord c \<noteq> 0x22 \<and>
    c \<notin> {CHR ''{'', CHR ''['', CHR ''}'', CHR '']'', CHR ''t'', CHR ''f'', CHR ''n''}"
proof -
  obtain c r where s: "s = c # r" "c = CHR ''-'' \<or> is_digit c"
    using assms by (cases s) (auto simp: number_def)
  have "\<not> is_space (CHR ''-'')" by code_simp
  with s show ?thesis
    using digit_not_space [of c] by (auto simp: is_digit_def)
qed

lemma print_json_head:
  assumes "wf_json v"
  shows "\<exists>c r. print_json v = c # r \<and> \<not> is_space c \<and> c \<noteq> CHR ''}'' \<and> c \<noteq> CHR '']''"
proof (cases v)
  case (JNumber s)
  with number_head [of s] assms show ?thesis by auto
next
  case (JBool b)
  have "\<not> is_space (CHR ''t'')" "\<not> is_space (CHR ''f'')" by code_simp+
  with JBool show ?thesis by auto
next
  case JNull
  have "\<not> is_space (CHR ''n'')" by code_simp
  with JNull show ?thesis by auto
qed (auto simp: json_literal_def)

lemma scan_value_number:
  assumes "number s" and "stops t"
  shows "scan_value d (s @ t) = Some (JNumber s, t)"
proof -
  obtain c r where s: "s = c # r" "\<not> is_space c" "ord c \<noteq> 0x22"
    "c \<notin> {CHR ''{'', CHR ''['', CHR ''}'', CHR '']'', CHR ''t'', CHR ''f'', CHR ''n''}"
    using number_head [OF assms(1)] by (elim exE conjE) (rule that)
  have "scan_number (c # r @ t) = Some (c # r, t)"
    using assms s(1) by (simp add: number_def)
  with s(2-) show ?thesis
    unfolding s(1) by (subst scan_value.simps) simp
qed

lemma scan_value_words:
  "scan_value d (''null'' @ t) = Some (JNull, t)"
  "scan_value d (''true'' @ t) = Some (JBool True, t)"
  "scan_value d (''false'' @ t) = Some (JBool False, t)"
proof -
  have "\<not> is_space (CHR ''n'')" "\<not> is_space (CHR ''t'')" "\<not> is_space (CHR ''f'')"
    "ord (CHR ''n'') \<noteq> 0x22" "ord (CHR ''t'') \<noteq> 0x22" "ord (CHR ''f'') \<noteq> 0x22"
    by code_simp+
  then show "scan_value d (''null'' @ t) = Some (JNull, t)"
    "scan_value d (''true'' @ t) = Some (JBool True, t)"
    "scan_value d (''false'' @ t) = Some (JBool False, t)"
    by (simp_all add: scan_value.simps [of d "_ # _"] scan_word_def)
qed

lemma bracket_codes: "ord (CHR ''['') \<noteq> 0x22" "ord (CHR ''{'') \<noteq> 0x22"
  by code_simp+

lemma scan_value_array:
  assumes "0 < d"
  shows "scan_value d (CHR ''['' # CHR '']'' # t) = Some (JArray [], t)"
    and "r = c # q \<Longrightarrow> \<not> is_space c \<Longrightarrow> c \<noteq> CHR '']'' \<Longrightarrow>
      scan_value d (CHR ''['' # r) = map_option (map_prod JArray id) (scan_elements (d - 1) r)"
  using assms bracket_codes by (simp_all add: scan_value.simps [of d "_ # _"])

lemma scan_value_object:
  assumes "0 < d"
  shows "scan_value d (CHR ''{'' # CHR ''}'' # t) = Some (JObject [], t)"
    and "r = c # q \<Longrightarrow> \<not> is_space c \<Longrightarrow> c \<noteq> CHR ''}'' \<Longrightarrow>
      scan_value d (CHR ''{'' # r) = map_option (map_prod JObject id) (scan_members (d - 1) r)"
  using assms bracket_codes by (simp_all add: scan_value.simps [of d "_ # _"])

lemma scan_elements_step:
  assumes "scan_value d (p @ t) = Some (v, t)"
  shows "t = CHR '']'' # q \<Longrightarrow> scan_elements d (p @ t) = Some ([v], q)"
    and "t = CHR '','' # q \<Longrightarrow>
      scan_elements d (p @ t) = map_option (map_prod ((#) v) id) (scan_elements d q)"
  using assms by (subst scan_elements.simps; simp)+

lemma scan_members_step:
  assumes "literal k" and "\<And>t. stops t \<Longrightarrow> scan_value d (p @ t) = Some (v, t)"
  shows "scan_members d (json_member k p @ CHR ''}'' # q) = Some ([(k, v)], q)"
    and "scan_members d (json_member k p @ CHR '','' # q) =
      map_option (map_prod ((#) (k, v)) id) (scan_members d q)"
proof -
  have name: "scan_string (k @ CHR 0x22 # u) = Some (k, u)" for u
    using assms(1) by (simp add: literal_def)
  have m: "json_member k p @ u = CHR 0x22 # k @ CHR 0x22 # CHR '':'' # p @ u" for u
    by (simp add: json_member_def json_literal_def)
  show "scan_members d (json_member k p @ CHR ''}'' # q) = Some ([(k, v)], q)"
    unfolding m by (subst scan_members.simps) (simp add: name assms(2) ord_cases)
  show "scan_members d (json_member k p @ CHR '','' # q) =
      map_option (map_prod ((#) (k, v)) id) (scan_members d q)"
    unfolding m by (subst scan_members.simps) (simp add: name assms(2) ord_cases)
qed

lemma scan_print:
  "wf_json v \<Longrightarrow> json_depth v \<le> d \<Longrightarrow> stops t \<Longrightarrow> scan_value d (print_json v @ t) = Some (v, t)"
  "vs \<noteq> [] \<Longrightarrow> wf_elements vs \<Longrightarrow> elements_depth vs \<le> d \<Longrightarrow>
     scan_elements d (print_elements vs @ t) = Some (vs, t)"
  "ms \<noteq> [] \<Longrightarrow> wf_members ms \<Longrightarrow> members_depth ms \<le> d \<Longrightarrow>
     scan_members d (print_members ms @ t) = Some (ms, t)"
proof (induction v and vs and ms arbitrary: d t and d t and d t
    rule: print_json_print_elements_print_members.induct)
  case (5 vs)
  show ?case
  proof (cases vs)
    case Nil
    with 5(3) scan_value_array(1) [of d t] show ?thesis by simp
  next
    case (Cons v rest)
    with 5(2) obtain c q where "print_elements vs @ t = c # q" "\<not> is_space c" "c \<noteq> CHR '']''"
      using print_json_head [of v] by fastforce
    note step = scan_value_array(2) [OF _ this, of d]
    have "scan_elements (d - 1) (print_elements vs @ t) = Some (vs, t)"
      by (rule 5(1)) (use 5(2,3) Cons in \<open>simp_all del: elements_depth.simps\<close>)
    with step 5(3) show ?thesis by simp
  qed
next
  case (6 ms)
  show ?case
  proof (cases ms)
    case Nil
    with 6(3) scan_value_object(1) [of d t] show ?thesis by simp
  next
    case (Cons m rest)
    then obtain c q where "print_members ms @ t = c # q" "\<not> is_space c" "c \<noteq> CHR ''}''"
      by (cases m) (auto simp: json_member_def json_literal_def)
    note step = scan_value_object(2) [OF _ this, of d]
    have "scan_members (d - 1) (print_members ms @ t) = Some (ms, t)"
      by (rule 6(1)) (use 6(2,3) Cons in \<open>simp_all del: members_depth.simps\<close>)
    with step 6(3) show ?thesis by simp
  qed
next
  case (8 v vs)
  have v: "scan_value d (print_json v @ u) = Some (v, u)" if "stops u" for u
    using 8(1) [of d u] 8(4,5) that by simp
  show ?case
  proof (cases "vs = []")
    case True
    with scan_elements_step(1) [OF v, of "CHR '']'' # t"] show ?thesis by simp
  next
    case False
    with scan_elements_step(2) [OF v, of "CHR '','' # print_elements vs @ t"] 8(2) [of d t] 8(4,5)
    show ?thesis by simp
  qed
next
  case (10 k v ms)
  have v: "scan_value d (print_json v @ u) = Some (v, u)" if "stops u" for u
    using 10(1) [of d u] 10(4,5) that by simp
  show ?case
  proof (cases "ms = []")
    case True
    with scan_members_step(1) [OF _ v, of k t] 10(4) show ?thesis by simp
  next
    case False
    with scan_members_step(2) [OF _ v, of k "print_members ms @ t"] 10(2) [of d t] 10(4,5)
    show ?thesis by simp
  qed
qed (auto simp: scan_value_words [simplified] scan_value_number scan_value_literal)

lemma parse_print:
  assumes "wf_json v" and "json_depth v \<le> max_depth"
  shows "parse_document (print_json v @ [CHR 0x0A]) = Some v"
proof -
  have "is_space (CHR 0x0A)" by (simp add: is_space_def)
  then show ?thesis
    using scan_print(1) [OF assms, of "[CHR 0x0A]"]
    by (simp add: parse_document_def skip_space_def)
qed

subsection \<open>Numbers\<close>

lemma takeWhile_digits:
  assumes "list_all is_digit s" and "stops t"
  shows "takeWhile is_digit (s @ t) = s" and "dropWhile is_digit (s @ t) = t"
  using assms by (induction s) (auto simp: stops_def neq_Nil_conv takeWhile_eq_Nil_iff dropWhile_eq_self_iff)

lemma stops_take:
  assumes "stops t"
  shows "take 1 t \<noteq> ''.''" "take 1 t \<noteq> ''e''" "take 1 t \<noteq> ''E''"
  using assms by (cases t; simp add: stops_def)+

lemma nat_digits_head: "nat_digits n = ''0'' \<or> (\<exists>c r. nat_digits n = c # r \<and> is_digit c \<and> c \<noteq> CHR ''0'')"
proof (induction n rule: nat_digits.induct)
  case (1 n)
  show ?case
  proof (cases "n < 10")
    case True
    then have "nat_digits n = [digit_char n]" by (simp add: nat_digits.simps)
    moreover have "digit_val (CHR ''0'') = 0" "digit_char 0 = CHR ''0''"
      by code_simp+
    then have "digit_char n = CHR ''0'' \<longleftrightarrow> n = 0"
      using digit_char_val [OF True] by auto
    ultimately show ?thesis using True by (cases "n = 0") auto
  next
    case False
    then have "nat_digits (n div 10) \<noteq> ''0''"
      using digits_value_nat_digits [of "n div 10"] by (auto simp: digits_value_def digit_val_def)
    with 1 False obtain c r where "nat_digits (n div 10) = c # r" "is_digit c" "c \<noteq> CHR ''0''"
      by blast
    with False show ?thesis by (subst (1 2) nat_digits.simps) simp
  qed
qed

lemma scan_digits:
  assumes "stops t"
  shows "(if take 1 (nat_digits n @ t) = ''0'' then Some (''0'', tl (nat_digits n @ t)) else digits (nat_digits n @ t)) =
    Some (nat_digits n, t)"
proof (cases "nat_digits n = ''0''")
  case False
  then obtain c r where c: "nat_digits n = c # r" "c \<noteq> CHR ''0''"
    using nat_digits_head by metis
  have "digits (nat_digits n @ t) = Some (nat_digits n, t)"
    by (simp add: digits_def takeWhile_digits [OF nat_digits_all assms])
  with c show ?thesis by simp
qed simp

lemma scan_number_int:
  assumes "stops t"
  shows "scan_number (nat_digits n @ t) = Some (nat_digits n, t)"
    and "scan_number (CHR ''-'' # nat_digits n @ t) = Some (CHR ''-'' # nat_digits n, t)"
proof -
  obtain c r where c: "nat_digits n = c # r" "is_digit c"
    using nat_digits_all [of n] by (cases "nat_digits n") auto
  then have "take 1 (nat_digits n @ t) \<noteq> ''-''"
    by (auto simp: is_digit_def)
  then show "scan_number (nat_digits n @ t) = Some (nat_digits n, t)"
    unfolding scan_number_def Let_def by (simp only: if_False prod.case scan_digits [OF assms]) (simp add: stops_take [OF assms, simplified])
  show "scan_number (CHR ''-'' # nat_digits n @ t) = Some (CHR ''-'' # nat_digits n, t)"
    using scan_digits [OF assms, of n] stops_take [OF assms]
    unfolding scan_number_def Let_def by simp
qed

lemma number_nat: "number (nat_digits n)" and number_neg: "number (CHR ''-'' # nat_digits n)"
proof -
  have "is_digit (hd (nat_digits n))"
    using nat_digits_all [of n] by (cases "nat_digits n") auto
  then show "number (nat_digits n)" "number (CHR ''-'' # nat_digits n)"
    by (simp_all add: number_def scan_number_int)
qed

lemma number_Itoa [simp]: "number (Itoa i)"
  by (simp add: Itoa_def number_nat number_neg)

end
