(* ===== verification/Bodies.thy ===== *)
theory Bodies
  imports JsonText Handlers "HOL-Library.Char_ord" "HOL-Library.List_Lexorder"
begin

section \<open>The bytes of a response\<close>

text \<open>
  What \<^verbatim>\<open>json.NewEncoder(w).Encode(data)\<close> writes for the structs the API answers with: their members
  by the struct tags, in the order of the fields, and a newline at the end. A field tagged
  \<^verbatim>\<open>omitempty\<close> is left out when it is zero, empty or nil; the members of a map are sorted by their keys.
  Encoding fails on an instant whose year has other than four digits; then nothing is written.
\<close>

subsection \<open>The encoders\<close>

definition jtext :: "string \<Rightarrow> json" where
  "jtext s = JString (json_escape s)"

definition jint :: "int \<Rightarrow> json" where
  "jint i = JNumber (Itoa i)"

definition jtime :: "time \<Rightarrow> json" where
  "jtime t = JString (FormatRFC3339Nano t)"

definition omitempty :: "bool \<Rightarrow> string \<Rightarrow> json \<Rightarrow> (string \<times> json) list" where
  "omitempty is_zero name v = (if is_zero then [] else [(name, v)])"

definition encode_map :: "('a \<Rightarrow> json) \<Rightarrow> (string \<rightharpoonup> 'a) \<Rightarrow> json" where
  "encode_map f m =
     JObject (map (\<lambda>k. (json_escape k, f (the (m k)))) (sorted_list_of_set (dom m)))"

definition encode_cookie :: "CookieRecord \<Rightarrow> json" where
  "encode_cookie c = JObject (
     [(''name'', jtext (Name_c c)), (''value'', jtext (Value_c c))] @
     omitempty (Domain_c c = []) ''domain'' (jtext (Domain_c c)) @
     omitempty (Path_c c = []) ''path'' (jtext (Path_c c)) @
     [(''http_only'', JBool (HTTPOnly_c c)), (''secure'', JBool (Secure_c c))])"

definition four_digit_year :: "time \<Rightarrow> bool" where
  "four_digit_year t \<longleftrightarrow> 0 \<le> year_of t \<and> year_of t \<le> 9999"

definition record_members :: "MetadataRecord \<Rightarrow> (string \<times> json) list" where
  "record_members r =
     [(''url'', jtext (URL r))] @
     omitempty (URLHash r = []) ''url_hash'' (jtext (URLHash r)) @
     [(''status'', jtext (Status r)), (''schema_version'', jint (SchemaVersion r))] @
     omitempty (Headers r = Map.empty) ''headers'' (encode_map (\<lambda>vs. JArray (map jtext vs)) (Headers r)) @
     omitempty (Cookies r = []) ''cookies'' (JArray (map encode_cookie (Cookies r))) @
     omitempty (PageSource r = []) ''page_source'' (jtext (PageSource r)) @
     omitempty (PageSourceSizeBytes r = 0) ''page_source_size_bytes'' (jint (PageSourceSizeBytes r)) @
     omitempty (ErrorText r = []) ''error'' (jtext (ErrorText r)) @
     [(''retry_count'', jint (RetryCount r))] @
     omitempty (FetchDurationMs r = 0) ''fetch_duration_ms'' (jint (FetchDurationMs r)) @
     omitempty (FetchedAt r = None) ''fetched_at'' (jtime (the (FetchedAt r))) @
     [(''created_at'', jtime (CreatedAt r)), (''updated_at'', jtime (UpdatedAt r))]"

definition encode_record :: "MetadataRecord \<Rightarrow> json option" where
  "encode_record r =
     (if four_digit_year (CreatedAt r) \<and> four_digit_year (UpdatedAt r) \<and>
         (case FetchedAt r of None \<Rightarrow> True | Some t \<Rightarrow> four_digit_year t)
      then Some (JObject (record_members r)) else None)"

definition encode_error :: "ErrorResponse \<Rightarrow> json" where
  "encode_error e = JObject (
     [(''error'', jtext (ErrorCode e)), (''message'', jtext (Message e))] @
     omitempty (RequestID e = []) ''request_id'' (jtext (RequestID e)) @
     omitempty (Details e = []) ''details'' (jtext (Details e)))"

definition encode_pending :: "PendingResponse \<Rightarrow> json" where
  "encode_pending p = JObject [(''status'', jtext (Status_p p)), (''url'', jtext (URL_p p)),
     (''message'', jtext (Message_p p)), (''poll_after_seconds'', jint (PollAfterSeconds p))]"

definition encode_health :: "HealthResponse \<Rightarrow> json" where
  "encode_health h = JObject [(''status'', jtext (Status_h h)), (''timestamp'', jtext (Timestamp h))]"

definition encode_ready :: "ReadyResponse \<Rightarrow> json" where
  "encode_ready y = JObject [(''status'', jtext (Status_y y)), (''checks'', encode_map jtext (Checks y))]"

fun encode_json :: "json_value \<Rightarrow> json option" where
  "encode_json (JRecord None) = Some JNull"
| "encode_json (JRecord (Some r)) = encode_record r"
| "encode_json (JError e) = Some (encode_error e)"
| "encode_json (JPending p) = Some (encode_pending p)"
| "encode_json (JHealth h) = Some (encode_health h)"
| "encode_json (JReady y) = Some (encode_ready y)"

definition newline :: string where
  "newline = [CHR 0x0A]"

definition Encode :: "json_value \<Rightarrow> string" where
  "Encode v = (case encode_json v of None \<Rightarrow> [] | Some j \<Rightarrow> print_json j @ newline)"

definition body_bytes :: "ResponseWriter \<Rightarrow> string" where
  "body_bytes rw = concat (map Encode (written rw))"

subsection \<open>Well-formed\<close>

named_theorems field_literals \<open>the names of the struct tags are string literals\<close>

lemma record_names [field_literals]:
  "literal ''url_hash''" "literal ''status''" "literal ''schema_version''" "literal ''headers''"
  "literal ''cookies''" "literal ''page_source''" "literal ''page_source_size_bytes''" "literal ''error''"
  "literal ''retry_count''" "literal ''fetch_duration_ms''" "literal ''fetched_at''" "literal ''created_at''"
  "literal ''updated_at''"
  by (rule literal_plain, code_simp)+

lemma other_names [field_literals]:
  "literal ''name''" "literal ''value''" "literal ''domain''" "literal ''path''" "literal ''http_only''"
  "literal ''secure''" "literal ''message''" "literal ''details''" "literal ''poll_after_seconds''"
  "literal ''timestamp''" "literal ''checks''"
  by (rule literal_plain, code_simp)+

lemma wf_lists:
  "wf_elements vs \<longleftrightarrow> (\<forall>v \<in> set vs. wf_json v)"
  "wf_members ms \<longleftrightarrow> (\<forall>(k, v) \<in> set ms. literal k \<and> wf_json v)"
  by (induction vs, simp_all) (induction ms, auto)

lemma depth_lists:
  "elements_depth vs \<le> d \<longleftrightarrow> (\<forall>v \<in> set vs. json_depth v \<le> d)"
  "members_depth ms \<le> d \<longleftrightarrow> (\<forall>(k, v) \<in> set ms. json_depth v \<le> d)"
  by (induction vs, simp_all) (induction ms, auto)

lemma depth_zero:
  "elements_depth vs = 0 \<longleftrightarrow> (\<forall>v \<in> set vs. json_depth v = 0)"
  "members_depth ms = 0 \<longleftrightarrow> (\<forall>(k, v) \<in> set ms. json_depth v = 0)"
  using depth_lists(1) [of vs 0] depth_lists(2) [of ms 0] by simp_all

lemma wf_leaves [simp]:
  "wf_json (jtext s)" "wf_json (jint i)" "wf_json (jtime t)"
  "json_depth (jtext s) = 0" "json_depth (jint i) = 0" "json_depth (jtime t) = 0"
  by (simp_all add: jtext_def jint_def jtime_def literal_plain [OF plain_time])

lemma set_omitempty: "x \<in> set (omitempty b k v) \<longleftrightarrow> \<not> b \<and> x = (k, v)"
  by (simp add: omitempty_def)

lemma wf_encode_map:
  assumes "\<And>x. wf_json (f x) \<and> json_depth (f x) \<le> d"
  shows "wf_json (encode_map f m)" "json_depth (encode_map f m) \<le> Suc d"
  using assms by (auto simp: encode_map_def wf_lists depth_lists)

lemma wf_encode_cookie: "wf_json (encode_cookie c)" "json_depth (encode_cookie c) \<le> 1"
  by (auto simp: encode_cookie_def wf_lists depth_lists depth_zero set_omitempty field_literals)

lemma wf_record_members:
  "wf_members (record_members r) \<and> members_depth (record_members r) \<le> 2"
proof -
  have h: "wf_json (JArray (map jtext vs)) \<and> json_depth (JArray (map jtext vs)) \<le> 1" for vs
    by (auto simp: wf_lists depth_zero)
  have c: "wf_json (JArray (map encode_cookie cs)) \<and> json_depth (JArray (map encode_cookie cs)) \<le> 2" for cs
    using wf_encode_cookie by (auto simp: wf_lists depth_lists)
  show ?thesis
    using wf_encode_map [where f = "\<lambda>vs. JArray (map jtext vs)", OF h, of "Headers r"] c [of "Cookies r"]
    unfolding wf_lists depth_lists record_members_def
    by (auto simp only: set_append Un_iff set_omitempty list.set insert_iff empty_iff prod.case wf_leaves
        field_literals field_names numeral_2_eq_2 zero_le)
qed

lemma wf_encode_json:
  assumes "encode_json v = Some j"
  shows "wf_json j \<and> json_depth j \<le> 3"
proof (cases v)
  case (JRecord r)
  then show ?thesis
    using assms wf_record_members by (cases r) (auto simp: encode_record_def split: if_splits)
next
  case (JReady y)
  then show ?thesis
    using assms wf_encode_map [of jtext 0 "Checks y"] by (auto simp: encode_ready_def field_literals)
qed (use assms in \<open>auto simp: encode_error_def encode_pending_def encode_health_def wf_lists depth_lists depth_zero
      set_omitempty field_literals\<close>)

lemma parse_Encode:
  assumes "encode_json v = Some j"
  shows "parse_document (Encode v) = Some j"
proof -
  have "json_depth j \<le> max_depth"
    using wf_encode_json [OF assms] by (simp add: max_depth_def)
  then show ?thesis
    using parse_print [of j] wf_encode_json [OF assms] by (simp add: Encode_def assms newline_def)
qed

subsection \<open>What a client reads\<close>

text \<open>
  A client that looks up the members by their names and takes the zero value for a missing one.
\<close>

definition get_text :: "json option \<Rightarrow> string option" where
  "get_text j = (case j of None \<Rightarrow> Some [] | Some (JString raw) \<Rightarrow> Some (unquote raw) | _ \<Rightarrow> None)"

definition get_int :: "json option \<Rightarrow> int option" where
  "get_int j = (case j of None \<Rightarrow> Some 0 | Some (JNumber s) \<Rightarrow> Atoi s | _ \<Rightarrow> None)"

definition get_bool :: "json option \<Rightarrow> bool option" where
  "get_bool j = (case j of None \<Rightarrow> Some False | Some (JBool b) \<Rightarrow> Some b | _ \<Rightarrow> None)"

definition get_time :: "json option \<Rightarrow> time option option" where
  "get_time j = (case j of None \<Rightarrow> Some None | Some (JString raw) \<Rightarrow> map_option Some (ParseRFC3339 raw) | _ \<Rightarrow> None)"

definition get_list :: "(json \<Rightarrow> 'a option) \<Rightarrow> json option \<Rightarrow> 'a list option" where
  "get_list f j = (case j of None \<Rightarrow> Some [] | Some (JArray vs) \<Rightarrow> those (map f vs) | _ \<Rightarrow> None)"

definition get_map :: "(json \<Rightarrow> 'a option) \<Rightarrow> json option \<Rightarrow> (string \<rightharpoonup> 'a) option" where
  "get_map f j = (case j of
       None \<Rightarrow> Some Map.empty
     | Some (JObject ms) \<Rightarrow>
         map_option map_of (those (map (\<lambda>(k, v). map_option (Pair (unquote k)) (f v)) ms))
     | _ \<Rightarrow> None)"

definition members_of :: "json \<Rightarrow> (string \<rightharpoonup> json) option" where
  "members_of j = (case j of JObject ms \<Rightarrow> Some (map_of ms) | _ \<Rightarrow> None)"

definition read_cookie :: "json \<Rightarrow> CookieRecord option" where
  "read_cookie j = do {
     m \<leftarrow> members_of j;
     n \<leftarrow> get_text (m ''name'');
     v \<leftarrow> get_text (m ''value'');
     d \<leftarrow> get_text (m ''domain'');
     p \<leftarrow> get_text (m ''path'');
     h \<leftarrow> get_bool (m ''http_only'');
     s \<leftarrow> get_bool (m ''secure'');
     Some \<lparr>Name_c = n, Value_c = v, Domain_c = d, Path_c = p, HTTPOnly_c = h, Secure_c = s\<rparr>
   }"

definition read_record :: "json \<Rightarrow> MetadataRecord option" where
  "read_record j = do {
     m \<leftarrow> members_of j;
     url \<leftarrow> get_text (m ''url'');
     hash \<leftarrow> get_text (m ''url_hash'');
     st \<leftarrow> get_text (m ''status'');
     ver \<leftarrow> get_int (m ''schema_version'');
     hs \<leftarrow> get_map (get_list (\<lambda>v. get_text (Some v)) \<circ> Some) (m ''headers'');
     cs \<leftarrow> get_list read_cookie (m ''cookies'');
     src \<leftarrow> get_text (m ''page_source'');
     size \<leftarrow> get_int (m ''page_source_size_bytes'');
     err \<leftarrow> get_text (m ''error'');
     retries \<leftarrow> get_int (m ''retry_count'');
     ms \<leftarrow> get_int (m ''fetch_duration_ms'');
     fetched \<leftarrow> get_time (m ''fetched_at'');
     created \<leftarrow> get_time (m ''created_at'');
     updated \<leftarrow> get_time (m ''updated_at'');
     created \<leftarrow> created;
     updated \<leftarrow> updated;
     Some \<lparr>ID = '''', URL = url, URLHash = hash, Status = st, SchemaVersion = ver, Headers = hs,
       Cookies = cs, PageSource = src, PageSourceSizeBytes = size, ErrorText = err, RetryCount = retries,
       FetchDurationMs = ms, FetchedAt = fetched, CreatedAt = created, UpdatedAt = updated\<rparr>
   }"

text \<open>What the wire can carry: strings of UTF-8, and numbers of 64 bits.\<close>

definition int64 :: "int \<Rightarrow> bool" where
  "int64 i \<longleftrightarrow> - (2 ^ 63) \<le> i \<and> i < 2 ^ 63"

definition cookie_text :: "CookieRecord \<Rightarrow> bool" where
  "cookie_text c \<longleftrightarrow> list_all valid_utf8 [Name_c c, Value_c c, Domain_c c, Path_c c]"

definition headers_text :: "headers \<Rightarrow> bool" where
  "headers_text m \<longleftrightarrow> finite (dom m) \<and> (\<forall>k \<in> dom m. valid_utf8 k \<and> list_all valid_utf8 (the (m k)))"

definition record_text :: "MetadataRecord \<Rightarrow> bool" where
  "record_text r \<longleftrightarrow>
     list_all valid_utf8 [URL r, URLHash r, Status r, PageSource r, ErrorText r] \<and>
     list_all int64 [SchemaVersion r, PageSourceSizeBytes r, RetryCount r, FetchDurationMs r] \<and>
     headers_text (Headers r) \<and> list_all cookie_text (Cookies r)"

lemma map_of_omitempty [simp]:
  "k \<noteq> n \<Longrightarrow> map_of (omitempty b k v @ ms) n = map_of ms n"
  by (simp add: omitempty_def)

lemma get_simps [simp]:
  "get_text (Some (jtext s)) = Some (to_valid s)"
  "get_bool (Some (JBool b)) = Some b"
  "int64 i \<Longrightarrow> get_int (Some (jint i)) = Some i"
  "four_digit_year t \<Longrightarrow> get_time (Some (jtime t)) = Some (Some t)"
  by (auto simp: get_text_def get_bool_def get_int_def get_time_def jtext_def jint_def jtime_def
      unquote_json_escape int64_def Atoi_Itoa four_digit_year_def ParseRFC3339_format)

lemma get_omitted [simp]:
  assumes "map_of ms k = None"
  shows "get_text (map_of (omitempty (s = []) k (jtext s) @ ms) k) = Some (to_valid s)"
    and "int64 i \<Longrightarrow> get_int (map_of (omitempty (i = 0) k (jint i) @ ms) k) = Some i"
    and "case x of None \<Rightarrow> True | Some t \<Rightarrow> four_digit_year t \<Longrightarrow>
      get_time (map_of (omitempty (x = None) k (jtime (the x)) @ ms) k) = Some x"
  using assms by (auto simp: omitempty_def get_text_def [of None] get_int_def [of None] get_time_def [of None] split: option.splits)

lemma those_map: "(\<And>x. x \<in> set xs \<Longrightarrow> f (g x) = Some (h x)) \<Longrightarrow> those (map f (map g xs)) = Some (map h xs)"
  by (induction xs) auto

lemma get_list_map:
  assumes "\<And>x. x \<in> set xs \<Longrightarrow> f (g x) = Some x"
  shows "get_list f (Some (JArray (map g xs))) = Some xs"
    and "map_of ms k = None \<Longrightarrow>
      get_list f (map_of (omitempty (xs = []) k (JArray (map g xs)) @ ms) k) = Some xs"
  using those_map [of xs f g "\<lambda>x. x", OF assms] by (auto simp: get_list_def omitempty_def)

lemma get_map_encode:
  assumes "finite (dom m)" and "\<And>k x. m k = Some x \<Longrightarrow> valid_utf8 k \<and> f (g x) = Some x"
    and "map_of ms k = None"
  shows "get_map f (map_of (omitempty (m = Map.empty) k (encode_map g m) @ ms) k) = Some m"
proof -
  let ?ks = "sorted_list_of_set (dom m)"
  have "those (map (\<lambda>(k, v). map_option (Pair (unquote k)) (f v)) (map (\<lambda>k. (json_escape k, g (the (m k)))) ?ks)) =
      Some (map (\<lambda>k. (k, the (m k))) ?ks)"
    by (rule those_map) (use assms in \<open>auto simp: unquote_json_escape to_valid_id\<close>)
  moreover have "map_of (map (\<lambda>k. (k, the (m k))) ?ks) = m"
    using assms(1) by (simp add: map_of_map_restrict restrict_map_def fun_eq_iff domIff option.expand)
  ultimately show ?thesis
    using assms(3) by (auto simp: get_map_def encode_map_def omitempty_def)
qed

lemma read_encode_cookie: "cookie_text c \<Longrightarrow> read_cookie (encode_cookie c) = Some c"
  by (simp add: read_cookie_def encode_cookie_def members_of_def cookie_text_def to_valid_id del: map_of_append)

lemma read_headers:
  assumes "headers_text m" and "map_of ms k = None"
  shows "get_map (get_list (\<lambda>v. get_text (Some v)) \<circ> Some)
     (map_of (omitempty (m = Map.empty) k (encode_map (\<lambda>vs. JArray (map jtext vs)) m) @ ms) k) = Some m"
proof (rule get_map_encode [OF _ _ assms(2)])
  show "valid_utf8 n \<and> (get_list (\<lambda>v. get_text (Some v)) \<circ> Some) (JArray (map jtext vs)) = Some vs"
    if "m n = Some vs" for n vs
  proof -
    have "valid_utf8 n \<and> list_all valid_utf8 (the (m n))"
      using assms(1) that unfolding headers_text_def by blast
    with that have "valid_utf8 n" "\<forall>x \<in> set vs. valid_utf8 x"
      by (simp_all add: list_all_iff)
    then show ?thesis
      by (auto simp: to_valid_id intro!: get_list_map(1))
  qed
qed (use assms(1) in \<open>simp add: headers_text_def\<close>)

lemma read_encode_record:
  assumes "encode_record r = Some j" and "record_text r"
  shows "read_record j = Some (r\<lparr>ID := []\<rparr>)"
proof -
  have c: "get_list read_cookie (map_of (omitempty (Cookies r = []) k (JArray (map encode_cookie (Cookies r))) @ ms) k) =
      Some (Cookies r)" if "map_of ms k = None" for ms k
    by (rule get_list_map(2) [OF _ that]) (use assms(2) in \<open>simp add: record_text_def list_all_iff read_encode_cookie\<close>)
  have h: "headers_text (Headers r)" and "list_all int64 [SchemaVersion r, PageSourceSizeBytes r, RetryCount r, FetchDurationMs r]"
    and "list_all valid_utf8 [URL r, URLHash r, Status r, PageSource r, ErrorText r]"
    using assms(2) by (simp_all add: record_text_def)
  moreover have "four_digit_year (CreatedAt r)" "four_digit_year (UpdatedAt r)"
      "case FetchedAt r of None \<Rightarrow> True | Some t \<Rightarrow> four_digit_year t" and j: "j = JObject (record_members r)"
    using assms(1) by (simp_all add: encode_record_def split: if_splits)
  ultimately show ?thesis
    by (simp add: j read_record_def members_of_def record_members_def to_valid_id c read_headers [OF h]
        del: map_of_append)
qed

lemma record_bytes:
  assumes "encode_record r = Some j" and "record_text r" and "written rw = [JRecord (Some r)]"
  shows "parse_document (body_bytes rw) = Some j" and "read_record j = Some (r\<lparr>ID := []\<rparr>)"
  using parse_Encode [of "JRecord (Some r)" j] read_encode_record [OF assms(1,2)] assms(1,3)
  by (simp_all add: body_bytes_def)

subsection \<open>Properties\<close>



text \<open>A stored page, for the closed statements.\<close>

definition sample_record :: MetadataRecord where
  "sample_record = zero_record\<lparr>URL := ''http://a.com/'', Status := ''ready'',
     Headers := [''Server'' \<mapsto> [''nginx'', ''x'']], PageSource := ''<p>'', PageSourceSizeBytes := 3,
     Cookies := [\<lparr>Name_c = ''id'', Value_c = ''1'', Domain_c = [], Path_c = ''/'', HTTPOnly_c = True, Secure_c = False\<rparr>]\<rparr>"


end
