(* ===== verification/Middleware.thy ===== *)
theory Middleware
  imports Handlers
begin

section \<open>The middleware (pkg/middleware)\<close>

text \<open>
  Each middleware is a function from handlers to handlers, as in the code. What it asks of libraries
  is a parameter: fresh UUIDs, and the trace id of a started span.
\<close>

type_synonym 'w middleware = "'w handler \<Rightarrow> 'w handler"

definition set_header :: "string \<Rightarrow> string \<Rightarrow> ('w http_world, unit) io" where
  "set_header key v = act (\<lambda>w. ((), w\<lparr>resp := Set key v (resp w)\<rparr>))"

subsection \<open>Request ids (request_id.go)\<close>

definition HeaderRequestID :: string where
  "HeaderRequestID = ''X-Request-ID''"

definition RequestID_mw :: "('w, string) io \<Rightarrow> 'w middleware" where
  "RequestID_mw uuid_New next r = do {
     requestID \<leftarrow> (let i = HeaderGet r HeaderRequestID in if i = '''' then on_app uuid_New else ret i);
     _ \<leftarrow> set_header HeaderRequestID requestID;
     next (r\<lparr>Ctx := ContextWithRequestID (Ctx r) requestID\<rparr>)
   }"

subsection \<open>Recovery (recovery.go)\<close>

definition recovery_response :: "request \<Rightarrow> ResponseWriter \<Rightarrow> ResponseWriter" where
  "recovery_response r rw =
     Write (JError \<lparr>ErrorCode = ''INTERNAL_ERROR'', Message = ''An unexpected error occurred'',
         RequestID = RequestIDFromContext (Ctx r), Details = ''''\<rparr>)
       (WriteHeader 500 (Set ''Content-Type'' ''application/json'' rw))"

definition Recovery :: "'w middleware" where
  "Recovery next r = do {
     done \<leftarrow> next r;
     (case done of
        Returned \<Rightarrow> ret Returned
      | Panicked \<Rightarrow> respond (recovery_response r))
   }"

subsection \<open>Wrapping the writer (logging.go, metrics.go)\<close>

text \<open>
  Runs a handler on a wrapped writer and hands out the status the wrapper saw; after a panic the
  wrapper is gone with the frame that held it.
\<close>

definition with_wrapper ::
  "('w http_world, completion) io \<Rightarrow> ('w http_world, completion \<times> int) io" where
  "with_wrapper m = do {
     _ \<leftarrow> act (\<lambda>w. ((), w\<lparr>resp := (resp w)\<lparr>wrappers := newResponseWriter # wrappers (resp w)\<rparr>\<rparr>));
     done \<leftarrow> m;
     status \<leftarrow> act (\<lambda>w. (statusCode (hd (wrappers (resp w))),
        w\<lparr>resp := (resp w)\<lparr>wrappers := tl (wrappers (resp w))\<rparr>\<rparr>));
     ret (done, status)
   }"

definition Logging :: "Logger \<Rightarrow> 'w middleware" where
  "Logging logger next r = do {
     start \<leftarrow> time_Now;
     (done, status) \<leftarrow> with_wrapper (next r);
     (case done of
        Panicked \<Rightarrow> ret Panicked
      | Returned \<Rightarrow> do {
          now \<leftarrow> time_Now;
          _ \<leftarrow> act (\<lambda>w. ((), w\<lparr>access_log := access_log w @ [\<lparr>log_method = Method r,
             log_path = Path r, log_query = RawQuery r, log_status = status,
             log_duration = now - start, log_remote = RemoteAddr w,
             log_agent = HeaderGet r ''User-Agent'',
             log_attrs = Attrs (LoggerFromContext logger (Ctx r) (Some logger))\<rparr>]\<rparr>));
          ret Returned
        })
   }"

definition normalizePath :: "string \<Rightarrow> string" where
  "normalizePath path = path"

definition count_request :: "request \<Rightarrow> int \<Rightarrow> duration \<Rightarrow> Metrics \<Rightarrow> Metrics" where
  "count_request r status d m =
     m\<lparr>HTTPRequestsTotal := Inc [Method r, normalizePath (Path r), Itoa status] (HTTPRequestsTotal m),
       HTTPRequestDuration := Observe [Method r, normalizePath (Path r)] d (HTTPRequestDuration m)\<rparr>"

definition MetricsMiddleware :: "'w middleware" where
  "MetricsMiddleware next r =
     (if Path r = ''/metrics'' then next r
      else do {
        timer \<leftarrow> NewTimer;
        (done, status) \<leftarrow> with_wrapper (next r);
        (case done of
           Panicked \<Rightarrow> ret Panicked
         | Returned \<Rightarrow> do {
             duration \<leftarrow> Elapsed timer;
             _ \<leftarrow> act (\<lambda>w. ((), w\<lparr>http_metrics := count_request r status duration (http_metrics w)\<rparr>));
             ret Returned
           })
      })"

subsection \<open>Tracing (tracing.go)\<close>

definition zero_trace :: string where
  "zero_trace = replicate 32 (CHR ''0'')"

text \<open>
  A tracer is what it makes of a span's name: the trace id of the span it starts. A nil tracer (\<^verbatim>\<open>run\<close>
  of the API hands one on when \<^verbatim>\<open>SetupTracer\<close> has failed) is \<^term>\<open>None\<close>: calling a method of a nil
  interface panics.
\<close>

definition Tracing :: "(string \<Rightarrow> ('w, string) io) option \<Rightarrow> 'w middleware" where
  "Tracing tracer next r =
     (case tracer of
        None \<Rightarrow> ret Panicked
      | Some start_span \<Rightarrow> do {
          traceID \<leftarrow> on_app (start_span (Method r @ '' '' @ Path r));
          if traceID \<noteq> '''' \<and> traceID \<noteq> zero_trace then do {
            _ \<leftarrow> set_header ''X-Trace-ID'' traceID;
            next (r\<lparr>Ctx := ContextWithTraceID (Ctx r) traceID\<rparr>)
          }
          else next r
        })"

subsection \<open>Rate limiting (ratelimit.go)\<close>

definition too_many :: "ResponseWriter \<Rightarrow> ResponseWriter" where
  "too_many rw =
     Write (JError \<lparr>ErrorCode = ''RATE_LIMITED'',
         Message = ''Too many requests '' @ em_dash @ '' please try again later'',
         RequestID = '''', Details = ''''\<rparr>)
       (WriteHeader 429 (Set ''Retry-After'' ''60'' (Set ''Content-Type'' ''application/json'' rw)))"

definition RateLimiter_Middleware :: "'w middleware" where
  "RateLimiter_Middleware next r = do {
     ip \<leftarrow> act (\<lambda>w. (RemoteAddr w, w));
     allowed \<leftarrow> zoom limiter limiter_update (allow ip);
     if \<not> allowed then respond too_many else next r
   }"

subsection \<open>What every handler keeps\<close>

text \<open>
  The state of the writer between two calls: \<open>n\<close> wrappers that agree with what was sent, no body
  before a head, and the response header with the request id \<open>i\<close>, sent or still to be sent.
\<close>

definition wrapper_ok :: "ResponseWriter \<Rightarrow> wrapper \<Rightarrow> bool" where
  "wrapper_ok rw x \<longleftrightarrow> (case sent_head rw of
     None \<Rightarrow> x = newResponseWriter
   | Some (code, _) \<Rightarrow> wrote x \<and> statusCode x = code)"

definition writer_inv :: "nat \<Rightarrow> string \<Rightarrow> ResponseWriter \<Rightarrow> bool" where
  "writer_inv n i rw \<longleftrightarrow> length (wrappers rw) = n \<and> (\<forall>x \<in> set (wrappers rw). wrapper_ok rw x) \<and>
     (sent_head rw = None \<longrightarrow> written rw = []) \<and>
     header rw HeaderRequestID = Some i \<and> sent_headers rw HeaderRequestID = Some i"

lemma Set_inv: "writer_inv n i rw \<Longrightarrow> k \<noteq> HeaderRequestID \<Longrightarrow> writer_inv n i (Set k v rw)"
  by (auto simp: writer_inv_def wrapper_ok_def Set_def sent_headers_def split: option.splits)

lemma WriteHeader_inv: "writer_inv n i rw \<Longrightarrow> writer_inv n i (WriteHeader code rw)"
  by (auto simp: writer_inv_def wrapper_ok_def WriteHeader_def send_head_def sent_headers_def
      wrapper_WriteHeader_def newResponseWriter_def split: option.splits)

lemma Write_inv: "writer_inv n i rw \<Longrightarrow> writer_inv n i (Write b rw)"
  by (auto simp: writer_inv_def wrapper_ok_def Write_def send_head_def Let_def sent_headers_def
      wrapper_Write_def newResponseWriter_def split: option.splits)

lemmas writer_invs = Set_inv WriteHeader_inv Write_inv

lemma response_inv:
  assumes "writer_inv n i rw"
  shows "writer_inv n i (writeJSON code b rw)" "writer_inv n i (recovery_response r rw)"
    "writer_inv n i (too_many rw)" "writer_inv n i (handleServiceError err j rw)"
  using assms
  by (simp_all add: writeJSON_def recovery_response_def too_many_def handleServiceError_def
      writeError_def writer_invs HeaderRequestID_def)

text \<open>
  A handler that behaves: on a writer to which nothing was sent it keeps the invariant and leaves the
  access log alone, whether it returns or panics.
\<close>

definition good_handler :: "'w handler \<Rightarrow> bool" where
  "good_handler h \<longleftrightarrow> (\<forall>r w c n i. sent_head (resp w) = None \<longrightarrow> writer_inv n i (resp w) \<longrightarrow>
     wp (h r) (\<lambda>_ (w', c'). writer_inv n i (resp w') \<and> access_log w' = access_log w) (w, c))"

lemma good_handlerD:
  "good_handler h \<Longrightarrow> sent_head (resp w) = None \<Longrightarrow> writer_inv n i (resp w) \<Longrightarrow>
     wp (h r) (\<lambda>_ (w', c'). writer_inv n i (resp w') \<and> access_log w' = access_log w) (w, c)"
  by (simp add: good_handler_def)

text \<open>The handlers of the API behave.\<close>

lemma good_get: "good_handler (get_ServeHTTP svc)"
  unfolding good_handler_def get_ServeHTTP_def respond_def
  by (auto simp: Let_def wp_zoom get_response_def response_inv writeError_def
      split: option.split sum.split intro!: wp_any)

lemma good_post: "good_handler (post_ServeHTTP svc)"
  unfolding good_handler_def post_ServeHTTP_def respond_def
  by (auto simp: Let_def wp_zoom post_response_def response_inv writeError_def
      split: option.split sum.split intro!: wp_any)

lemma good_health: "good_handler health_ServeHTTP"
  unfolding good_handler_def health_ServeHTTP_def respond_def by (simp add: response_inv)

lemma good_ready: "good_handler (ready_ServeHTTP h)"
  unfolding good_handler_def ready_ServeHTTP_def respond_def
  by (auto simp: Let_def wp_zoom ready_response_def response_inv
      split: option.split intro!: wp_any)

subsection \<open>The middleware keeps it\<close>

text \<open>
  The world inside a wrapper: one more wrapper, which has seen nothing; and the status it reports at
  the end is the one that was sent.
\<close>

lemma with_wrapper_rule:
  assumes "good_handler next" and "sent_head (resp w) = None" and "writer_inv n i (resp w)"
    and "\<And>done status w' c'. \<lbrakk>writer_inv n i (resp w'); access_log w' = access_log w;
       status = status_of (resp w')\<rbrakk> \<Longrightarrow> Q (done, status) (w', c')"
  shows "wp (with_wrapper (next r)) Q (w, c)"
proof -
  let ?w = "w\<lparr>resp := (resp w)\<lparr>wrappers := newResponseWriter # wrappers (resp w)\<rparr>\<rparr>"
  have inside: "writer_inv (Suc n) i (resp ?w)" "sent_head (resp ?w) = None"
    using assms(2,3) by (simp_all add: writer_inv_def wrapper_ok_def sent_headers_def)
  have out: "writer_inv n i (rw\<lparr>wrappers := tl (wrappers rw)\<rparr>) \<and>
      statusCode (hd (wrappers rw)) = status_of rw"
    if "writer_inv (Suc n) i rw" for rw
    using that by (cases "wrappers rw")
      (auto simp: writer_inv_def wrapper_ok_def sent_headers_def status_of_def newResponseWriter_def
        split: option.splits)
  show ?thesis
    unfolding with_wrapper_def wp_bind
    by (simp, rule wp_mono [OF good_handlerD [OF assms(1) inside(2,1)]])
      (auto dest!: out intro!: assms(4) simp: status_of_def)
qed

lemma next_rule:
  assumes "good_handler next" and "sent_head (resp w1) = None" and "writer_inv n i (resp w1)"
    and "access_log w1 = l"
  shows "wp (next r) (\<lambda>_ (w', c'). writer_inv n i (resp w') \<and> access_log w' = l) (w1, c)"
  using good_handlerD [OF assms(1-3)] assms(4) by simp

lemma wp_on_app_any:
  "(\<And>x s' c'. Q x (w\<lparr>app := s'\<rparr>, c')) \<Longrightarrow> wp (on_app m) Q (w, c)"
  by (auto simp: wp_zoom intro!: wp_any)

lemma wp_limiter_any:
  "(\<And>x s' c'. Q x (w\<lparr>limiter := s'\<rparr>, c')) \<Longrightarrow> wp (zoom limiter limiter_update m) Q (w, c)"
  by (auto simp: wp_zoom intro!: wp_any)

lemma Set_sent_head [simp]: "sent_head (Set k v rw) = sent_head rw"
  by (simp add: Set_def)

lemma good_RateLimiter:
  assumes "good_handler next"
  shows "good_handler (RateLimiter_Middleware next)"
  unfolding good_handler_def RateLimiter_Middleware_def wp_bind respond_def
  by (auto simp: response_inv intro!: wp_limiter_any next_rule [OF assms])

lemma good_Tracing:
  assumes "good_handler next"
  shows "good_handler (Tracing tracer next)"
proof (cases tracer)
  case None
  then show ?thesis
    by (simp add: good_handler_def Tracing_def)
next
  case (Some start_span)
  then show ?thesis
    unfolding good_handler_def Tracing_def wp_bind set_header_def
    by (auto intro!: wp_on_app_any next_rule [OF assms] Set_inv simp: HeaderRequestID_def)
qed

lemma good_Metrics:
  assumes "good_handler next"
  shows "good_handler (MetricsMiddleware next)"
  unfolding good_handler_def MetricsMiddleware_def NewTimer_def Elapsed_def
  by (auto intro!: next_rule [OF assms] with_wrapper_rule [OF assms] split: completion.split)

text \<open>
  The logging middleware: a handler that returns adds one line, with the status that was sent; a
  panic adds none.
\<close>

definition logged_as :: "request \<Rightarrow> ResponseWriter \<Rightarrow> log_line list \<Rightarrow> log_line list \<Rightarrow> bool" where
  "logged_as r rw before after \<longleftrightarrow> (\<exists>l. after = before @ [l] \<and> log_status l = status_of rw \<and>
     log_method l = Method r \<and> log_path l = Path r)"

lemma Logging_rule:
  assumes "good_handler next" and "sent_head (resp w) = None" and "writer_inv n i (resp w)"
    and "\<And>w' c'. \<lbrakk>writer_inv n i (resp w'); logged_as r (resp w') (access_log w) (access_log w')\<rbrakk>
      \<Longrightarrow> Q Returned (w', c')"
    and "\<And>w' c'. \<lbrakk>writer_inv n i (resp w'); access_log w' = access_log w\<rbrakk> \<Longrightarrow> Q Panicked (w', c')"
  shows "wp (Logging logger next r) Q (w, c)"
  unfolding Logging_def wp_bind wp_time_Now
  by (rule with_wrapper_rule [OF assms(1-3)])
    (auto intro!: assms(4,5) simp: logged_as_def split: completion.split)

lemma Recovery_rule:
  assumes "wp (next r) (\<lambda>done (w', c'). case done of
      Returned \<Rightarrow> Q Returned (w', c')
    | Panicked \<Rightarrow> Q Returned (w'\<lparr>resp := recovery_response r (resp w')\<rparr>, c')) (w, c)"
  shows "wp (Recovery next r) Q (w, c)"
  unfolding Recovery_def wp_bind
  by (rule wp_mono [OF assms]) (auto simp: respond_def split: completion.split)

end
