(* ===== verification/Server.thy ===== *)
theory Server
  imports Middleware
begin

section \<open>Routes and the middleware stack (api/server)\<close>

text \<open>
  The route table, the order of the middleware, and the server that runs them. Of chi and of the
  other libraries the model takes as parameters: which pattern matches a path, the handlers it
  installs itself (not found, wrong method), the swagger and Prometheus handlers, the rewriting of
  the remote address by \<^verbatim>\<open>RealIP\<close>, fresh UUIDs and spans.
\<close>

record 'w server_env =
  chi_match :: "string \<Rightarrow> string \<Rightarrow> bool"
  not_found :: "'w handler"
  method_not_allowed :: "'w handler"
  swagger_handler :: "'w handler"
  metrics_handler :: "'w handler"
  real_ip :: "request \<Rightarrow> string option"
  uuid_New :: "('w, string) io"
  tracer :: "(string \<Rightarrow> ('w, string) io) option"

text \<open>A route; \<open>rt_method\<close> is \<^term>\<open>None\<close> for a handler of every method.\<close>

record 'w route =
  rt_method :: "string option"
  rt_pattern :: string
  rt_handler :: "'w handler"

definition RegisterRoutes ::
  "'w server_env \<Rightarrow> 'w handler \<Rightarrow> 'w handler \<Rightarrow> 'w handler \<Rightarrow> 'w handler \<Rightarrow> 'w route list" where
  "RegisterRoutes env postHandler getHandler healthHandler readyHandler = [
     \<lparr>rt_method = Some ''GET'', rt_pattern = ''/health'', rt_handler = healthHandler\<rparr>,
     \<lparr>rt_method = Some ''GET'', rt_pattern = ''/ready'', rt_handler = readyHandler\<rparr>,
     \<lparr>rt_method = Some ''GET'', rt_pattern = ''/swagger/*'', rt_handler = swagger_handler env\<rparr>,
     \<lparr>rt_method = Some ''POST'', rt_pattern = ''/v1'' @ ''/metadata'', rt_handler = postHandler\<rparr>,
     \<lparr>rt_method = Some ''GET'', rt_pattern = ''/v1'' @ ''/metadata'', rt_handler = getHandler\<rparr>]"

text \<open>Dispatch: the first route whose pattern and method fit.\<close>

definition dispatch :: "'w server_env \<Rightarrow> 'w route list \<Rightarrow> 'w handler" where
  "dispatch env routes r =
     (let fits = filter (\<lambda>rt. chi_match env (rt_pattern rt) (Path r)) routes
      in case List.find (\<lambda>rt. rt_method rt = None \<or> rt_method rt = Some (Method r)) fits of
           Some rt \<Rightarrow> rt_handler rt r
         | None \<Rightarrow> if fits = [] then not_found env r else method_not_allowed env r)"

text \<open>
  \<^verbatim>\<open>chimw.RealIP\<close> assigns the address it finds in the headers, if any (\<open>real_ip\<close>), to the request's
  \<^verbatim>\<open>RemoteAddr\<close>.
\<close>

definition RealIP :: "'w server_env \<Rightarrow> 'w middleware" where
  "RealIP env next r = do {
     _ \<leftarrow> act (\<lambda>w. ((), case real_ip env r of None \<Rightarrow> w | Some ip \<Rightarrow> w\<lparr>RemoteAddr := ip\<rparr>));
     next r
   }"

text \<open>
  The router: the middleware in the order of the \<^verbatim>\<open>Use\<close> calls (the first is the outermost), and the
  routes it registers itself. The limiter of \<^verbatim>\<open>NewRateLimiter(100, time.Minute)\<close> is in the state
  (\<open>new_limiter\<close>).
\<close>

definition new_limiter :: RateLimiter where
  "new_limiter = NewRateLimiter 100 (60 * Second)"

definition router_middleware ::
  "'w server_env \<Rightarrow> Logger \<Rightarrow> FeatureFlags \<Rightarrow> 'w middleware list" where
  "router_middleware env logger fl =
     [RequestID_mw (uuid_New env), Recovery, Logging logger, RealIP env, Tracing (tracer env)]
     @ (if fl MetricsEnabled then [MetricsMiddleware] else [])
     @ (if fl RateLimitEnabled then [RateLimiter_Middleware] else [])"

definition router_routes :: "'w server_env \<Rightarrow> FeatureFlags \<Rightarrow> 'w route list" where
  "router_routes env fl =
     (if fl MetricsEnabled
      then [\<lparr>rt_method = None, rt_pattern = ''/metrics'', rt_handler = metrics_handler env\<rparr>]
      else [])"

definition router_ServeHTTP ::
  "'w server_env \<Rightarrow> Logger \<Rightarrow> FeatureFlags \<Rightarrow> 'w route list \<Rightarrow> 'w handler" where
  "router_ServeHTTP env logger fl routes =
     foldr (\<lambda>mw h. mw h) (router_middleware env logger fl)
       (dispatch env (router_routes env fl @ routes))"

subsection \<open>The server\<close>

record ServerConfig =
  Port :: int
  ReadTimeout_s :: duration
  WriteTimeout_s :: duration
  ShutdownTimeout_s :: duration

record 'w Server =
  Addr :: string
  Handler :: "'w handler"
  srv_ReadTimeout :: duration
  srv_WriteTimeout :: duration
  IdleTimeout :: duration

definition New :: "ServerConfig \<Rightarrow> 'w handler \<Rightarrow> 'w Server" where
  "New cfg router = \<lparr>Addr = '':'' @ Itoa (Port cfg), Handler = router,
     srv_ReadTimeout = ReadTimeout_s cfg, srv_WriteTimeout = WriteTimeout_s cfg,
     IdleTimeout = 60 * Second\<rparr>"

text \<open>
  \<open>Start\<close> and \<open>Shutdown\<close> around the listener of \<^verbatim>\<open>net/http\<close>, whose result is a parameter:
  \<open>closed\<close> tells \<^verbatim>\<open>http.ErrServerClosed\<close> from other errors.
\<close>

definition server_Start :: "(goerr \<Rightarrow> bool) \<Rightarrow> ('k, goerr option) io \<Rightarrow> ('k, goerr option) io" where
  "server_Start closed listen = do {
     err \<leftarrow> listen;
     ret (case err of
         None \<Rightarrow> None
       | Some e \<Rightarrow> if closed e then None else Some (ErrorfW ''http server error'' e))
   }"

definition server_Shutdown :: "('k, goerr option) io \<Rightarrow> ('k, goerr option) io" where
  "server_Shutdown shutdown = shutdown"

subsection \<open>Every request is answered\<close>

text \<open>The handlers of the libraries behave like the API's own.\<close>

definition good_env :: "'w server_env \<Rightarrow> bool" where
  "good_env env \<longleftrightarrow> good_handler (not_found env) \<and> good_handler (method_not_allowed env) \<and>
     good_handler (swagger_handler env) \<and> good_handler (metrics_handler env)"

lemma good_dispatch:
  assumes "good_env env" and "\<forall>rt \<in> set routes. good_handler (rt_handler rt)"
  shows "good_handler (dispatch env routes)"
proof -
  have "good_handler (rt_handler rt)" if "List.find P (filter Q routes) = Some rt" for P Q rt
    using that assms(2) nth_mem [of _ "filter Q routes"] by (fastforce simp: find_Some_iff)
  with assms(1) show ?thesis
    unfolding good_handler_def [of "dispatch env routes"] dispatch_def Let_def good_env_def
    by (auto split: option.split dest: good_handlerD)
qed

lemma good_RealIP: "good_handler h \<Longrightarrow> good_handler (RealIP env h)"
  unfolding good_handler_def RealIP_def wp_bind
  by (auto intro!: next_rule simp: good_handler_def split: option.split)

text \<open>The part of the stack inside the logging middleware.\<close>

definition inner_stack ::
  "'w server_env \<Rightarrow> FeatureFlags \<Rightarrow> 'w handler \<Rightarrow> 'w handler" where
  "inner_stack env fl h = RealIP env (Tracing (tracer env)
     ((if fl MetricsEnabled then MetricsMiddleware else id)
       ((if fl RateLimitEnabled then RateLimiter_Middleware else id) h)))"

lemma good_inner: "good_handler h \<Longrightarrow> good_handler (inner_stack env fl h)"
  by (simp add: inner_stack_def good_RealIP good_Tracing good_Metrics good_RateLimiter)

lemma router_unfold:
  "router_ServeHTTP env logger fl routes = RequestID_mw (uuid_New env) (Recovery (Logging logger
     (inner_stack env fl (dispatch env (router_routes env fl @ routes)))))"
  by (simp add: router_ServeHTTP_def router_middleware_def inner_stack_def)

text \<open>What the whole stack promises of a request.\<close>

definition answered ::
  "request \<Rightarrow> 'w http_world \<Rightarrow> completion \<Rightarrow> 'w http_world \<times> clock \<Rightarrow> bool" where
  "answered r w = (\<lambda>done (w', c'). done = Returned \<and>
     (\<exists>i. sent_headers (resp w') HeaderRequestID = Some i \<and>
        (HeaderGet r HeaderRequestID \<noteq> '''' \<longrightarrow> i = HeaderGet r HeaderRequestID)) \<and>
     (access_log w' = access_log w \<or> logged_as r (resp w') (access_log w) (access_log w')))"

lemma new_response_inv: "writer_inv 0 i (Set HeaderRequestID i new_response)"
  by (simp add: writer_inv_def Set_def new_response_def sent_headers_def)

lemma stack_answers:
  assumes "good_handler h" and "resp w = new_response"
  shows "wp (RequestID_mw uuid (Recovery (Logging logger h)) r) (answered r w) (w, c)"
proof -
  have main: "wp (Recovery (Logging logger h) (r\<lparr>Ctx := ctx\<rparr>)) (answered r w) (w1, c1)"
    if w1: "resp w1 = Set HeaderRequestID i new_response" "access_log w1 = access_log w"
      and i: "HeaderGet r HeaderRequestID \<noteq> '''' \<longrightarrow> i = HeaderGet r HeaderRequestID"
    for w1 c1 i ctx
  proof (rule Recovery_rule, rule Logging_rule [OF assms(1), where n = 0 and i = i], goal_cases)
    case 1
    then show ?case
      by (simp add: w1 new_response_def)
  next
    case 2
    then show ?case
      by (simp add: w1 new_response_inv)
  next
    case (3 w' c')
    with i w1(2) show ?case
      by (auto simp: answered_def writer_inv_def logged_as_def)
  next
    case (4 w' c')
    with i w1(2) response_inv(2) [of 0 i "resp w'"] show ?case
      by (auto simp: answered_def writer_inv_def)
  qed
  show ?thesis
    unfolding RequestID_mw_def wp_bind set_header_def
    by (auto simp: Let_def assms(2) intro!: wp_on_app_any main)
qed

subsection \<open>Properties\<close>

text \<open>An environment for the closed statements: exact patterns, plain error answers, no tracing.\<close>

definition sample_server :: "'w server_env" where
  "sample_server = \<lparr>chi_match = (=),
     not_found = (\<lambda>_. respond (writeError 404 ''NOT_FOUND'' '''' '''')),
     method_not_allowed = (\<lambda>_. respond (writeError 405 ''METHOD_NOT_ALLOWED'' '''' '''')),
     swagger_handler = (\<lambda>_. ret Returned), metrics_handler = (\<lambda>_. ret Returned),
     real_ip = (\<lambda>_. None), uuid_New = ret ''uuid'', tracer = Some (\<lambda>_. ret zero_trace)\<rparr>"

lemma good_sample_server: "good_env sample_server"
  by (simp add: good_env_def sample_server_def good_handler_def respond_def writeError_def response_inv)

definition api_routes ::
  "'w server_env \<Rightarrow> 'w MetadataService \<Rightarrow> 'w ReadyHandler \<Rightarrow> 'w route list" where
  "api_routes env svc h = RegisterRoutes env (post_ServeHTTP svc) (get_ServeHTTP svc)
     health_ServeHTTP (ready_ServeHTTP h)"

lemma good_api_routes:
  "good_env env \<Longrightarrow> \<forall>rt \<in> set (api_routes env svc h). good_handler (rt_handler rt)"
  by (simp add: api_routes_def RegisterRoutes_def good_post good_get good_health good_ready good_env_def)

text \<open>
  C19: Whatever a request is, the server answers it: no panic leaves the stack, and the response
  carries an \<^verbatim>\<open>X-Request-ID\<close> header, the client's own when the request had one. The access log gets one
  line for the request, with the status that was sent (or none, see the next property). Assumed is
  that the handlers of the libraries and of the API routes behave like well-formed handlers.
\<close>

theorem every_request_answered:
  assumes "good_env env" and "\<forall>rt \<in> set routes. good_handler (rt_handler rt)"
    and "resp w = new_response"
    and "m = router_ServeHTTP env logger fl routes r"
  shows "outcome m (w, c) = Returned \<and>
    (\<exists>i. sent_headers (resp (final m (w, c))) HeaderRequestID = Some i \<and>
       (HeaderGet r HeaderRequestID \<noteq> '''' \<longrightarrow> i = HeaderGet r HeaderRequestID)) \<and>
    (access_log (final m (w, c)) = access_log w \<or>
       logged_as r (resp (final m (w, c))) (access_log w) (access_log (final m (w, c))))"
proof -
  have "good_handler (dispatch env (router_routes env fl @ routes))"
    using assms(1,2) by (intro good_dispatch) (auto simp: router_routes_def good_env_def)
  from wpD [OF stack_answers [OF good_inner [OF this] assms(3)]] show ?thesis
    unfolding assms(4) router_unfold
    by (cases "run_state m (w, c)")
      (fastforce simp: answered_def outcome_def final_def router_unfold assms(4))
qed

theorem every_request_answered_witness:
  "outcome (router_ServeHTTP sample_server
      \<lparr>Level = LevelInfo, AddSource = False, Attrs = []\<rparr> (\<lambda>_. True)
      (api_routes sample_server
        (NewMetadataService mock_repository mock_producer mock_fetcher (\<lambda>_. False))
        \<lparr>repo_Ping = ret None, kafka_pinger = None\<rparr>)
      (sample_http ''http://a.com/'')) (new_http_world, int) = Returned"
  using every_request_answered [OF good_sample_server good_api_routes [OF good_sample_server] _ refl,
      of new_http_world]
  by simp

text \<open>
  A handler that panics before it writes is answered with status 500 and an error body with the
  request id, but no line of the access log is written: recovery is outside of the logging.
\<close>

theorem panic_answered_not_logged:
  assumes "\<And>r' w' c'. run_state (h r') (w', c') = (Panicked, (w', c'))"
    and "resp w = new_response"
    and "m = RequestID_mw uuid (Recovery (Logging logger h)) r"
    and "HeaderGet r HeaderRequestID = i" and "i \<noteq> ''''"
  shows "status_of (resp (final m (w, c))) = 500 \<and>
    (\<exists>e. written (resp (final m (w, c))) = [JError e] \<and> RequestID e = i) \<and>
    access_log (final m (w, c)) = access_log w"
  using assms(2-5)
  by (simp add: RequestID_mw_def Recovery_def Logging_def with_wrapper_def set_header_def final_def
      respond_def assms(1) recovery_response_def Write_def WriteHeader_def send_head_def Let_def
      new_response_def Set_def status_of_def)

theorem panic_answered_not_logged_witness:
  "status_of (resp (final (RequestID_mw (ret ''uuid'') (Recovery (Logging
       \<lparr>Level = LevelInfo, AddSource = False, Attrs = []\<rparr> (\<lambda>_. ret Panicked)))
     ((sample_http ''http://a.com/'')\<lparr>HeaderGet := \<lambda>_. ''id''\<rparr>)) (new_http_world, int))) = 500"
  using panic_answered_not_logged [of "\<lambda>_. ret Panicked" new_http_world _ "ret ''uuid''"
      "\<lparr>Level = LevelInfo, AddSource = False, Attrs = []\<rparr>"
      "(sample_http ''http://a.com/'')\<lparr>HeaderGet := \<lambda>_. ''id''\<rparr>" "''id''" int]
  by simp

text \<open>
  A request over the limit is answered with status 429 and \<^verbatim>\<open>Retry-After\<close>, and goes no further:
  neither the handler nor the application behind it sees it. The key is the remote address as it is,
  with its port, unless \<^verbatim>\<open>RealIP\<close> has replaced it.
\<close>

theorem over_limit_stops_request:
  assumes "sent_head (resp w) = None"
    and "run_state (allow (RemoteAddr w)) (limiter w, c) = (False, (rl, c'))"
    and "m = RateLimiter_Middleware h r"
  shows "app (final m (w, c)) = app w \<and> status_of (resp (final m (w, c))) = 429 \<and>
    sent_headers (resp (final m (w, c))) ''Retry-After'' = Some ''60''"
  using assms by (simp add: RateLimiter_Middleware_def final_def too_many_def Write_def
      WriteHeader_def send_head_def Let_def Set_def status_of_def sent_headers_def)

theorem over_limit_stops_request_witness:
  "status_of (resp (final (RateLimiter_Middleware (\<lambda>_. ret Panicked) (sample_http ''''))
     (new_http_world\<lparr>limiter := \<lparr>visitors = [''10.0.0.1:4000'' \<mapsto> \<lparr>tokens = 0, lastReset = 0\<rparr>],
        rate = 100, window = 60 * Second\<rparr>\<rparr>, int))) = 429"
proof -
  let ?rl = "\<lparr>visitors = [''10.0.0.1:4000'' \<mapsto> \<lparr>tokens = 0, lastReset = 0\<rparr>],
        rate = 100, window = 60 * Second\<rparr>"
  have "run_state (allow ''10.0.0.1:4000'') (?rl, int) = (False, (?rl, \<lambda>n. int (Suc n)))"
    by (simp add: allow_def)
  then show ?thesis
    using over_limit_stops_request [OF _ _ refl, of "new_http_world\<lparr>limiter := ?rl\<rparr>"
        int ?rl "\<lambda>n. int (Suc n)" "\<lambda>_. ret Panicked" "sample_http ''''"]
    by (simp add: new_http_world_def)
qed

text \<open>
  The route table, for patterns that match exactly: each method and path of the API reaches its
  handler, and nothing else does.
\<close>

theorem routes_reach_handlers:
  assumes "chi_match env = (=)" and "h = dispatch env (RegisterRoutes env post get health ready)"
  shows "h r = (if Path r = ''/v1/metadata'' \<and> Method r = ''POST'' then post r
    else if Path r = ''/v1/metadata'' \<and> Method r = ''GET'' then get r
    else if Path r = ''/health'' \<and> Method r = ''GET'' then health r
    else if Path r = ''/ready'' \<and> Method r = ''GET'' then ready r
    else if Path r = ''/swagger/*'' \<and> Method r = ''GET'' then swagger_handler env r
    else if Path r \<in> {''/v1/metadata'', ''/health'', ''/ready'', ''/swagger/*''}
      then method_not_allowed env r
    else not_found env r)"
  using assms by (auto simp: dispatch_def RegisterRoutes_def Let_def)

theorem routes_reach_handlers_witness:
  "dispatch sample_server (RegisterRoutes sample_server (\<lambda>_. ret Panicked) (\<lambda>_. ret Returned)
      health_ServeHTTP health_ServeHTTP) (sample_http '''') = (ret Returned :: (nat http_world, completion) io)"
  using routes_reach_handlers [OF _ refl, of "sample_server :: nat server_env" "\<lambda>_. ret Panicked"
      "\<lambda>_. ret Returned" health_ServeHTTP health_ServeHTTP "sample_http ''''"]
  by (simp add: sample_server_def sample_http_def)



end
