(* ===== verification/Swagger.thy ===== *)
theory Swagger
  imports Bodies Server
begin

section \<open>The documentation of the API (docs/swagger/docs.go)\<close>

text \<open>
  The OpenAPI document the API serves, as the JSON value its template renders to, and what it means
  that a response is documented: the document has the route, the method and the status, and the body
  conforms to the schema it names. The document is generated from comments at the handlers; the
  theorems compare it with what the handlers do.
\<close>

subsection \<open>The document\<close>

definition ref :: "string \<Rightarrow> json" where
  "ref name = JObject [(''$ref'', JString (''#/definitions/'' @ name))]"

definition typed :: "string \<Rightarrow> json" where
  "typed t = JObject [(''type'', JString t)]"

definition answer :: "string \<Rightarrow> string \<Rightarrow> json" where
  "answer description name = JObject [(''description'', JString description), (''schema'', ref name)]"

definition doc_health :: json where
  "doc_health = JObject [
      (''description'', JString ''Returns process liveness for container orchestration and smoke tests.''),
      (''produces'', JArray [JString ''application/json'']),
      (''tags'', JArray [JString ''system'']),
      (''summary'', JString ''Liveness probe''),
      (''responses'', JObject [(''200'', answer ''OK'' ''handlers.HealthResponse'')])]"

definition doc_ready :: json where
  "doc_ready = JObject [
      (''description'', JString ''Verifies that MongoDB and Kafka are reachable by the API service.''),
      (''produces'', JArray [JString ''application/json'']),
      (''tags'', JArray [JString ''system'']),
      (''summary'', JString ''Readiness probe''),
      (''responses'', JObject [
        (''200'', answer ''OK'' ''handlers.ReadyResponse''),
        (''503'', answer ''Service Unavailable'' ''handlers.ReadyResponse'')])]"

definition doc_get :: json where
  "doc_get = JObject [
      (''description'', JString ''Returns cached metadata when present. On cache miss, persists a pending record, dispatches async collection, and returns 202 immediately.''),
      (''produces'', JArray [JString ''application/json'']),
      (''tags'', JArray [JString ''metadata'']),
      (''summary'', JString ''Get metadata for a URL''),
      (''parameters'', JArray [JObject [
        (''type'', JString ''string''),
        (''description'', JString ''Absolute URL to look up''),
        (''name'', JString ''url''),
        (''in'', JString ''query''),
        (''required'', JBool True)]]),
      (''responses'', JObject [
        (''200'', answer ''OK'' ''db.MetadataRecord''),
        (''202'', answer ''Accepted'' ''handlers.PendingResponse''),
        (''400'', answer ''Bad Request'' ''apperrors.ErrorResponse''),
        (''500'', answer ''Internal Server Error'' ''apperrors.ErrorResponse'')])]"

definition doc_post :: json where
  "doc_post = JObject [
      (''description'', JString ''Validates a URL, stores a pending metadata record, and either fetches inline or dispatches async collection depending on feature flags.''),
      (''consumes'', JArray [JString ''application/json'']),
      (''produces'', JArray [JString ''application/json'']),
      (''tags'', JArray [JString ''metadata'']),
      (''summary'', JString ''Create or refresh metadata for a URL''),
      (''parameters'', JArray [JObject [
        (''description'', JString ''URL to inventory''),
        (''name'', JString ''request''),
        (''in'', JString ''body''),
        (''required'', JBool True),
        (''schema'', ref ''handlers.PostRequest'')]]),
      (''responses'', JObject [
        (''200'', answer ''OK'' ''db.MetadataRecord''),
        (''201'', answer ''Created'' ''db.MetadataRecord''),
        (''202'', answer ''Accepted'' ''db.MetadataRecord''),
        (''400'', answer ''Bad Request'' ''apperrors.ErrorResponse''),
        (''422'', answer ''Unprocessable Entity'' ''apperrors.ErrorResponse''),
        (''500'', answer ''Internal Server Error'' ''apperrors.ErrorResponse'')])]"

definition doc_ErrorResponse :: json where
  "doc_ErrorResponse = JObject [
      (''type'', JString ''object''),
      (''properties'', JObject [
        (''details'', typed ''string''),
        (''error'', typed ''string''),
        (''message'', typed ''string''),
        (''request_id'', typed ''string'')])]"

definition doc_CookieRecord :: json where
  "doc_CookieRecord = JObject [
      (''type'', JString ''object''),
      (''properties'', JObject [
        (''domain'', typed ''string''),
        (''http_only'', typed ''boolean''),
        (''name'', typed ''string''),
        (''path'', typed ''string''),
        (''secure'', typed ''boolean''),
        (''value'', typed ''string'')])]"

definition doc_MetadataRecord :: json where
  "doc_MetadataRecord = JObject [
      (''type'', JString ''object''),
      (''properties'', JObject [
        (''cookies'', JObject [(''type'', JString ''array''), (''items'', ref ''db.CookieRecord'')]),
        (''created_at'', typed ''string''),
        (''error'', typed ''string''),
        (''fetch_duration_ms'', typed ''integer''),
        (''fetched_at'', typed ''string''),
        (''headers'', JObject [
          (''type'', JString ''object''),
          (''additionalProperties'', JObject [(''type'', JString ''array''), (''items'', typed ''string'')])]),
        (''page_source'', typed ''string''),
        (''page_source_size_bytes'', typed ''integer''),
        (''retry_count'', typed ''integer''),
        (''schema_version'', typed ''integer''),
        (''status'', ref ''db.Status''),
        (''updated_at'', typed ''string''),
        (''url'', typed ''string''),
        (''url_hash'', typed ''string'')])]"

definition doc_Status :: json where
  "doc_Status = JObject [
      (''type'', JString ''string''),
      (''enum'', JArray [JString ''pending'', JString ''fetching'', JString ''ready'', JString ''failed'']),
      (''x-enum-varnames'', JArray [JString ''StatusPending'', JString ''StatusFetching'', JString ''StatusReady'', JString ''StatusFailed''])]"

definition doc_HealthResponse :: json where
  "doc_HealthResponse = JObject [
      (''type'', JString ''object''),
      (''properties'', JObject [(''status'', typed ''string''), (''timestamp'', typed ''string'')])]"

definition doc_PendingResponse :: json where
  "doc_PendingResponse = JObject [
      (''type'', JString ''object''),
      (''properties'', JObject [
        (''message'', typed ''string''),
        (''poll_after_seconds'', typed ''integer''),
        (''status'', typed ''string''),
        (''url'', typed ''string'')])]"

definition doc_PostRequest :: json where
  "doc_PostRequest = JObject [
      (''type'', JString ''object''),
      (''properties'', JObject [(''url'', typed ''string'')])]"

definition doc_ReadyResponse :: json where
  "doc_ReadyResponse = JObject [
      (''type'', JString ''object''),
      (''properties'', JObject [
        (''checks'', JObject [(''type'', JString ''object''), (''additionalProperties'', typed ''string'')]),
        (''status'', typed ''string'')])]"

text \<open>
  The template has holes for the fields of \<^verbatim>\<open>swag.Spec\<close>: the list of schemes is marshalled and the
  description escaped by functions of the library (\<open>marshal\<close>, \<open>escape\<close>), the others stand in the text
  as they are.
\<close>

record SwagSpec =
  Version_g :: string
  Host_g :: string
  BasePath_g :: string
  Schemes_g :: "string list"
  Title_g :: string
  Description_g :: string

definition SwaggerInfo :: SwagSpec where
  "SwaggerInfo = \<lparr>Version_g = ''0.1.0'', Host_g = [], BasePath_g = ''/'', Schemes_g = [''http''],
     Title_g = ''Metadata Inventory API'',
     Description_g = ''HTTP metadata capture service with synchronous and asynchronous inventory flows.''\<rparr>"

definition doc_paths :: "(string \<times> json) list" where
  "doc_paths = [
     (''/health'', JObject [(''get'', doc_health)]),
     (''/ready'', JObject [(''get'', doc_ready)]),
     (''/v1/metadata'', JObject [(''get'', doc_get), (''post'', doc_post)])]"

definition doc_definitions :: "(string \<times> json) list" where
  "doc_definitions = [
     (''apperrors.ErrorResponse'', doc_ErrorResponse),
     (''db.CookieRecord'', doc_CookieRecord),
     (''db.MetadataRecord'', doc_MetadataRecord),
     (''db.Status'', doc_Status),
     (''handlers.HealthResponse'', doc_HealthResponse),
     (''handlers.PendingResponse'', doc_PendingResponse),
     (''handlers.PostRequest'', doc_PostRequest),
     (''handlers.ReadyResponse'', doc_ReadyResponse)]"

definition docTemplate :: "(string list \<Rightarrow> json) \<Rightarrow> (string \<Rightarrow> string) \<Rightarrow> SwagSpec \<Rightarrow> json" where
  "docTemplate marshal escape sp = JObject [
     (''schemes'', marshal (Schemes_g sp)),
     (''swagger'', JString ''2.0''),
     (''info'', JObject [
       (''description'', JString (escape (Description_g sp))),
       (''title'', JString (Title_g sp)),
       (''contact'', JObject []),
       (''version'', JString (Version_g sp))]),
     (''host'', JString (Host_g sp)),
     (''basePath'', JString (BasePath_g sp)),
     (''paths'', JObject doc_paths),
     (''definitions'', JObject doc_definitions)]"

text \<open>What \<^verbatim>\<open>run\<close> of the API assigns before it starts.\<close>

definition swagger_info :: "Config \<Rightarrow> SwagSpec" where
  "swagger_info cfg = SwaggerInfo\<lparr>Title_g := ''Metadata Inventory API'',
     Description_g := ''HTTP metadata capture service with synchronous and asynchronous inventory flows.'',
     Version_g := ServiceVersion cfg, Host_g := ''localhost:'' @ Itoa (HTTPPort cfg),
     BasePath_g := ''/'', Schemes_g := [''http'']\<rparr>"

subsection \<open>What it promises\<close>

definition get_member :: "string \<Rightarrow> json \<Rightarrow> json option" where
  "get_member k v = (case v of JObject ms \<Rightarrow> map_of ms k | _ \<Rightarrow> None)"

definition get_path :: "string list \<Rightarrow> json \<Rightarrow> json option" where
  "get_path ks v = foldl (\<lambda>acc k. Option.bind acc (get_member k)) (Some v) ks"

text \<open>The operations: a path and a method (in lower case).\<close>

definition documented_operations :: "json \<Rightarrow> (string \<times> string) list" where
  "documented_operations doc =
     (case get_member ''paths'' doc of
        Some (JObject ps) \<Rightarrow>
          concat (map (\<lambda>(path, ops). case ops of JObject ms \<Rightarrow> map (\<lambda>(m, _). (path, m)) ms | _ \<Rightarrow> []) ps)
      | _ \<Rightarrow> [])"

definition documented_schema :: "json \<Rightarrow> string \<Rightarrow> string \<Rightarrow> int \<Rightarrow> json option" where
  "documented_schema doc path method status =
     get_path [''paths'', path, method, ''responses'', Itoa status, ''schema''] doc"

text \<open>
  Conformance to a schema. The documented properties are all of the members an object may have;
  references are followed at most \<open>n\<close> deep, which the acyclic definitions need three times.
\<close>

fun conforms :: "nat \<Rightarrow> (string \<rightharpoonup> json) \<Rightarrow> json \<Rightarrow> json \<Rightarrow> bool" where
  "conforms 0 defs s v = False"
| "conforms (Suc n) defs s v =
     (case get_member ''$ref'' s of
        Some (JString r) \<Rightarrow>
          (case defs (drop (length ''#/definitions/'') r) of None \<Rightarrow> False | Some s' \<Rightarrow> conforms n defs s' v)
      | _ \<Rightarrow>
          (case get_member ''type'' s of
             Some (JString t) \<Rightarrow>
               (if t = ''string'' then
                  (case v of
                     JString raw \<Rightarrow>
                       (case get_member ''enum'' s of Some (JArray vs) \<Rightarrow> v \<in> set vs | _ \<Rightarrow> True)
                   | _ \<Rightarrow> False)
                else if t = ''integer'' then
                  (case v of JNumber i \<Rightarrow> list_all (\<lambda>c. is_digit c \<or> c = CHR ''-'') i | _ \<Rightarrow> False)
                else if t = ''boolean'' then (case v of JBool _ \<Rightarrow> True | _ \<Rightarrow> False)
                else if t = ''array'' then
                  (case (v, get_member ''items'' s) of
                     (JArray vs, Some s') \<Rightarrow> list_all (conforms n defs s') vs
                   | _ \<Rightarrow> False)
                else if t = ''object'' then
                  (case (v, get_member ''properties'' s, get_member ''additionalProperties'' s) of
                     (JObject ms, Some (JObject ps), _) \<Rightarrow>
                       list_all (\<lambda>(k, x). case map_of ps k of None \<Rightarrow> False | Some s' \<Rightarrow> conforms n defs s' x) ms
                   | (JObject ms, _, Some s') \<Rightarrow> list_all (\<lambda>(k, x). conforms n defs s' x) ms
                   | _ \<Rightarrow> False)
                else False)
           | _ \<Rightarrow> False))"

definition schema_depth :: nat where
  "schema_depth = 8"

text \<open>
  A response is documented: for its route, method and status there is a schema, and the body it
  writes (if the value can be encoded at all) conforms to it.
\<close>

definition documented :: "json \<Rightarrow> string \<Rightarrow> string \<Rightarrow> ResponseWriter \<Rightarrow> bool" where
  "documented doc path method rw =
     (case (documented_schema doc path method (status_of rw), get_member ''definitions'' doc, written rw) of
        (Some s, Some (JObject defs), [b]) \<Rightarrow>
          (case encode_json b of None \<Rightarrow> True | Some j \<Rightarrow> conforms schema_depth (map_of defs) s j)
      | _ \<Rightarrow> False)"

subsection \<open>Conformance\<close>

lemma get_member_Object [simp]: "get_member k (JObject ms) = map_of ms k"
  by (simp add: get_member_def)

lemma conforms_ref:
  "map_of defs name = Some s \<Longrightarrow> conforms (Suc n) (map_of defs) (ref name) v \<longleftrightarrow> conforms n (map_of defs) s v"
  by (simp add: ref_def)

lemma Itoa_chars: "list_all (\<lambda>c. is_digit c \<or> c = CHR ''-'') (Itoa i)"
  using nat_digits_all [of "nat i"] nat_digits_all [of "nat (- i)"]
  by (auto simp: Itoa_def list_all_iff)

lemma conforms_typed:
  "conforms (Suc n) defs (typed ''string'') (JString raw)"
  "conforms (Suc n) defs (typed ''string'') (jtext s)"
  "conforms (Suc n) defs (typed ''string'') (jtime t)"
  "conforms (Suc n) defs (typed ''integer'') (jint i)"
  "conforms (Suc n) defs (typed ''boolean'') (JBool b)"
  by (simp_all add: typed_def jtext_def jtime_def jint_def Itoa_chars)

lemma conforms_array:
  "conforms (Suc n) defs (JObject [(''type'', JString ''array''), (''items'', s)]) (JArray vs) \<longleftrightarrow>
     list_all (conforms n defs s) vs"
  by simp

lemma conforms_object:
  "conforms (Suc n) defs (JObject [(''type'', JString ''object''), (''properties'', JObject ps)]) (JObject ms) \<longleftrightarrow>
     list_all (\<lambda>(k, x). case map_of ps k of None \<Rightarrow> False | Some s' \<Rightarrow> conforms n defs s' x) ms"
  by simp

lemma conforms_map:
  "conforms (Suc n) defs (JObject [(''type'', JString ''object''), (''additionalProperties'', s)]) (encode_map f m) \<longleftrightarrow>
     list_all (\<lambda>k. conforms n defs s (f (the (m k)))) (sorted_list_of_set (dom m))"
  by (simp add: encode_map_def list_all_iff)

lemmas conforms_rules = conforms_ref conforms_typed conforms_array conforms_object conforms_map

lemma list_all_omitempty [simp]: "list_all P (omitempty b k v) \<longleftrightarrow> b \<or> P (k, v)"
  by (simp add: omitempty_def)

lemma list_allI: "(\<And>x. P x) \<Longrightarrow> list_all P xs"
  by (simp add: list_all_iff)

lemma doc_lookups:
  "map_of doc_definitions ''apperrors.ErrorResponse'' = Some doc_ErrorResponse"
  "map_of doc_definitions ''db.CookieRecord'' = Some doc_CookieRecord"
  "map_of doc_definitions ''db.MetadataRecord'' = Some doc_MetadataRecord"
  "map_of doc_definitions ''db.Status'' = Some doc_Status"
  "map_of doc_definitions ''handlers.HealthResponse'' = Some doc_HealthResponse"
  "map_of doc_definitions ''handlers.PendingResponse'' = Some doc_PendingResponse"
  "map_of doc_definitions ''handlers.ReadyResponse'' = Some doc_ReadyResponse"
  by (simp_all add: doc_definitions_def)

lemma conforms_cookie:
  "conforms (Suc (Suc (Suc n))) (map_of doc_definitions) (ref ''db.CookieRecord'') (encode_cookie c)"
  by (simp add: conforms_rules doc_lookups doc_CookieRecord_def encode_cookie_def del: conforms.simps)

lemma conforms_status:
  assumes "st \<in> {''pending'', ''fetching'', ''ready'', ''failed''}"
  shows "conforms (Suc n) defs doc_Status (jtext st)"
proof -
  have "json_escape ''pending'' = ''pending''" "json_escape ''fetching'' = ''fetching''"
    "json_escape ''ready'' = ''ready''" "json_escape ''failed'' = ''failed''"
    by code_simp+
  then show ?thesis
    using assms by (auto simp: doc_Status_def jtext_def)
qed

lemma conforms_record:
  assumes "Status r \<in> {''pending'', ''fetching'', ''ready'', ''failed''}"
  shows "conforms (Suc (Suc (Suc (Suc (Suc (Suc n)))))) (map_of doc_definitions) (ref ''db.MetadataRecord'')
    (JObject (record_members r))"
  by (simp add: conforms_rules doc_lookups doc_MetadataRecord_def record_members_def
      conforms_status [OF assms] conforms_cookie list_allI list.pred_map comp_def del: conforms.simps)

lemma conforms_others:
  "conforms (Suc (Suc (Suc n))) (map_of doc_definitions) (ref ''apperrors.ErrorResponse'') (encode_error e)"
  "conforms (Suc (Suc (Suc n))) (map_of doc_definitions) (ref ''handlers.PendingResponse'') (encode_pending p)"
  "conforms (Suc (Suc (Suc n))) (map_of doc_definitions) (ref ''handlers.HealthResponse'') (encode_health h)"
  "conforms (Suc (Suc (Suc (Suc n)))) (map_of doc_definitions) (ref ''handlers.ReadyResponse'') (encode_ready y)"
  by (simp_all add: conforms_rules doc_lookups doc_ErrorResponse_def doc_PendingResponse_def doc_HealthResponse_def
      doc_ReadyResponse_def encode_error_def encode_pending_def encode_health_def encode_ready_def list_allI
      del: conforms.simps)

lemma documented_schemas:
  "documented_schema (docTemplate m e sp) ''/health'' ''get'' 200 = Some (ref ''handlers.HealthResponse'')"
  "documented_schema (docTemplate m e sp) ''/ready'' ''get'' 200 = Some (ref ''handlers.ReadyResponse'')"
  "documented_schema (docTemplate m e sp) ''/ready'' ''get'' 503 = Some (ref ''handlers.ReadyResponse'')"
  "documented_schema (docTemplate m e sp) ''/v1/metadata'' ''get'' 200 = Some (ref ''db.MetadataRecord'')"
  "documented_schema (docTemplate m e sp) ''/v1/metadata'' ''get'' 202 = Some (ref ''handlers.PendingResponse'')"
  "documented_schema (docTemplate m e sp) ''/v1/metadata'' ''get'' 400 = Some (ref ''apperrors.ErrorResponse'')"
  "documented_schema (docTemplate m e sp) ''/v1/metadata'' ''get'' 500 = Some (ref ''apperrors.ErrorResponse'')"
  "documented_schema (docTemplate m e sp) ''/v1/metadata'' ''post'' 200 = Some (ref ''db.MetadataRecord'')"
  "documented_schema (docTemplate m e sp) ''/v1/metadata'' ''post'' 201 = Some (ref ''db.MetadataRecord'')"
  "documented_schema (docTemplate m e sp) ''/v1/metadata'' ''post'' 202 = Some (ref ''db.MetadataRecord'')"
  "documented_schema (docTemplate m e sp) ''/v1/metadata'' ''post'' 400 = Some (ref ''apperrors.ErrorResponse'')"
  "documented_schema (docTemplate m e sp) ''/v1/metadata'' ''post'' 422 = Some (ref ''apperrors.ErrorResponse'')"
  "documented_schema (docTemplate m e sp) ''/v1/metadata'' ''post'' 500 = Some (ref ''apperrors.ErrorResponse'')"
  by code_simp+

lemma documentedI:
  assumes "documented_schema (docTemplate m e sp) path method code = Some s"
    and "status_of rw = code" and "written rw = [b]"
    and "\<And>j. encode_json b = Some j \<Longrightarrow> conforms schema_depth (map_of doc_definitions) s j"
  shows "documented (docTemplate m e sp) path method rw"
  using assms by (auto simp: documented_def docTemplate_def split: option.split)

lemma schema_depth_Suc: "schema_depth = Suc (Suc (Suc (Suc (Suc (Suc 2)))))" "2 = Suc (Suc 0)"
  by (simp_all add: schema_depth_def)

subsection \<open>The responses are documented\<close>

lemma documented_error:
  assumes "documented_schema (docTemplate m e sp) path method code = Some (ref ''apperrors.ErrorResponse'')"
    and "status_of rw = code" and "written rw = [JError b]"
  shows "documented (docTemplate m e sp) path method rw"
  by (rule documentedI [OF assms]) (simp add: schema_depth_Suc conforms_others del: conforms.simps)

lemma documented_record:
  assumes "documented_schema (docTemplate m e sp) path method code = Some (ref ''db.MetadataRecord'')"
    and "status_of rw = code" and "written rw = [JRecord (Some r)]"
    and "Status r \<in> {StatusPending, StatusFetching, StatusReady}"
  shows "documented (docTemplate m e sp) path method rw"
  by (rule documentedI [OF assms(1-3)])
    (use conforms_record [of r] assms(4) in \<open>auto simp: schema_depth_Suc encode_record_def status_defs
       simp del: conforms.simps split: if_splits\<close>)

lemma writeJSON_fresh:
  "sent_head rw = None \<Longrightarrow> written rw = [] \<Longrightarrow>
     status_of (writeJSON code b rw) = code \<and> written (writeJSON code b rw) = [b]"
  by simp

lemma post_documented:
  assumes "submit_spec wire fl good ctx url t res t'" and "sent_head rw = None" and "written rw = []"
  shows "documented (docTemplate m e sp) ''/v1/metadata'' ''post'' (post_response requestID res rw)"
proof (cases res)
  case (Inl err)
  with assms(1) have "error_response err \<in> {(422, ''FETCH_FAILED''), (500, ''DATABASE_ERROR''), (500, ''QUEUE_ERROR'')}"
    using submit_spec_errors by blast
  moreover obtain b where b: "written (handleServiceError err requestID rw) = [JError b]"
      "(status_of (handleServiceError err requestID rw), ErrorCode b) = error_response err"
    using handleServiceError_simps [OF assms(2), of err requestID] assms(3) by auto
  ultimately consider "status_of (handleServiceError err requestID rw) = 422"
    | "status_of (handleServiceError err requestID rw) = 500"
    by auto
  then show ?thesis
    by cases (simp_all add: Inl post_response_def documented_error [OF documented_schemas(12) _ b(1)]
        documented_error [OF documented_schemas(13) _ b(1)])
next
  case (Inr p)
  obtain rec isNew where p: "p = (rec, isNew)"
    by (cases p)
  from assms(1) obtain r where r: "rec = Some r" "Status r \<in> {StatusPending, StatusFetching, StatusReady}"
    unfolding Inr p by (cases rule: submit_spec.cases) (auto simp: in_progress_def dest: status_of_entry)
  show ?thesis
    using documented_record [OF documented_schemas(8) _ _ r(2)] documented_record [OF documented_schemas(9) _ _ r(2)]
      documented_record [OF documented_schemas(10) _ _ r(2)] assms(2,3)
    by (simp add: Inr p r(1) post_response_def)
qed

lemma get_documented:
  assumes "get_spec wire ctx url t res t'" and "sent_head rw = None" and "written rw = []"
  shows "documented (docTemplate m e sp) ''/v1/metadata'' ''get'' (get_response requestID u res rw)"
proof (cases res)
  case (Inl err)
  with assms(1) have "error_response err \<in> {(500, ''DATABASE_ERROR''), (500, ''QUEUE_ERROR'')}"
    using get_spec_errors by blast
  moreover obtain b where b: "written (handleServiceError err requestID rw) = [JError b]"
      "(status_of (handleServiceError err requestID rw), ErrorCode b) = error_response err"
    using handleServiceError_simps [OF assms(2), of err requestID] assms(3) by auto
  ultimately have "status_of (handleServiceError err requestID rw) = 500"
    by auto
  then show ?thesis
    by (simp add: Inl get_response_def documented_error [OF documented_schemas(7) _ b(1)])
next
  case (Inr p)
  from assms(1) consider r where "p = (Some r, False)" "Status r = StatusReady" | "p = (None, True)"
    unfolding Inr by (cases rule: get_spec.cases) (auto dest: status_of_entry)
  then show ?thesis
  proof cases
    case (1 r)
    with documented_record [OF documented_schemas(4), of _ r] assms(2,3) show ?thesis
      by (simp add: Inr get_response_def)
  next
    case 2
    show ?thesis
      by (rule documentedI [OF documented_schemas(5)])
        (use 2 assms(2,3) in \<open>auto simp: Inr get_response_def schema_depth_Suc conforms_others simp del: conforms.simps\<close>)
  qed
qed

lemma refused_documented:
  assumes "sent_head rw = None" and "written rw = []"
  shows "documented (docTemplate m e sp) ''/v1/metadata'' ''post'' (writeError 400 code msg i rw)"
    and "documented (docTemplate m e sp) ''/v1/metadata'' ''get'' (writeError 400 code msg i rw)"
  using assms documented_error [OF documented_schemas(11)] documented_error [OF documented_schemas(6)]
  by (simp_all add: writeError_def)

text \<open>Handler by handler.\<close>

lemma lower_methods: "ToLower ''GET'' = ''get''" "ToLower ''POST'' = ''post''"
  by code_simp+

lemma health_documented:
  assumes "sent_head (resp w) = None" and "written (resp w) = []"
  shows "documented (docTemplate m e sp) ''/health'' ''get'' (resp (final (health_ServeHTTP r) (w, c)))"
  by (rule documentedI [OF documented_schemas(1)])
    (use assms in \<open>auto simp: health_ServeHTTP_def final_def schema_depth_Suc conforms_others simp del: conforms.simps\<close>)

lemma ready_response_documented:
  assumes "sent_head rw = None" and "written rw = []"
  shows "documented (docTemplate m e sp) ''/ready'' ''get'' (ready_response mongo kafka rw)"
proof (cases "mongo = None \<and> \<not> is_some_and (\<lambda>err. err \<noteq> None) kafka")
  case True
  show ?thesis
    by (rule documentedI [OF documented_schemas(2)])
      (use True assms in \<open>auto simp: ready_response_def Let_def schema_depth_Suc conforms_others simp del: conforms.simps\<close>)
next
  case False
  show ?thesis
    by (rule documentedI [OF documented_schemas(3)])
      (use False assms in \<open>auto simp: ready_response_def Let_def schema_depth_Suc conforms_others simp del: conforms.simps\<close>)
qed

lemma ready_documented:
  assumes "sent_head (resp w) = None" and "written (resp w) = []"
  shows "documented (docTemplate m e sp) ''/ready'' ''get'' (resp (final (ready_ServeHTTP h r) (w, c)))"
proof -
  have "\<exists>mongo kafka. resp (final (ready_ServeHTTP h r) (w, c)) = ready_response mongo kafka (resp w)"
    by (auto simp: ready_ServeHTTP_def final_def split: option.split prod.split)
  with ready_response_documented [OF assms] show ?thesis
    by auto
qed

lemma post_handler_documented:
  assumes "metadata_service R view urls invar P sent wire F good" and "invar (repo_st (app w))"
    and "case DecodePost (Body r) of None \<Rightarrow> True | Some req \<Rightarrow> URL_post req \<in> urls"
    and "sent_head (resp w) = None" and "written (resp w) = []"
  shows "documented (docTemplate m e sp) ''/v1/metadata'' ''post''
    (resp (final (post_ServeHTTP (NewMetadataService R P F fl) r) (w, c)))"
proof (cases "case DecodePost (Body r) of None \<Rightarrow> True | Some req \<Rightarrow> validateURL (URL_post req) \<noteq> None")
  case True
  then obtain code msg where "resp (final (post_ServeHTTP (NewMetadataService R P F fl) r) (w, c)) =
      writeError 400 code msg (RequestIDFromContext (Ctx r)) (resp w)"
    using refused_run(2) by blast
  with refused_documented(1) [OF assms(4,5)] show ?thesis
    by simp
next
  case False
  then obtain url where "DecodePost (Body r) = Some \<lparr>URL_post = url\<rparr>" "validateURL url = None" "url \<in> urls"
    using assms(3) by (auto split: option.splits) (metis PostRequest.surjective old.unit.exhaust)
  then obtain res s' where "submit_spec wire fl good (Ctx r) url (view (repo_st (app w)), sent (prod_st (app w))) res
       (view (repo_st s'), sent (prod_st s'))"
    and "final (post_ServeHTTP (NewMetadataService R P F fl) r) (w, c) =
      w\<lparr>app := s', resp := post_response (RequestIDFromContext (Ctx r)) res (resp w)\<rparr>"
    using POST_runs [OF assms(1,2)] by metis
  with post_documented [OF _ assms(4,5)] show ?thesis
    by simp
qed

lemma get_handler_documented:
  assumes "metadata_service R view urls invar P sent wire F good" and "invar (repo_st (app w))"
    and "Query_Get (RawQuery r) ''url'' \<in> urls"
    and "sent_head (resp w) = None" and "written (resp w) = []"
  shows "documented (docTemplate m e sp) ''/v1/metadata'' ''get''
    (resp (final (get_ServeHTTP (NewMetadataService R P F fl) r) (w, c)))"
proof (cases "validateURL (Query_Get (RawQuery r) ''url'') = None")
  case False
  then obtain code msg where "resp (final (get_ServeHTTP (NewMetadataService R P F fl) r) (w, c)) =
      writeError 400 code msg (RequestIDFromContext (Ctx r)) (resp w)"
    using refused_run(2) by blast
  with refused_documented(2) [OF assms(4,5)] show ?thesis
    by simp
next
  case True
  obtain res s' where "get_spec wire (Ctx r) (Query_Get (RawQuery r) ''url'')
       (view (repo_st (app w)), sent (prod_st (app w))) res (view (repo_st s'), sent (prod_st s'))"
    and "final (get_ServeHTTP (NewMetadataService R P F fl) r) (w, c) =
      w\<lparr>app := s', resp := get_response (RequestIDFromContext (Ctx r)) (Query_Get (RawQuery r) ''url'') res (resp w)\<rparr>"
    using GET_runs [OF assms(1-3) refl True] by metis
  with get_documented [OF _ assms(4,5)] show ?thesis
    by simp
qed

subsection \<open>Properties\<close>


text \<open>
  Every answer of a registered handler is documented: over every repository, producer and fetcher
  that keep their contracts, whatever the request is, the status of the response is listed for the
  route and the method, and the body conforms to the schema listed with it. So the status the handlers
  have code for but the documentation has no entry for (409) never occurs.
\<close>

theorem answers_documented:
  assumes "metadata_service R view urls invar P sent wire F good" and "invar (repo_st (app w))"
    and "case DecodePost (Body r) of None \<Rightarrow> True | Some req \<Rightarrow> URL_post req \<in> urls"
    and "Query_Get (RawQuery r) ''url'' \<in> urls"
    and "sent_head (resp w) = None" and "written (resp w) = []"
    and "rt \<in> set (api_routes env (NewMetadataService R P F fl) h)" and "rt_pattern rt \<noteq> ''/swagger/*''"
  shows "documented (docTemplate marshal escape sp) (rt_pattern rt) (ToLower (the (rt_method rt)))
    (resp (final (rt_handler rt r) (w, c)))"
proof -
  let ?svc = "NewMetadataService R P F fl"
  consider "rt = \<lparr>rt_method = Some ''GET'', rt_pattern = ''/health'', rt_handler = health_ServeHTTP\<rparr>"
    | "rt = \<lparr>rt_method = Some ''GET'', rt_pattern = ''/ready'', rt_handler = ready_ServeHTTP h\<rparr>"
    | "rt = \<lparr>rt_method = Some ''POST'', rt_pattern = ''/v1/metadata'', rt_handler = post_ServeHTTP ?svc\<rparr>"
    | "rt = \<lparr>rt_method = Some ''GET'', rt_pattern = ''/v1/metadata'', rt_handler = get_ServeHTTP ?svc\<rparr>"
    using assms(7,8) by (auto simp: api_routes_def RegisterRoutes_def)
  then show ?thesis
    using health_documented [OF assms(5,6), of marshal escape sp r c]
      ready_documented [OF assms(5,6), of marshal escape sp h r c]
      post_handler_documented [OF assms(1-3,5,6), of marshal escape sp fl c]
      get_handler_documented [OF assms(1,2,4-6), of marshal escape sp fl c] lower_methods
    by cases (simp_all del: ToLower.simps)
qed


theorem answers_documented_witness:
  "documented (docTemplate (\<lambda>_. JNull) id SwaggerInfo) ''/v1/metadata'' ''get''
    (resp (final (get_ServeHTTP (NewMetadataService mock_repository mock_producer mock_fetcher (\<lambda>_. False))
       (sample_http ''http://a.com/'')) (new_http_world, int)))"
  using answers_documented [OF mocks.metadata_service_axioms, where w = new_http_world
      and r = "sample_http ''http://a.com/''" and c = int and fl = "\<lambda>_. False" and env = sample_server
      and h = "\<lparr>repo_Ping = ret None, kafka_pinger = None\<rparr>"
      and marshal = "\<lambda>_. JNull" and escape = id and sp = SwaggerInfo
      and rt = "\<lparr>rt_method = Some ''GET'', rt_pattern = ''/v1/metadata'', rt_handler =
        get_ServeHTTP (NewMetadataService mock_repository mock_producer mock_fetcher (\<lambda>_. False))\<rparr>"]
    lower_methods
  by (simp add: api_routes_def RegisterRoutes_def split: option.split del: ToLower.simps)

end
