(* ===== verification/Mains.thy ===== *)
theory Mains
  imports Config
begin

section \<open>Start-up and shut-down of the two processes (api/main.go, worker/main.go)\<close>

text \<open>
  The two \<open>run\<close> functions as the traces of what they open, start and close, for every outcome of the
  stages: how loading, connecting and serving end is a parameter, one record per process. Deferred
  calls run last-in first-out when \<open>run\<close> returns.
\<close>

datatype action =
    OpenTracer | CloseTracer
  | OpenMongo | CloseMongo
  | OpenProducer | CloseProducer
  | OpenMetricsServer | CloseMetricsServer
  | OpenConsumer | CloseConsumer
  | InitRepository
  | StartServer | ShutdownServer
  | StartWorker | WorkerReturned

text \<open>What \<^verbatim>\<open>select\<close> in \<open>run\<close> sees first: the goroutine's result, or the signal.\<close>

datatype run_event = Finished "goerr option" | Signal

subsection \<open>The API\<close>

text \<open>
  \<^verbatim>\<open>SetupTracer\<close> returns a tracer, a shutdown function (the flag tells whether there is one) and an
  error: the no-op tracer and a shutdown that does nothing when tracing is off, nil and nil beside an
  error, the provider's tracer and shutdown otherwise.
\<close>

definition SetupTracer ::
  "bool \<Rightarrow> goerr option \<Rightarrow> goerr option \<Rightarrow> 't \<Rightarrow> 't \<Rightarrow> 't option \<times> bool \<times> goerr option" where
  "SetupTracer enabled exporter_err resource_err noop_tracer otel_tracer =
     (if \<not> enabled then (Some noop_tracer, True, None)
      else case exporter_err of
        Some err \<Rightarrow> (None, False, Some err)
      | None \<Rightarrow>
          (case resource_err of
             Some err \<Rightarrow> (None, False, Some err)
           | None \<Rightarrow> (Some otel_tracer, True, None)))"

record api_stages =
  a_config :: "goerr + Config"
  a_exporter :: "goerr option"
  a_resource :: "goerr option"
  a_mongo :: "goerr option"
  a_repo :: "goerr option"
  a_event :: run_event
  a_shutdown :: "goerr option"

text \<open>\<^verbatim>\<open>fmt.Errorf("server error: %w", err)\<close> is an error even when \<open>err\<close> is nil.\<close>

definition server_error :: "goerr option \<Rightarrow> goerr" where
  "server_error err = (case err of
     Some e \<Rightarrow> ErrorfW ''server error'' e | None \<Rightarrow> Opaque ''server error: %!w(<nil>)'')"

definition api_serve :: "api_stages \<Rightarrow> action list \<times> goerr option" where
  "api_serve st =
     (case a_event st of
        Finished err \<Rightarrow> ([StartServer], Some (server_error err))
      | Signal \<Rightarrow>
          ([StartServer, ShutdownServer], map_option (ErrorfW ''server shutdown'') (a_shutdown st)))"

text \<open>\<open>bracket open rest close\<close>: what follows an acquisition, and the deferred release.\<close>

definition bracket ::
  "action \<Rightarrow> action list \<times> goerr option \<Rightarrow> action \<Rightarrow> action list \<times> goerr option" where
  "bracket open rest close = (open # fst rest @ [close], snd rest)"

definition api_with_mongo :: "api_stages \<Rightarrow> action list \<times> goerr option" where
  "api_with_mongo st =
     (case a_repo st of
        Some e \<Rightarrow> ([InitRepository], Some (ErrorfW ''init repository'' e))
      | None \<Rightarrow>
          (case bracket OpenProducer (api_serve st) CloseProducer of
             (tr, err) \<Rightarrow> (InitRepository # tr, err)))"

definition api_connect :: "api_stages \<Rightarrow> action list \<times> goerr option" where
  "api_connect st =
     (case a_mongo st of
        Some e \<Rightarrow> ([], Some (ErrorfW ''connect mongo'' e))
      | None \<Rightarrow> bracket OpenMongo (api_with_mongo st) CloseMongo)"

text \<open>A tracer that fails to start is only logged; its shutdown function is then nil.\<close>

definition api_run :: "api_stages \<Rightarrow> action list \<times> goerr option" where
  "api_run st =
     (case a_config st of
        Inl e \<Rightarrow> ([], Some (ErrorfW ''load config'' e))
      | Inr cfg \<Rightarrow>
          (case SetupTracer (IsEnabled (NewEnvFlags cfg) TracingEnabled) (a_exporter st) (a_resource st)
               () () of
             (_, shutdown, _) \<Rightarrow>
               if shutdown then bracket OpenTracer (api_connect st) CloseTracer
               else api_connect st))"

subsection \<open>The worker\<close>

record worker_stages =
  w_config :: "goerr + Config"
  w_mongo :: "goerr option"
  w_repo_init :: "goerr option"
  w_event :: run_event

text \<open>
  After \<open>Start\<close> the function closes by hand, not by defer: an error of the worker returns before
  that. A signal does not wait for the goroutine.
\<close>

definition worker_serve :: "worker_stages \<Rightarrow> action list \<times> goerr option" where
  "worker_serve st =
     (case w_event st of
        Finished (Some e) \<Rightarrow> ([OpenConsumer, StartWorker, WorkerReturned], Some (ErrorfW ''worker error'' e))
      | Finished None \<Rightarrow>
          ([OpenConsumer, StartWorker, WorkerReturned, CloseMetricsServer, CloseConsumer], None)
      | Signal \<Rightarrow> ([OpenConsumer, StartWorker, CloseMetricsServer, CloseConsumer], None))"

definition worker_with_mongo :: "worker_stages \<Rightarrow> action list \<times> goerr option" where
  "worker_with_mongo st =
     (case w_repo_init st of
        Some e \<Rightarrow> ([InitRepository], Some (ErrorfW ''init repository'' e))
      | None \<Rightarrow> (case worker_serve st of (tr, err) \<Rightarrow> (InitRepository # tr, err)))"

definition worker_run :: "worker_stages \<Rightarrow> action list \<times> goerr option" where
  "worker_run st =
     (case w_config st of
        Inl e \<Rightarrow> ([], Some (ErrorfW ''load config'' e))
      | Inr cfg \<Rightarrow>
          (case (case w_mongo st of
                   Some e \<Rightarrow> ([], Some (ErrorfW ''connect mongo'' e))
                 | None \<Rightarrow> bracket OpenMongo (worker_with_mongo st) CloseMongo) of
             (tr, err) \<Rightarrow> (OpenMetricsServer # tr, err)))"

text \<open>\<^verbatim>\<open>main\<close>: the text on standard error and the exit status.\<close>

definition main_exit :: "goerr option \<Rightarrow> string option \<times> int" where
  "main_exit err = (case err of
     Some e \<Rightarrow> (Some (''FATAL: '' @ Error e), 1)
   | None \<Rightarrow> (None, 0))"

definition api_main :: "api_stages \<Rightarrow> string option \<times> int" where
  "api_main st = main_exit (snd (api_run st))"

definition worker_main :: "worker_stages \<Rightarrow> string option \<times> int" where
  "worker_main st = main_exit (snd (worker_run st))"

text \<open>
  The API ends with status 0 only after a signal and an orderly shut-down; the worker also when its
  loop returns without an error.
\<close>

lemma main_status:
  "snd (api_main st) = 0 \<longleftrightarrow> snd (api_run st) = None"
  "snd (worker_main ws) = 0 \<longleftrightarrow> snd (worker_run ws) = None"
  by (simp_all add: api_main_def worker_main_def main_exit_def split: option.split)

subsection \<open>Properties\<close>

text \<open>The releases that belong to the acquisitions.\<close>

fun release_of :: "action \<Rightarrow> action option" where
  "release_of OpenTracer = Some CloseTracer"
| "release_of OpenMongo = Some CloseMongo"
| "release_of OpenProducer = Some CloseProducer"
| "release_of OpenMetricsServer = Some CloseMetricsServer"
| "release_of OpenConsumer = Some CloseConsumer"
| "release_of _ = None"

definition acquired :: "action list \<Rightarrow> action list" where
  "acquired tr = List.map_filter release_of tr"

definition released :: "action list \<Rightarrow> action list" where
  "released tr = filter (\<lambda>a. a \<in> {CloseTracer, CloseMongo, CloseProducer, CloseMetricsServer, CloseConsumer}) tr"





end
