(* ===== verification/System.thy ===== *)
theory System
  imports Swagger Mains Worker
begin

section \<open>The processes as they are wired (api/main.go, worker/main.go)\<close>

text \<open>
  What the two \<open>run\<close> functions build from the configuration once everything is connected: the service
  on the MongoDB repository, the Kafka producer and the HTTP fetcher, the handlers, the routes and the
  server of the API; the handler, the consumer and the metrics server of the worker. The collection,
  the writer, the transport and the libraries of the router stay parameters.
\<close>

subsection \<open>The API\<close>

definition api_flags :: "Config \<Rightarrow> FeatureFlags" where
  "api_flags cfg = IsEnabled (NewEnvFlags cfg)"

definition api_producer :: "Config \<Rightarrow> 'k kafka_writer \<Rightarrow> 'k EventProducer" where
  "api_producer cfg writer = kafka_producer writer (NewKafkaProducer (KafkaBrokers cfg) (KafkaTopic cfg))"

definition configured_fetcher :: "Config \<Rightarrow> 'f http_env \<Rightarrow> 'f Fetcher" where
  "configured_fetcher cfg net =
     http_fetcher net (NewHTTPFetcher (FetchTimeout cfg) (FetchMaxRedirects cfg) (DisableSSRF cfg))"

definition api_service ::
  "Config \<Rightarrow> 'd MetadataRepository \<Rightarrow> 'k kafka_writer \<Rightarrow> 'f http_env \<Rightarrow> ('d, 'f, 'k) service_world MetadataService"
where
  "api_service cfg rp writer net =
     NewMetadataService rp (api_producer cfg writer) (configured_fetcher cfg net) (api_flags cfg)"

definition NewReadyHandler ::
  "'d MetadataRepository \<Rightarrow> 'k EventProducer \<Rightarrow> ('d, 'f, 'k) service_world ReadyHandler" where
  "NewReadyHandler rp dependency =
     \<lparr>repo_Ping = on_repo (Ping rp), kafka_pinger = Some (on_producer (Ping_p dependency))\<rparr>"

text \<open>A handler struct holds the service its \<open>ServeHTTP\<close> calls: it is that method of it.\<close>

definition NewMetadataPostHandler :: "'w MetadataService \<Rightarrow> 'w handler" where
  "NewMetadataPostHandler svc = post_ServeHTTP svc"

definition NewMetadataGetHandler :: "'w MetadataService \<Rightarrow> 'w handler" where
  "NewMetadataGetHandler svc = get_ServeHTTP svc"

definition NewHealthHandler :: "'w handler" where
  "NewHealthHandler = health_ServeHTTP"

text \<open>What OpenTelemetry does when it is set up: the errors, the tracer that does nothing, and its own.\<close>

record 'w otel =
  exporter_error :: "goerr option"
  resource_error :: "goerr option"
  noop_tracer :: "string \<Rightarrow> ('w, string) io"
  otel_tracer :: "string \<Rightarrow> ('w, string) io"

definition api_tracer :: "Config \<Rightarrow> 'w otel \<Rightarrow> (string \<Rightarrow> ('w, string) io) option" where
  "api_tracer cfg ot =
     fst (SetupTracer (api_flags cfg TracingEnabled) (exporter_error ot) (resource_error ot) (noop_tracer ot)
       (otel_tracer ot))"

definition api_router ::
  "Config \<Rightarrow> ('d, 'f, 'k) service_world server_env \<Rightarrow> ('d, 'f, 'k) service_world otel \<Rightarrow>
   'd MetadataRepository \<Rightarrow> 'k kafka_writer \<Rightarrow> 'f http_env \<Rightarrow>
   ('d, 'f, 'k) service_world handler" where
  "api_router cfg env ot rp writer net =
     (let env = env\<lparr>tracer := api_tracer cfg ot\<rparr>;
          svc = api_service cfg rp writer net
      in router_ServeHTTP env (SetupLogger (LogLevel cfg) (ServiceName cfg) (ServiceVersion cfg)) (api_flags cfg)
           (RegisterRoutes env (NewMetadataPostHandler svc) (NewMetadataGetHandler svc) NewHealthHandler
             (ready_ServeHTTP (NewReadyHandler rp (api_producer cfg writer)))))"

lemma api_router_routes:
  "api_router cfg env ot rp writer net =
     router_ServeHTTP (env\<lparr>tracer := api_tracer cfg ot\<rparr>)
       (SetupLogger (LogLevel cfg) (ServiceName cfg) (ServiceVersion cfg)) (api_flags cfg)
       (api_routes (env\<lparr>tracer := api_tracer cfg ot\<rparr>) (api_service cfg rp writer net) (NewReadyHandler rp (api_producer cfg writer)))"
  by (simp add: api_router_def api_routes_def NewMetadataPostHandler_def NewMetadataGetHandler_def
      NewHealthHandler_def Let_def)

definition api_server ::
  "Config \<Rightarrow> ('d, 'f, 'k) service_world server_env \<Rightarrow> ('d, 'f, 'k) service_world otel \<Rightarrow>
   'd MetadataRepository \<Rightarrow> 'k kafka_writer \<Rightarrow> 'f http_env \<Rightarrow>
   ('d, 'f, 'k) service_world Server" where
  "api_server cfg env ot rp writer net =
     New \<lparr>Port = HTTPPort cfg, ReadTimeout_s = ReadTimeout cfg, WriteTimeout_s = WriteTimeout cfg,
         ShutdownTimeout_s = ShutdownTimeout cfg\<rparr>
       (api_router cfg env ot rp writer net)"

text \<open>The attributes of the line that logs the flags.\<close>

definition logFeatureFlags :: "FeatureFlags \<Rightarrow> (string \<times> bool) list" where
  "logFeatureFlags fl = [
     (''rate_limit'', fl RateLimitEnabled),
     (''circuit_breaker'', fl CircuitBreakerEnabled),
     (''page_source_storage'', fl PageSourceStorage),
     (''async_fetch_only'', fl AsyncFetchOnly),
     (''metrics'', fl MetricsEnabled),
     (''tracing'', fl TracingEnabled)]"

subsection \<open>The worker\<close>

definition configured_consumer :: "Config \<Rightarrow> KafkaConsumer" where
  "configured_consumer cfg =
     NewKafkaConsumer (KafkaBrokers cfg) (KafkaTopic cfg) (KafkaGroupID cfg) (KafkaDLTTopic cfg)
       (KafkaMaxRetries cfg)"

definition configured_worker :: "Config \<Rightarrow> 'd MetadataRepository \<Rightarrow> 'f http_env \<Rightarrow> ('d, 'f) Worker" where
  "configured_worker cfg rp net = NewWorker rp (configured_fetcher cfg net) (IsEnabled (NewEnvFlags cfg))"

text \<open>
  The metrics server of the worker: a mux with the handler of the Prometheus library, where metrics
  are enabled, and a probe. Both patterns match their path only; everything else is not found.
\<close>

datatype mux_answer = PrometheusPage | Text int string | MuxNotFound

record metrics_server =
  ms_Addr :: string
  ms_Handler :: "string \<Rightarrow> mux_answer"

definition worker_mux :: "bool \<Rightarrow> (string \<rightharpoonup> mux_answer)" where
  "worker_mux metricsEnabled =
     ((if metricsEnabled then [''/metrics'' \<mapsto> PrometheusPage] else Map.empty)
       (''/health'' \<mapsto> Text 200 ''ok''))"

definition startMetricsServer :: "int \<Rightarrow> bool \<Rightarrow> metrics_server" where
  "startMetricsServer port metricsEnabled =
     \<lparr>ms_Addr = '':'' @ Itoa port,
      ms_Handler = (\<lambda>path. case worker_mux metricsEnabled path of None \<Rightarrow> MuxNotFound | Some a \<Rightarrow> a)\<rparr>"

definition worker_metrics_server :: "Config \<Rightarrow> metrics_server" where
  "worker_metrics_server cfg =
     startMetricsServer (WorkerMetricsPort cfg) (IsEnabled (NewEnvFlags cfg) MetricsEnabled)"

text \<open>The probe of the worker always answers; the metrics are there when their flag is on.\<close>

lemma worker_probe:
  "ms_Handler (worker_metrics_server cfg) ''/health'' = Text 200 ''ok''"
  "ms_Handler (worker_metrics_server cfg) ''/metrics'' =
     (if FFMetricsEnabled cfg then PrometheusPage else MuxNotFound)"
  by (simp_all add: worker_metrics_server_def startMetricsServer_def worker_mux_def IsEnabled_def
      NewEnvFlags_def flag_defs)

text \<open>Configured alike, the worker reads the topic the API writes.\<close>

lemma same_topic:
  "Topic_rc (reader (configured_consumer cfg)) = topic (NewKafkaProducer (KafkaBrokers cfg) (KafkaTopic cfg))"
  "Brokers_rc (reader (configured_consumer cfg)) = brokers (NewKafkaProducer (KafkaBrokers cfg) (KafkaTopic cfg))"
  by (simp_all add: configured_consumer_def NewKafkaConsumer_def NewKafkaProducer_def)

subsection \<open>Through the middleware\<close>

text \<open>An action of a library that leaves the application alone (a fresh id, a started span).\<close>

definition leaves_app :: "('w, 'a) io \<Rightarrow> bool" where
  "leaves_app m \<longleftrightarrow> (\<forall>s c. final m (s, c) = s)"

lemma wp_leaves_app:
  assumes "leaves_app m" and "\<And>x c'. Q x (w, c')"
  shows "wp (on_app m) Q (w, c)"
proof -
  have "fst (snd (run_state m (app w, c))) = app w"
    using assms(1) by (simp add: leaves_app_def final_def)
  then have "wp m (\<lambda>x (s, c'). s = app w) (app w, c)"
    by (cases "run_state m (app w, c)") (auto simp: wp_def)
  then show ?thesis
    unfolding wp_zoom by (rule wp_mono) (auto intro: assms(2))
qed

text \<open>
  A handler that answers the requests of a kind (\<open>pre\<close>, of the request and the application) with a
  response of a kind (\<open>D\<close>): the middleware keeps that, as neither depends on what it changes, the
  context of the request, the headers set so far and the wrappers of the writer.
\<close>

locale answering =
  fixes pre :: "request \<Rightarrow> 'w \<Rightarrow> bool" and D :: "ResponseWriter \<Rightarrow> bool"
  assumes pre_Ctx [simp]: "pre (r\<lparr>Ctx := x\<rparr>) s = pre r s"
    and D_wrappers [simp]: "D (rw\<lparr>wrappers := ws\<rparr>) = D rw"
begin

definition responded :: "completion \<Rightarrow> 'w http_world \<times> clock \<Rightarrow> bool" where
  "responded done s \<longleftrightarrow> done = Returned \<and> D (resp (fst s))"

definition answers :: "'w handler \<Rightarrow> bool" where
  "answers h \<longleftrightarrow> (\<forall>r w c. pre r (app w) \<longrightarrow> sent_head (resp w) = None \<longrightarrow> written (resp w) = [] \<longrightarrow>
     wp (h r) responded (w, c))"

lemma answersD:
  "answers h \<Longrightarrow> pre r (app w) \<Longrightarrow> sent_head (resp w) = None \<Longrightarrow> written (resp w) = [] \<Longrightarrow>
     wp (h r) responded (w, c)"
  by (simp add: answers_def)

lemma with_wrapper_answers:
  assumes "answers h" and "pre r (app w)" and "sent_head (resp w) = None" and "written (resp w) = []"
    and "\<And>status w' c'. D (resp w') \<Longrightarrow> Q (Returned, status) (w', c')"
  shows "wp (with_wrapper (h r)) Q (w, c)"
  unfolding with_wrapper_def wp_bind wp_act
  by (simp, rule wp_mono [OF answersD [OF assms(1)]]) (auto simp: assms(2-4) responded_def intro!: assms(5))

lemma answers_Logging: "answers h \<Longrightarrow> answers (Logging logger h)"
  unfolding answers_def [of "Logging logger h"] Logging_def wp_bind wp_time_Now
  by (auto simp: responded_def intro!: with_wrapper_answers)

lemma answers_Metrics: "answers h \<Longrightarrow> answers (MetricsMiddleware h)"
  unfolding answers_def [of "MetricsMiddleware h"] MetricsMiddleware_def NewTimer_def Elapsed_def
  by (auto simp: responded_def intro!: with_wrapper_answers intro: answersD)

lemma answers_Recovery:
  assumes "answers h"
  shows "answers (Recovery h)"
  unfolding answers_def Recovery_def wp_bind
  by (auto simp: responded_def intro!: wp_mono [OF answersD [OF assms]])

lemma answers_RealIP: "answers h \<Longrightarrow> answers (RealIP env h)"
  unfolding answers_def [of "RealIP env h"] RealIP_def wp_bind
  by (auto intro: answersD split: option.split)

lemma answers_RateLimiter:
  assumes "answers h" and "\<And>rw. sent_head rw = None \<Longrightarrow> written rw = [] \<Longrightarrow> D (too_many rw)"
  shows "answers (RateLimiter_Middleware h)"
  unfolding answers_def RateLimiter_Middleware_def wp_bind respond_def
  by (auto simp: responded_def assms(2) intro!: wp_limiter_any answersD [OF assms(1)])

lemma answers_Tracing:
  assumes "answers h" and "\<And>n. leaves_app (start n)"
  shows "answers (Tracing (Some start) h)"
  unfolding answers_def Tracing_def option.case wp_bind set_header_def
  by (auto intro!: wp_leaves_app [OF assms(2)] answersD [OF assms(1)] simp: Set_def)

lemma answers_RequestID:
  assumes "answers h" and "leaves_app uuid"
  shows "answers (RequestID_mw uuid h)"
  unfolding answers_def RequestID_mw_def wp_bind set_header_def Let_def
  by (auto intro!: wp_leaves_app [OF assms(2)] answersD [OF assms(1)] simp: Set_def)

lemma answers_router:
  assumes "answers (dispatch env (router_routes env fl @ routes))" and "leaves_app (uuid_New env)"
    and "tracer env = Some start" and "\<And>n. leaves_app (start n)"
    and "\<And>rw. fl RateLimitEnabled \<Longrightarrow> sent_head rw = None \<Longrightarrow> written rw = [] \<Longrightarrow> D (too_many rw)"
  shows "answers (router_ServeHTTP env logger fl routes)"
  unfolding router_unfold inner_stack_def assms(3)
  using assms(1,2,4,5)
  by (auto intro!: answers_RequestID answers_Recovery answers_Logging answers_RealIP answers_Tracing
      answers_Metrics answers_RateLimiter)

end


subsection \<open>Routing\<close>

text \<open>
  How chi matches the patterns of the routes: a pattern without a wildcard fits its own path only, and
  the wildcard of the documentation none of the others.
\<close>

definition exact_routes :: "'w server_env \<Rightarrow> bool" where
  "exact_routes env \<longleftrightarrow>
     list_all (\<lambda>p. \<forall>q. chi_match env p q \<longleftrightarrow> q = p) [''/health'', ''/ready'', ''/v1/metadata'', ''/metrics''] \<and>
     list_all (\<lambda>q. \<not> chi_match env ''/swagger/*'' q) [''/health'', ''/ready'', ''/v1/metadata'']"

text \<open>The requests the documentation names; the method as it stands in a request is in upper case.\<close>

definition documented_request :: "json \<Rightarrow> request \<Rightarrow> bool" where
  "documented_request doc r \<longleftrightarrow> Method r \<in> {''GET'', ''POST''} \<and>
     (Path r, ToLower (Method r)) \<in> set (documented_operations doc)"

lemma documented_requests:
  "documented_request (docTemplate m e sp) r \<longleftrightarrow>
     (Path r, Method r) \<in> {(''/health'', ''GET''), (''/ready'', ''GET''), (''/v1/metadata'', ''GET''),
       (''/v1/metadata'', ''POST'')}"
proof -
  have ops: "documented_operations (docTemplate m e sp) = [(''/health'', ''get''), (''/ready'', ''get''),
      (''/v1/metadata'', ''get''), (''/v1/metadata'', ''post'')]"
    by code_simp
  have "ToLower (Method r) = (if Method r = ''GET'' then ''get'' else ''post'')"
    if "Method r \<in> {''GET'', ''POST''}"
    using that lower_methods by (elim insertE emptyE) (simp_all only: char.inject list.inject simp_thms if_True if_False)
  then show ?thesis
    unfolding documented_request_def ops
    by (cases "Method r = ''GET''"; cases "Method r = ''POST''") (simp_all del: ToLower.simps)
qed

lemma exact_routesD:
  assumes "exact_routes env"
  shows "chi_match env ''/health'' q \<longleftrightarrow> q = ''/health''" "chi_match env ''/ready'' q \<longleftrightarrow> q = ''/ready''"
    "chi_match env ''/v1/metadata'' q \<longleftrightarrow> q = ''/v1/metadata''" "chi_match env ''/metrics'' q \<longleftrightarrow> q = ''/metrics''"
    "\<not> chi_match env ''/swagger/*'' ''/health''" "\<not> chi_match env ''/swagger/*'' ''/ready''"
    "\<not> chi_match env ''/swagger/*'' ''/v1/metadata''"
  using assms by (simp_all only: exact_routes_def list.pred_inject simp_thms)

lemma dispatch_documented:
  assumes "exact_routes env"
    and "dispatched = dispatch env (router_routes env fl @ api_routes env svc h) r"
  shows "Path r = ''/health'' \<Longrightarrow> Method r = ''GET'' \<Longrightarrow> dispatched = health_ServeHTTP r"
    and "Path r = ''/ready'' \<Longrightarrow> Method r = ''GET'' \<Longrightarrow> dispatched = ready_ServeHTTP h r"
    and "Path r = ''/v1/metadata'' \<Longrightarrow> Method r = ''GET'' \<Longrightarrow> dispatched = get_ServeHTTP svc r"
    and "Path r = ''/v1/metadata'' \<Longrightarrow> Method r = ''POST'' \<Longrightarrow> dispatched = post_ServeHTTP svc r"
  unfolding assms(2) dispatch_def Let_def router_routes_def api_routes_def RegisterRoutes_def
  by (simp_all add: exact_routesD [OF assms(1)])


subsection \<open>The production classes keep the contracts\<close>

context mongo_collection begin

lemma is_repository:
  "metadata_repository (mongo_repository sha256 coll) (mongo_view sha256 urls \<circ> docs) urls (mongo_invar sha256 urls \<circ> docs)"
  by (rule mongo.metadata_repository_axioms)

end

context kafka_topic begin

lemma is_producer: "event_producer (kafka_producer writer p) (decoded_topic \<circ> log) on_wire"
  by (rule producer.event_producer_axioms)

end

lemma production_service:
  assumes "mongo_collection stored coll docs sha urls" and "kafka_topic writer log" and "urls \<subseteq> valid_urls"
  shows "metadata_service (mongo_repository sha coll) (mongo_view sha urls \<circ> docs) urls
    (mongo_invar sha urls \<circ> docs) (api_producer cfg writer) (decoded_topic \<circ> log) on_wire
    (configured_fetcher cfg net) clean_result"
  unfolding api_producer_def configured_fetcher_def
  by (intro metadata_service.intro metadata_service_axioms.intro mongo_collection.is_repository [OF assms(1)]
      kafka_topic.is_producer [OF assms(2)] http.fetcher_contract_axioms keeps_urls_mono [OF on_wire_urls assms(3)])

subsection \<open>The whole stack\<close>

definition request_for ::
  "string set \<Rightarrow> ('d \<Rightarrow> bool) \<Rightarrow> string \<Rightarrow> string \<Rightarrow> request \<Rightarrow> ('d, 'f, 'k) service_world \<Rightarrow> bool" where
  "request_for urls invar path meth r s \<longleftrightarrow> Path r = path \<and> Method r = meth \<and> invar (repo_st s) \<and>
     (case DecodePost (Body r) of None \<Rightarrow> True | Some req \<Rightarrow> URL_post req \<in> urls) \<and>
     Query_Get (RawQuery r) ''url'' \<in> urls"

definition documented_or_limited :: "json \<Rightarrow> bool \<Rightarrow> string \<Rightarrow> string \<Rightarrow> ResponseWriter \<Rightarrow> bool" where
  "documented_or_limited doc limited path meth rw \<longleftrightarrow> documented doc path (ToLower meth) rw \<or>
     limited \<and> status_of rw = 429 \<and> (\<exists>e. written rw = [JError e] \<and> ErrorCode e = ''RATE_LIMITED'')"

lemma too_many_limited:
  "sent_head rw = None \<Longrightarrow> written rw = [] \<Longrightarrow> documented_or_limited doc True path meth (too_many rw)"
  by (simp add: documented_or_limited_def too_many_def Write_def WriteHeader_def send_head_def Let_def
      status_of_def Set_def)

interpretation api: answering "request_for urls invar path meth" "documented_or_limited doc limited path meth"
  for urls invar path meth doc limited
  by unfold_locales (simp_all add: request_for_def documented_or_limited_def documented_def status_of_def)

lemma handlers_return:
  "outcome (health_ServeHTTP r) (w, c) = Returned" "outcome (ready_ServeHTTP h r) (w, c) = Returned"
  "outcome (get_ServeHTTP svc r) (w, c) = Returned" "outcome (post_ServeHTTP svc r) (w, c) = Returned"
  by (auto simp: outcome_def health_ServeHTTP_def ready_ServeHTTP_def get_ServeHTTP_def post_ServeHTTP_def Let_def
      split: option.split prod.split)

lemma responded_iff:
  fixes m :: "(('d, 'f, 'k) service_world http_world, completion) io"
  shows "wp m (answering.responded (documented_or_limited doc limited path meth)) (w, c) \<longleftrightarrow>
     outcome m (w, c) = Returned \<and> documented_or_limited doc limited path meth (resp (final m (w, c)))"
  by (cases "run_state m (w, c)") (simp add: wp_def outcome_def final_def api.responded_def)

lemma dispatch_answers:
  assumes "metadata_service R view urls invar P sent wire F good" and "exact_routes env"
    and "(path, meth) \<in> {(''/health'', ''GET''), (''/ready'', ''GET''), (''/v1/metadata'', ''GET''),
      (''/v1/metadata'', ''POST'')}"
  shows "answering.answers (request_for urls invar path meth) (documented_or_limited (docTemplate m e sp) limited path meth)
    (dispatch env (router_routes env fl @ api_routes env (NewMetadataService R P F fl) h))"
  unfolding api.answers_def responded_iff
proof (intro allI impI)
  fix r and w :: "('a, 'c, 'b) service_world http_world" and c
  let ?svc = "NewMetadataService R P F fl"
  assume pre: "request_for urls invar path meth r (app w)" and fresh: "sent_head (resp w) = None" "written (resp w) = []"
  note d = dispatch_documented [OF assms(2) refl, where r = r and fl = fl and svc = ?svc and h = h]
  have req: "Path r = path" "Method r = meth" "invar (repo_st (app w))"
      "case DecodePost (Body r) of None \<Rightarrow> True | Some req \<Rightarrow> URL_post req \<in> urls"
      "Query_Get (RawQuery r) ''url'' \<in> urls"
    using pre by (simp_all add: request_for_def)
  note docs = health_documented [OF fresh, of m e sp r c] ready_documented [OF fresh, of m e sp h r c]
    get_handler_documented [OF assms(1) req(3,5) fresh, of m e sp fl c]
    post_handler_documented [OF assms(1) req(3,4) fresh, of m e sp fl c]
  let ?m = "dispatch env (router_routes env fl @ api_routes env ?svc h) r"
  consider "Path r = ''/health''" "Method r = ''GET''" | "Path r = ''/ready''" "Method r = ''GET''"
    | "Path r = ''/v1/metadata''" "Method r = ''GET''" | "Path r = ''/v1/metadata''" "Method r = ''POST''"
    using assms(3) req(1,2) by auto
  then have "outcome ?m (w, c) = Returned \<and> documented (docTemplate m e sp) (Path r) (ToLower (Method r)) (resp (final ?m (w, c)))"
    by cases (simp_all only: d docs handlers_return lower_methods simp_thms)
  then show "outcome ?m (w, c) = Returned \<and>
      documented_or_limited (docTemplate m e sp) limited path meth (resp (final ?m (w, c)))"
    by (simp add: documented_or_limited_def req(1,2))
qed


text \<open>A property of responses, carried through the API as it is wired.\<close>

definition tracing_starts :: "Config \<Rightarrow> 'w otel \<Rightarrow> bool" where
  "tracing_starts cfg ot \<longleftrightarrow>
     \<not> FFTracingEnabled cfg \<or> exporter_error ot = None \<and> resource_error ot = None"

lemma api_tracer_starts:
  assumes "tracing_starts cfg ot" and "\<And>n. leaves_app (noop_tracer ot n)" and "\<And>n. leaves_app (otel_tracer ot n)"
  obtains start where "api_tracer cfg ot = Some start" "\<And>n. leaves_app (start n)"
proof -
  have "api_flags cfg TracingEnabled = FFTracingEnabled cfg"
    by (simp add: api_flags_def IsEnabled_def NewEnvFlags_def flag_defs)
  with assms that show thesis
    by (cases "FFTracingEnabled cfg") (auto simp: api_tracer_def SetupTracer_def tracing_starts_def)
qed

lemma api_limited: "api_flags cfg RateLimitEnabled = FFRateLimitEnabled cfg"
  by (simp add: api_flags_def IsEnabled_def NewEnvFlags_def flag_defs)

lemma exact_routes_tracer [simp]: "exact_routes (env\<lparr>tracer := t\<rparr>) = exact_routes env"
  by (simp add: exact_routes_def)

context answering begin

lemma answers_api:
  assumes "tracing_starts cfg ot" and "\<And>n. leaves_app (noop_tracer ot n)" and "\<And>n. leaves_app (otel_tracer ot n)"
    and "leaves_app (uuid_New env)"
    and "answers (dispatch (env\<lparr>tracer := api_tracer cfg ot\<rparr>)
      (router_routes (env\<lparr>tracer := api_tracer cfg ot\<rparr>) (api_flags cfg) @ routes))"
    and "\<And>rw. FFRateLimitEnabled cfg \<Longrightarrow> sent_head rw = None \<Longrightarrow> written rw = [] \<Longrightarrow> D (too_many rw)"
  shows "answers (router_ServeHTTP (env\<lparr>tracer := api_tracer cfg ot\<rparr>) logger (api_flags cfg) routes)"
proof -
  obtain start where t: "api_tracer cfg ot = Some start" "\<And>n. leaves_app (start n)"
    using api_tracer_starts [OF assms(1-3)] by blast
  show ?thesis
    by (rule answers_router [where start = start]) (use assms(4-6) t in \<open>simp_all add: api_limited\<close>)
qed

end

subsection \<open>A record that is ready\<close>

text \<open>
  A GET for a URL whose record is ready, and its answers: the record, or a database error; and the
  refusal of the rate limiter, where there is one.
\<close>

definition get_for ::
  "('d \<Rightarrow> store) \<Rightarrow> ('d \<Rightarrow> bool) \<Rightarrow> string \<Rightarrow> entry \<Rightarrow> request \<Rightarrow> ('d, 'f, 'k) service_world \<Rightarrow> bool" where
  "get_for view invar url e r s \<longleftrightarrow> Path r = ''/v1/metadata'' \<and> Method r = ''GET'' \<and>
     RawQuery r = ''url='' @ percent_encode url \<and> invar (repo_st s) \<and> view (repo_st s) url = Some e"

definition served :: "entry \<Rightarrow> bool \<Rightarrow> ResponseWriter \<Rightarrow> bool" where
  "served e limited rw \<longleftrightarrow>
     (case written rw of
        [JRecord (Some rec)] \<Rightarrow> status_of rw = 200 \<and> entry_of rec = e
      | [JError err] \<Rightarrow> status_of rw = 500 \<and> ErrorCode err = ''DATABASE_ERROR'' \<or>
          limited \<and> status_of rw = 429 \<and> ErrorCode err = ''RATE_LIMITED''
      | _ \<Rightarrow> False)"

lemma too_many_served: "sent_head rw = None \<Longrightarrow> written rw = [] \<Longrightarrow> served e True (too_many rw)"
  by (simp add: served_def too_many_def Write_def WriteHeader_def send_head_def Let_def status_of_def Set_def)

lemma status_of_wrappers [simp]: "status_of (rw\<lparr>wrappers := ws\<rparr>) = status_of rw"
  by (simp add: status_of_def)

interpretation ready: answering "get_for view invar url e" "served e limited" for view invar url e limited
  by unfold_locales (simp_all add: get_for_def served_def split: list.split json_value.split option.split)

lemma get_spec_ready:
  assumes "get_spec wire ctx url (m, q) res t" and "m url = Some e" and "e_status e = StatusReady"
  shows "(\<exists>rec. res = Inr (Some rec, False) \<and> entry_of rec = e) \<or> (\<exists>err. res = Inl err \<and> errors_Is err ErrDatabaseError)"
  using assms by (cases rule: get_spec.cases) (auto simp: in_progress_def claimable_def)

lemma served_response:
  assumes "sent_head rw = None" and "written rw = []"
    and "(\<exists>rec. res = Inr (Some rec, False) \<and> entry_of rec = e) \<or> (\<exists>err. res = Inl err \<and> errors_Is err ErrDatabaseError)"
  shows "served e limited (get_response i u res rw)"
  using assms(3)
proof (elim disjE exE conjE)
  fix err
  assume r: "res = Inl err" "errors_Is err ErrDatabaseError"
  then have "error_response err = (500, ''DATABASE_ERROR'')"
    by (simp add: error_response_def errors_Is_iff)
  with handleServiceError_simps [OF assms(1), of err i] r(1) assms(2) show ?thesis
    by (auto simp: served_def get_response_def)
qed (use assms(1,2) in \<open>simp add: served_def get_response_def\<close>)

lemma dispatch_serves:
  assumes "metadata_service R view urls invar P sent wire F good" and "exact_routes env"
    and "url \<in> urls" and "validateURL url = None" and "e_status e = StatusReady"
  shows "answering.answers (get_for view invar url e) (served e limited)
    (dispatch env (router_routes env fl @ api_routes env (NewMetadataService R P F fl) h))"
  unfolding ready.answers_def
proof (intro allI impI)
  fix r and w :: "('a, 'c, 'b) service_world http_world" and c
  let ?svc = "NewMetadataService R P F fl"
  assume pre: "get_for view invar url e r (app w)" and fresh: "sent_head (resp w) = None" "written (resp w) = []"
  then have r: "Path r = ''/v1/metadata''" "Method r = ''GET''" "Query_Get (RawQuery r) ''url'' = url"
      "invar (repo_st (app w))" "view (repo_st (app w)) url = Some e"
    using Query_Get_encoded [of url] by (simp_all add: get_for_def)
  obtain res s' where spec: "get_spec wire (Ctx r) url (view (repo_st (app w)), sent (prod_st (app w))) res
       (view (repo_st s'), sent (prod_st s'))"
    and run: "final (get_ServeHTTP ?svc r) (w, c) =
      w\<lparr>app := s', resp := get_response (RequestIDFromContext (Ctx r)) url res (resp w)\<rparr>"
    using GET_runs [OF assms(1) r(4) assms(3) r(3) assms(4), of fl c] by metis
  from served_response [OF fresh get_spec_ready [OF spec r(5) assms(5)]]
  have "served e limited (resp (final (get_ServeHTTP ?svc r) (w, c)))"
    by (simp add: run)
  with handlers_return(3) [of ?svc r w c]
  have "wp (get_ServeHTTP ?svc r) (answering.responded (served e limited)) (w, c)"
    by (cases "run_state (get_ServeHTTP ?svc r) (w, c)")
      (simp add: wp_def outcome_def final_def ready.responded_def)
  then show "wp (dispatch env (router_routes env fl @ api_routes env ?svc h) r)
      (answering.responded (served e limited)) (w, c)"
    by (simp only: dispatch_documented(3) [OF assms(2) refl r(1,2)])
qed

subsection \<open>Properties\<close>



text \<open>MongoDB and Kafka in memory behind the sample router, for the closed statement.\<close>

definition sample_config :: Config where
  "sample_config = read_config (\<lambda>f u k. f * u div k) (\<lambda>_. [])"

definition sample_api_world :: "(mem_server, net, broker) service_world http_world" where
  "sample_api_world = \<lparr>app = \<lparr>repo_st = \<lparr>mem_docs = Map.empty, mem_down = None\<rparr>, fetch_st = \<lparr>net_log = [], net_ips = Map.empty, net_pages = Map.empty\<rparr>,
       prod_st = \<lparr>broker_log = [], broker_down = None\<rparr>\<rparr>,
     RemoteAddr = ''10.0.0.1:4000'', resp = new_response, access_log = [], http_metrics = NewMetrics ''metadata'',
     limiter = new_limiter\<rparr>"

lemma leaves_ret [simp]: "leaves_app (ret x)"
  by (simp add: leaves_app_def final_def)

lemma sample_routes: "exact_routes sample_server"
  by (auto simp: exact_routes_def sample_server_def)

lemma sample_server_simps:
  "tracer sample_server = Some (\<lambda>_. ret zero_trace)" "leaves_app (uuid_New sample_server)"
  by (simp_all add: sample_server_def)

lemma mem_valid: "mongo_collection ms_stored mem_collection mem_docs bytes_digest valid_urls"
  using mem.mongo_collection_axioms inj_on_subset [OF mem.no_collision]
  by (simp add: mongo_collection_def mongo_collection_axioms_def)

definition sample_otel :: "'w otel" where
  "sample_otel = \<lparr>exporter_error = None, resource_error = None, noop_tracer = (\<lambda>_. ret zero_trace),
     otel_tracer = (\<lambda>_. ret zero_trace)\<rparr>"

lemma sample_starts:
  "tracing_starts cfg sample_otel" "leaves_app (noop_tracer sample_otel n)" "leaves_app (otel_tracer sample_otel n)"
  by (simp_all add: tracing_starts_def sample_otel_def)



text \<open>The same with a document of a page that is ready.\<close>

definition ready_doc :: bsonM where
  "ready_doc = [''url'' \<mapsto> BString ''http://a.com/'', ''status'' \<mapsto> BString ''ready'', ''page_source'' \<mapsto> BString ''<p>'',
     ''page_source_size_bytes'' \<mapsto> BInt 3]"

definition ready_api_world :: "(mem_server, net, broker) service_world http_world" where
  "ready_api_world = sample_api_world\<lparr>app := (app sample_api_world)\<lparr>repo_st :=
     \<lparr>mem_docs = [hashURL bytes_digest ''http://a.com/'' \<mapsto> ready_doc], mem_down = None\<rparr>\<rparr>\<rparr>"

lemma ready_doc_decodes:
  "\<exists>rec. decode_record ready_doc = Some rec \<and> URL rec = ''http://a.com/'' \<and> Status rec = ''ready''"
  by (simp add: decode_record_def ready_doc_def go_defs)


end
