(* ===== verification/Threads.thy ===== *)
theory Threads
  imports Prelude
begin

section \<open>Threads that interleave\<close>

text \<open>
  The API serves its requests in goroutines and the worker is another process: the calls on the
  shared store and topic interleave. A thread is a run cut at its calls (a resumption): finished with
  a value, or a next atomic step that yields the rest of the thread. Nothing here knows the program;
  the theory \<open>Interleaving\<close> cuts the handlers into threads.
\<close>

datatype ('w, 'a) thread = Done 'a | Step "('w \<times> clock, ('w, 'a) thread) state"

definition atomic :: "('w, 'x) io \<Rightarrow> ('x \<Rightarrow> ('w, 'a) thread) \<Rightarrow> ('w, 'a) thread" where
  "atomic m k = Step (map_state k m)"

text \<open>A thread that runs alone.\<close>

primrec run_thread :: "('w, 'a) thread \<Rightarrow> ('w, 'a) io" where
  "run_thread (Done x) = ret x"
| "run_thread (Step m) = State_Monad.bind (map_state run_thread m) (\<lambda>r. r)"

text \<open>A thread of one component inside the state of the whole system.\<close>

primrec embed :: "('w \<Rightarrow> 's) \<Rightarrow> (('s \<Rightarrow> 's) \<Rightarrow> 'w \<Rightarrow> 'w) \<Rightarrow> ('b \<Rightarrow> 'a) \<Rightarrow> ('s, 'b) thread \<Rightarrow> ('w, 'a) thread"
  where
  "embed sel upd f (Done x) = Done (f x)"
| "embed sel upd f (Step m) = Step (zoom sel upd (map_state (embed sel upd f) m))"

lemma run_map_state [simp]:
  "run_state (map_state f m) s = (case run_state m s of (x, s') \<Rightarrow> (f x, s'))"
  by (cases m) (simp split: prod.split)

lemma wp_map_state [simp, wp_simps]: "wp (map_state f m) Q s \<longleftrightarrow> wp m (\<lambda>x. Q (f x)) s"
  by (simp add: wp_def split: prod.split)

lemma state_eqI: "(\<And>s. run_state m s = run_state n s) \<Longrightarrow> m = n"
  by (cases m; cases n) auto

lemma run_bind: "run_state (State_Monad.bind m f) s = (case run_state m s of (x, s') \<Rightarrow> run_state (f x) s')"
  by (simp split: prod.split)

lemma run_atomic [simp]: "run_thread (atomic m k) = State_Monad.bind m (\<lambda>x. run_thread (k x))"
  by (rule state_eqI) (simp add: atomic_def split: prod.split)

lemma embed_atomic [simp]:
  "embed sel upd f (atomic m k) = atomic (zoom sel upd m) (\<lambda>x. embed sel upd f (k x))"
  unfolding atomic_def by (auto intro!: state_eqI split: prod.split)

lemma zoom_return:
  assumes "\<And>w. upd (\<lambda>_. sel w) w = w"
  shows "zoom sel upd (ret x) = ret x"
  by (rule state_eqI) (auto simp: assms)

lemma zoom_bind:
  assumes "\<And>s w. sel (upd (\<lambda>_. s) w) = s"
    and "\<And>s s' w. upd (\<lambda>_. s') (upd (\<lambda>_. s) w) = upd (\<lambda>_. s') w"
  shows "zoom sel upd (State_Monad.bind m f) = State_Monad.bind (zoom sel upd m) (\<lambda>x. zoom sel upd (f x))"
  by (rule state_eqI) (auto simp: run_bind assms split: prod.split)

subsection \<open>Pools\<close>

text \<open>
  A configuration is the list of the threads, the shared state and the clock they all read. Any
  thread that is not done may take the next step.
\<close>

type_synonym ('w, 'a) pool = "('w, 'a) thread list \<times> 'w \<times> clock"

inductive pool_step :: "('w, 'a) pool \<Rightarrow> ('w, 'a) pool \<Rightarrow> bool" where
  turn: "\<lbrakk>i < length ts; ts ! i = Step m; run_state m s = (t, s')\<rbrakk>
    \<Longrightarrow> pool_step (ts, s) (ts[i := t], s')"

inductive_cases pool_stepE: "pool_step (ts, s) p"

text \<open>The execution that follows a schedule: the numbers of the threads in the order of their turns.\<close>

fun take_turn :: "nat \<Rightarrow> ('w, 'a) pool \<Rightarrow> ('w, 'a) pool" where
  "take_turn i (ts, s) =
     (if i < length ts
      then case ts ! i of
          Done x \<Rightarrow> (ts, s)
        | Step m \<Rightarrow> (case run_state m s of (t, s') \<Rightarrow> (ts[i := t], s'))
      else (ts, s))"

definition run_schedule :: "nat list \<Rightarrow> ('w, 'a) pool \<Rightarrow> ('w, 'a) pool" where
  "run_schedule = fold take_turn"

lemma run_schedule_simps [simp]:
  "run_schedule [] p = p"
  "run_schedule (i # is) p = run_schedule is (take_turn i p)"
  by (simp_all add: run_schedule_def)

lemma take_turn_steps: "pool_step\<^sup>*\<^sup>* p (take_turn i p)"
  by (cases p) (auto split: thread.split prod.split intro: pool_step.intros r_into_rtranclp)

lemma run_schedule_steps: "pool_step\<^sup>*\<^sup>* p (run_schedule is p)"
proof (induction "is" arbitrary: p)
  case (Cons i "is")
  show ?case
    using rtranclp_trans [OF take_turn_steps Cons.IH] by simp
qed simp

lemma pool_length: "pool_step\<^sup>*\<^sup>* p p' \<Longrightarrow> length (fst p') = length (fst p)"
  by (induction rule: rtranclp_induct) (auto elim: pool_step.cases)

subsection \<open>Every execution ends\<close>

inductive steps_le :: "nat \<Rightarrow> ('w, 'a) thread \<Rightarrow> bool" where
  done_le: "steps_le n (Done x)"
| step_le: "(\<And>s. steps_le n (fst (run_state m s))) \<Longrightarrow> steps_le (Suc n) (Step m)"

lemma steps_le_mono: "steps_le n t \<Longrightarrow> n \<le> n' \<Longrightarrow> steps_le n' t"
proof (induction arbitrary: n' rule: steps_le.induct)
  case (step_le n m)
  then show ?case
    by (cases n') (auto intro: steps_le.step_le)
qed (rule steps_le.done_le)

lemma steps_le_atomic: "(\<And>x. steps_le n (k x)) \<Longrightarrow> steps_le (Suc n) (atomic m k)"
  unfolding atomic_def by (rule step_le) (simp split: prod.split)

lemma steps_le_embed: "steps_le n t \<Longrightarrow> steps_le n (embed sel upd f t)"
proof (induction rule: steps_le.induct)
  case (step_le n m)
  then show ?case
    by (auto intro!: steps_le.step_le simp: prod.case_eq_if zoom_def)
qed (simp add: steps_le.done_le)

text \<open>
  With \<open>b i\<close> a bound of thread \<open>i\<close>, an execution has at most as many steps as the bounds add up to;
  and a pool that cannot step is done.
\<close>

lemma pool_steps_le:
  assumes "(pool_step ^^ k) p p'" and "\<forall>i < length (fst p). steps_le (b i) (fst p ! i)"
  shows "k \<le> (\<Sum>i < length (fst p). b i)"
  using assms
proof (induction k arbitrary: p b)
  case (Suc k)
  obtain p1 where p1: "pool_step p p1" "(pool_step ^^ k) p1 p'"
    using Suc.prems(1) by (auto simp only: relpow_Suc_D2 dest: relpowp_Suc_D2)
  then obtain i ts m s t s' where step: "p = (ts, s)" "p1 = (ts[i := t], s')" "i < length ts"
      "ts ! i = Step m" "run_state m s = (t, s')"
    by (auto elim: pool_step.cases)
  have "steps_le (b i) (Step m)"
    using Suc.prems(2) step by force
  then obtain n where n: "b i = Suc n" "steps_le n t"
    using step(5) by (cases rule: steps_le.cases) (metis fst_conv)
  have "k \<le> (\<Sum>j < length (fst p1). (b(i := n)) j)"
    by (rule Suc.IH [OF p1(2)]) (use Suc.prems(2) step n in \<open>auto simp: nth_list_update\<close>)
  also have "\<dots> + 1 = (\<Sum>j < length (fst p). b j)"
    using step(3) n(1) by (simp add: step sum.remove [of "{..<length ts}" i])
  finally show ?case
    by simp
qed simp

lemma pool_stuck: "\<not> (\<exists>p'. pool_step p p') \<Longrightarrow> t \<in> set (fst p) \<Longrightarrow> \<exists>x. t = Done x"
  by (cases p; cases t) (auto simp: in_set_conv_nth, metis pool_step.intros prod.exhaust_sel)

subsection \<open>Invariants of all executions\<close>

text \<open>
  A thread keeps the invariant \<open>I\<close> and moves the state only along \<open>G\<close>, whatever the others do in
  between along \<open>G\<close>; when it is done, \<open>Q\<close> holds of its value.
\<close>

inductive keeps ::
  "('w \<Rightarrow> bool) \<Rightarrow> ('w \<Rightarrow> 'w \<Rightarrow> bool) \<Rightarrow> ('a \<Rightarrow> 'w \<Rightarrow> bool) \<Rightarrow> ('w, 'a) thread \<Rightarrow> 'w \<Rightarrow> bool"
  for I G Q where
  keeps_done: "Q x w \<Longrightarrow> keeps I G Q (Done x) w"
| keeps_step: "(\<And>w2 c t w' c'. \<lbrakk>I w2; G w w2; run_state m (w2, c) = (t, (w', c'))\<rbrakk> \<Longrightarrow>
      I w' \<and> G w2 w' \<and> keeps I G Q t w') \<Longrightarrow> keeps I G Q (Step m) w"

inductive_simps keeps_Done [simp]: "keeps I G Q (Done x) w"
inductive_cases keeps_StepE: "keeps I G Q (Step m) w"

lemma keeps_stepD:
  assumes "keeps I G Q (Step m) w" and "I w2" and "G w w2" and "run_state m (w2, c) = (t, (w', c'))"
  shows "I w' \<and> G w2 w' \<and> keeps I G Q t w'"
  using assms(1)
proof (rule keeps_StepE)
  assume "\<And>w2 c t w' c'. \<lbrakk>I w2; G w w2; run_state m (w2, c) = (t, (w', c'))\<rbrakk> \<Longrightarrow>
    I w' \<and> G w2 w' \<and> keeps I G Q t w'"
  from this [OF assms(2-4)] show ?thesis .
qed

lemma keeps_atomic:
  assumes "\<And>w2 c. \<lbrakk>I w2; G w w2\<rbrakk> \<Longrightarrow> wp m (\<lambda>x (w', c'). I w' \<and> G w2 w' \<and> keeps I G Q (k x) w') (w2, c)"
  shows "keeps I G Q (atomic m k) w"
  unfolding atomic_def
proof (rule keeps_step)
  fix w2 c t w' c'
  assume "I w2" "G w w2" and "run_state (map_state k m) (w2, c) = (t, (w', c'))"
  then show "I w' \<and> G w2 w' \<and> keeps I G Q t w'"
    using assms [of w2 c] by (auto simp: wp_def split: prod.splits)
qed

text \<open>What a pool needs to keep its invariant: \<open>G\<close> is a preorder along which \<open>Q\<close> stays true.\<close>

locale rely =
  fixes I :: "'w \<Rightarrow> bool" and G :: "'w \<Rightarrow> 'w \<Rightarrow> bool" and Q :: "nat \<Rightarrow> 'a \<Rightarrow> 'w \<Rightarrow> bool"
  assumes G_refl: "G w w"
    and G_trans: "\<lbrakk>G w w1; G w1 w2\<rbrakk> \<Longrightarrow> G w w2"
    and Q_stable: "\<lbrakk>Q i x w; G w w1\<rbrakk> \<Longrightarrow> Q i x w1"
begin

lemma keeps_later: "\<lbrakk>keeps I G (Q i) t w; G w w1\<rbrakk> \<Longrightarrow> keeps I G (Q i) t w1"
proof (induction rule: keeps.induct)
  case (keeps_step w m)
  show ?case
    by (rule keeps.keeps_step) (use keeps_step G_trans in \<open>blast\<close>)
qed (simp add: Q_stable)

definition pool_ok :: "('w, 'a) pool \<Rightarrow> bool" where
  "pool_ok p \<longleftrightarrow> (case p of (ts, (w, c)) \<Rightarrow> I w \<and> (\<forall>i < length ts. keeps I G (Q i) (ts ! i) w))"

lemma pool_ok_step:
  assumes "pool_step p p'" and "pool_ok p"
  shows "pool_ok p' \<and> G (fst (snd p)) (fst (snd p'))"
  using assms
proof cases
  case (turn i ts m s t s')
  obtain w c w' c' where s: "s = (w, c)" "s' = (w', c')"
    by fastforce
  have "I w" "keeps I G (Q i) (Step m) w"
    using assms(2) turn s by (auto simp: pool_ok_def)
  then have "I w'" "G w w'" "keeps I G (Q i) t w'"
    using keeps_stepD [OF \<open>keeps I G (Q i) (Step m) w\<close> \<open>I w\<close> G_refl, of c t w' c'] turn(5) s
    by simp_all
  moreover have "keeps I G (Q j) (ts ! j) w'" if "j < length ts" for j
    using assms(2) that turn(1) s by (intro keeps_later [OF _ \<open>G w w'\<close>]) (simp add: pool_ok_def)
  ultimately show ?thesis
    using turn s by (auto simp: pool_ok_def nth_list_update)
qed

lemma pool_ok_steps:
  assumes "pool_step\<^sup>*\<^sup>* p p'" and "pool_ok p"
  shows "pool_ok p' \<and> G (fst (snd p)) (fst (snd p'))"
  using assms
proof (induction rule: rtranclp_induct)
  case (step p1 p2)
  then show ?case
    using pool_ok_step [OF step(2)] by (blast intro: G_trans)
qed (simp add: G_refl)

lemma pool_done:
  assumes "pool_ok (ts, (w, c))" and "i < length ts" and "ts ! i = Done x"
  shows "Q i x w"
  using assms by (force simp: pool_ok_def)

end

end
