(* ===== verification/Interleaving.thy ===== *)
theory Interleaving
  imports Threads Worker
begin

section \<open>Requests and messages that interleave\<close>

text \<open>
  The operations of \<open>Service\<close> and \<open>Worker\<close> cut at their calls: each call of the repository, the
  producer, the fetcher and the clock is one atomic step (the mock takes its lock once per method, a
  MongoDB method is one command on one document), what the code computes in between belongs to the
  step before. \<open>run_thread\<close> puts the steps together again: the threads are the operations.
\<close>

subsection \<open>The service as threads\<close>

definition dispatch_thread ::
  "('r, 'f, 'p) MetadataServiceImpl \<Rightarrow> Context \<Rightarrow> string \<Rightarrow> string \<Rightarrow>
   (goerr option \<Rightarrow> (('r, 'f, 'p) service_world, service_result) thread) \<Rightarrow>
   (('r, 'f, 'p) service_world, service_result) thread" where
  "dispatch_thread s ctx url source k =
     atomic time_Now (\<lambda>now.
     atomic (on_producer (Publish (producer s) (fetch_message ctx url source now))) (\<lambda>err.
     k (map_option (ErrorfWV (Sentinel ErrKafkaError)) err)))"

definition read_back_thread ::
  "('r, 'f, 'p) MetadataServiceImpl \<Rightarrow> string \<Rightarrow>
   (('r, 'f, 'p) service_world, service_result) thread" where
  "read_back_thread s url = atomic (on_repo (FindByURL (repo s) url)) (\<lambda>r.
     Done (case r of Inl err \<Rightarrow> Inl (db_error err) | Inr record \<Rightarrow> Inr (record, True)))"

definition upsert_thread ::
  "('r, 'f, 'p) MetadataServiceImpl \<Rightarrow> string \<Rightarrow>
   (('r, 'f, 'p) service_world, service_result) thread \<Rightarrow>
   (('r, 'f, 'p) service_world, service_result) thread" where
  "upsert_thread s url k =
     atomic time_Now (\<lambda>now.
     atomic (on_repo (Upsert (repo s) (pending_record url now))) (\<lambda>(_, err).
     case err of Some e \<Rightarrow> Done (Inl (db_error e)) | None \<Rightarrow> k))"

definition store_thread ::
  "('r, 'f, 'p) MetadataServiceImpl \<Rightarrow> string \<Rightarrow> goerr + FetcherResult \<Rightarrow>
   (('r, 'f, 'p) service_world, service_result) thread" where
  "store_thread s url r =
     (case r of
        Inl fetchErr \<Rightarrow> atomic (on_repo (UpdateStatus (repo s) url StatusFailed None)) (\<lambda>_.
          Done (Inl (ErrorfWV (Sentinel ErrFetchFailed) fetchErr)))
      | Inr result \<Rightarrow>
          atomic (on_repo (UpdateStatus (repo s) url StatusReady (Some (fetch_result_of result)))) (\<lambda>err.
          case err of Some e \<Rightarrow> Done (Inl (db_error e)) | None \<Rightarrow> read_back_thread s url))"

definition submit_thread ::
  "('r, 'f, 'p) MetadataServiceImpl \<Rightarrow> Context \<Rightarrow> string \<Rightarrow>
   (('r, 'f, 'p) service_world, service_result) thread" where
  "submit_thread s ctx url = atomic (on_repo (FindByURL (repo s) url)) (\<lambda>r.
     case r of
       Inl err \<Rightarrow> Done (Inl (db_error err))
     | Inr existing \<Rightarrow>
         if is_some_and (\<lambda>e. Status e = StatusReady) existing then Done (Inr (existing, False))
         else if is_some_and (\<lambda>e. Status e = StatusPending \<or> Status e = StatusFetching) existing
         then Done (Inr (existing, False))
         else upsert_thread s url
           (if flags s AsyncFetchOnly then dispatch_thread s ctx url ''api-post'' (\<lambda>err.
              case err of Some e \<Rightarrow> Done (Inl e) | None \<Rightarrow> read_back_thread s url)
            else atomic (on_repo (UpdateStatus (repo s) url StatusFetching None)) (\<lambda>_.
              atomic (on_fetcher (Fetch (fetcher s) url (flags s PageSourceStorage)))
                (store_thread s url))))"

definition get_thread ::
  "('r, 'f, 'p) MetadataServiceImpl \<Rightarrow> Context \<Rightarrow> string \<Rightarrow>
   (('r, 'f, 'p) service_world, service_result) thread" where
  "get_thread s ctx url = atomic (on_repo (FindByURL (repo s) url)) (\<lambda>r.
     case r of
       Inl err \<Rightarrow> Done (Inl (db_error err))
     | Inr record \<Rightarrow>
         if is_some_and (\<lambda>e. Status e = StatusReady) record then Done (Inr (record, False))
         else if is_some_and (\<lambda>e. Status e = StatusPending \<or> Status e = StatusFetching) record
         then Done (Inr (None, True))
         else upsert_thread s url (dispatch_thread s ctx url ''api-get'' (\<lambda>err.
           case err of Some e \<Rightarrow> Done (Inl e) | None \<Rightarrow> Done (Inr (None, True)))))"

fun call_thread ::
  "('r, 'f, 'p) MetadataServiceImpl \<Rightarrow> api_call \<Rightarrow>
   (('r, 'f, 'p) service_world, service_result) thread" where
  "call_thread s (CallSubmit ctx url) = submit_thread s ctx url"
| "call_thread s (CallGet ctx url) = get_thread s ctx url"

subsection \<open>The worker as threads\<close>

definition finish_thread ::
  "('r, 'f) Worker \<Rightarrow> string \<Rightarrow> duration \<Rightarrow> goerr + FetcherResult \<Rightarrow>
   (('r, 'f) worker_world, goerr option) thread" where
  "finish_thread wk url fetchDuration r =
     (case r of
        Inl err \<Rightarrow>
          atomic (on_repo_w (UpdateStatus (w_repo wk) url StatusFailed None)) (\<lambda>_.
          atomic (on_metrics (count_failure fetchDuration)) (\<lambda>_.
          Done (Some (fetch_url_error url err))))
      | Inr result \<Rightarrow>
          atomic (on_repo_w (UpdateStatus (w_repo wk) url StatusReady (Some (worker_result result)))) (\<lambda>err.
          case err of
            Some e \<Rightarrow> Done (Some (update_db_error url e))
          | None \<Rightarrow> atomic (on_metrics (count_success fetchDuration)) (\<lambda>_. Done None)))"

definition message_thread ::
  "('r, 'f) Worker \<Rightarrow> FetchRequestMessage \<Rightarrow> (('r, 'f) worker_world, goerr option) thread" where
  "message_thread wk msg =
     atomic (on_repo_w (UpdateStatus (w_repo wk) (URL_q msg) StatusFetching None)) (\<lambda>_.
     atomic NewTimer (\<lambda>timer.
     atomic (on_fetcher_w (Fetch (w_fetcher wk) (URL_q msg) (w_flags wk PageSourceStorage))) (\<lambda>r.
     atomic (Elapsed timer) (\<lambda>fetchDuration.
     finish_thread wk (URL_q msg) fetchDuration r))))"

lemmas service_threads = dispatch_thread_def read_back_thread_def upsert_thread_def store_thread_def
  submit_thread_def get_thread_def

lemmas worker_threads = finish_thread_def message_thread_def

text \<open>Case distinctions move out of \<open>run_thread\<close> and \<open>embed\<close>.\<close>

lemma run_thread_if: "run_thread (if b then t else u) = (if b then run_thread t else run_thread u)"
  by simp

lemma run_thread_option:
  "run_thread (case x of None \<Rightarrow> t | Some y \<Rightarrow> u y) = (case x of None \<Rightarrow> run_thread t | Some y \<Rightarrow> run_thread (u y))"
  by (simp split: option.split)

lemma run_thread_sum:
  "run_thread (case x of Inl y \<Rightarrow> t y | Inr y \<Rightarrow> u y) = (case x of Inl y \<Rightarrow> run_thread (t y) | Inr y \<Rightarrow> run_thread (u y))"
  by (simp split: sum.split)

lemma run_thread_prod: "run_thread (case x of (a, b) \<Rightarrow> t a b) = (case x of (a, b) \<Rightarrow> run_thread (t a b))"
  by (simp split: prod.split)

lemmas run_thread_cases = run_thread_if run_thread_option run_thread_sum run_thread_prod

lemma run_call_thread: "run_thread (call_thread s call) = run_call s call"
  by (cases call)
    (auto simp: service_threads run_thread_cases SubmitURL_def GetMetadata_def upsert_pending_def
      dispatchAsyncFetch_def submit_async_def submit_inline_def store_outcome_def read_back_def
      run_bind option.map_comp comp_def
      intro!: state_eqI arg_cong2 [where f = State_Monad.bind] ext split: sum.split option.split prod.split)

lemma run_message_thread: "run_thread (message_thread wk msg) = handleMessage wk msg"
  by (auto simp: worker_threads run_thread_cases handleMessage_def finish_message_def
      intro!: arg_cong2 [where f = State_Monad.bind] ext split: sum.split option.split)

subsection \<open>The system\<close>

text \<open>
  The two processes over one store and one topic. The state of each is a part of the system's, read
  and written through it.
\<close>

record ('r, 'f, 'p, 'g) system =
  sys_store :: 'r
  sys_topic :: 'p
  api_fetch :: 'f
  wk_fetch :: 'g
  wk_metrics :: "Metrics option"

definition api_part :: "('r, 'f, 'p, 'g) system \<Rightarrow> ('r, 'f, 'p) service_world" where
  "api_part w = \<lparr>repo_st = sys_store w, fetch_st = api_fetch w, prod_st = sys_topic w\<rparr>"

definition set_api ::
  "(('r, 'f, 'p) service_world \<Rightarrow> ('r, 'f, 'p) service_world) \<Rightarrow>
   ('r, 'f, 'p, 'g) system \<Rightarrow> ('r, 'f, 'p, 'g) system" where
  "set_api g w = w\<lparr>sys_store := repo_st (g (api_part w)), api_fetch := fetch_st (g (api_part w)),
     sys_topic := prod_st (g (api_part w))\<rparr>"

definition worker_part :: "('r, 'f, 'p, 'g) system \<Rightarrow> ('r, 'g) worker_world" where
  "worker_part w = \<lparr>repo_w = sys_store w, fetch_w = wk_fetch w, metrics_w = wk_metrics w\<rparr>"

definition set_worker ::
  "(('r, 'g) worker_world \<Rightarrow> ('r, 'g) worker_world) \<Rightarrow>
   ('r, 'f, 'p, 'g) system \<Rightarrow> ('r, 'f, 'p, 'g) system" where
  "set_worker g w = w\<lparr>sys_store := repo_w (g (worker_part w)), wk_fetch := fetch_w (g (worker_part w)),
     wk_metrics := metrics_w (g (worker_part w))\<rparr>"

lemma part_simps [simp]:
  "repo_st (api_part w) = sys_store w" "fetch_st (api_part w) = api_fetch w"
  "prod_st (api_part w) = sys_topic w" "repo_w (worker_part w) = sys_store w"
  "fetch_w (worker_part w) = wk_fetch w" "metrics_w (worker_part w) = wk_metrics w"
  by (simp_all add: api_part_def worker_part_def)

lemma set_api_simps [simp]:
  "sys_store (set_api g w) = repo_st (g (api_part w))"
  "api_fetch (set_api g w) = fetch_st (g (api_part w))"
  "sys_topic (set_api g w) = prod_st (g (api_part w))"
  "wk_fetch (set_api g w) = wk_fetch w" "wk_metrics (set_api g w) = wk_metrics w"
  by (simp_all add: set_api_def)

lemma set_worker_simps [simp]:
  "sys_store (set_worker g w) = repo_w (g (worker_part w))"
  "wk_fetch (set_worker g w) = fetch_w (g (worker_part w))"
  "wk_metrics (set_worker g w) = metrics_w (g (worker_part w))"
  "api_fetch (set_worker g w) = api_fetch w" "sys_topic (set_worker g w) = sys_topic w"
  by (simp_all add: set_worker_def)

text \<open>What runs: a request to the service, or a message in the worker.\<close>

datatype task = Call api_call | Message FetchRequestMessage

datatype answer = Answer service_result | Handled "goerr option"

fun task_url :: "task \<Rightarrow> string" where
  "task_url (Call call) = call_url call"
| "task_url (Message msg) = URL_q msg"

fun task_thread ::
  "('r, 'f, 'p) MetadataServiceImpl \<Rightarrow> ('r, 'g) Worker \<Rightarrow> task \<Rightarrow>
   (('r, 'f, 'p, 'g) system, answer) thread" where
  "task_thread s wk (Call call) = embed api_part set_api Answer (call_thread s call)"
| "task_thread s wk (Message msg) = embed worker_part set_worker Handled (message_thread wk msg)"

subsection \<open>Every execution ends\<close>

lemma steps_le_cases:
  "(b \<Longrightarrow> steps_le n t) \<Longrightarrow> (\<not> b \<Longrightarrow> steps_le n u) \<Longrightarrow> steps_le n (if b then t else u)"
  "(x = None \<Longrightarrow> steps_le n t) \<Longrightarrow> (\<And>y. x = Some y \<Longrightarrow> steps_le n (v y)) \<Longrightarrow>
     steps_le n (case x of None \<Rightarrow> t | Some y \<Rightarrow> v y)"
  "(\<And>y. r = Inl y \<Longrightarrow> steps_le n (l y)) \<Longrightarrow> (\<And>y. r = Inr y \<Longrightarrow> steps_le n (g y)) \<Longrightarrow>
     steps_le n (case r of Inl y \<Rightarrow> l y | Inr y \<Rightarrow> g y)"
  "(\<And>a b. steps_le n (h a b)) \<Longrightarrow> steps_le n (case p of (a, b) \<Rightarrow> h a b)"
  by (auto split: option.split sum.split prod.split)

lemma seven: "(7 :: nat) = Suc (Suc (Suc (Suc (Suc (Suc (Suc 0))))))"
  by simp

lemma call_thread_steps: "steps_le 7 (call_thread s call)"
  by (cases call; simp only: call_thread.simps)
    (unfold service_threads seven, (intro steps_le_atomic steps_le_cases steps_le.done_le)+)

lemma message_thread_steps: "steps_le 7 (message_thread wk msg)"
  unfolding worker_threads seven
  by (intro steps_le_atomic steps_le_cases steps_le.done_le)

lemma task_thread_steps: "steps_le 7 (task_thread s wk t)"
  by (cases t) (auto intro: steps_le_embed call_thread_steps message_thread_steps)

subsection \<open>What no interleaving breaks\<close>

text \<open>
  An entry is whole when it holds no page at all, or the page of one fetch and nothing else. The system
  is consistent when every entry is whole and every message in the topic is about a URL that has an
  entry; records never disappear.
\<close>

definition whole :: "(bool \<Rightarrow> FetcherResult \<Rightarrow> bool) \<Rightarrow> string \<Rightarrow> entry \<Rightarrow> bool" where
  "whole good url e \<longleftrightarrow>
     (\<exists>st \<in> {StatusPending, StatusFetching, StatusFailed}. e = (pending_entry url)\<lparr>e_status := st\<rparr>)
     \<or> (\<exists>st \<in> {StatusReady, StatusFetching, StatusFailed}. \<exists>f inc. good inc f \<and>
          e = (ready_entry (fetch_result_of f) url)\<lparr>e_status := st\<rparr>)"

definition consistent ::
  "('r \<Rightarrow> bool) \<Rightarrow> ('r \<Rightarrow> store) \<Rightarrow> ('p \<Rightarrow> FetchRequestMessage list) \<Rightarrow>
   (bool \<Rightarrow> FetcherResult \<Rightarrow> bool) \<Rightarrow> ('r, 'f, 'p, 'g) system \<Rightarrow> bool" where
  "consistent invar view sent good w \<longleftrightarrow> invar (sys_store w) \<and>
     (\<forall>url e. view (sys_store w) url = Some e \<longrightarrow> whole good url e) \<and>
     (\<forall>msg \<in> set (sent (sys_topic w)). view (sys_store w) (URL_q msg) \<noteq> None)"

definition later :: "('r \<Rightarrow> store) \<Rightarrow> ('r, 'f, 'p, 'g) system \<Rightarrow> ('r, 'f, 'p, 'g) system \<Rightarrow> bool" where
  "later view w w' \<longleftrightarrow> dom (view (sys_store w)) \<subseteq> dom (view (sys_store w'))"

text \<open>
  What is true of an answer from then on. A POST without an error has a record (the handler would
  panic on a missing one), a GET has one exactly when it does not report the URL as queued, and then a
  ready one; records are whole, and the URL stays known.
\<close>

fun answered ::
  "('r \<Rightarrow> store) \<Rightarrow> (bool \<Rightarrow> FetcherResult \<Rightarrow> bool) \<Rightarrow> task \<Rightarrow> answer \<Rightarrow>
   ('r, 'f, 'p, 'g) system \<Rightarrow> bool" where
  "answered view good (Call (CallSubmit ctx url)) (Answer (Inr (r, b))) w \<longleftrightarrow>
     view (sys_store w) url \<noteq> None \<and> (\<exists>rec. r = Some rec \<and> whole good url (entry_of rec))"
| "answered view good (Call (CallGet ctx url)) (Answer (Inr (r, b))) w \<longleftrightarrow>
     view (sys_store w) url \<noteq> None \<and>
     (if b then r = None
      else \<exists>rec. r = Some rec \<and> Status rec = StatusReady \<and> whole good url (entry_of rec))"
| "answered view good t x w \<longleftrightarrow> True"

lemma answered_error [simp]: "answered view good t (Answer (Inl e)) w"
proof (cases t)
  case (Call call)
  then show ?thesis
    by (cases call) simp_all
qed simp

lemma whole_pending [simp]: "whole good url (pending_entry url)"
  by (auto simp: whole_def intro!: exI [of _ StatusPending])

lemma ready_entry_update [simp]:
  "entry_update StatusReady (Some r) ((pending_entry url)\<lparr>e_status := st\<rparr>) = ready_entry r url"
  "entry_update StatusReady (Some r) ((ready_entry r' url)\<lparr>e_status := st\<rparr>) = ready_entry r url"
  "entry_update StatusReady (Some r) (pending_entry url) = ready_entry r url"
  "entry_update StatusReady (Some r) (ready_entry r' url) = ready_entry r url"
  "(ready_entry r url)\<lparr>e_status := StatusReady\<rparr> = ready_entry r url"
  by (simp_all add: ready_entry_def entry_update_def pending_entry_def)

lemma whole_update_none:
  assumes "whole good url e" and "st \<in> {StatusFetching, StatusFailed}"
  shows "whole good url (entry_update st None e)"
  using assms unfolding whole_def entry_update_def by auto

lemma whole_update_some:
  assumes "whole good url e" and "good inc f"
  shows "whole good url (entry_update StatusReady (Some (fetch_result_of f)) e)"
proof -
  have "entry_update StatusReady (Some (fetch_result_of f)) e =
      (ready_entry (fetch_result_of f) url)\<lparr>e_status := StatusReady\<rparr>"
    using assms(1) by (auto simp: whole_def)
  with assms(2) show ?thesis
    unfolding whole_def by blast
qed

text \<open>The updates the program makes.\<close>

definition proper_update ::
  "(bool \<Rightarrow> FetcherResult \<Rightarrow> bool) \<Rightarrow> Status \<Rightarrow> FetchResult option \<Rightarrow> bool" where
  "proper_update good st res \<longleftrightarrow>
     (res = None \<and> st \<in> {StatusFetching, StatusFailed})
     \<or> (\<exists>f inc. st = StatusReady \<and> res = Some (fetch_result_of f) \<and> good inc f)"

lemma proper_updateI [intro]:
  "proper_update good StatusFetching None"
  "proper_update good StatusFailed None"
  "good inc f \<Longrightarrow> proper_update good StatusReady (Some (fetch_result_of f))"
  by (auto simp: proper_update_def)

lemma whole_proper: "proper_update good st res \<Longrightarrow> whole good url e \<Longrightarrow> whole good url (entry_update st res e)"
  by (auto simp: proper_update_def intro: whole_update_none whole_update_some)

lemma consistent_same:
  assumes "consistent invar view sent good w" and "invar (sys_store w')"
    and "view (sys_store w') = view (sys_store w)" and "sent (sys_topic w') = sent (sys_topic w)"
  shows "consistent invar view sent good w' \<and> later view w w'"
  using assms by (simp add: consistent_def later_def)

lemma consistent_put:
  assumes "consistent invar view sent good w" and "invar (sys_store w')"
    and "view (sys_store w') = put_entry (pending_record url now) (view (sys_store w))"
    and "sent (sys_topic w') = sent (sys_topic w)"
  shows "consistent invar view sent good w' \<and> later view w w'"
  using assms by (auto simp: consistent_def later_def claimed_def)

lemma consistent_update:
  assumes "consistent invar view sent good w" and "invar (sys_store w')" and "proper_update good st res"
    and "view (sys_store w') = set_status url st res (view (sys_store w))"
    and "sent (sys_topic w') = sent (sys_topic w)"
  shows "consistent invar view sent good w' \<and> later view w w'"
  using assms
  by (auto simp: consistent_def later_def set_status_apply whole_proper split: if_splits)

lemma consistent_sent:
  assumes "consistent invar view sent good w" and "sys_store w' = sys_store w"
    and "view (sys_store w) (URL_q msg) \<noteq> None" and "sent (sys_topic w') = sent (sys_topic w) @ [msg]"
  shows "consistent invar view sent good w' \<and> later view w w'"
  using assms by (auto simp: consistent_def later_def)

text \<open>The steps of the threads, each by the contract of the operation it calls.\<close>

locale concurrent_system =
  metadata_service R view urls invar P sent wire F good fl + wk: fetcher_contract H good
  for R :: "'r MetadataRepository" and view :: "'r \<Rightarrow> store" and urls invar
    and P :: "'p EventProducer" and sent :: "'p \<Rightarrow> FetchRequestMessage list" and wire
    and F :: "'f Fetcher" and good :: "bool \<Rightarrow> FetcherResult \<Rightarrow> bool" and fl :: FeatureFlags
    and H :: "'g Fetcher" +
  fixes wfl :: FeatureFlags
begin

abbreviation I :: "('r, 'f, 'p, 'g) system \<Rightarrow> bool" where
  "I \<equiv> consistent invar view sent good"

abbreviation wrk :: "('r, 'g) Worker" where
  "wrk \<equiv> \<lparr>w_repo = R, w_fetcher = H, w_flags = wfl\<rparr>"

lemma I_invar: "I w \<Longrightarrow> invar (sys_store w)"
  by (simp add: consistent_def)

lemma find_sys:
  assumes "I w" and "url \<in> urls"
    and "\<And>r w' c'. \<lbrakk>I w'; later view w w'; \<And>x. r = Inr x \<Longrightarrow> map_option entry_of x = view (sys_store w') url\<rbrakk>
      \<Longrightarrow> Q r (w', c')"
  shows "wp (zoom api_part set_api (on_repo (FindByURL R url))) Q (w, c)"
  unfolding wp_zoom
proof (simp, rule find_rule [OF I_invar [OF assms(1)] assms(2)], goal_cases)
  case (1 r s' c')
  have "I w' \<and> later view w w'" if "sys_store w' = s'" "sys_topic w' = sys_topic w"
    for w' :: "('r, 'f, 'p, 'g) system"
    by (rule consistent_same [OF assms(1)]) (simp_all add: 1 that)
  then show ?case
    using 1 by (auto intro!: assms(3))
qed

lemma upsert_sys:
  assumes "I w" and "url \<in> urls"
    and "\<And>r err w' c'. \<lbrakk>I w'; later view w w'; err = None \<Longrightarrow> view (sys_store w') url \<noteq> None\<rbrakk>
      \<Longrightarrow> Q (r, err) (w', c')"
  shows "wp (zoom api_part set_api (on_repo (Upsert R (pending_record url now)))) Q (w, c)"
  unfolding wp_zoom
proof (simp, rule upsert_rule [OF I_invar [OF assms(1)]], goal_cases)
  case (2 rec' s' c')
  have "I w' \<and> later view w w'" if "sys_store w' = s'" "sys_topic w' = sys_topic w"
    for w' :: "('r, 'f, 'p, 'g) system"
    by (rule consistent_put [OF assms(1)]) (simp_all add: 2 that)
  then show ?case
    using 2 by (auto intro!: assms(3))
next
  case (3 rec' e s' c')
  have "I w' \<and> later view w w'" if "sys_store w' = s'" "sys_topic w' = sys_topic w"
    for w' :: "('r, 'f, 'p, 'g) system"
    using 3(2) consistent_put [OF assms(1), of w' url now] consistent_same [OF assms(1), of w'] that 3(1)
    by auto
  then show ?case
    by (auto intro!: assms(3))
qed (simp add: assms(2))

lemma update_sys:
  assumes "I w" and "url \<in> urls" and "proper_update good st res"
    and "\<And>err w' c'. \<lbrakk>I w'; later view w w'\<rbrakk> \<Longrightarrow> Q err (w', c')"
  shows "wp (zoom api_part set_api (on_repo (UpdateStatus R url st res))) Q (w, c)"
    and "wp (zoom worker_part set_worker (on_repo_w (UpdateStatus R url st res))) Q (w, c)"
proof -
  have "I w' \<and> later view w w'"
    if "invar (sys_store w')" "sys_topic w' = sys_topic w"
      "view (sys_store w') = set_status url st res (view (sys_store w)) \<or>
       view (sys_store w') = view (sys_store w)" for w' :: "('r, 'f, 'p, 'g) system"
    using that consistent_update [OF assms(1) _ assms(3), of w' url] consistent_same [OF assms(1), of w']
    by auto
  then show "wp (zoom api_part set_api (on_repo (UpdateStatus R url st res))) Q (w, c)"
    and "wp (zoom worker_part set_worker (on_repo_w (UpdateStatus R url st res))) Q (w, c)"
    unfolding wp_zoom
    by (simp_all; intro update_rule [OF I_invar [OF assms(1)] assms(2)]; simp add: assms(4))+
qed

lemma publish_sys:
  assumes "I w" and "URL_q msg \<in> urls" and "view (sys_store w) (URL_q msg) \<noteq> None"
    and "\<And>err w' c'. \<lbrakk>I w'; later view w w'\<rbrakk> \<Longrightarrow> Q err (w', c')"
  shows "wp (zoom api_part set_api (on_producer (Publish P msg))) Q (w, c)"
proof -
  have "I w' \<and> later view w w'"
    if "sys_store w' = sys_store w" "sent (sys_topic w') = sent (sys_topic w) @ [wire msg] \<or>
       sent (sys_topic w') = sent (sys_topic w)" for w' :: "('r, 'f, 'p, 'g) system"
    using that consistent_sent [OF assms(1), of w' "wire msg"] consistent_same [OF assms(1), of w'] assms(2,3)
      wire_urls I_invar [OF assms(1)] by (auto simp: keeps_urls_def)
  then show ?thesis
    unfolding wp_zoom by (simp, intro publish_rule; simp add: assms(4))
qed

text \<open>The steps that leave store and topic alone.\<close>

lemma private_sys:
  assumes "I w" and "sys_store w' = sys_store w" and "sys_topic w' = sys_topic w"
  shows "I w' \<and> later view w w'"
  by (rule consistent_same [OF assms(1)]) (simp_all add: assms I_invar)

lemma fetch_sys:
  assumes "I w"
    and "\<And>r w' c'. \<lbrakk>I w'; later view w w'; \<And>f. r = Inr f \<Longrightarrow> good inc f\<rbrakk> \<Longrightarrow> Q r (w', c')"
  shows "wp (zoom api_part set_api (on_fetcher (Fetch F url inc))) Q (w, c)"
    and "wp (zoom worker_part set_worker (on_fetcher_w (Fetch H url inc))) Q (w, c)"
  unfolding wp_zoom
  by (rule fetch_rule wk.fetch_rule; use private_sys [OF assms(1)] in \<open>auto intro!: assms(2)\<close>)+

lemma clock_sys:
  assumes "I w" and "\<And>t w' c'. \<lbrakk>I w'; later view w w'\<rbrakk> \<Longrightarrow> Q t (w', c')"
  shows "wp (zoom api_part set_api time_Now) Q (w, c)"
    and "wp (zoom worker_part set_worker NewTimer) Q (w, c)"
    and "wp (zoom worker_part set_worker (Elapsed t0)) Q (w, c)"
  unfolding wp_zoom NewTimer_def Elapsed_def using private_sys [OF assms(1)]
  by (simp_all add: assms(2))

lemma metrics_sys:
  assumes "I w" and "\<And>w' c'. \<lbrakk>I w'; later view w w'\<rbrakk> \<Longrightarrow> Q () (w', c')"
  shows "wp (zoom worker_part set_worker (on_metrics g)) Q (w, c)"
  unfolding wp_zoom on_metrics_def using private_sys [OF assms(1)]
  by (simp add: assms(2))

text \<open>The same for the threads that make the steps.\<close>

abbreviation K :: "task \<Rightarrow> (('r, 'f, 'p, 'g) system, answer) thread \<Rightarrow> ('r, 'f, 'p, 'g) system \<Rightarrow> bool" where
  "K t \<equiv> keeps I (later view) (answered view good t)"

abbreviation api :: "(('r, 'f, 'p) service_world, service_result) thread \<Rightarrow> (('r, 'f, 'p, 'g) system, answer) thread" where
  "api \<equiv> embed api_part set_api Answer"

abbreviation wkr :: "(('r, 'g) worker_world, goerr option) thread \<Rightarrow> (('r, 'f, 'p, 'g) system, answer) thread" where
  "wkr \<equiv> embed worker_part set_worker Handled"

lemma later_trans: "\<lbrakk>later view w w1; later view w1 w2\<rbrakk> \<Longrightarrow> later view w w2"
  unfolding later_def by (rule order_trans)

lemma later_known: "\<lbrakk>later view w w'; view (sys_store w) url \<noteq> None\<rbrakk> \<Longrightarrow> view (sys_store w') url \<noteq> None"
  by (auto simp: later_def)

lemma find_keeps:
  assumes "url \<in> urls"
    and "\<And>r w'. \<lbrakk>I w'; later view w w'; \<And>x. r = Inr x \<Longrightarrow> map_option entry_of x = view (sys_store w') url\<rbrakk>
      \<Longrightarrow> K t (api (k r)) w'"
  shows "K t (api (atomic (on_repo (FindByURL R url)) k)) w"
  unfolding embed_atomic
  by (rule keeps_atomic, rule find_sys) (auto intro: assms later_trans)

lemma upsert_keeps:
  assumes "url \<in> urls"
    and "\<And>r err w'. \<lbrakk>I w'; later view w w'; err = None \<Longrightarrow> view (sys_store w') url \<noteq> None\<rbrakk>
      \<Longrightarrow> K t (api (k (r, err))) w'"
  shows "K t (api (atomic (on_repo (Upsert R (pending_record url now))) k)) w"
  unfolding embed_atomic
  by (rule keeps_atomic, rule upsert_sys) (auto intro: assms later_trans)

lemma update_keeps:
  assumes "url \<in> urls" and "proper_update good st res"
    and "\<And>err w'. \<lbrakk>I w'; later view w w'\<rbrakk> \<Longrightarrow> K t (api (k err)) w'"
  shows "K t (api (atomic (on_repo (UpdateStatus R url st res)) k)) w"
  unfolding embed_atomic
  by (rule keeps_atomic, rule update_sys) (auto intro: assms later_trans)

lemma publish_keeps:
  assumes "URL_q msg \<in> urls" and "view (sys_store w) (URL_q msg) \<noteq> None"
    and "\<And>err w'. \<lbrakk>I w'; later view w w'\<rbrakk> \<Longrightarrow> K t (api (k err)) w'"
  shows "K t (api (atomic (on_producer (Publish P msg)) k)) w"
  unfolding embed_atomic
  by (rule keeps_atomic, rule publish_sys)
    (use later_known [OF _ assms(2)] in \<open>auto intro: assms later_trans\<close>)

lemma fetch_keeps:
  assumes "\<And>r w'. \<lbrakk>I w'; later view w w'; \<And>f. r = Inr f \<Longrightarrow> good inc f\<rbrakk> \<Longrightarrow> K t (api (k r)) w'"
  shows "K t (api (atomic (on_fetcher (Fetch F url inc)) k)) w"
  unfolding embed_atomic
  by (rule keeps_atomic, rule fetch_sys) (auto intro: assms later_trans)

lemma clock_keeps:
  assumes "\<And>now w'. \<lbrakk>I w'; later view w w'\<rbrakk> \<Longrightarrow> K t (api (k now)) w'"
  shows "K t (api (atomic time_Now k)) w"
  unfolding embed_atomic
  by (rule keeps_atomic, rule clock_sys) (auto intro: assms later_trans)

lemma upsert_thread_keeps:
  assumes "call_url call \<in> urls"
    and "\<And>w'. \<lbrakk>I w'; later view w w'; view (sys_store w') (call_url call) \<noteq> None\<rbrakk> \<Longrightarrow> K (Call call) (api k) w'"
  shows "K (Call call) (api (upsert_thread srv (call_url call) k)) w"
  unfolding upsert_thread_def MetadataServiceImpl.simps
  by (rule clock_keeps, rule upsert_keeps [OF assms(1)])
    (use assms(2) later_trans in \<open>auto split: option.split\<close>)

lemma dispatch_thread_keeps:
  assumes "url \<in> urls" and "view (sys_store w) url \<noteq> None"
    and "\<And>err w'. \<lbrakk>I w'; later view w w'\<rbrakk> \<Longrightarrow> K t (api (k err)) w'"
  shows "K t (api (dispatch_thread srv ctx url source k)) w"
  unfolding dispatch_thread_def MetadataServiceImpl.simps
  by (rule clock_keeps, rule publish_keeps)
    (use later_known [OF _ assms(2)] in \<open>auto simp: fetch_message_def intro: assms later_trans\<close>)

lemma read_back_keeps:
  assumes "url \<in> urls" and "view (sys_store w) url \<noteq> None"
  shows "K (Call (CallSubmit ctx url)) (api (read_back_thread srv url)) w"
  unfolding read_back_thread_def MetadataServiceImpl.simps
proof (rule find_keeps [OF assms(1)], goal_cases)
  case (1 r w')
  have "view (sys_store w') url \<noteq> None"
    using 1(2) assms(2) by (rule later_known)
  moreover have "whole good url (entry_of rec)" if "view (sys_store w') url = Some (entry_of rec)" for rec
    using 1(1) that by (simp add: consistent_def)
  ultimately show ?case
    using 1(3) by (cases r) auto
qed

lemma store_thread_keeps:
  assumes "url \<in> urls" and "view (sys_store w) url \<noteq> None" and "\<And>f. r = Inr f \<Longrightarrow> good inc f"
  shows "K (Call (CallSubmit ctx url)) (api (store_thread srv url r)) w"
proof (cases r)
  case (Inl e)
  show ?thesis
    unfolding store_thread_def MetadataServiceImpl.simps Inl sum.case
    by (intro update_keeps [OF assms(1)] proper_updateI) simp
next
  case (Inr f)
  show ?thesis
    unfolding store_thread_def MetadataServiceImpl.simps Inr sum.case
    by (rule update_keeps [OF assms(1) proper_updateI(3) [of good, OF assms(3) [OF Inr]]])
      (auto intro!: read_back_keeps [OF assms(1)] dest: later_known [OF _ assms(2)] split: option.split)
qed

lemma submit_thread_keeps:
  assumes "url \<in> urls"
  shows "K (Call (CallSubmit ctx url)) (api (submit_thread srv ctx url)) w"
  unfolding submit_thread_def MetadataServiceImpl.simps
proof (rule find_keeps [OF assms], goal_cases)
  case (1 r w1)
  have known: "K (Call (CallSubmit ctx url)) (Done (Answer (Inr (Some rec, False)))) w1"
    if "view (sys_store w1) url = Some (entry_of rec)" for rec
    using that 1(1) by (simp add: consistent_def)
  have claim: "K (Call (CallSubmit ctx url)) (api (upsert_thread srv url
      (if fl AsyncFetchOnly then dispatch_thread srv ctx url ''api-post'' (\<lambda>err.
         case err of Some e \<Rightarrow> Done (Inl e) | None \<Rightarrow> read_back_thread srv url)
       else atomic (on_repo (UpdateStatus R url StatusFetching None)) (\<lambda>_.
         atomic (on_fetcher (Fetch F url (fl PageSourceStorage))) (store_thread srv url))))) w1"
  proof (rule upsert_thread_keeps [of "CallSubmit ctx url", simplified call_url.simps, OF assms], goal_cases)
    case (1 w2)
    note up = later_known [OF _ 1(3)] later_known [OF _ later_known [OF _ 1(3)]]
    show ?case
      using 1 assms
      by (auto intro!: dispatch_thread_keeps read_back_keeps update_keeps fetch_keeps store_thread_keeps
          dest: up simp del: embed_atomic split: option.split)
  qed
  show ?case
  proof (cases r)
    case (Inr x)
    from 1(3) [OF Inr] show ?thesis
      by (cases rule: lookup_cases) (use Inr known claim in \<open>auto simp: in_progress_def\<close>)
  qed simp
qed

lemma get_thread_keeps:
  assumes "url \<in> urls"
  shows "K (Call (CallGet ctx url)) (api (get_thread srv ctx url)) w"
  unfolding get_thread_def MetadataServiceImpl.simps
proof (rule find_keeps [OF assms], goal_cases)
  case (1 r w1)
  have cached: "K (Call (CallGet ctx url)) (Done (Answer (Inr (Some rec, False)))) w1"
    if "view (sys_store w1) url = Some (entry_of rec)" "Status rec = StatusReady" for rec
    using that 1(1) by (simp add: consistent_def)
  have claim: "K (Call (CallGet ctx url)) (api (upsert_thread srv url
      (dispatch_thread srv ctx url ''api-get'' (\<lambda>err.
         case err of Some e \<Rightarrow> Done (Inl e) | None \<Rightarrow> Done (Inr (None, True)))))) w1"
  proof (rule upsert_thread_keeps [of "CallGet ctx url", simplified call_url.simps, OF assms], goal_cases)
    case (1 w2)
    show ?case
      by (rule dispatch_thread_keeps [OF assms 1(3)])
        (auto dest: later_known [OF _ 1(3)] split: option.split)
  qed
  show ?case
  proof (cases r)
    case (Inr x)
    from 1(3) [OF Inr] show ?thesis
      by (cases rule: lookup_cases) (use Inr cached claim in \<open>auto simp: in_progress_def\<close>)
  qed simp
qed

lemma worker_keeps:
  "\<lbrakk>url \<in> urls; proper_update good st res; \<And>err w'. K t (wkr (k err)) w'\<rbrakk>
     \<Longrightarrow> K t (wkr (atomic (on_repo_w (UpdateStatus R url st res)) k)) w"
  "\<lbrakk>\<And>r w'. (\<And>f. r = Inr f \<Longrightarrow> good inc f) \<Longrightarrow> K t (wkr (k2 r)) w'\<rbrakk>
     \<Longrightarrow> K t (wkr (atomic (on_fetcher_w (Fetch H url inc)) k2)) w"
  "\<lbrakk>\<And>x w'. K t (wkr (k3 x)) w'\<rbrakk> \<Longrightarrow> K t (wkr (atomic NewTimer k3)) w"
  "\<lbrakk>\<And>x w'. K t (wkr (k3 x)) w'\<rbrakk> \<Longrightarrow> K t (wkr (atomic (Elapsed t0) k3)) w"
  "\<lbrakk>\<And>w'. K t (wkr (k4 ())) w'\<rbrakk> \<Longrightarrow> K t (wkr (atomic (on_metrics g) k4)) w"
  unfolding embed_atomic
  by (rule keeps_atomic; rule update_sys(2) fetch_sys(2) clock_sys(2) clock_sys(3) metrics_sys; auto)+

lemma message_thread_keeps:
  assumes "URL_q msg \<in> urls"
  shows "K (Message msg) (wkr (message_thread wrk msg)) w"
proof -
  have finish: "K (Message msg) (wkr (finish_thread wrk (URL_q msg) d r)) w'"
    if "\<And>f. r = Inr f \<Longrightarrow> good inc f" for d r w' inc
    using that unfolding finish_thread_def Worker.simps worker_result_eq
    by (cases r) (auto intro!: worker_keeps(1) [OF assms] worker_keeps(5)
        simp del: embed_atomic split: option.split)
  then show ?thesis
    unfolding message_thread_def Worker.simps
    by (intro worker_keeps assms proper_updateI) auto
qed

lemma task_thread_keeps: "task_url t \<in> urls \<Longrightarrow> K t (task_thread srv wrk t) w"
proof (cases t)
  case (Call call)
  then show "task_url t \<in> urls \<Longrightarrow> ?thesis"
    by (cases call) (simp_all add: submit_thread_keeps get_thread_keeps)
qed (simp add: message_thread_keeps)

lemma answered_later: "\<lbrakk>answered view good t x w; later view w w'\<rbrakk> \<Longrightarrow> answered view good t x w'"
  by (cases "(view, good, t, x, w)" rule: answered.cases) (auto dest: later_known)

sublocale pool: rely I "later view" "\<lambda>i. answered view good (tasks ! i)" for tasks
  by unfold_locales (auto simp: later_def answered_later dest: answered_later)

lemma pool_outcome:
  assumes "I w" and "\<forall>t \<in> set tasks. task_url t \<in> urls"
    and "pool_step\<^sup>*\<^sup>* (map (task_thread srv wrk) tasks, (w, c)) (ts, (w', c'))"
  shows "I w' \<and> later view w w' \<and>
    (\<forall>i < length tasks. \<forall>x. ts ! i = Done x \<longrightarrow> answered view good (tasks ! i) x w')"
proof -
  have "pool.pool_ok tasks (map (task_thread srv wrk) tasks, (w, c))"
    using assms(1,2) by (simp add: pool.pool_ok_def task_thread_keeps)
  from pool.pool_ok_steps [OF assms(3) this] show ?thesis
    using pool_length [OF assms(3)] pool.pool_done by (auto simp: pool.pool_ok_def)
qed

end

subsection \<open>Instances and properties\<close>

interpretation mocki: concurrent_system mock_repository mock_view UNIV mock_invar
    mock_producer Messages "\<lambda>m. m" mock_fetcher "\<lambda>_ _. True" fl mock_fetcher wfl for fl wfl
  by unfold_locales

interpretation prodi: concurrent_system "mongo_repository bytes_digest mem_collection"
    "mongo_view bytes_digest UNIV \<circ> mem_docs" valid_urls "mongo_invar bytes_digest UNIV \<circ> mem_docs"
    "kafka_producer mem_writer kp" "decoded_topic \<circ> broker_log" on_wire
    "http_fetcher env f" clean_result fl "http_fetcher env' f'" wfl
  for env f kp fl env' f' wfl
  by unfold_locales

text \<open>The system on the test doubles, with an empty store and topic.\<close>

definition new_mock_system ::
  "(MockRepository, MockFetcher, MockProducer, MockFetcher) system" where
  "new_mock_system = \<lparr>sys_store = NewMockRepository, sys_topic = prod_st new_mock_world,
     api_fetch = fetch_st new_mock_world, wk_fetch = fetch_st new_mock_world,
     wk_metrics = Some (NewMetrics ''metadata_worker'')\<rparr>"

definition mock_pool ::
  "FeatureFlags \<Rightarrow> task list \<Rightarrow> ((MockRepository, MockFetcher, MockProducer, MockFetcher) system, answer) pool" where
  "mock_pool fl tasks = (map (task_thread (mock_srv fl) mock_worker) tasks, (new_mock_system, int))"

lemma new_mock_system_consistent: "consistent mock_invar mock_view Messages (\<lambda>_ _. True) new_mock_system"
  using new_mock_world_simps
  by (simp add: consistent_def new_mock_system_def new_mock_world_def)


text \<open>
  C7: However requests and messages interleave, over every repository, producer and fetchers that keep
  their contracts: every entry is always whole (no page at all, or that of one fetch, sizes, cookies
  and headers included), every message is about a URL with a record, records never disappear; and
  every answer is the one of a record that was whole when it was read, with no missing record behind an
  answer that promises one.
\<close>

theorem interleaving_keeps_records_whole:
  assumes "concurrent_system R view urls invar P sent wire F good H"
    and "consistent invar view sent good w" and "\<forall>t \<in> set tasks. task_url t \<in> urls"
    and "pool_step\<^sup>*\<^sup>* (map (task_thread \<lparr>repo = R, producer = P, fetcher = F, flags = fl\<rparr>
           \<lparr>w_repo = R, w_fetcher = H, w_flags = wfl\<rparr>) tasks, (w, c)) (ts, (w', c'))"
  shows "consistent invar view sent good w' \<and> later view w w' \<and>
    (\<forall>i < length tasks. \<forall>x. ts ! i = Done x \<longrightarrow> answered view good (tasks ! i) x w')"
  by (rule concurrent_system.pool_outcome [OF assms])

theorem interleaving_keeps_records_whole_witness:
  "consistent mock_invar mock_view Messages (\<lambda>_ _. True)
     (fst (snd (run_schedule [0, 1, 0, 1, 0, 1, 2, 0, 2]
       (mock_pool (\<lambda>_. False) [Call (CallGet Background ''http://a.com/''),
         Call (CallSubmit Background ''http://a.com/''), Message (sample_request ''http://a.com/'')]))))"
proof -
  have steps: "pool_step\<^sup>*\<^sup>* (ts, (w, c)) (fst (run_schedule is (ts, (w, c))),
      (fst (snd (run_schedule is (ts, (w, c)))), snd (snd (run_schedule is (ts, (w, c))))))"
    for ts and w :: "(MockRepository, MockFetcher, MockProducer, MockFetcher) system" and c
      and "is" :: "nat list"
    using run_schedule_steps [of "(ts, (w, c))" "is"] by simp
  show ?thesis
    unfolding mock_pool_def mock_srv_def mock_worker_def
    by (rule interleaving_keeps_records_whole [OF mocki.concurrent_system_axioms
        new_mock_system_consistent _ steps, THEN conjunct1]) simp
qed





end
