(* ===== verification/EndToEnd.thy ===== *)
theory EndToEnd
  imports Interleaving Handlers
begin

section \<open>From the request to the record\<close>

text \<open>
  The two processes composed: a call of the API and the handling of a message as operations on the
  whole system, and what they make together of a URL.
\<close>

definition sys_call ::
  "('r, 'f, 'p) MetadataServiceImpl \<Rightarrow> api_call \<Rightarrow> (('r, 'f, 'p, 'g) system, service_result) io" where
  "sys_call s call = zoom api_part set_api (run_call s call)"

definition sys_message ::
  "('r, 'g) Worker \<Rightarrow> FetchRequestMessage \<Rightarrow> (('r, 'f, 'p, 'g) system, goerr option) io" where
  "sys_message wk msg = zoom worker_part set_worker (handleMessage wk msg)"

text \<open>What the API can see of the system.\<close>

definition sys_observe ::
  "('r \<Rightarrow> store) \<Rightarrow> ('p \<Rightarrow> FetchRequestMessage list) \<Rightarrow> ('r, 'f, 'p, 'g) system \<Rightarrow> api_state" where
  "sys_observe view sent w = (view (sys_store w), sent (sys_topic w))"

context concurrent_system
begin

lemma sys_get:
  assumes "invar (sys_store w)" and "url \<in> urls"
  shows "wp (sys_call srv (CallGet ctx url)) (\<lambda>r (w', c'). invar (sys_store w') \<and>
    get_spec wire ctx url (sys_observe view sent w) r (sys_observe view sent w')) (w, c)"
proof -
  have "wp (GetMetadata srv ctx url) (get_post ctx url (api_part w)) (api_part w, c)"
    by (rule GetMetadata_outcome) (simp_all add: ok_def assms)
  then show ?thesis
    unfolding sys_call_def run_call.simps wp_zoom
    by (rule wp_mono) (auto simp: ok_def observe_def sys_observe_def)
qed

lemma sys_submit:
  assumes "invar (sys_store w)" and "url \<in> urls"
  shows "wp (sys_call srv (CallSubmit ctx url)) (\<lambda>r (w', c'). invar (sys_store w') \<and>
    submit_spec wire fl good ctx url (sys_observe view sent w) r (sys_observe view sent w')) (w, c)"
proof -
  have "wp (SubmitURL srv ctx url) (submit_post ctx url (api_part w)) (api_part w, c)"
    by (rule SubmitURL_outcome) (simp_all add: ok_def assms)
  then show ?thesis
    unfolding sys_call_def run_call.simps wp_zoom
    by (rule wp_mono) (auto simp: ok_def observe_def sys_observe_def)
qed

sublocale handler: metadata_worker R view urls invar H good
  by unfold_locales

lemma sys_handle:
  assumes "invar (sys_store w)" and "URL_q msg \<in> urls"
  shows "wp (sys_message wrk msg) (\<lambda>err (w', c'). invar (sys_store w') \<and>
    sent (sys_topic w') = sent (sys_topic w) \<and>
    worker_spec (good (wfl PageSourceStorage)) (URL_q msg) (view (sys_store w)) err (view (sys_store w'))) (w, c)"
proof -
  have "wp (handleMessage wrk msg) (handler.worker_post wfl (URL_q msg) (worker_part w)) (worker_part w, c)"
    by (rule handler.handleMessage_outcome) (simp_all add: assms)
  then show ?thesis
    unfolding sys_message_def wp_zoom
    by (rule wp_mono) (auto simp: handler.worker_post_def)
qed

text \<open>
  A GET that queued the URL, and the handling of the message it sent: the record is ready, with what
  the worker's fetcher returned.
\<close>

lemma queued_then_handled:
  assumes "invar (sys_store w)" and "url \<in> urls" and "claimable (view (sys_store w)) url"
    and get: "run_state (sys_call srv (CallGet ctx url)) (w, c) = (Inr (rec, b), (w1, c1))"
    and msg: "run_state (sys_message wrk (last (sent (sys_topic w1)))) (w1, c1) = (None, (w2, c2))"
  shows "invar (sys_store w2) \<and> sent (sys_topic w1) \<noteq> [] \<and> URL_q (last (sent (sys_topic w1))) = url \<and>
    (\<exists>f. good (wfl PageSourceStorage) f \<and>
       view (sys_store w2) url = Some (ready_entry (fetch_result_of f) url))"
proof -
  have "invar (sys_store w1)" and spec: "get_spec wire ctx url (sys_observe view sent w) (Inr (rec, b)) (sys_observe view sent w1)"
    using wpD [OF sys_get [OF assms(1,2)] get] by auto
  from spec assms(3) obtain now where
    sent1: "sent (sys_topic w1) = sent (sys_topic w) @ [wire (fetch_message ctx url ''api-get'' now)]"
    and view1: "view (sys_store w1) = claimed StatusPending url (view (sys_store w))"
    by (cases rule: get_spec.cases) (auto simp: sys_observe_def claimable_def)
  have url: "URL_q (last (sent (sys_topic w1))) = url"
    using wire_urls assms(2) by (simp add: sent1 keeps_urls_def fetch_message_def)
  from wpD [OF sys_handle [OF \<open>invar (sys_store w1)\<close>, of "last (sent (sys_topic w1))"] msg] url assms(2)
  have "invar (sys_store w2)"
    and "worker_spec (good (wfl PageSourceStorage)) url (view (sys_store w1)) None (view (sys_store w2))"
    by auto
  from this(2) \<open>invar (sys_store w2)\<close> url show ?thesis
    by (cases rule: worker_spec.cases) (auto simp: view1 sent1)
qed

text \<open>From then on a GET serves that record and nothing else.\<close>

lemma ready_is_served:
  assumes "invar (sys_store w)" and "url \<in> urls" and "view (sys_store w) url = Some (ready_entry f url)"
    and get: "run_state (sys_call srv (CallGet ctx url)) (w, c) = (r, (w', c'))"
  shows "view (sys_store w') url = Some (ready_entry f url) \<and>
    (case r of
       Inr (Some rec, b) \<Rightarrow> \<not> b \<and> entry_of rec = ready_entry f url
     | Inr (None, b) \<Rightarrow> False
     | Inl err \<Rightarrow> errors_Is err ErrDatabaseError)"
proof -
  have st: "e_status (ready_entry f url) = StatusReady"
    unfolding ready_entry_def by (rule entry_update_simps)
  have nc: "\<not> claimable (view (sys_store w)) url"
    by (simp add: claimable_def assms(3) st)
  have "get_spec wire ctx url (sys_observe view sent w) r (sys_observe view sent w')"
    using wpD [OF sys_get [OF assms(1,2)] get] by simp
  then show ?thesis
    by (cases rule: get_spec.cases)
      (use st nc assms(3) in \<open>auto simp: sys_observe_def in_progress_def\<close>)
qed

end

subsection \<open>Properties\<close>


definition served_get :: "(MockRepository, MockFetcher, MockProducer, MockFetcher) system \<times> clock" where
  "served_get = snd (run_state (sys_call (mock_srv (\<lambda>_. False)) (CallGet Background ''http://a.com/''))
     (new_mock_system, int))"

lemma served_get_runs:
  "case outcome (sys_call (mock_srv (\<lambda>_. False)) (CallGet Background ''http://a.com/'')) (new_mock_system, int) of
     Inr (rec, b) \<Rightarrow> True | Inl e \<Rightarrow> False"
  "outcome (sys_message mock_worker (last (Messages (sys_topic (fst served_get))))) served_get = None"
  by code_simp+


text \<open>The in-memory repository and the test fetcher, but the messages pass through Kafka as bytes.\<close>

definition wire_srv :: "(MockRepository, MockFetcher, broker) MetadataServiceImpl" where
  "wire_srv = \<lparr>repo = mock_repository,
     producer = kafka_producer mem_writer (NewKafkaProducer [''kafka:9092''] ''requested''),
     fetcher = mock_fetcher, flags = (\<lambda>_. False)\<rparr>"

definition new_wire_system :: "(MockRepository, MockFetcher, broker, MockFetcher) system" where
  "new_wire_system = \<lparr>sys_store = NewMockRepository, sys_topic = \<lparr>broker_log = [], broker_down = None\<rparr>,
     api_fetch = fetch_st new_mock_world, wk_fetch = fetch_st new_mock_world, wk_metrics = None\<rparr>"

text \<open>
  C26: A URL that is not valid UTF-8 is never fetched: JSON carries it to the worker as another URL, so
  that after the GET queued it and the worker handled the message, its record is still pending (and
  stays so, since the API takes it to be in progress).
\<close>

theorem invalid_utf8_stays_pending:
  assumes "to_valid u \<noteq> u" and "0 \<le> year_of (c 1)" and "year_of (c 1) \<le> 9999"
    and "run_state (sys_call wire_srv (CallGet ctx u)) (new_wire_system, c) = (r, (w1, c1))"
  shows "r = Inr (None, True) \<and> (\<exists>msg. decoded_topic (broker_log (sys_topic w1)) = [msg] \<and> URL_q msg \<noteq> u \<and>
    map_option Status (records (sys_store (final (sys_message mock_worker msg) (w1, c1))) u) = Some StatusPending)"
proof -
  define q where "q = fetch_message ctx u ''api-get'' (c 1)"
  obtain d where d: "Marshal q = Inr d"
    using assms(2,3) by (auto simp: Marshal_def q_def fetch_message_def)
  have w1: "r = Inr (None, True)" "broker_log (sys_topic w1) = [plain_message u d]"
    "records (sys_store w1) = [u \<mapsto> pending_record u (c 0)]"
    using assms(4) d unfolding q_def
    by (auto simp: sys_call_def run_mocks wire_srv_def new_wire_system_def kafka_producer_def kafka_Publish_def
        mem_writer_def api_part_def set_api_def fetch_message_def)
  have "decoded_topic (broker_log (sys_topic w1)) = [on_wire q]"
    using Unmarshal_Marshal [OF d] by (simp add: decoded_topic_def w1 plain_message_def)
  moreover have "URL_q (on_wire q) = to_valid u"
    by (simp add: q_def fetch_message_def)
  moreover have "records (sys_store (final (sys_message mock_worker msg) (w1, c1))) u = records (sys_store w1) u"
    if "URL_q msg = to_valid u" for msg
    using assms(1) that
    by (simp add: sys_message_def handleMessage_def finish_message_def NewTimer_def Elapsed_def on_metrics_def
        mock_worker_def mock_defs mock_fetcher_def mock_Fetch_def Let_def final_def w1(3) split: option.split)
  ultimately show ?thesis
    using assms(1) w1 by (auto simp: pending_record_def)
qed

theorem invalid_utf8_stays_pending_witness:
  "\<exists>u w1 c1 msg. validateURL u = None \<and>
     snd (run_state (sys_call wire_srv (CallGet Background u)) (new_wire_system, int)) = (w1, c1) \<and>
     decoded_topic (broker_log (sys_topic w1)) = [msg] \<and>
     map_option Status (records (sys_store (final (sys_message mock_worker msg) (w1, c1))) u) = Some StatusPending"
proof -
  let ?u = "''http://a.com/'' @ [CHR 0xFF]"
  obtain r w1 c1 where run: "run_state (sys_call wire_srv (CallGet Background ?u)) (new_wire_system, int) = (r, (w1, c1))"
    by (metis surj_pair)
  have u: "to_valid ?u \<noteq> ?u"
    unfolding to_valid_iff
    by (simp add: valid_utf8.simps [of "[_]"] decode_rune_def rune_class_def bad_rune_def)
  have v: "validateURL ?u = None" and y: "0 \<le> year_of (int 1)" "year_of (int 1) \<le> 9999"
    by code_simp+
  obtain msg where msg: "decoded_topic (broker_log (sys_topic w1)) = [msg]"
      "map_option Status (records (sys_store (final (sys_message mock_worker msg) (w1, c1))) ?u) = Some StatusPending"
    using invalid_utf8_stays_pending [OF u y run] by blast
  have "snd (run_state (sys_call wire_srv (CallGet Background ?u)) (new_wire_system, int)) = (w1, c1)"
    by (simp only: run snd_conv)
  with v msg show ?thesis
    by blast
qed

end
