(* ===== verification/Spec2Isabelle.thy ===== *)
theory Spec2Isabelle
  imports MockRepo MongoRepo Client Fetcher Kafka Consumer Config Observability Service Worker
    RateLimit Handlers Bodies Middleware Server Swagger Mains System EndToEnd
begin

text \<open>
  A verification of the Metadata Inventory: an HTTP API that collects the metadata of web pages
  (headers, cookies, page source) and a worker that does the collecting in the background.

  \<^bold>\<open>The program.\<close> The API process (\<^verbatim>\<open>api/main.go\<close>) serves \<^verbatim>\<open>POST\<close> and \<^verbatim>\<open>GET /v1/metadata\<close>, two probes, the
  generated documentation and the metrics. A request passes the middleware of \<^verbatim>\<open>pkg/middleware\<close> in the
  order of \<^verbatim>\<open>api/server\<close>, then a handler of \<^verbatim>\<open>api/handlers\<close>, which validates the URL and calls the
  service (\<^verbatim>\<open>pkg/service\<close>). The service reads and claims the URL's record in the repository (\<^verbatim>\<open>pkg/db\<close>,
  MongoDB or in memory), and either fetches the page itself (\<^verbatim>\<open>pkg/fetcher\<close>) or publishes a message
  (\<^verbatim>\<open>pkg/kafka\<close>). The worker process (\<^verbatim>\<open>worker/main.go\<close>) consumes the messages, retries failures, writes
  dead letters, and its handler (\<^verbatim>\<open>worker/consumer\<close>) fetches the page and stores the outcome in the same
  repository. Configuration, feature flags, logging and metrics are shared.

  \<^bold>\<open>How code becomes definitions.\<close> A struct is a record with the code's field names (a suffix tells
  apart names that several structs share), an interface is a record of its methods, a method that
  acts on the outside is a state transformer over the state of the component it works on paired with
  the clock that \<^verbatim>\<open>time.Now\<close> reads (\<open>io\<close> in \<open>Prelude\<close>). A pair of a value and an error is a sum, a pointer
  that may be nil an option, an error a value of \<open>goerr\<close> whose wrapping \<^verbatim>\<open>errors.Is\<close> follows. Strings are
  byte strings. Durations and counters are integers, on 64-bit words where a product could wrap
  (\<open>retryBackoff\<close>); the bounds that keep the others in range are part of the theorems.

  \<^bold>\<open>The theories.\<close>

  \<^item> \<open>Prelude\<close>: the monad, weakest preconditions and their rules, \<open>zoom\<close> from a component's state to a
    larger one, the collections \<open>wp_simps\<close>, \<open>go_defs\<close>, \<open>status_simps\<close>.
  \<^item> \<open>GoErrors\<close> (\<^verbatim>\<open>pkg/apperrors\<close>), \<open>Models\<close> (\<^verbatim>\<open>pkg/db/models.go\<close>).
  \<^item> The standard library as far as the program computes with it: \<open>GoStd\<close> (\<^verbatim>\<open>strconv\<close>, \<^verbatim>\<open>strings\<close>), \<open>Urls\<close>
    (\<^verbatim>\<open>net/url\<close>), \<open>Durations\<close> (\<^verbatim>\<open>time.ParseDuration\<close>), \<open>GoTime\<close> (calendar dates and RFC 3339), \<open>Unicode\<close>
    (UTF-8), \<open>Json\<close> and \<open>JsonText\<close> (\<^verbatim>\<open>encoding/json\<close>: escaping, parser, decoding into structs, printing).
  \<^item> \<open>Repository\<close> (\<^verbatim>\<open>pkg/db/repository.go\<close>): the interface and its contract, the locale
    \<open>metadata_repository\<close>, over an abstraction of the store into a map from URLs to entries. \<open>MockRepo\<close>
    and \<open>MongoRepo\<close> interpret it on \<^verbatim>\<open>mock_repository.go\<close> and \<^verbatim>\<open>mongo_repository.go\<close>; the latter down to the
    update documents, under the documented behaviour of the driver (\<open>mongo_collection\<close>). \<open>Client\<close>
    (\<^verbatim>\<open>client.go\<close>): connecting with retries.
  \<^item> \<open>IPRanges\<close>, \<open>Fetcher\<close> (\<^verbatim>\<open>pkg/fetcher\<close>): the private ranges on 8-bit words, the SSRF check, redirects,
    redaction, the bounded body; resolver and transport are parameters (\<open>http_transport\<close>).
  \<^item> \<open>Kafka\<close> (\<^verbatim>\<open>messages.go\<close>, \<^verbatim>\<open>producer.go\<close>) with the contract \<open>event_producer\<close>; \<open>Consumer\<close> (\<^verbatim>\<open>consumer.go\<close>)
    over a broker (\<open>consumer_broker\<close>).
  \<^item> \<open>Config\<close> (\<^verbatim>\<open>pkg/config\<close>, \<^verbatim>\<open>pkg/featureflags\<close>), \<open>Observability\<close> (\<^verbatim>\<open>pkg/observability\<close>).
  \<^item> \<open>Service\<close> (\<^verbatim>\<open>pkg/service\<close>) and \<open>Worker\<close> (\<^verbatim>\<open>worker/consumer\<close>): the operations, the specifications
    \<open>submit_spec\<close>, \<open>get_spec\<close> and \<open>worker_spec\<close> over the abstract store, and the refinements, proved once
    inside the locales \<open>metadata_service\<close> and \<open>metadata_worker\<close> and interpreted on the test doubles and
    on the production classes.
  \<^item> \<open>RateLimit\<close>, \<open>Handlers\<close>, \<open>Middleware\<close>, \<open>Server\<close> (\<^verbatim>\<open>pkg/middleware\<close>, \<^verbatim>\<open>api/handlers\<close>, \<^verbatim>\<open>api/server\<close>): the HTTP
    side over a model of \<^verbatim>\<open>http.ResponseWriter\<close>. A body is the Go value handed to the encoder; \<open>Bodies\<close>
    gives its bytes, and what a client reads from them.
  \<^item> \<open>Swagger\<close> (\<^verbatim>\<open>docs/swagger/docs.go\<close>): the generated documentation as a JSON value, and conformance of
    a response to it.
  \<^item> \<open>Mains\<close> (\<^verbatim>\<open>api/main.go\<close>, \<^verbatim>\<open>worker/main.go\<close>): start-up and shut-down as traces; \<open>System\<close>: what \<open>run\<close>
    builds from the configuration (service, handlers, routes, server; consumer, handler, metrics server),
    and the locale \<open>answering\<close>, which carries a property of responses through the middleware.
  \<^item> \<open>Threads\<close>, \<open>Interleaving\<close>: the operations cut at their calls, pools of them, and the step relation
    of arbitrary interleavings; \<open>EndToEnd\<close>: API and worker on one system.

  \<^bold>\<open>What the lemmas show.\<close> The contracts of the interfaces hold of every implementation. Over any
  implementation that keeps them the service and the worker refine their specifications on every
  branch; sequences of calls claim a URL at most once and never touch a record that is ready or in
  progress. Interleavings keep every record whole and end, and the threads are the operations; what
  interleavings break (two messages, a result overwritten) is proved on concrete schedules. The
  consumer commits no message that was neither handled nor dead-lettered, as long as the dead letter
  topic can be written. Messages survive their encoding exactly up to bytes that are not UTF-8. The
  rate limiter lets at most twice its rate through in a window. URLs: what validation accepts, that
  the SSRF check looks at the same host, that blocked hosts are not fetched, and which gaps are left.
  Every request is answered with its request id; the API as it is wired answers every documented request
  as documented, and the bytes of a record read back as the record. Configuration: which environments load. Start-up:
  what is released on which path.

  \<^bold>\<open>Loops and fuel.\<close> The consume loop of \<^verbatim>\<open>Start\<close> never ends by itself: \<open>Start n\<close> makes \<open>n\<close> passes, and its
  theorems hold for every \<open>n\<close>. The loops over attempts (\<open>attempt_loop\<close>, \<open>connect_loop\<close>) and redirects
  (\<open>client_Do\<close>) terminate by their measures. \<open>max_depth\<close> (10000) is the nesting limit of Go's JSON
  scanner, not fuel; the bodies of the API are nested at most three deep. \<open>conforms\<close> follows a schema
  \<open>schema_depth\<close> (8) steps, more than the acyclic definitions of the documentation have. A request or message takes at most seven steps, so a pool of \<open>n\<close> of them ends
  after \<open>7 * n\<close> steps.

  \<^bold>\<open>Not modelled.\<close> Log output, and what the libraries do behind their interfaces (the MongoDB driver, the
  Kafka client, DNS and HTTP transport, chi's matching, OpenTelemetry and Prometheus exporters, the
  \<^verbatim>\<open>.env\<close> loader): these are parameters, with their documented behaviour as locale assumptions where a
  theorem needs it, and an instance that satisfies them. Cancellation of a context appears only as
  the error a call returns. Data races (the counters of the test doubles) are outside of the model,
  whose steps are atomic. Of the documentation, the white space of the template and its registration
  with the library are left out; of the metrics server of the worker, that it listens in the background. The tests of the repository are not modelled, the test doubles they use are.
\<close>

end
